(* ===== verification/Prelude.thy ===== *)
theory Prelude
  imports Main "HOL-Library.Multiset" "HOL-Library.Word" "HOL-Library.Sublist"
begin

text \<open>
  What every component of the model shares.

  Strings are lists of characters (the functions of Go's package strings that the
  source uses are modelled on ASCII), a Go pointer is an option, Go's error is
  the datatype go_error, and a Go function that returns an error and may call the
  outside world is a function from a state to a result and a state
  (type go).  A nil-pointer dereference is the error NilDeref, which no
  error handler of the model catches, as no handler of the source recovers from a
  panic.

  The second half is the proof library: inversion rules for the combinators
  (collection go_inv), evaluation rules (collection go_eval) and a locale for
  relations between the state before and after a computation.
\<close>

named_theorems go_eval \<open>evaluation of the combinators on a state\<close>
named_theorems go_inv \<open>inversion of a successful or failed run\<close>

section \<open>Strings\<close>

text \<open>One character of ASCII text, lower-cased (strings.ToLower, strings.EqualFold).\<close>

definition lower_char :: "char \<Rightarrow> char" where
  "lower_char c = (let n = (of_char c :: nat) in if 65 \<le> n \<and> n \<le> 90 then char_of (n + 32) else c)"

definition ToLower :: "string \<Rightarrow> string" where
  "ToLower s = map lower_char s"

definition upper_char :: "char \<Rightarrow> char" where
  "upper_char c = (let n = (of_char c :: nat) in if 97 \<le> n \<and> n \<le> 122 then char_of (n - 32) else c)"

definition ToUpper :: "string \<Rightarrow> string" where
  "ToUpper s = map upper_char s"

definition EqualFold :: "string \<Rightarrow> string \<Rightarrow> bool" where
  "EqualFold s t = (ToLower s = ToLower t)"

definition is_space :: "char \<Rightarrow> bool" where
  "is_space c = (let n = (of_char c :: nat) in (9 \<le> n \<and> n \<le> 13) \<or> n = 32)"

definition TrimSpace :: "string \<Rightarrow> string" where
  "TrimSpace s = rev (dropWhile is_space (rev (dropWhile is_space s)))"

fun HasPrefix :: "string \<Rightarrow> string \<Rightarrow> bool" where
  "HasPrefix s [] = True"
| "HasPrefix [] (p # ps) = False"
| "HasPrefix (c # cs) (p # ps) = (c = p \<and> HasPrefix cs ps)"

definition TrimPrefix :: "string \<Rightarrow> string \<Rightarrow> string" where
  "TrimPrefix s p = (if HasPrefix s p then drop (length p) s else s)"

definition CutPrefix :: "string \<Rightarrow> string \<Rightarrow> string option" where
  "CutPrefix s p = (if HasPrefix s p then Some (drop (length p) s) else None)"

fun Contains :: "string \<Rightarrow> string \<Rightarrow> bool" where
  "Contains [] t = (t = [])"
| "Contains (c # cs) t = (HasPrefix (c # cs) t \<or> Contains cs t)"

text \<open>strings.ReplaceAll and bytes.ReplaceAll for a text to replace that is not empty.\<close>

function ReplaceAll :: "string \<Rightarrow> string \<Rightarrow> string \<Rightarrow> string" where
  "ReplaceAll s old new =
     (case s of
        [] \<Rightarrow> []
      | c # cs \<Rightarrow>
          if old \<noteq> [] \<and> HasPrefix s old then new @ ReplaceAll (drop (length old) s) old new
          else c # ReplaceAll cs old new)"
  by pat_completeness auto
termination by (relation "measure (\<lambda>(s, old, new). length s)") auto

declare ReplaceAll.simps [simp del]

text \<open>strings.TrimRight: drop the characters of a cut set from the end.\<close>

definition TrimRight :: "string \<Rightarrow> string \<Rightarrow> string" where
  "TrimRight s cutset = rev (dropWhile (\<lambda>c. List.member cutset c) (rev s))"

text \<open>strings.Split on a one-character separator and strings.Join.\<close>

fun Split :: "char \<Rightarrow> string \<Rightarrow> string list" where
  "Split d [] = [[]]"
| "Split d (c # cs) =
     (if c = d then [] # Split d cs
      else (case Split d cs of [] \<Rightarrow> [[c]] | w # ws \<Rightarrow> (c # w) # ws))"

fun Join_strings :: "string list \<Rightarrow> string \<Rightarrow> string" where
  "Join_strings [] sep = []"
| "Join_strings [x] sep = x"
| "Join_strings (x # y # xs) sep = x @ sep @ Join_strings (y # xs) sep"

definition is_digit :: "char \<Rightarrow> bool" where
  "is_digit c = (let n = (of_char c :: nat) in 48 \<le> n \<and> n \<le> 57)"

definition digit_value :: "char \<Rightarrow> int" where
  "digit_value c = int (of_char c :: nat) - 48"

definition decimal_value :: "string \<Rightarrow> int" where
  "decimal_value s = foldl (\<lambda>a c. 10 * a + digit_value c) 0 s"

definition parse_digits :: "string \<Rightarrow> int option" where
  "parse_digits s = (if s \<noteq> [] \<and> list_all is_digit s then Some (decimal_value s) else None)"

text \<open>strconv.Atoi on a 64-bit platform: an optional sign, decimal digits, and a
  value in the range of int64; everything else is an error (None).\<close>

definition Atoi :: "string \<Rightarrow> int option" where
  "Atoi s =
     (case (case s of
              [] \<Rightarrow> None
            | c # cs \<Rightarrow> (if c = CHR ''-'' then map_option uminus (parse_digits cs)
                        else if c = CHR ''+'' then parse_digits cs
                        else parse_digits s)) of
        None \<Rightarrow> None
      | Some v \<Rightarrow> (if - (2 ^ 63) \<le> v \<and> v < 2 ^ 63 then Some v else None))"

text \<open>Decimal printing of a non-negative integer (verb %d).\<close>

fun show_nat :: "nat \<Rightarrow> string" where
  "show_nat n = (if n < 10 then [char_of (n + 48)]
                 else show_nat (n div 10) @ [char_of (n mod 10 + 48)])"

declare show_nat.simps [simp del]

definition show_int :: "int \<Rightarrow> string" where
  "show_int i = (if i < 0 then CHR ''-'' # show_nat (nat (- i)) else show_nat (nat i))"

text \<open>A string between single quotes, as in a filter expression, and between
  double quotes, as the verb %q prints printable text.\<close>

definition squote :: "string \<Rightarrow> string" where
  "squote s = [CHR 0x27] @ s @ [CHR 0x27]"

definition dquote :: "string \<Rightarrow> string" where
  "dquote s = [CHR 0x22] @ s @ [CHR 0x22]"

text \<open>A slice of strings, as the verb %v prints it.\<close>

definition print_list :: "string list \<Rightarrow> string" where
  "print_list xs = ''['' @ Join_strings xs '' '' @ '']''"

lemma lower_char_idem [simp]: "lower_char (lower_char c) = lower_char c"
proof -
  have "of_char c < (256::nat)" by simp
  then show ?thesis by (auto simp: lower_char_def Let_def)
qed

lemma ToLower_idem [simp]: "ToLower (ToLower s) = ToLower s"
  by (simp add: ToLower_def)

lemma EqualFold_refl [simp]: "EqualFold s s"
  by (simp add: EqualFold_def)

lemma EqualFold_sym: "EqualFold s t \<Longrightarrow> EqualFold t s"
  by (simp add: EqualFold_def)

lemma EqualFold_trans: "EqualFold s t \<Longrightarrow> EqualFold t u \<Longrightarrow> EqualFold s u"
  by (simp add: EqualFold_def)

lemma HasPrefix_iff: "HasPrefix s p \<longleftrightarrow> (\<exists>r. s = p @ r)"
  by (induction s p rule: HasPrefix.induct) auto

lemma HasPrefix_append [simp]: "HasPrefix (p @ r) p"
  by (auto simp: HasPrefix_iff)

lemma CutPrefix_append [simp]: "CutPrefix (p @ r) p = Some r"
  by (simp add: CutPrefix_def)

lemma CutPrefix_SomeD: "CutPrefix s p = Some r \<Longrightarrow> s = p @ r"
  by (auto simp: CutPrefix_def HasPrefix_iff split: if_splits)

lemma Split_nonempty [simp]: "Split d s \<noteq> []"
  by (induction s) (auto split: list.splits)

lemma Join_Split: "Join_strings (Split d s) [d] = s"
proof (induction s)
  case (Cons c cs)
  then show ?case
    by (cases "Split d cs"; cases "tl (Split d cs)") auto
qed simp

lemma is_digit_char_of [simp]: "n < 10 \<Longrightarrow> is_digit (char_of (n + 48 :: nat))"
  by (simp add: is_digit_def Let_def)

lemma digit_value_char_of [simp]: "n < 10 \<Longrightarrow> digit_value (char_of (n + 48 :: nat)) = int n"
  by (simp add: digit_value_def)

lemma show_nat_digits: "show_nat n \<noteq> [] \<and> list_all is_digit (show_nat n)"
proof (induction n rule: show_nat.induct)
  case (1 n)
  then show ?case by (cases "n < 10") (simp_all add: show_nat.simps [of n])
qed

lemma decimal_value_show_nat: "decimal_value (show_nat n) = int n"
proof (induction n rule: show_nat.induct)
  case (1 n)
  show ?case
  proof (cases "n < 10")
    case True
    then show ?thesis by (simp add: show_nat.simps decimal_value_def)
  next
    case False
    have "10 * int (n div 10) + int (n mod 10) = int n"
      by (metis div_mult_mod_eq mult.commute of_nat_add of_nat_mult of_nat_numeral)
    with 1 False show ?thesis
      by (simp add: decimal_value_def show_nat.simps [of n])
  qed
qed

lemma show_nat_inj: "show_nat m = show_nat n \<longleftrightarrow> m = n"
  by (metis decimal_value_show_nat of_nat_eq_iff)

lemma find_SomeD: "find P xs = Some x \<Longrightarrow> x \<in> set xs \<and> P x"
  by (induction xs) (auto split: if_splits)

section \<open>sort.Slice\<close>

text \<open>The insertion sort that sort.Slice runs on up to twelve elements: each element moves
  left past those it comes before.  On longer lists the order of equal elements may
  differ; no property below depends on it.\<close>

fun insert_slice :: "('a \<Rightarrow> 'a \<Rightarrow> bool) \<Rightarrow> 'a \<Rightarrow> 'a list \<Rightarrow> 'a list" where
  "insert_slice before x [] = [x]"
| "insert_slice before x (y # ys) = (if before x y then x # y # ys else y # insert_slice before x ys)"

definition sort_slice :: "('a \<Rightarrow> 'a \<Rightarrow> bool) \<Rightarrow> 'a list \<Rightarrow> 'a list" where
  "sort_slice before xs = foldl (\<lambda>ys x. insert_slice before x ys) [] xs"

locale strict_weak_order =
  fixes before :: "'a \<Rightarrow> 'a \<Rightarrow> bool"
  assumes asym: "before x y \<Longrightarrow> \<not> before y x"
    and neg_trans: "before x z \<Longrightarrow> before x y \<or> before y z"
begin

definition ordered :: "'a list \<Rightarrow> bool" where
  "ordered xs = sorted_wrt (\<lambda>x y. \<not> before y x) xs"

lemma insert_mset: "mset (insert_slice before x ys) = add_mset x (mset ys)"
  by (induction ys) auto

lemma insert_set: "set (insert_slice before x ys) = insert x (set ys)"
  by (metis insert_mset set_mset_add_mset_insert set_mset_mset)

lemma insert_ordered: "ordered ys \<Longrightarrow> ordered (insert_slice before x ys)"
proof (induction ys)
  case (Cons y ys)
  show ?case
  proof (cases "before x y")
    case True
    have "\<not> before z x" if "z \<in> set ys" for z
      using that True Cons.prems asym [of x y] neg_trans [of z x y] by (auto simp: ordered_def)
    with True show ?thesis using Cons.prems asym [of x y] by (auto simp: ordered_def)
  next
    case False
    then show ?thesis using Cons by (auto simp: ordered_def insert_set)
  qed
qed (simp add: ordered_def)

lemma fold_sorts:
  "ordered ys \<Longrightarrow> ordered (foldl (\<lambda>ys x. insert_slice before x ys) ys xs) \<and>
   mset (foldl (\<lambda>ys x. insert_slice before x ys) ys xs) = mset xs + mset ys"
  by (induction xs arbitrary: ys) (simp_all add: insert_ordered insert_mset)

lemma sort_ordered: "ordered (sort_slice before xs)"
  using fold_sorts [of "[]" xs] by (simp add: sort_slice_def ordered_def)

lemma sort_mset: "mset (sort_slice before xs) = mset xs"
  using fold_sorts [of "[]" xs] by (simp add: sort_slice_def ordered_def)

lemma sort_set: "set (sort_slice before xs) = set xs"
  by (metis set_mset_mset sort_mset)

lemma sort_Nil_iff: "sort_slice before xs = [] \<longleftrightarrow> xs = []"
  by (metis mset_zero_iff sort_mset)

lemma head_least: "sort_slice before xs = y # ys \<Longrightarrow> y \<in> set xs \<and> (\<forall>x\<in>set xs. \<not> before x y)"
  using sort_ordered [of xs] sort_set [of xs] asym [of y y]
  by (simp add: ordered_def) (metis insert_iff)

lemma take_least:
  "a \<in> set (take k (sort_slice before xs)) \<Longrightarrow> b \<in> set (drop k (sort_slice before xs)) \<Longrightarrow> \<not> before b a"
  using sort_ordered [of xs]
  by (metis append_take_drop_id ordered_def sorted_wrt_append)

end

text \<open>The order of Go strings (sort.Strings).\<close>

fun str_less :: "string \<Rightarrow> string \<Rightarrow> bool" where
  "str_less _ [] = False"
| "str_less [] (d # ds) = True"
| "str_less (c # cs) (d # ds) =
     (if c = d then str_less cs ds else (of_char c :: nat) < of_char d)"

lemma str_less_asym: "str_less a b \<Longrightarrow> \<not> str_less b a"
  by (induction a b rule: str_less.induct) (auto split: if_splits)

lemma str_less_neg_trans: "str_less a c \<Longrightarrow> str_less a b \<or> str_less b c"
proof (induction a b arbitrary: c rule: str_less.induct)
  case (1 a)
  then show ?case by (cases c) auto
next
  case (3 x xs y ys)
  then show ?case by (cases c) (auto simp: not_less le_less split: if_splits)
qed simp

interpretation go_string: strict_weak_order str_less
  by unfold_locales (auto dest: str_less_asym str_less_neg_trans)

end
