(* ===== verification/Go_Monad.thy ===== *)
theory Go_Monad
  imports Prelude
begin

text \<open>
  Go's error values and functions with effects.

  go_error has one constructor per way the source makes an error: an opaque leaf
  (errors.New, fmt.Errorf without the verb %w), the source's own terminalError, an
  error value of a library (with the answer of errors.As for *converged.APIError),
  a wrapped error (fmt.Errorf with %w), a joined list (errors.Join,
  kerrors.NewAggregate) and the panic of a nil dereference.

  A world is the list of the external calls made so far; the reconcilers extend it
  by the objects they update.  What an external call answers is a function of that
  list and of the arguments, so that no property depends on a particular service.
\<close>

section \<open>Errors\<close>

datatype go_error =
    Leaf string
  | Terminal string
  | Lib_error string bool
  | Wrap string go_error string
  | Join_err "go_error list"
  | NilDeref

fun Error_text :: "go_error \<Rightarrow> string" where
  "Error_text (Leaf m) = m"
| "Error_text (Terminal m) = m"
| "Error_text (Lib_error m _) = m"
| "Error_text (Wrap pre e post) = pre @ Error_text e @ post"
| "Error_text (Join_err es) = Join_strings (map Error_text es) [CHR 0x0A]"
| "Error_text NilDeref = ''runtime error: invalid memory address or nil pointer dereference''"

text \<open>errors.As for *terminalError and for *converged.APIError: the chain of
  wrapped errors is searched, and every branch of a joined error.\<close>

fun as_terminal :: "go_error \<Rightarrow> bool" where
  "as_terminal (Terminal m) = True"
| "as_terminal (Wrap pre e post) = as_terminal e"
| "as_terminal (Join_err es) = list_ex as_terminal es"
| "as_terminal _ = False"

fun as_api_error :: "go_error \<Rightarrow> bool" where
  "as_api_error (Lib_error m api) = api"
| "as_api_error (Wrap pre e post) = as_api_error e"
| "as_api_error (Join_err es) = list_ex as_api_error es"
| "as_api_error _ = False"

section \<open>Computations\<close>

type_synonym ('s, 'a) go = "'s \<Rightarrow> (go_error + 'a) \<times> 's"

definition ret :: "'a \<Rightarrow> ('s, 'a) go" where
  "ret x = (\<lambda>s. (Inr x, s))"

definition raise :: "go_error \<Rightarrow> ('s, 'a) go" where
  "raise e = (\<lambda>s. (Inl e, s))"

definition bnd :: "('s, 'a) go \<Rightarrow> ('a \<Rightarrow> ('s, 'b) go) \<Rightarrow> ('s, 'b) go" where
  "bnd m f = (\<lambda>s. case m s of (Inl e, s') \<Rightarrow> (Inl e, s') | (Inr x, s') \<Rightarrow> f x s')"

definition thn :: "('s, 'a) go \<Rightarrow> ('s, 'b) go \<Rightarrow> ('s, 'b) go" where
  "thn m k = bnd m (\<lambda>_. k)"

text \<open>attempt m runs m and returns its error as a value (Go's "x, err := m"); a
  panic is not a value.\<close>

definition attempt :: "('s, 'a) go \<Rightarrow> ('s, go_error + 'a) go" where
  "attempt m = (\<lambda>s. case m s of
       (Inl e, s') \<Rightarrow> (if e = NilDeref then (Inl NilDeref, s') else (Inr (Inl e), s'))
     | (Inr x, s') \<Rightarrow> (Inr (Inr x), s'))"

definition handle :: "('s, 'a) go \<Rightarrow> (go_error \<Rightarrow> ('s, 'a) go) \<Rightarrow> ('s, 'a) go" where
  "handle m h = bnd (attempt m) (case_sum h ret)"

text \<open>wrapping m f: "if err != nil return f err".\<close>

definition wrapping :: "(go_error \<Rightarrow> go_error) \<Rightarrow> ('s, 'a) go \<Rightarrow> ('s, 'a) go" where
  "wrapping f m = handle m (\<lambda>e. raise (f e))"

definition of_result :: "go_error + 'a \<Rightarrow> ('s, 'a) go" where
  "of_result r = (\<lambda>s. (r, s))"

definition deref :: "'a option \<Rightarrow> ('s, 'a) go" where
  "deref p = (case p of None \<Rightarrow> raise NilDeref | Some x \<Rightarrow> ret x)"

definition gets :: "('s \<Rightarrow> 'a) \<Rightarrow> ('s, 'a) go" where
  "gets f = (\<lambda>s. (Inr (f s), s))"

definition modify :: "('s \<Rightarrow> 's) \<Rightarrow> ('s, unit) go" where
  "modify f = (\<lambda>s. (Inr (), f s))"

definition when_go :: "bool \<Rightarrow> ('s, unit) go \<Rightarrow> ('s, unit) go" where
  "when_go b m = (if b then m else ret ())"

primrec map_go :: "('a \<Rightarrow> ('s, 'b) go) \<Rightarrow> 'a list \<Rightarrow> ('s, 'b list) go" where
  "map_go f [] = ret []"
| "map_go f (x # xs) = bnd (f x) (\<lambda>y. bnd (map_go f xs) (\<lambda>ys. ret (y # ys)))"

primrec iter_go :: "('a \<Rightarrow> ('s, unit) go) \<Rightarrow> 'a list \<Rightarrow> ('s, unit) go" where
  "iter_go f [] = ret ()"
| "iter_go f (x # xs) = thn (f x) (iter_go f xs)"

primrec fold_go :: "('a \<Rightarrow> 'b \<Rightarrow> ('s, 'b) go) \<Rightarrow> 'a list \<Rightarrow> 'b \<Rightarrow> ('s, 'b) go" where
  "fold_go f [] b = ret b"
| "fold_go f (x # xs) b = bnd (f x b) (fold_go f xs)"

text \<open>A search loop: the first element for which f returns a value.\<close>

primrec first_go :: "('a \<Rightarrow> ('s, 'b option) go) \<Rightarrow> 'a list \<Rightarrow> ('s, 'b option) go" where
  "first_go f [] = ret None"
| "first_go f (x # xs) =
     bnd (f x) (\<lambda>r. case r of Some y \<Rightarrow> ret (Some y) | None \<Rightarrow> first_go f xs)"

text \<open>The same operations on results without a state.\<close>

definition rbnd :: "go_error + 'a \<Rightarrow> ('a \<Rightarrow> go_error + 'b) \<Rightarrow> go_error + 'b" where
  "rbnd r f = (case r of Inl e \<Rightarrow> Inl e | Inr x \<Rightarrow> f x)"

definition rderef :: "'a option \<Rightarrow> go_error + 'a" where
  "rderef p = (case p of None \<Rightarrow> Inl NilDeref | Some x \<Rightarrow> Inr x)"

text \<open>ptr.Deref(p, d) of k8s.io/utils/ptr.\<close>

definition Deref :: "'a option \<Rightarrow> 'a \<Rightarrow> 'a" where
  "Deref p d = (case p of None \<Rightarrow> d | Some x \<Rightarrow> x)"

section \<open>Evaluation and inversion\<close>

lemma ret_apply [go_eval]: "ret x s = (Inr x, s)" by (simp add: ret_def)
lemma raise_apply [go_eval]: "raise e s = (Inl e, s)" by (simp add: raise_def)
lemma of_result_apply [go_eval]: "of_result r s = (r, s)" by (simp add: of_result_def)
lemma gets_apply [go_eval]: "gets f s = (Inr (f s), s)" by (simp add: gets_def)
lemma modify_apply [go_eval]: "modify f s = (Inr (), f s)" by (simp add: modify_def)
lemma bnd_apply [go_eval]:
  "bnd m f s = (case m s of (Inl e, s') \<Rightarrow> (Inl e, s') | (Inr x, s') \<Rightarrow> f x s')"
  by (simp add: bnd_def)
lemma thn_apply [go_eval]:
  "thn m k s = (case m s of (Inl e, s') \<Rightarrow> (Inl e, s') | (Inr x, s') \<Rightarrow> k s')"
  by (simp add: thn_def bnd_def)
lemma attempt_apply [go_eval]:
  "attempt m s = (case m s of
       (Inl e, s') \<Rightarrow> (if e = NilDeref then (Inl NilDeref, s') else (Inr (Inl e), s'))
     | (Inr x, s') \<Rightarrow> (Inr (Inr x), s'))"
  by (simp add: attempt_def)
lemma handle_apply [go_eval]:
  "handle m h s = (case m s of
       (Inl e, s') \<Rightarrow> (if e = NilDeref then (Inl NilDeref, s') else h e s')
     | (Inr x, s') \<Rightarrow> (Inr x, s'))"
  by (auto simp: handle_def bnd_def attempt_def ret_def split: prod.split sum.split)
lemma wrapping_apply [go_eval]:
  "wrapping f m s = (case m s of
       (Inl e, s') \<Rightarrow> (if e = NilDeref then (Inl NilDeref, s') else (Inl (f e), s'))
     | (Inr x, s') \<Rightarrow> (Inr x, s'))"
  by (auto simp: wrapping_def handle_apply raise_def split: prod.split sum.split)
lemma deref_Some [simp]: "deref (Some x) = ret x" by (simp add: deref_def)
lemma deref_None [simp]: "deref None = raise NilDeref" by (simp add: deref_def)
lemma when_True [simp]: "when_go True m = m" by (simp add: when_go_def)
lemma when_False [simp]: "when_go False m = ret ()" by (simp add: when_go_def)
lemma Deref_simps [simp]: "Deref (Some x) d = x" "Deref None d = d" by (simp_all add: Deref_def)
lemma rbnd_simps [simp]: "rbnd (Inl e) f = Inl e" "rbnd (Inr x) f = f x" by (simp_all add: rbnd_def)
lemma rderef_simps [simp]: "rderef (Some x) = Inr x" "rderef None = Inl NilDeref"
  by (simp_all add: rderef_def)

lemma ret_Inr [go_inv]: "ret x s = (Inr y, s') \<longleftrightarrow> y = x \<and> s' = s" by (auto simp: ret_def)
lemma ret_Inl [go_inv]: "ret x s = (Inl e, s') \<longleftrightarrow> False" by (auto simp: ret_def)
lemma raise_Inr [go_inv]: "raise e s = (Inr y, s') \<longleftrightarrow> False" by (auto simp: raise_def)
lemma raise_Inl [go_inv]: "raise e s = (Inl e', s') \<longleftrightarrow> e' = e \<and> s' = s" by (auto simp: raise_def)
lemma gets_Inr [go_inv]: "gets f s = (Inr y, s') \<longleftrightarrow> y = f s \<and> s' = s" by (auto simp: gets_def)
lemma gets_Inl [go_inv]: "gets f s = (Inl e, s') \<longleftrightarrow> False" by (auto simp: gets_def)
lemma modify_Inr [go_inv]: "modify f s = (Inr y, s') \<longleftrightarrow> s' = f s" by (auto simp: modify_def)
lemma modify_Inl [go_inv]: "modify f s = (Inl e, s') \<longleftrightarrow> False" by (auto simp: modify_def)
lemma of_result_eq [go_inv]: "of_result r s = (q, s') \<longleftrightarrow> r = q \<and> s' = s" by (auto simp: of_result_def)
lemma bnd_Inr [go_inv]:
  "bnd m f s = (Inr y, s') \<longleftrightarrow> (\<exists>x s1. m s = (Inr x, s1) \<and> f x s1 = (Inr y, s'))"
  by (auto simp: bnd_def split: prod.splits sum.splits)
lemma thn_Inr [go_inv]:
  "thn m k s = (Inr y, s') \<longleftrightarrow> (\<exists>x s1. m s = (Inr x, s1) \<and> k s1 = (Inr y, s'))"
  by (auto simp: thn_def bnd_Inr)
lemma bnd_Inl: "bnd m f s = (Inl e, s') \<longleftrightarrow>
    m s = (Inl e, s') \<or> (\<exists>x s1. m s = (Inr x, s1) \<and> f x s1 = (Inl e, s'))"
  by (auto simp: bnd_def split: prod.splits sum.splits)
lemma attempt_Inr_Inr [go_inv]: "attempt m s = (Inr (Inr x), s') \<longleftrightarrow> m s = (Inr x, s')"
  by (auto simp: attempt_def split: prod.splits sum.splits if_splits)
lemma attempt_Inr_Inl [go_inv]:
  "attempt m s = (Inr (Inl e), s') \<longleftrightarrow> m s = (Inl e, s') \<and> e \<noteq> NilDeref"
  by (auto simp: attempt_def split: prod.splits sum.splits if_splits)
lemma attempt_Inr: "attempt m s = (Inr r, s') \<longleftrightarrow>
    (case r of Inl e \<Rightarrow> m s = (Inl e, s') \<and> e \<noteq> NilDeref | Inr x \<Rightarrow> m s = (Inr x, s'))"
  by (cases r) (auto simp: go_inv)
lemma handle_Inr [go_inv]: "handle m h s = (Inr y, s') \<longleftrightarrow>
    m s = (Inr y, s') \<or> (\<exists>e s1. m s = (Inl e, s1) \<and> e \<noteq> NilDeref \<and> h e s1 = (Inr y, s'))"
  by (auto simp: handle_apply split: prod.splits sum.splits if_splits)
lemma wrapping_Inr [go_inv]: "wrapping f m s = (Inr y, s') \<longleftrightarrow> m s = (Inr y, s')"
  by (auto simp: wrapping_apply split: prod.splits sum.splits if_splits)
lemma deref_Inr [go_inv]: "deref p s = (Inr y, s') \<longleftrightarrow> p = Some y \<and> s' = s"
  by (cases p) (auto simp: go_inv)
lemma when_go_Inr [go_inv]:
  "when_go b m s = (Inr y, s') \<longleftrightarrow> (if b then m s = (Inr y, s') else s' = s)"
  by (simp add: when_go_def go_inv)
lemma rbnd_Inr [go_inv]: "rbnd r f = Inr y \<longleftrightarrow> (\<exists>x. r = Inr x \<and> f x = Inr y)"
  by (cases r) auto
lemma rderef_Inr [go_inv]: "rderef p = Inr y \<longleftrightarrow> p = Some y"
  by (cases p) auto

text \<open>Inversion along the case distinctions that follow a call.\<close>

lemma case_sum_Inr:
  "(case x of Inl e \<Rightarrow> f e | Inr v \<Rightarrow> g v) s = (Inr y, s') \<longleftrightarrow>
     (\<exists>e. x = Inl e \<and> f e s = (Inr y, s')) \<or> (\<exists>v. x = Inr v \<and> g v s = (Inr y, s'))"
  by (cases x) auto

lemma case_option_Inr:
  "(case x of None \<Rightarrow> a | Some v \<Rightarrow> g v) s = (Inr y, s') \<longleftrightarrow>
     (x = None \<and> a s = (Inr y, s')) \<or> (\<exists>v. x = Some v \<and> g v s = (Inr y, s'))"
  by (cases x) auto

lemma case_list_Inr:
  "(case x of [] \<Rightarrow> a | v # vs \<Rightarrow> g v vs) s = (Inr y, s') \<longleftrightarrow>
     (x = [] \<and> a s = (Inr y, s')) \<or> (\<exists>v vs. x = v # vs \<and> g v vs s = (Inr y, s'))"
  by (cases x) auto

lemma if_Inr:
  "(if b then f else g) s = (Inr y, s') \<longleftrightarrow> (b \<and> f s = (Inr y, s')) \<or> (\<not> b \<and> g s = (Inr y, s'))"
  by simp

lemma case_prod_Inr:
  "(case p of (a, b) \<Rightarrow> f a b) s = (Inr y, s') \<longleftrightarrow> (\<exists>a b. p = (a, b) \<and> f a b s = (Inr y, s'))"
  by (cases p) auto

lemmas go_cases = case_sum_Inr case_option_Inr case_list_Inr if_Inr case_prod_Inr

lemma Error_text_Wrap_infix: "\<exists>u v. Error_text (Wrap pre e post) = u @ Error_text e @ v"
  by auto

text \<open>Loops that succeed.\<close>

lemma iter_go_all: "iter_go f xs s = (Inr (), s') \<Longrightarrow> \<forall>x\<in>set xs. \<exists>t t'. f x t = (Inr (), t')"
  by (induction xs arbitrary: s) (auto simp: go_inv)

lemma map_go_each: "map_go f xs s = (Inr ys, s') \<Longrightarrow> x \<in> set xs \<Longrightarrow> \<exists>t y t'. f x t = (Inr y, t') \<and> y \<in> set ys"
  by (induction xs arbitrary: ys s) (auto simp: go_inv, blast+)

lemma not_Inl: "(\<forall>e. x \<noteq> Inl e) \<longleftrightarrow> (\<exists>v. x = Inr v)"
  by (cases x) auto

lemma map_go_run:
  assumes "\<And>x t r t'. x \<in> set xs \<Longrightarrow> f x t = (r, t') \<Longrightarrow> I t \<Longrightarrow> I t'" "map_go f xs s = (Inr ys, s')" "I s"
  shows "I s' \<and> list_all2 (\<lambda>x y. \<exists>t t'. I t \<and> f x t = (Inr y, t')) xs ys"
  using assms
proof (induction xs arbitrary: ys s)
  case Nil
  then show ?case by (simp add: go_inv)
next
  case (Cons x xs)
  from Cons.prems(2) obtain y s1 ys' where x: "f x s = (Inr y, s1)" and xs: "map_go f xs s1 = (Inr ys', s')"
    and ys: "ys = y # ys'" by (auto simp: go_inv)
  have I1: "I s1" by (rule Cons.prems(1) [OF _ x]) (use Cons.prems(3) in simp_all)
  have "I s' \<and> list_all2 (\<lambda>x y. \<exists>t t'. I t \<and> f x t = (Inr y, t')) xs ys'"
    by (rule Cons.IH [OF _ xs I1]) (rule Cons.prems(1), auto)
  with x Cons.prems(3) show ?case unfolding ys by auto
qed

section \<open>Relations between the states before and after\<close>

text \<open>moves R m: whatever m does from a state, the state after it is R-related to it.\<close>

definition moves :: "('s \<Rightarrow> 's \<Rightarrow> bool) \<Rightarrow> ('s, 'a) go \<Rightarrow> bool" where
  "moves R m = (\<forall>s. R s (snd (m s)))"

named_theorems moves_intro \<open>rules that build moves R m along the structure of m\<close>

locale state_order =
  fixes R :: "'s \<Rightarrow> 's \<Rightarrow> bool"
  assumes stay: "R s s"
    and step: "R s t \<Longrightarrow> R t u \<Longrightarrow> R s u"
begin

lemma ret_moves: "moves R (ret x)"
  by (simp add: moves_def go_eval stay)

lemma raise_moves: "moves R (raise e)"
  by (simp add: moves_def go_eval stay)

lemma gets_moves: "moves R (gets f)"
  by (simp add: moves_def go_eval stay)

lemma of_result_moves: "moves R (of_result r)"
  by (simp add: moves_def go_eval stay)

lemma deref_moves: "moves R (deref p)"
  by (cases p) (simp_all add: ret_moves raise_moves)

lemma bnd_moves: "moves R m \<Longrightarrow> (\<And>x. moves R (f x)) \<Longrightarrow> moves R (bnd m f)"
  unfolding moves_def go_eval
  by (auto split: prod.split sum.split) (metis snd_conv step)+

lemma thn_moves: "moves R m \<Longrightarrow> moves R k \<Longrightarrow> moves R (thn m k)"
  by (simp add: thn_def bnd_moves)

lemma attempt_moves: "moves R m \<Longrightarrow> moves R (attempt m)"
  unfolding moves_def go_eval by (auto split: prod.split sum.split) (metis snd_conv)+

lemma handle_moves: "moves R m \<Longrightarrow> (\<And>e. moves R (h e)) \<Longrightarrow> moves R (handle m h)"
  unfolding handle_def
  by (rule bnd_moves) (auto intro: attempt_moves ret_moves split: sum.split)

lemma wrapping_moves: "moves R m \<Longrightarrow> moves R (wrapping f m)"
  unfolding wrapping_def by (rule handle_moves) (simp_all add: raise_moves)

lemma when_moves: "(b \<Longrightarrow> moves R m) \<Longrightarrow> moves R (when_go b m)"
  by (cases b) (simp_all add: ret_moves)

lemma map_go_moves: "(\<And>x. x \<in> set xs \<Longrightarrow> moves R (f x)) \<Longrightarrow> moves R (map_go f xs)"
  by (induction xs) (auto intro!: bnd_moves ret_moves)

lemma iter_go_moves: "(\<And>x. x \<in> set xs \<Longrightarrow> moves R (f x)) \<Longrightarrow> moves R (iter_go f xs)"
  by (induction xs) (auto intro!: thn_moves ret_moves)

lemma fold_go_moves: "(\<And>x b. x \<in> set xs \<Longrightarrow> moves R (f x b)) \<Longrightarrow> moves R (fold_go f xs b)"
  by (induction xs arbitrary: b) (auto intro!: bnd_moves ret_moves)

lemma first_go_moves: "(\<And>x. x \<in> set xs \<Longrightarrow> moves R (f x)) \<Longrightarrow> moves R (first_go f xs)"
  by (induction xs) (auto intro!: bnd_moves ret_moves split: option.split)

lemma if_moves: "(b \<Longrightarrow> moves R m) \<Longrightarrow> (\<not> b \<Longrightarrow> moves R n) \<Longrightarrow> moves R (if b then m else n)"
  by simp

lemma option_moves:
  "(p = None \<Longrightarrow> moves R m) \<Longrightarrow> (\<And>x. p = Some x \<Longrightarrow> moves R (f x)) \<Longrightarrow>
   moves R (case p of None \<Rightarrow> m | Some x \<Rightarrow> f x)"
  by (cases p) auto

lemma list_moves:
  "(xs = [] \<Longrightarrow> moves R m) \<Longrightarrow> (\<And>y ys. xs = y # ys \<Longrightarrow> moves R (f y ys)) \<Longrightarrow>
   moves R (case xs of [] \<Rightarrow> m | y # ys \<Rightarrow> f y ys)"
  by (cases xs) auto

lemma sum_moves:
  "(\<And>x. p = Inl x \<Longrightarrow> moves R (f x)) \<Longrightarrow> (\<And>x. p = Inr x \<Longrightarrow> moves R (g x)) \<Longrightarrow>
   moves R (case p of Inl x \<Rightarrow> f x | Inr x \<Rightarrow> g x)"
  by (cases p) auto

lemma prod_moves:
  "(\<And>x y. p = (x, y) \<Longrightarrow> moves R (f x y)) \<Longrightarrow> moves R (case p of (x, y) \<Rightarrow> f x y)"
  by (cases p) auto

lemmas moves_rules =
  ret_moves raise_moves gets_moves of_result_moves deref_moves bnd_moves thn_moves
  attempt_moves handle_moves wrapping_moves when_moves map_go_moves iter_go_moves
  fold_go_moves first_go_moves if_moves option_moves list_moves sum_moves prod_moves

end

lemma movesD: "moves R m \<Longrightarrow> m s = (r, s') \<Longrightarrow> R s s'"
  unfolding moves_def by (metis snd_conv)

lemma moves_modify: "(\<And>s. R s (f s)) \<Longrightarrow> moves R (modify f)"
  by (simp add: moves_def go_eval)

section \<open>The errors a computation can end with\<close>

definition errs :: "(go_error \<Rightarrow> bool) \<Rightarrow> ('s, 'a) go \<Rightarrow> bool" where
  "errs P m = (\<forall>s e s'. m s = (Inl e, s') \<longrightarrow> P e)"

lemma errsD: "errs P m \<Longrightarrow> m s = (Inl e, s') \<Longrightarrow> P e"
  by (auto simp: errs_def)

lemma errs_mono: "errs P m \<Longrightarrow> (\<And>e. P e \<Longrightarrow> Q e) \<Longrightarrow> errs Q m"
  by (auto simp: errs_def)

lemma errs_ret: "errs P (ret x)"
  by (simp add: errs_def go_inv)

lemma errs_raise: "P e \<Longrightarrow> errs P (raise e)"
  by (simp add: errs_def go_inv)

lemma errs_gets: "errs P (gets f)"
  by (simp add: errs_def go_inv)

lemma errs_modify: "errs P (modify f)"
  by (simp add: errs_def go_inv)

lemma errs_deref: "P NilDeref \<Longrightarrow> errs P (deref p)"
  by (cases p) (simp_all add: errs_ret errs_raise)

lemma errs_bnd: "errs P m \<Longrightarrow> (\<And>x. errs P (f x)) \<Longrightarrow> errs P (bnd m f)"
  unfolding errs_def bnd_Inl by blast

lemma errs_thn: "errs P m \<Longrightarrow> errs P k \<Longrightarrow> errs P (thn m k)"
  by (simp add: thn_def errs_bnd)

lemma errs_attempt: "P NilDeref \<Longrightarrow> errs P (attempt m)"
  by (auto simp: errs_def attempt_def split: prod.splits sum.splits if_splits)

lemma errs_if: "(b \<Longrightarrow> errs P m) \<Longrightarrow> (\<not> b \<Longrightarrow> errs P n) \<Longrightarrow> errs P (if b then m else n)"
  by simp

lemma errs_option:
  "(p = None \<Longrightarrow> errs P m) \<Longrightarrow> (\<And>x. p = Some x \<Longrightarrow> errs P (f x)) \<Longrightarrow>
   errs P (case p of None \<Rightarrow> m | Some x \<Rightarrow> f x)"
  by (cases p) auto

lemma errs_sum:
  "(\<And>x. p = Inl x \<Longrightarrow> errs P (f x)) \<Longrightarrow> (\<And>x. p = Inr x \<Longrightarrow> errs P (g x)) \<Longrightarrow>
   errs P (case p of Inl x \<Rightarrow> f x | Inr x \<Rightarrow> g x)"
  by (cases p) auto

lemma errs_prod:
  "(\<And>x y. p = (x, y) \<Longrightarrow> errs P (f x y)) \<Longrightarrow> errs P (case p of (x, y) \<Rightarrow> f x y)"
  by (cases p) auto

lemma errs_fold_go: "(\<And>x b. errs P (f x b)) \<Longrightarrow> errs P (fold_go f xs b)"
  by (induction xs arbitrary: b) (auto intro: errs_bnd errs_ret)

lemmas errs_rules = errs_ret errs_raise errs_gets errs_modify errs_deref errs_bnd errs_thn
  errs_attempt errs_if errs_option errs_sum errs_prod errs_fold_go

end
