(* ===== verification/Versions.thy ===== *)
theory Versions
  imports Go_Monad
begin

text \<open>
  Prism Central versions: controllers/helpers.go, from the two version patterns to
  isPCVersionHigherThan75.  The two regular expressions are recognised by hand; they
  always compile, so the error results of the functions that use them are never
  produced and are left out (the functions return the boolean and the order only).
\<close>

section \<open>Patterns\<close>

text \<open>One or more groups of a dot and digits, up to the end of the text:
  the pattern (\.\d+)+ followed by the end anchor.\<close>

definition dot_group_list :: "string list \<Rightarrow> bool" where
  "dot_group_list ws = (case ws of
       [] \<Rightarrow> False
     | w # gs \<Rightarrow> w = [] \<and> gs \<noteq> [] \<and> list_all (\<lambda>g. g \<noteq> [] \<and> list_all is_digit g) gs)"

definition dot_groups :: "string \<Rightarrow> bool" where
  "dot_groups s = dot_group_list (Split CHR ''.'' s)"

definition is202XPcVersion :: "string \<Rightarrow> bool" where
  "is202XPcVersion version =
     (case CutPrefix version ''202'' of
        None \<Rightarrow> False
      | Some r \<Rightarrow> (case r of [] \<Rightarrow> False | d # r' \<Rightarrow> is_digit d \<and> dot_groups r'))"

definition is7XPcVersion :: "string \<Rightarrow> bool" where
  "is7XPcVersion version =
     (case CutPrefix version ''7'' of None \<Rightarrow> False | Some r \<Rightarrow> dot_groups r)"

definition CleanPCVersion :: "string \<Rightarrow> string" where
  "CleanPCVersion version =
     (let lowerVersion = ToLower (TrimSpace version) in TrimPrefix lowerVersion ''pc.'')"

section \<open>Comparison\<close>

fun int_list_of :: "string list \<Rightarrow> int list option" where
  "int_list_of [] = Some []"
| "int_list_of (x # xs) =
     (case Atoi x of
        None \<Rightarrow> None
      | Some v \<Rightarrow> (case int_list_of xs of None \<Rightarrow> None | Some vs \<Rightarrow> Some (v # vs)))"

definition convertStringToIntList :: "string \<Rightarrow> int list" where
  "convertStringToIntList str =
     (case int_list_of (Split CHR ''.'' str) of None \<Rightarrow> [9999] | Some l \<Rightarrow> l)"

text \<open>copy(make([]int, n), xs): xs padded with zeros to length n.\<close>

definition norm_int_list :: "nat \<Rightarrow> int list \<Rightarrow> int list" where
  "norm_int_list n xs = take n xs @ replicate (n - length xs) 0"

fun compare_int_lists :: "int list \<Rightarrow> int list \<Rightarrow> int" where
  "compare_int_lists (e # es) (f # fs) =
     (if e > f then 1 else if e < f then - 1 else compare_int_lists es fs)"
| "compare_int_lists _ _ = 0"

definition master_version :: "string \<Rightarrow> string" where
  "master_version v = (if EqualFold v ''master'' then ''9999'' else v)"

definition CompareVersions :: "string \<Rightarrow> string \<Rightarrow> int" where
  "CompareVersions v1 v2 =
     (let v1IntList = convertStringToIntList (master_version v1);
          v2IntList = convertStringToIntList (master_version v2);
          maxLen = max (length v1IntList) (length v2IntList)
      in compare_int_lists (norm_int_list maxLen v1IntList) (norm_int_list maxLen v2IntList))"

definition ComparePCVersions :: "string \<Rightarrow> string \<Rightarrow> int" where
  "ComparePCVersions v1 v2 =
     (let cleanV1 = CleanPCVersion v1; cleanV2 = CleanPCVersion v2 in
      if is7XPcVersion cleanV1 \<and> is202XPcVersion cleanV2 then 1
      else if is7XPcVersion cleanV2 \<and> is202XPcVersion cleanV1 then - 1
      else CompareVersions cleanV1 cleanV2)"

definition isPCVersionHigherThan75 :: "string \<Rightarrow> bool" where
  "isPCVersionHigherThan75 version =
     (let v = CleanPCVersion version in
      if v = [] then False else CompareVersions v ''7.6'' \<ge> 0)"

section \<open>The order on lists of numbers\<close>

text \<open>The specification: the lists as infinite sequences that end in zeros, compared
  at the first position where they differ.\<close>

definition pad :: "int list \<Rightarrow> nat \<Rightarrow> int" where
  "pad xs i = (if i < length xs then xs ! i else 0)"

definition pad_less :: "(nat \<Rightarrow> int) \<Rightarrow> (nat \<Rightarrow> int) \<Rightarrow> bool" where
  "pad_less f g = (\<exists>i. f i < g i \<and> (\<forall>j<i. f j = g j))"

lemma pad_less_trans:
  assumes "pad_less f g" "pad_less g h"
  shows "pad_less f h"
proof -
  obtain i k where a: "f i < g i" "\<forall>j<i. f j = g j" "g k < h k" "\<forall>j<k. g j = h j"
    using assms by (auto simp: pad_less_def)
  have "f (min i k) < h (min i k)"
    using a by (cases i k rule: linorder_cases) (auto simp: min_def)
  moreover have "\<forall>j<min i k. f j = h j" using a by simp
  ultimately show ?thesis unfolding pad_less_def by blast
qed

lemma pad_less_irrefl: "\<not> pad_less f f"
  by (auto simp: pad_less_def)

lemma pad_less_total: "f = g \<or> pad_less f g \<or> pad_less g f"
proof (cases "f = g")
  case False
  then have ex: "\<exists>i. f i \<noteq> g i" by auto
  define i where "i = (LEAST i. f i \<noteq> g i)"
  have "f i \<noteq> g i" unfolding i_def by (rule LeastI_ex [OF ex])
  moreover have "\<forall>j<i. f j = g j" unfolding i_def using not_less_Least by blast
  ultimately show ?thesis unfolding pad_less_def by (metis linorder_neqE)
qed simp

lemma pad_norm [simp]: "length xs \<le> n \<Longrightarrow> pad (norm_int_list n xs) = pad xs"
  by (auto simp: pad_def norm_int_list_def nth_append fun_eq_iff)

lemma length_norm [simp]: "length (norm_int_list n xs) = n"
  by (simp add: norm_int_list_def)

lemma pad_Cons: "pad (x # xs) = (\<lambda>i. case i of 0 \<Rightarrow> x | Suc j \<Rightarrow> pad xs j)"
  by (auto simp: pad_def fun_eq_iff split: nat.split)

lemma pad_less_Cons:
  "pad_less (pad (x # xs)) (pad (y # ys)) \<longleftrightarrow> x < y \<or> (x = y \<and> pad_less (pad xs) (pad ys))"
proof
  assume "pad_less (pad (x # xs)) (pad (y # ys))"
  then obtain i where i: "pad (x # xs) i < pad (y # ys) i" "\<forall>j<i. pad (x # xs) j = pad (y # ys) j"
    by (auto simp: pad_less_def)
  show "x < y \<or> (x = y \<and> pad_less (pad xs) (pad ys))"
  proof (cases i)
    case 0
    with i show ?thesis by (simp add: pad_Cons)
  next
    case (Suc k)
    with i have "x = y" by (force simp: pad_Cons)
    moreover from i Suc have "\<forall>j<k. pad xs j = pad ys j"
      by (force simp: pad_Cons)
    ultimately show ?thesis using i Suc by (auto simp: pad_Cons pad_less_def)
  qed
next
  assume "x < y \<or> (x = y \<and> pad_less (pad xs) (pad ys))"
  then show "pad_less (pad (x # xs)) (pad (y # ys))"
  proof
    assume "x < y"
    then show ?thesis unfolding pad_less_def by (intro exI [of _ 0]) (simp add: pad_Cons)
  next
    assume "x = y \<and> pad_less (pad xs) (pad ys)"
    then obtain i where "x = y" "pad xs i < pad ys i" "\<forall>j<i. pad xs j = pad ys j"
      by (auto simp: pad_less_def)
    then show ?thesis unfolding pad_less_def
      by (intro exI [of _ "Suc i"]) (auto simp: pad_Cons split: nat.split)
  qed
qed

lemma compare_int_lists_spec:
  assumes "length xs = length ys"
  shows "compare_int_lists xs ys =
    (if pad_less (pad xs) (pad ys) then - 1 else if pad_less (pad ys) (pad xs) then 1 else 0)"
  using assms
proof (induction xs ys rule: compare_int_lists.induct)
  case (1 e es f fs)
  then show ?case
    by (auto simp: pad_less_Cons dest: pad_less_trans simp: pad_less_irrefl)
qed (simp_all add: pad_less_irrefl)

definition version_key :: "string \<Rightarrow> nat \<Rightarrow> int" where
  "version_key v = pad (convertStringToIntList (master_version v))"

lemma CompareVersions_spec:
  "CompareVersions v1 v2 =
     (if pad_less (version_key v1) (version_key v2) then - 1
      else if pad_less (version_key v2) (version_key v1) then 1 else 0)"
  by (simp add: CompareVersions_def Let_def compare_int_lists_spec version_key_def)

lemma CompareVersions_antisym: "CompareVersions v2 v1 = - CompareVersions v1 v2"
  using pad_less_trans pad_less_irrefl by (auto simp: CompareVersions_spec)

lemma CompareVersions_le_iff:
  "CompareVersions v1 v2 \<le> 0 \<longleftrightarrow> \<not> pad_less (version_key v2) (version_key v1)"
  using pad_less_trans pad_less_irrefl by (auto simp: CompareVersions_spec)

lemma CompareVersions_trans:
  assumes "CompareVersions a b \<le> 0" "CompareVersions b c \<le> 0"
  shows "CompareVersions a c \<le> 0"
proof -
  have n: "\<not> pad_less (version_key b) (version_key a)" "\<not> pad_less (version_key c) (version_key b)"
    using assms by (simp_all add: CompareVersions_le_iff)
  have "\<not> pad_less (version_key c) (version_key a)"
  proof
    assume l: "pad_less (version_key c) (version_key a)"
    from pad_less_total [of "version_key a" "version_key b"] n(1)
    have "version_key a = version_key b \<or> pad_less (version_key a) (version_key b)" by blast
    with l have "pad_less (version_key c) (version_key b)" by (auto dest: pad_less_trans)
    with n(2) show False by simp
  qed
  then show ?thesis by (simp add: CompareVersions_le_iff)
qed

lemma CompareVersions_zero_iff: "CompareVersions v1 v2 = 0 \<longleftrightarrow> version_key v1 = version_key v2"
  using pad_less_total [of "version_key v1" "version_key v2"]
  by (auto simp: CompareVersions_spec pad_less_irrefl)

lemma CompareVersions_cases: "CompareVersions v1 v2 \<in> {- 1, 0, 1}"
  by (simp add: CompareVersions_spec)

section \<open>The two families of Prism Central versions\<close>

lemma not_7X_and_202X: "is7XPcVersion v \<Longrightarrow> \<not> is202XPcVersion v"
  by (auto simp: is7XPcVersion_def is202XPcVersion_def CutPrefix_def HasPrefix_iff split: if_splits)

text \<open>The rank of the version family and the numeric key decide the order of the
  released versions, which are all of one of the two families.\<close>

definition released :: "string \<Rightarrow> bool" where
  "released v = (is7XPcVersion (CleanPCVersion v) \<or> is202XPcVersion (CleanPCVersion v))"

lemma ComparePCVersions_antisym: "ComparePCVersions v2 v1 = - ComparePCVersions v1 v2"
  using not_7X_and_202X [of "CleanPCVersion v1"]
    CompareVersions_antisym [of "CleanPCVersion v2" "CleanPCVersion v1"]
  by (auto simp: ComparePCVersions_def Let_def)

text \<open>CompareVersions orders all version strings by a total preorder: the order is
  antisymmetric in sign, total and transitive, and it gives 0 exactly to strings whose
  number lists agree up to trailing zeros (an unparsable string counts as 9999).\<close>

theorem CompareVersions_total_preorder:
  "CompareVersions v2 v1 = - CompareVersions v1 v2 \<and>
   CompareVersions v1 v2 \<in> {- 1, 0, 1} \<and>
   (CompareVersions v1 v2 = 0 \<longleftrightarrow> version_key v1 = version_key v2) \<and>
   \<not> (CompareVersions v1 v2 \<le> 0 \<and> CompareVersions v2 v3 \<le> 0 \<and> CompareVersions v1 v3 > 0)"
proof (intro conjI)
  show "CompareVersions v2 v1 = - CompareVersions v1 v2" by (rule CompareVersions_antisym)
  show "CompareVersions v1 v2 \<in> {- 1, 0, 1}" by (rule CompareVersions_cases)
  show "CompareVersions v1 v2 = 0 \<longleftrightarrow> version_key v1 = version_key v2"
    by (rule CompareVersions_zero_iff)
  show "\<not> (CompareVersions v1 v2 \<le> 0 \<and> CompareVersions v2 v3 \<le> 0 \<and> CompareVersions v1 v3 > 0)"
    using CompareVersions_trans [of v1 v2 v3] by linarith
qed

text \<open>On released versions (7.x and 202x.y, with or without the prefix pc.) the
  order of ComparePCVersions is transitive as well, and every 7.x version is newer
  than every 202x version.\<close>

theorem ComparePCVersions_released:
  assumes "released a" "released b" "released c"
  shows "ComparePCVersions b a = - ComparePCVersions a b \<and>
    (ComparePCVersions a b \<le> 0 \<longrightarrow> ComparePCVersions b c \<le> 0 \<longrightarrow> ComparePCVersions a c \<le> 0) \<and>
    (is7XPcVersion (CleanPCVersion a) \<longrightarrow> is202XPcVersion (CleanPCVersion b) \<longrightarrow>
       ComparePCVersions a b = 1)"
proof (intro conjI)
  show "ComparePCVersions b a = - ComparePCVersions a b" by (rule ComparePCVersions_antisym)
  show "ComparePCVersions a b \<le> 0 \<longrightarrow> ComparePCVersions b c \<le> 0 \<longrightarrow> ComparePCVersions a c \<le> 0"
    using assms not_7X_and_202X [of "CleanPCVersion a"] not_7X_and_202X [of "CleanPCVersion b"]
      not_7X_and_202X [of "CleanPCVersion c"]
      CompareVersions_trans [of "CleanPCVersion a" "CleanPCVersion b" "CleanPCVersion c"]
    by (auto simp: ComparePCVersions_def Let_def released_def split: if_splits)
  show "is7XPcVersion (CleanPCVersion a) \<longrightarrow> is202XPcVersion (CleanPCVersion b) \<longrightarrow>
      ComparePCVersions a b = 1"
    by (simp add: ComparePCVersions_def Let_def)
qed

lemma ComparePCVersions_released_witness:
  "ComparePCVersions ''7.3'' ''pc.2024.2.0.1'' = 1 \<and> released ''7.3'' \<and> released ''pc.2024.2.0.1''"
proof -
  have r: "released ''7.3''" "released ''pc.2024.2.0.1''" by code_simp+
  have "is7XPcVersion (CleanPCVersion ''7.3'')" "is202XPcVersion (CleanPCVersion ''pc.2024.2.0.1'')"
    by code_simp+
  with ComparePCVersions_released [OF r(1) r(2) r(2)] r show ?thesis by simp
qed

text \<open>Outside the two families the comparison has a cycle: 8.0 is newer than 7.5,
  7.5 is newer than 2024.1, and 2024.1 is newer than 8.0.  The gate
  isPCVersionHigherThan75 compares numbers only and lets 2024.1 pass as 7.6 or newer,
  which ComparePCVersions orders before 7.6.\<close>

theorem version_order_divergence:
  "ComparePCVersions ''8.0'' ''7.5'' = 1 \<and> ComparePCVersions ''7.5'' ''2024.1'' = 1 \<and>
   ComparePCVersions ''2024.1'' ''8.0'' = 1 \<and>
   isPCVersionHigherThan75 ''pc.2024.1'' \<and> ComparePCVersions ''pc.2024.1'' ''7.6'' = - 1"
  by code_simp

lemma isPCVersionHigherThan75_7X:
  assumes "is7XPcVersion (CleanPCVersion v)"
  shows "isPCVersionHigherThan75 v \<longleftrightarrow> ComparePCVersions v ''7.6'' \<ge> 0"
proof -
  have "CleanPCVersion v \<noteq> []" using assms by (auto simp: is7XPcVersion_def CutPrefix_def)
  moreover have "CleanPCVersion ''7.6'' = ''7.6''" "is7XPcVersion ''7.6''" by code_simp+
  moreover have "\<not> is202XPcVersion ''7.6''" by code_simp
  ultimately show ?thesis using assms not_7X_and_202X [OF assms]
    by (simp add: isPCVersionHigherThan75_def ComparePCVersions_def Let_def)
qed

end
