(* ===== verification/Api_Types.thy ===== *)
theory Api_Types
  imports Go_Monad
begin

text \<open>
  The custom resources of api/v1beta1 and the parts of the Cluster API objects the
  controllers read, with the methods of the resource identifier, the defaulting
  webhook of the machine template and the accessors of the cluster object.

  A Kubernetes string enumeration is a datatype with a constructor for other texts.
  The conditions of an object are kept as the log of the operations requested of the
  conditions library (mark true, mark false, set, delete): what the library makes of
  them is its own code, what the controllers ask for is the source's.
\<close>

section \<open>Identifiers\<close>

datatype NutanixIdentifierType = UUIDType | NameType | OtherType string

record NutanixResourceIdentifier =
  id_Type :: NutanixIdentifierType
  id_UUID :: "string option"
  id_Name :: "string option"

definition id_String :: "NutanixResourceIdentifier \<Rightarrow> string" where
  "id_String nri =
     (if id_Type nri = UUIDType \<and> id_UUID nri \<noteq> None then the (id_UUID nri)
      else if id_Type nri = NameType \<and> id_Name nri \<noteq> None then the (id_Name nri)
      else [])"

definition id_DisplayString :: "NutanixResourceIdentifier \<Rightarrow> string" where
  "id_DisplayString nri =
     (case id_Type nri of
        UUIDType \<Rightarrow> (case id_UUID nri of Some u \<Rightarrow> ''uuid='' @ dquote u | None \<Rightarrow> ''unknown'')
      | NameType \<Rightarrow> (case id_Name nri of Some n \<Rightarrow> ''name='' @ dquote n | None \<Rightarrow> ''unknown'')
      | OtherType _ \<Rightarrow> ''unknown'')"

definition IsUUID :: "NutanixResourceIdentifier \<Rightarrow> bool" where
  "IsUUID nri = (id_Type nri = UUIDType \<and> id_UUID nri \<noteq> None)"

definition IsName :: "NutanixResourceIdentifier \<Rightarrow> bool" where
  "IsName nri = (id_Type nri = NameType \<and> id_Name nri \<noteq> None)"

definition EqualTo :: "NutanixResourceIdentifier \<Rightarrow> NutanixResourceIdentifier option \<Rightarrow> bool" where
  "EqualTo nri other_p =
     (case other_p of
        None \<Rightarrow> False
      | Some other \<Rightarrow>
          if id_Type nri \<noteq> id_Type other then False
          else (case id_Type nri of
                  NameType \<Rightarrow> id_Name nri \<noteq> None \<and> id_Name other \<noteq> None \<and> id_Name nri = id_Name other
                | UUIDType \<Rightarrow> id_UUID nri \<noteq> None \<and> id_UUID other \<noteq> None \<and> id_UUID nri = id_UUID other
                | OtherType _ \<Rightarrow> False))"

text \<open>The zero value of the Go struct.\<close>

definition zero_identifier :: NutanixResourceIdentifier where
  "zero_identifier = \<lparr>id_Type = OtherType [], id_UUID = None, id_Name = None\<rparr>"

definition uuid_id :: "string \<Rightarrow> NutanixResourceIdentifier" where
  "uuid_id u = \<lparr>id_Type = UUIDType, id_UUID = Some u, id_Name = None\<rparr>"

definition name_id :: "string \<Rightarrow> NutanixResourceIdentifier" where
  "name_id n = \<lparr>id_Type = NameType, id_UUID = None, id_Name = Some n\<rparr>"

record NutanixCategoryIdentifier =
  cat_Key :: string
  cat_Value :: string

section \<open>Object metadata and conditions\<close>

type_synonym string_map = "string \<rightharpoonup> string"

record owner_ref =
  or_APIVersion :: string
  or_Kind :: string
  or_Name :: string
  or_UID :: string

record obj_meta =
  om_Name :: string
  om_Namespace :: string
  om_Labels :: string_map
  om_Annotations :: string_map
  om_Finalizers :: "string list"
  om_Deleting :: bool
  om_CreationTimestamp :: int
  om_OwnerReferences :: "owner_ref list"
  om_UID :: string

definition map_get :: "string_map \<Rightarrow> string \<Rightarrow> string" where
  "map_get m k = (case m k of None \<Rightarrow> [] | Some v \<Rightarrow> v)"

datatype severity = SeverityInfo | SeverityWarning | SeverityError

datatype condition_op =
    MarkTrue string
  | MarkFalse string string severity string
  | SetTrue string string string
  | SetFalse string string string
  | SetUnknown string string string
  | DeleteV1Beta1 string
  | DeleteV1Beta2 string

definition Succeeded :: string where "Succeeded = ''Succeeded''"

section \<open>Machines\<close>

text \<open>A resource.Quantity is opaque: its number of bytes and its order are answers of
  the library, given by a parameter where they are used.\<close>

datatype quantity = Quantity string

record NutanixImageLookup =
  il_Format :: "string option"
  il_BaseOS :: string

datatype DiskMode = Standard | Flash | OtherDiskMode string
datatype DeviceType = Disk | CDRom | OtherDevice string
datatype AdapterType = SCSI | IDE | PCI | SATA | SPAPR | OtherAdapter string

record NutanixMachineVMDiskDeviceProperties =
  dp_DeviceType :: DeviceType
  dp_AdapterType :: AdapterType
  dp_DeviceIndex :: int

record NutanixMachineVMStorageConfig =
  sc_DiskMode :: DiskMode
  sc_StorageContainer :: "NutanixResourceIdentifier option"

record NutanixMachineVMDisk =
  dk_DiskSize :: quantity
  dk_DeviceProperties :: "NutanixMachineVMDiskDeviceProperties option"
  dk_StorageConfig :: "NutanixMachineVMStorageConfig option"
  dk_DataSource :: "NutanixResourceIdentifier option"

datatype GPUIdentifierType = GPUName | GPUDeviceID | GPUProfile | OtherGPU string

record NutanixGPU =
  gpu_Type :: GPUIdentifierType
  gpu_DeviceID :: "int option"
  gpu_Name :: "string option"
  gpu_Profile :: "NutanixResourceIdentifier option"

datatype BootType = Legacy | UEFI | OtherBoot string

record object_ref =
  ref_Kind :: string
  ref_Name :: string
  ref_Namespace :: string

record NutanixMachineSpec =
  ms_ProviderID :: string
  ms_VCPUsPerSocket :: int
  ms_VCPUSockets :: int
  ms_MemorySize :: quantity
  ms_Image :: "NutanixResourceIdentifier option"
  ms_ImageLookup :: "NutanixImageLookup option"
  ms_Cluster :: NutanixResourceIdentifier
  ms_Subnets :: "NutanixResourceIdentifier list"
  ms_AdditionalCategories :: "NutanixCategoryIdentifier list"
  ms_Project :: "NutanixResourceIdentifier option"
  ms_BootType :: BootType
  ms_SystemDiskSize :: quantity
  ms_DataDisks :: "NutanixMachineVMDisk list"
  ms_BootstrapRef :: "object_ref option"
  ms_GPUs :: "NutanixGPU list"
  ms_VMProfile :: "NutanixResourceIdentifier option"

record NutanixMachineStatus =
  mst_Ready :: bool
  mst_Addresses :: "(string \<times> string) list"
  mst_VmUUID :: string
  mst_FailureReason :: "string option"
  mst_FailureMessage :: "string option"
  mst_FailureDomain :: "string option"
  mst_Conditions :: "condition_op list"

record NutanixMachine =
  nm_Meta :: obj_meta
  nm_Spec :: NutanixMachineSpec
  nm_Status :: NutanixMachineStatus

text \<open>The fields of the Cluster API Machine and Cluster that the controllers read.\<close>

record capi_Machine =
  cm_Meta :: obj_meta
  cm_ClusterName :: string
  cm_FailureDomain :: string
  cm_InfrastructureRefName :: string
  cm_InfrastructureRefKind :: string
  cm_Version :: string
  cm_NodeInfo_SystemUUID :: "string option"
  cm_ProviderID :: string
  cm_BootstrapDataSecretName :: "string option"

record capi_Cluster =
  cc_Meta :: obj_meta
  cc_InfrastructureRefName :: string
  cc_InfrastructureProvisioned :: "bool option"
  cc_ControlPlaneInitialized :: "bool option"

section \<open>Clusters, failure domains and metro objects\<close>

record NutanixFailureDomainConfig =
  fdc_Name :: string
  fdc_Cluster :: NutanixResourceIdentifier
  fdc_Subnets :: "NutanixResourceIdentifier list"
  fdc_ControlPlane :: bool

datatype credential_kind = SecretKind | OtherCredentialKind string

record NutanixCredentialReference =
  cr_Kind :: credential_kind
  cr_Name :: string
  cr_Namespace :: string

datatype trust_bundle_kind = TrustBundleString | TrustBundleConfigMap | OtherTrustBundleKind string

record NutanixTrustBundleReference =
  tb_Kind :: trust_bundle_kind
  tb_Name :: string
  tb_Namespace :: string
  tb_Data :: string

record NutanixPrismEndpoint =
  pe_Address :: string
  pe_Port :: int
  pe_CredentialRef :: "NutanixCredentialReference option"
  pe_AdditionalTrustBundle :: "NutanixTrustBundleReference option"

record fd_status =
  fds_Name :: string
  fds_ControlPlane :: bool
  fds_Attributes :: "(string \<times> string) list"

record NutanixCluster =
  ncl_Meta :: obj_meta
  ncl_PrismCentral :: "NutanixPrismEndpoint option"
  ncl_FailureDomains :: "NutanixFailureDomainConfig list"
  ncl_ControlPlaneFailureDomains :: "string list"
  ncl_Ready :: bool
  ncl_StatusFailureDomains :: "fd_status list"
  ncl_Conditions :: "condition_op list"
  ncl_FailureReason :: "string option"
  ncl_FailureMessage :: "string option"

definition GetPrismCentralCredentialRef ::
  "NutanixCluster \<Rightarrow> go_error + NutanixCredentialReference option" where
  "GetPrismCentralCredentialRef ncl =
     (case ncl_PrismCentral ncl of
        None \<Rightarrow> Inr None
      | Some info \<Rightarrow>
          (case pe_CredentialRef info of
             None \<Rightarrow> Inl (Leaf (''credentialRef must be set on prismCentral attribute for cluster '' @
                       om_Name (ncl_Meta ncl) @ '' in namespace '' @ om_Namespace (ncl_Meta ncl)))
           | Some ref \<Rightarrow> if cr_Kind ref \<noteq> SecretKind then Inr None else Inr (Some ref)))"

definition GetPrismCentralTrustBundle :: "NutanixCluster \<Rightarrow> NutanixTrustBundleReference option" where
  "GetPrismCentralTrustBundle ncl =
     (case ncl_PrismCentral ncl of
        None \<Rightarrow> None
      | Some info \<Rightarrow>
          (case pe_AdditionalTrustBundle info of
             None \<Rightarrow> None
           | Some tb \<Rightarrow> if tb_Kind tb = TrustBundleString then None else Some tb))"

definition GetNamespacedName :: "NutanixCluster \<Rightarrow> string" where
  "GetNamespacedName ncl =
     (let namespace = (if om_Namespace (ncl_Meta ncl) \<noteq> [] then om_Namespace (ncl_Meta ncl)
                       else ''default'')
      in namespace @ ''/'' @ om_Name (ncl_Meta ncl))"

record NutanixFailureDomainSpec =
  fd_PrismElementCluster :: NutanixResourceIdentifier
  fd_Subnets :: "NutanixResourceIdentifier list"

record NutanixFailureDomain =
  nfd_Meta :: obj_meta
  nfd_Spec :: NutanixFailureDomainSpec
  nfd_Conditions :: "condition_op list"

record NutanixMetro =
  nmt_Meta :: obj_meta
  nmt_FailureDomains :: "string list"
  nmt_Conditions :: "condition_op list"

record NutanixMetroSite =
  nms_Meta :: obj_meta
  nms_PreferredFailureDomain :: string
  nms_MetroRef :: string
  nms_GroupNameLabel :: "string option"
  nms_Conditions :: "condition_op list"

record NutanixCategoryRecoveryPlan =
  crp_Category :: NutanixCategoryIdentifier
  crp_RecoveryPlan :: NutanixResourceIdentifier
  crp_FailureDomainRef :: string

record NutanixMovementGroup =
  mg_Name :: string
  mg_CategoryRecoveryPlans :: "NutanixCategoryRecoveryPlan list"

record NutanixVirtualHADomain =
  vha_Meta :: obj_meta
  vha_MetroRef :: string
  vha_ProtectionPolicy :: "NutanixResourceIdentifier option"
  vha_MovementGroups :: "NutanixMovementGroup list"
  vha_Ready :: bool
  vha_Conditions :: "condition_op list"

definition GetLegacyFailureDomainFromNutanixCluster ::
  "string \<Rightarrow> NutanixCluster \<Rightarrow> NutanixFailureDomainConfig option" where
  "GetLegacyFailureDomainFromNutanixCluster failureDomainName ncl =
     find (\<lambda>fd. fdc_Name fd = failureDomainName) (ncl_FailureDomains ncl)"

section \<open>The defaulting webhook of the machine template\<close>

definition ImageNamePlaceholder :: string where
  "ImageNamePlaceholder = ''PLACEHOLDER''"

definition ImageUUIDPlaceholder :: string where
  "ImageUUIDPlaceholder = ''00000000-0000-0000-0000-000000000000''"

text \<open>The image pointer of the template, before and after (the rest of the template is
  not touched); the two flags are the feature gates.\<close>

definition defaultNutanixMachineTemplateImage ::
  "NutanixResourceIdentifier option \<Rightarrow> bool \<Rightarrow> bool \<Rightarrow> NutanixResourceIdentifier option" where
  "defaultNutanixMachineTemplateImage img_p defaultName defaultUUID =
     (case img_p of
        None \<Rightarrow> None
      | Some img \<Rightarrow>
          (case id_Type img of
             NameType \<Rightarrow>
               if defaultName \<and> (id_Name img = None \<or> Deref (id_Name img) [] = [])
               then Some (img\<lparr>id_Name := Some ImageNamePlaceholder\<rparr>) else Some img
           | UUIDType \<Rightarrow>
               if defaultUUID \<and> (id_UUID img = None \<or> Deref (id_UUID img) [] = [])
               then Some (img\<lparr>id_UUID := Some ImageUUIDPlaceholder\<rparr>) else Some img
           | OtherType _ \<Rightarrow> Some img))"

text \<open>The gates of the program with the values they have unless the command line sets them; what the
  registry of gates then answers, Enabled, is a parameter.\<close>

definition DefaultToPlaceholderImageName :: string where
  "DefaultToPlaceholderImageName = ''DefaultToPlaceholderImageName''"

definition DefaultToPlaceholderImageUUID :: string where
  "DefaultToPlaceholderImageUUID = ''DefaultToPlaceholderImageUUID''"

definition defaultFeatureGates :: "string \<rightharpoonup> bool" where
  "defaultFeatureGates =
     [DefaultToPlaceholderImageName \<mapsto> False, DefaultToPlaceholderImageUUID \<mapsto> False]"

definition webhook_Default ::
  "(string \<Rightarrow> bool) \<Rightarrow> NutanixResourceIdentifier option \<Rightarrow> NutanixResourceIdentifier option" where
  "webhook_Default Enabled img_p =
     defaultNutanixMachineTemplateImage img_p
       (Enabled DefaultToPlaceholderImageName) (Enabled DefaultToPlaceholderImageUUID)"

lemma webhook_Default_unset: "webhook_Default (\<lambda>g. defaultFeatureGates g = Some True) img_p = img_p"
  by (auto simp: webhook_Default_def defaultFeatureGates_def defaultNutanixMachineTemplateImage_def
      DefaultToPlaceholderImageName_def DefaultToPlaceholderImageUUID_def
      split: option.splits NutanixIdentifierType.splits)

section \<open>Lemmas\<close>

lemma EqualTo_sym: "EqualTo a (Some b) \<longleftrightarrow> EqualTo b (Some a)"
  by (auto simp: EqualTo_def split: NutanixIdentifierType.splits)

lemma EqualTo_trans: "EqualTo a (Some b) \<Longrightarrow> EqualTo b (Some c) \<Longrightarrow> EqualTo a (Some c)"
  by (auto simp: EqualTo_def split: NutanixIdentifierType.splits if_splits)

lemma EqualTo_refl_iff: "EqualTo a (Some a) \<longleftrightarrow> IsUUID a \<or> IsName a"
  by (auto simp: EqualTo_def IsUUID_def IsName_def split: NutanixIdentifierType.splits)

lemma EqualTo_String: "EqualTo a (Some b) \<Longrightarrow> id_String a = id_String b"
  by (auto simp: EqualTo_def id_String_def split: NutanixIdentifierType.splits if_splits)

lemma IsUUID_not_IsName: "IsUUID a \<Longrightarrow> \<not> IsName a"
  by (simp add: IsUUID_def IsName_def)

lemma uuid_id_simps [simp]: "IsUUID (uuid_id u)" "\<not> IsName (uuid_id u)" "id_UUID (uuid_id u) = Some u"
  "id_Name (uuid_id u) = None" "id_String (uuid_id u) = u"
  by (simp_all add: uuid_id_def IsUUID_def IsName_def id_String_def)

lemma name_id_simps [simp]: "IsName (name_id n)" "\<not> IsUUID (name_id n)" "id_Name (name_id n) = Some n"
  "id_UUID (name_id n) = None" "id_String (name_id n) = n"
  by (simp_all add: name_id_def IsUUID_def IsName_def id_String_def)

lemma IsUUID_Some: "IsUUID a \<Longrightarrow> \<exists>u. id_UUID a = Some u \<and> id_String a = u"
  by (auto simp: IsUUID_def id_String_def)

lemma IsName_Some: "IsName a \<Longrightarrow> \<exists>n. id_Name a = Some n \<and> id_String a = n"
  by (auto simp: IsName_def id_String_def)

text \<open>The template defaulter is idempotent, keeps every identifier that has a
  non-empty value, keeps the type, and with both gates on leaves no image identifier of
  type name or uuid without a value.\<close>

theorem webhook_default_correct:
  "(let d = defaultNutanixMachineTemplateImage img gn gu in
    defaultNutanixMachineTemplateImage d gn gu = d \<and>
    (\<forall>i j. (img, d) = (Some i, Some j) \<longrightarrow>
       id_Type j = id_Type i \<and> (id_String i \<noteq> [] \<longrightarrow> j = i) \<and>
       (gn \<and> gu \<longrightarrow> id_Type i \<in> {NameType, UUIDType} \<longrightarrow> id_String j \<noteq> [])))"
proof (cases img)
  case None
  then show ?thesis by (simp add: defaultNutanixMachineTemplateImage_def)
next
  case (Some i)
  then show ?thesis
    by (cases "id_Type i"; cases "id_Name i"; cases "id_UUID i")
      (auto simp: Let_def defaultNutanixMachineTemplateImage_def id_String_def
        ImageNamePlaceholder_def ImageUUIDPlaceholder_def)
qed

lemma webhook_default_correct_witness:
  "id_String (the (defaultNutanixMachineTemplateImage (Some (name_id [])) True True)) \<noteq> []"
  using webhook_default_correct [of "Some (name_id [])" True True]
  by (simp add: Let_def name_id_def defaultNutanixMachineTemplateImage_def id_String_def
      ImageNamePlaceholder_def)

end
