(* ===== verification/External.thy ===== *)
theory External
  imports Api_Types
begin

text \<open>
  The outside world: the Prism Central client (prism-go-client), the Kubernetes
  client and the data they exchange.  None of that code is in the repository, so a
  client is a record of answers: each field gives the answer of one method as a
  function of the calls made so far and of the arguments.  Nothing is assumed of the
  answers here; a property that needs an assumption names it.

  Every call is appended to the trace of the world, so that a property can speak of
  the order of the requests a reconcile makes and of the requests it never makes.
  The records of Prism objects keep the fields the source reads or writes.
\<close>

section \<open>Prism objects\<close>

record pe_cluster_config =
  pcf_IsAvailable :: "bool option"
  pcf_ClusterFunction :: "string list"

record pe_cluster =
  pcl_ExtId :: "string option"
  pcl_Name :: "string option"
  pcl_Config :: "pe_cluster_config option"

record subnet =
  sn_ExtId :: "string option"
  sn_Name :: "string option"
  sn_SubnetType :: "string option"
  sn_ClusterReference :: "string option"
  sn_ClusterReferenceList :: "string list"
  sn_ProjectExtId :: "string option"
  sn_SharedWithProjects :: "string list"
  sn_NetworkId :: "int option"
  sn_IpPrefix :: "string option"

record prism_image =
  im_ExtId :: "string option"
  im_Name :: "string option"
  im_ProjectExtId :: "string option"
  im_IsSharedWithAllProjects :: "bool option"
  im_CreateTime :: "int option"

text \<open>The NICs of a VM profile by their identifiers; None when it has no configuration.\<close>

record vm_profile =
  vp_ExtId :: "string option"
  vp_Name :: "string option"
  vp_ProjectExtId :: "string option"
  vp_SharedWithProjects :: "string list"
  vp_Nics :: "string option list option"

datatype task_status = TaskQueued | TaskRunning | TaskFailed | TaskOtherStatus string

record prism_task =
  tk_ExtId :: "string option"
  tk_Status :: "task_status option"
  tk_Operation :: "string option"
  tk_OperationDescription :: "string option"
  tk_ErrorMessages :: "string option list"
  tk_LegacyErrorMessage :: "string option"
  tk_SubTasks :: "string option list"

record prism_category =
  ct_ExtId :: "string option"
  ct_Key :: "string option"
  ct_Value :: "string option"
  ct_Description :: "string option"
  ct_ProjectExtId :: "string option"
  ct_IsSharedWithAllProjects :: "bool option"
  ct_SharedWithProjects :: "string list"

record prism_project =
  pj_ExtId :: "string option"
  pj_Name :: "string option"

record resource_group =
  rg_ExtId :: "string option"
  rg_ProjectExtId :: "string option"

record PrismElementInfo =
  pei_ExtId :: string
  pei_Name :: string

record StorageContainerInfo =
  sci_ExtId :: string
  sci_Name :: string
  sci_PrismElement :: PrismElementInfo

record storage_container =
  stc_ContainerExtId :: "string option"
  stc_Name :: "string option"
  stc_ClusterExtId :: "string option"
  stc_ClusterName :: "string option"

text \<open>A virtual disk: its size, the image it is made from, the flash mode of its storage
  configuration and the storage container; None where the source sets no pointer.  The backing
  of a disk is such a virtual disk or a volume group.\<close>

record vm_disk_info =
  vdi_DiskSizeBytes :: "int option"
  vdi_Image :: "string option option"
  vdi_FlashMode :: "bool option"
  vdi_StorageContainer :: "string option option"

datatype disk_backing =
    VMDisk vm_disk_info
  | VolumeGroup "string option"
  | OtherBacking

datatype disk_bus = DiskSCSI | DiskIDE | DiskPCI | DiskSATA | DiskUnknownBus
datatype cdrom_bus = CdRomIDE | CdRomSATA | CdRomUnknownBus

record vm_disk =
  vd_Backing :: "disk_backing option"
  vd_Address :: "(int \<times> disk_bus) option"

record cd_rom =
  cd_Address :: "(int \<times> cdrom_bus) option"
  cd_Backing :: "vm_disk_info option"

record ipv4_config =
  ic_IpAddress :: "string option option"

record ipv4_info =
  ii_LearnedIpAddresses :: "string option list"

datatype nic_info =
    VirtualEthernet "ipv4_config option" "ipv4_info option"
  | DpOffload "ipv4_config option" "ipv4_info option"
  | Sriov
  | OtherNicInfo

record network_info =
  ni_Subnet :: "string option"
  ni_Ipv4Config :: "ipv4_config option"
  ni_Ipv4Info :: "ipv4_info option"

record vm_nic =
  nic_NicNetworkInfo :: "nic_info option"
  nic_NetworkInfo :: "network_info option"

text \<open>A GPU of a VM, and the configuration of a GPU of a Prism Element.\<close>

datatype gpu_mode = PassthroughCompute | PassthroughGraphics | VirtualGpuMode
datatype gpu_vendor = Nvidia | Intel | Amd | UnknownVendor
datatype gpu_backing = PhysicalGpuProfile "string option" | VirtualGpuProfile "string option"

record vm_gpu =
  vg_Name :: "string option"
  vg_DeviceId :: "int option"
  vg_Mode :: "gpu_mode option"
  vg_Vendor :: "gpu_vendor option"
  vg_Backing :: "gpu_backing option"

record gpu_config =
  gcf_DeviceName :: "string option"
  gcf_DeviceId :: "int option"
  gcf_VendorName :: "string option"
  gcf_IsInUse :: "bool option"
  gcf_Graphics :: bool

datatype boot_device = BootCdRom | BootDisk | BootNetwork
datatype boot_config = UefiBoot "boot_device list" | LegacyBoot "boot_device list"
datatype power_state = PoweredOn | OtherPowerState string

record cloud_init =
  ci_Metadata :: string
  ci_UserData :: string

record vm =
  vm_ExtId :: "string option"
  vm_Name :: "string option"
  vm_Project :: "string option option"
  vm_Disks :: "vm_disk list"
  vm_Categories :: "string option list"
  vm_PowerState :: "power_state option"
  vm_MemorySizeBytes :: "int option"
  vm_NumCoresPerSocket :: "int option"
  vm_NumSockets :: "int option"
  vm_HardwareClockTimezone :: "string option"
  vm_CustomAttributes :: "string list"
  vm_Cluster :: "string option"
  vm_Nics :: "vm_nic list"
  vm_Gpus :: "vm_gpu list"
  vm_CdRoms :: "cd_rom list"
  vm_GuestCustomization :: "cloud_init option"
  vm_BootConfig :: "boot_config option"

definition empty_vm :: vm where
  "empty_vm = \<lparr>vm_ExtId = None, vm_Name = None, vm_Project = None, vm_Disks = [], vm_Categories = [],
     vm_PowerState = None, vm_MemorySizeBytes = None, vm_NumCoresPerSocket = None, vm_NumSockets = None,
     vm_HardwareClockTimezone = None, vm_CustomAttributes = [], vm_Cluster = None, vm_Nics = [], vm_Gpus = [],
     vm_CdRoms = [], vm_GuestCustomization = None, vm_BootConfig = None\<rparr>"

text \<open>The parameters of a deployment from a VM profile; a NIC is its subnet and the NIC of the
  profile, a disk its size and its image.\<close>

record deploy_params =
  dpl_VmName :: string
  dpl_Cluster :: string
  dpl_ProjectExtId :: "string option"
  dpl_Nics :: "(string \<times> string option) list"
  dpl_Categories :: "string option list"
  dpl_Disks :: "(int \<times> string option) list"
  dpl_GuestCustomization :: "cloud_init option"

text \<open>The v3 API: groups of entities (for the DR configuration) and recovery plan jobs.\<close>

record groups_field =
  gf_Name :: string
  gf_Values :: "string list option list"

record groups_entity =
  ge_Data :: "groups_field option list"

record recovery_plan_job =
  rpj_RecoveryPlanUUID :: "string option"
  rpj_HasExecutionParameters :: bool
  rpj_RecoveryZones :: "string option option list option list"

record project_v3 =
  pv3_UUID :: "string option"
  pv3_Name :: string

record task_v3 =
  tv_Status :: "string option"
  tv_ErrorDetail :: "string option"
  tv_ProgressMessage :: "string option"

text \<open>Protection policies and recovery plans, with the parts the source fills in.  A recovery
  plan has, per network mapping, one entry for each Prism Element; the lists the source leaves
  empty are left out.\<close>

record replication_location =
  rl_Label :: string
  rl_DomainManagerExtId :: string
  rl_IsPrimary :: "bool option"
  rl_ClusterExtIds :: "string list"

record replication_config =
  rcf_Source :: string
  rcf_Remote :: string
  rcf_RPOSeconds :: int
  rcf_RecoveryPointType :: string

record protection_policy =
  pp_ExtId :: "string option"
  pp_Name :: "string option"
  pp_Description :: "string option"
  pp_CategoryIds :: "string list"
  pp_ReplicationLocations :: "replication_location list"
  pp_ReplicationConfigurations :: "replication_config list"

record az_network =
  azn_URL :: string
  azn_ClusterName :: string
  azn_ClusterUUID :: string
  azn_NetworkName :: string

record recovery_plan =
  rp_Name :: string
  rp_Description :: string
  rp_StageCategories :: "(string \<times> string) list"
  rp_VolumeGroupFilter :: "(string \<times> string list) list"
  rp_PrimaryLocationIndex :: int
  rp_NetworkMappings :: "az_network list list"
  rp_Witnesses :: "(string \<times> int) list"
  rp_AvailabilityZones :: "(string \<times> string \<times> string) list"

text \<open>An entity of the listing of recovery plans: the UUID of its metadata and the name of its
  spec, None when a pointer on the way is nil; and the answer to a creation or a deletion: the
  task UUID is None when it is missing and Some None when it is not a string.\<close>

record plan_entity =
  pln_UUID :: "string option"
  pln_Name :: "string option"

record plan_answer =
  pla_UUID :: "string option"
  pla_TaskUUID :: "string option option"

section \<open>Calls\<close>

datatype resource =
    RCluster | RSubnet | RImage | RVMProfile | RTask | RResourceGroup | RStorageContainer
  | RCategory | RProject | RVM | RVolumeGroup | RDomainManager | REntityGroup
  | RRecoveryPlan | RRecoveryPlanJob | RProtectionPolicy | RGPU

datatype kube_kind =
    KMachine | KNutanixMachine | KCluster | KNutanixCluster | KFailureDomain | KMetro
  | KMetroSite | KVHADomain | KSecret | KConfigMap | KNode | KMachineDeployment | KMachineSet
  | KMachineTemplate | KCluster_Class

text \<open>A patch of a NutanixMachine, as the trace shows it: the object before and after, each by
  its request identifier (the annotation of the VM creation), finalizers, spec and status.\<close>

record machine_view =
  mv_RequestID :: string
  mv_Finalizers :: "string list"
  mv_Spec :: NutanixMachineSpec
  mv_Status :: NutanixMachineStatus

text \<open>The part of the metadata of a Secret or ConfigMap that an update may change, and a new
  NutanixVirtualHADomain.\<close>

record object_view =
  ov_Name :: string
  ov_Namespace :: string
  ov_Finalizers :: "string list"
  ov_Owners :: "owner_ref list"

record domain_view =
  dv_Name :: string
  dv_Namespace :: string
  dv_Owners :: "owner_ref list"
  dv_ClusterName :: string
  dv_Metro :: string

text \<open>CacheDelete removes a key from a cache of clients in the memory of the manager.\<close>

datatype call =
    PGet resource string
  | PList resource string
  | PRead resource string "string list"
  | PCreate_category prism_category
  | PCreate_policy protection_policy
  | PCreate_plan recovery_plan
  | PCreate_vm string vm
  | PDeploy_vm string deploy_params
  | PDelete resource string
  | PDetach string string
  | PWrite resource string "string list"
  | KGet kube_kind string string
  | KList kube_kind string "(string \<times> string) list"
  | KWrite kube_kind string string string
  | KPatch_machine machine_view machine_view
  | KUpdate kube_kind object_view
  | KCreate_domain domain_view
  | CacheDelete string string

fun is_read :: "call \<Rightarrow> bool" where
  "is_read (PGet r u) = True"
| "is_read (PList r f) = True"
| "is_read (PRead r m a) = True"
| "is_read (KGet k n m) = True"
| "is_read (KList k n l) = True"
| "is_read _ = False"

fun is_prism_read :: "call \<Rightarrow> bool" where
  "is_prism_read (PGet r u) = True"
| "is_prism_read (PList r f) = True"
| "is_prism_read (PRead r m a) = True"
| "is_prism_read _ = False"

lemma prism_read_is_read: "is_prism_read c \<Longrightarrow> is_read c"
  by (cases c) auto

record world =
  trace :: "call list"

text \<open>ext c f: make the call c; its answer is f of the calls made before.\<close>

definition ext :: "call \<Rightarrow> (call list \<Rightarrow> go_error + 'a) \<Rightarrow> ('z world_scheme, 'a) go" where
  "ext c f = (\<lambda>s. (f (trace s), s\<lparr>trace := trace s @ [c]\<rparr>))"

section \<open>Clients\<close>

text \<open>An operation of the converged client: its task and the answer of Wait.\<close>

record 'a operation =
  op_UUID :: string
  op_Wait :: "call list \<Rightarrow> go_error + 'a list"

text \<open>The methods of the converged v4 client, by the field of the client and the method,
  and the predicates of the package converged on errors.\<close>

record v4_client =
  IsNotFound :: "go_error \<Rightarrow> bool"
  IsRateLimit :: "go_error \<Rightarrow> bool"
  IsInternal :: "go_error \<Rightarrow> bool"
  Clusters_Get :: "call list \<Rightarrow> string \<Rightarrow> go_error + pe_cluster option"
  Clusters_List :: "call list \<Rightarrow> string \<Rightarrow> go_error + pe_cluster list"
  Subnets_Get :: "call list \<Rightarrow> string \<Rightarrow> go_error + subnet option"
  Subnets_List :: "call list \<Rightarrow> string \<Rightarrow> go_error + subnet list"
  Images_Get :: "call list \<Rightarrow> string \<Rightarrow> go_error + prism_image option"
  Images_List :: "call list \<Rightarrow> string \<Rightarrow> go_error + prism_image list"
  VMProfiles_Get :: "call list \<Rightarrow> string \<Rightarrow> go_error + vm_profile option"
  VMProfiles_List :: "call list \<Rightarrow> string \<Rightarrow> go_error + vm_profile list"
  Tasks_Get :: "call list \<Rightarrow> string \<Rightarrow> go_error + prism_task option"
  Tasks_List :: "call list \<Rightarrow> string \<Rightarrow> go_error + prism_task list"
  Categories_List :: "call list \<Rightarrow> string \<Rightarrow> go_error + prism_category list"
  Categories_Create :: "call list \<Rightarrow> prism_category \<Rightarrow> go_error option \<times> prism_category option"
  Categories_Delete :: "call list \<Rightarrow> string \<Rightarrow> go_error + unit"
  Projects_Get :: "call list \<Rightarrow> string \<Rightarrow> go_error + prism_project option"
  Projects_GetByName :: "call list \<Rightarrow> string \<Rightarrow> go_error + prism_project option"
  Projects_GetDefault :: "call list \<Rightarrow> go_error + prism_project option"
  ResourceGroups_List :: "call list \<Rightarrow> string \<Rightarrow> go_error + resource_group list"
  ResourceGroups_ListPrismElements :: "call list \<Rightarrow> string \<Rightarrow> go_error + PrismElementInfo list"
  ResourceGroups_ListStorageContainers :: "call list \<Rightarrow> string \<Rightarrow> go_error + StorageContainerInfo list"
  StorageContainers_List :: "call list \<Rightarrow> string \<Rightarrow> go_error + storage_container list"
  VMs_Get :: "call list \<Rightarrow> string \<Rightarrow> go_error + vm option"
  VMs_List :: "call list \<Rightarrow> string \<Rightarrow> go_error + vm list"
  VMs_DeleteAsync :: "call list \<Rightarrow> string \<Rightarrow> go_error + string option"
  VMs_CreateAsync :: "call list \<Rightarrow> string \<Rightarrow> vm \<Rightarrow> go_error + vm option operation option"
  VMs_PowerOnVM :: "call list \<Rightarrow> string \<Rightarrow> go_error + unit operation"
  VMs_AddVmCustomAttributes :: "call list \<Rightarrow> string \<Rightarrow> string list \<Rightarrow> go_error + unit"
  VMProfiles_DeployVmWithVmProfile :: "call list \<Rightarrow> string \<Rightarrow> deploy_params \<Rightarrow> go_error + vm option operation"
  Clusters_ListAHVPhysicalGPUProfiles :: "call list \<Rightarrow> string \<Rightarrow> string \<Rightarrow> go_error + string option list"
  Clusters_ListAHVVirtualGPUProfiles :: "call list \<Rightarrow> string \<Rightarrow> string \<Rightarrow> go_error + string option list"
  Clusters_ListClusterPhysicalGPUs :: "call list \<Rightarrow> string \<Rightarrow> string \<Rightarrow> go_error + gpu_config option list"
  Clusters_ListClusterVirtualGPUs :: "call list \<Rightarrow> string \<Rightarrow> string \<Rightarrow> go_error + gpu_config option list"
  DomainManager_GetPrismCentralVersion :: "call list \<Rightarrow> go_error + string"
  VolumeGroups_DetachFromVM :: "call list \<Rightarrow> string \<Rightarrow> string \<Rightarrow> go_error + unit"
  ProtectionPolicies_Get :: "call list \<Rightarrow> string \<Rightarrow> go_error + protection_policy option"
  ProtectionPolicies_List :: "call list \<Rightarrow> string \<Rightarrow> go_error + protection_policy list"
  ProtectionPolicies_Create :: "call list \<Rightarrow> protection_policy \<Rightarrow> go_error + protection_policy option"
  ProtectionPolicies_Delete :: "call list \<Rightarrow> string \<Rightarrow> go_error + unit"
  DomainManagers_List :: "call list \<Rightarrow> go_error + string option list"

record v3_client =
  GroupsGetEntities :: "call list \<Rightarrow> string \<Rightarrow> go_error + groups_entity option list option list option"
  ListRecoveryPlanJobs :: "call list \<Rightarrow> string \<Rightarrow> go_error + recovery_plan_job option list option"
  V3_GetProject :: "call list \<Rightarrow> string \<Rightarrow> go_error + project_v3"
  V3_ListAllProject :: "call list \<Rightarrow> go_error + project_v3 list"
  V3_GetTask :: "call list \<Rightarrow> string \<Rightarrow> go_error + task_v3"
  V3_GetRecoveryPlan :: "call list \<Rightarrow> string \<Rightarrow> go_error + unit"
  V3_CreateRecoveryPlan :: "call list \<Rightarrow> recovery_plan \<Rightarrow> go_error + plan_answer option"
  V3_DeleteRecoveryPlan :: "call list \<Rightarrow> string \<Rightarrow> go_error + plan_answer option"
  V3_ListAllRecoveryPlans :: "call list \<Rightarrow> string \<Rightarrow> go_error + plan_entity option list option"

text \<open>A client that answers every call with an error, the base of the concrete clients
  at which properties are instantiated.\<close>

definition no_service :: "go_error + 'a" where
  "no_service = Inl (Lib_error ''service unavailable'' False)"

definition base_v4_client :: v4_client where
  "base_v4_client = \<lparr>
     IsNotFound = (\<lambda>e. e = Lib_error ''not found'' True),
     IsRateLimit = (\<lambda>e. False), IsInternal = (\<lambda>e. False),
     Clusters_Get = (\<lambda>h u. no_service), Clusters_List = (\<lambda>h f. no_service),
     Subnets_Get = (\<lambda>h u. no_service), Subnets_List = (\<lambda>h f. no_service),
     Images_Get = (\<lambda>h u. no_service), Images_List = (\<lambda>h f. no_service),
     VMProfiles_Get = (\<lambda>h u. no_service), VMProfiles_List = (\<lambda>h f. no_service),
     Tasks_Get = (\<lambda>h u. no_service), Tasks_List = (\<lambda>h f. no_service),
     Categories_List = (\<lambda>h f. no_service),
     Categories_Create = (\<lambda>h c. (Some (Lib_error ''service unavailable'' False), None)),
     Categories_Delete = (\<lambda>h u. no_service),
     Projects_Get = (\<lambda>h u. no_service), Projects_GetByName = (\<lambda>h n. no_service),
     Projects_GetDefault = (\<lambda>h. no_service),
     ResourceGroups_List = (\<lambda>h f. no_service),
     ResourceGroups_ListPrismElements = (\<lambda>h u. no_service),
     ResourceGroups_ListStorageContainers = (\<lambda>h u. no_service),
     StorageContainers_List = (\<lambda>h f. no_service),
     VMs_Get = (\<lambda>h u. no_service), VMs_List = (\<lambda>h f. no_service),
     VMs_DeleteAsync = (\<lambda>h u. no_service),
     VMs_CreateAsync = (\<lambda>h r v. no_service), VMs_PowerOnVM = (\<lambda>h u. no_service),
     VMs_AddVmCustomAttributes = (\<lambda>h u a. no_service),
     VMProfiles_DeployVmWithVmProfile = (\<lambda>h u p. no_service),
     Clusters_ListAHVPhysicalGPUProfiles = (\<lambda>h u f. no_service),
     Clusters_ListAHVVirtualGPUProfiles = (\<lambda>h u f. no_service),
     Clusters_ListClusterPhysicalGPUs = (\<lambda>h u f. no_service),
     Clusters_ListClusterVirtualGPUs = (\<lambda>h u f. no_service),
     DomainManager_GetPrismCentralVersion = (\<lambda>h. no_service),
     VolumeGroups_DetachFromVM = (\<lambda>h g u. no_service),
     ProtectionPolicies_Get = (\<lambda>h u. no_service), ProtectionPolicies_List = (\<lambda>h f. no_service),
     ProtectionPolicies_Create = (\<lambda>h p. no_service), ProtectionPolicies_Delete = (\<lambda>h u. no_service),
     DomainManagers_List = (\<lambda>h. no_service)\<rparr>"

definition base_v3_client :: v3_client where
  "base_v3_client = \<lparr>
     GroupsGetEntities = (\<lambda>h u. no_service), ListRecoveryPlanJobs = (\<lambda>h u. no_service),
     V3_GetProject = (\<lambda>h u. no_service), V3_ListAllProject = (\<lambda>h. no_service),
     V3_GetTask = (\<lambda>h u. no_service), V3_GetRecoveryPlan = (\<lambda>h u. no_service),
     V3_CreateRecoveryPlan = (\<lambda>h p. no_service), V3_DeleteRecoveryPlan = (\<lambda>h u. no_service),
     V3_ListAllRecoveryPlans = (\<lambda>h f. no_service)\<rparr>"

section \<open>The trace\<close>

text \<open>Two relations between the worlds before and after a computation: only calls of a
  kind are added and nothing else changes; or the trace grows by calls of a kind.\<close>

definition only_calls :: "(call \<Rightarrow> bool) \<Rightarrow> 'z world_scheme \<Rightarrow> 'z world_scheme \<Rightarrow> bool" where
  "only_calls A s s' = (\<exists>t. s' = s\<lparr>trace := trace s @ t\<rparr> \<and> list_all A t)"

definition adds_calls :: "(call \<Rightarrow> bool) \<Rightarrow> 'z world_scheme \<Rightarrow> 'z world_scheme \<Rightarrow> bool" where
  "adds_calls A s s' = (\<exists>t. trace s' = trace s @ t \<and> list_all A t)"

interpretation only: state_order "only_calls A" for A
proof
  show "only_calls A s s" for s :: "'b world_scheme"
    unfolding only_calls_def by (intro exI [of _ "[]"]) simp
  show "only_calls A s u" if "only_calls A s t" "only_calls A t u" for s t u :: "'b world_scheme"
    using that unfolding only_calls_def by (elim exE conjE) (auto intro!: exI [of _ "_ @ _"])
qed

interpretation adds: state_order "adds_calls A" for A
proof
  show "adds_calls A s s" for s :: "'b world_scheme"
    unfolding adds_calls_def by simp
  show "adds_calls A s u" if "adds_calls A s t" "adds_calls A t u" for s t u :: "'b world_scheme"
    using that unfolding adds_calls_def by (elim exE conjE) (auto intro!: exI [of _ "_ @ _"])
qed

lemma ext_only: "A c \<Longrightarrow> moves (only_calls A) (ext c f)"
  by (auto simp: moves_def ext_def only_calls_def intro!: exI [of _ "[c]"])

lemma only_calls_adds: "only_calls A s s' \<Longrightarrow> adds_calls A s s'"
  by (auto simp: only_calls_def adds_calls_def)

lemma only_calls_mono: "only_calls A s s' \<Longrightarrow> (\<And>c. A c \<Longrightarrow> B c) \<Longrightarrow> only_calls B s s'"
  unfolding only_calls_def by (auto simp: list_all_iff)

lemma adds_calls_mono: "adds_calls A s s' \<Longrightarrow> (\<And>c. A c \<Longrightarrow> B c) \<Longrightarrow> adds_calls B s s'"
  unfolding adds_calls_def by (auto simp: list_all_iff)

lemma only_imp_adds: "moves (only_calls A) m \<Longrightarrow> moves (adds_calls A) m"
  by (auto simp: moves_def intro: only_calls_adds)

lemma ext_adds: "A c \<Longrightarrow> moves (adds_calls A) (ext c f)"
  by (rule only_imp_adds) (rule ext_only)

lemma only_mono: "moves (only_calls A) m \<Longrightarrow> (\<And>c. A c \<Longrightarrow> B c) \<Longrightarrow> moves (only_calls B) m"
  unfolding moves_def by (blast intro: only_calls_mono)

lemma adds_mono: "moves (adds_calls A) m \<Longrightarrow> (\<And>c. A c \<Longrightarrow> B c) \<Longrightarrow> moves (adds_calls B) m"
  unfolding moves_def by (blast intro: adds_calls_mono)

lemma ext_apply [go_eval]: "ext c f s = (f (trace s), s\<lparr>trace := trace s @ [c]\<rparr>)"
  by (simp add: ext_def)

lemma ext_Inr [go_inv]:
  "ext c f s = (Inr y, s') \<longleftrightarrow> f (trace s) = Inr y \<and> s' = s\<lparr>trace := trace s @ [c]\<rparr>"
  by (auto simp: ext_def)

lemma ext_Inl [go_inv]:
  "ext c f s = (Inl e, s') \<longleftrightarrow> f (trace s) = Inl e \<and> s' = s\<lparr>trace := trace s @ [c]\<rparr>"
  by (auto simp: ext_def)

lemmas only_rules = only.moves_rules ext_only
lemmas adds_rules = adds.moves_rules ext_adds

end
