(* ===== verification/Task_Errors.thy ===== *)
theory Task_Errors
  imports External
begin

text \<open>
  Classification of errors (controllers/helpers.go, isTerminalError and
  isRetryableAPIError) and the collection of the failures of a Prism task and its
  subtasks (controllers/task_errors.go).

  The collection follows parent links that Prism returns, so the source passes a map
  of visited tasks by reference; here the visited tasks are a list that is returned.
  The recursion gets fuel, and None means that it ran out.  A number of tasks that
  bounds what Prism can return bounds the fuel that is enough
  (collect_enough_fuel).  Log lines are left out.
\<close>

section \<open>Classification\<close>

definition isTerminalError :: "go_error \<Rightarrow> bool" where
  "isTerminalError err = as_terminal err"

definition isRetryableAPIError :: "v4_client \<Rightarrow> go_error \<Rightarrow> bool" where
  "isRetryableAPIError converged err =
     (if IsNotFound converged err \<or> isTerminalError err then False
      else if IsRateLimit converged err \<or> IsInternal converged err then True
      else if as_api_error err then False
      else True)"

section \<open>Messages\<close>

definition appendUnique :: "string list \<Rightarrow> string \<Rightarrow> string list" where
  "appendUnique parts msg = (if List.member parts msg then parts else parts @ [msg])"

definition taskOperation :: "prism_task option \<Rightarrow> string" where
  "taskOperation task_p =
     (case task_p of
        None \<Rightarrow> ''unknown''
      | Some task \<Rightarrow>
          (let desc = Deref (tk_OperationDescription task) []; op = Deref (tk_Operation task) [] in
           if desc \<noteq> [] then desc else if op \<noteq> [] then op else ''unknown''))"

fun collect_messages :: "string list \<Rightarrow> string option list \<Rightarrow> string list" where
  "collect_messages parts [] = parts"
| "collect_messages parts (m # ms) =
     collect_messages
       (case m of None \<Rightarrow> parts | Some t \<Rightarrow> if t \<noteq> [] then appendUnique parts t else parts) ms"

definition task_error_parts :: "prism_task option \<Rightarrow> string list" where
  "task_error_parts task_p =
     (let parts =
        (case task_p of
           None \<Rightarrow> []
         | Some task \<Rightarrow>
             (let ps = collect_messages [] (tk_ErrorMessages task);
                  legacy = Deref (tk_LegacyErrorMessage task) []
              in if legacy \<noteq> [] then appendUnique ps legacy else ps))
      in if parts = [] then [''no error message provided''] else parts)"

definition formatTaskError :: "prism_task option \<Rightarrow> string" where
  "formatTaskError task_p =
     ''['' @ taskOperation task_p @ ''] '' @ Join_strings (task_error_parts task_p) ''; ''"

section \<open>Subtasks\<close>

definition failedSubtasksFilter :: "string \<Rightarrow> string" where
  "failedSubtasksFilter u =
     ''parentTask/extId eq '' @ squote u @ '' and status eq Prism.Config.TaskStatus'' @ squote ''FAILED''"

definition listFailedChildTasks :: "v4_client \<Rightarrow> string \<Rightarrow> ('z world_scheme, prism_task list) go" where
  "listFailedChildTasks client parentTaskUUID =
     (let f = failedSubtasksFilter parentTaskUUID in
      ext (PList RTask f) (\<lambda>h. Tasks_List client h f))"

definition get_task :: "v4_client \<Rightarrow> string \<Rightarrow> ('z world_scheme, prism_task option) go" where
  "get_task client u = ext (PGet RTask u) (\<lambda>h. Tasks_Get client h u)"

text \<open>One step of the loop over the subtask references: a reference without an id, a
  failed lookup and a nil task add nothing.\<close>

definition get_child :: "v4_client \<Rightarrow> string option \<Rightarrow> prism_task list \<Rightarrow>
    ('z world_scheme, prism_task list) go" where
  "get_child client ref children =
     (case ref of
        None \<Rightarrow> ret children
      | Some u \<Rightarrow>
          if u = [] then ret children
          else bnd (attempt (get_task client u)) (\<lambda>r.
            case r of
              Inl err \<Rightarrow> ret children
            | Inr None \<Rightarrow> ret children
            | Inr (Some child) \<Rightarrow> ret (children @ [child])))"

definition failedSubtasksFromParentGet ::
  "v4_client \<Rightarrow> string \<Rightarrow> ('z world_scheme, prism_task list) go" where
  "failedSubtasksFromParentGet client parentTaskUUID =
     bnd (attempt (get_task client parentTaskUUID)) (\<lambda>r.
       case r of
         Inl err \<Rightarrow> ret []
       | Inr None \<Rightarrow> ret []
       | Inr (Some parent) \<Rightarrow> fold_go (get_child client) (tk_SubTasks parent) [])"

text \<open>The messages so far and the visited tasks, or None when the fuel ran out.\<close>

type_synonym collected = "(string list \<times> string list) option"

definition collect_child ::
  "(string \<Rightarrow> string list \<Rightarrow> ('z world_scheme, collected) go) \<Rightarrow> prism_task \<Rightarrow> collected \<Rightarrow>
   ('z world_scheme, collected) go" where
  "collect_child recurse child acc =
     (case acc of
        None \<Rightarrow> ret None
      | Some (msgs, visited) \<Rightarrow>
          if tk_Status child \<noteq> Some TaskFailed then ret acc
          else
            (let detail = formatTaskError (Some child); childUUID = Deref (tk_ExtId child) [] in
             if childUUID = [] then ret (Some (msgs @ [detail], visited))
             else bnd (recurse childUUID visited) (\<lambda>r.
               case r of
                 None \<Rightarrow> ret None
               | Some (ms, visited') \<Rightarrow> ret (Some (msgs @ [detail] @ ms, visited')))))"

primrec collectFailedSubtaskErrors ::
  "v4_client \<Rightarrow> nat \<Rightarrow> string \<Rightarrow> string list \<Rightarrow> ('z world_scheme, collected) go" where
  "collectFailedSubtaskErrors client 0 parentTaskUUID visited = ret None"
| "collectFailedSubtaskErrors client (Suc fuel) parentTaskUUID visited =
     (if parentTaskUUID = [] then ret (Some ([], visited))
      else if List.member visited parentTaskUUID then ret (Some ([], visited))
      else bnd (attempt (listFailedChildTasks client parentTaskUUID)) (\<lambda>r.
        bnd (case r of
               Inl err \<Rightarrow> failedSubtasksFromParentGet client parentTaskUUID
             | Inr children \<Rightarrow> ret children) (\<lambda>children.
        fold_go (collect_child (collectFailedSubtaskErrors client fuel)) children
          (Some ([], parentTaskUUID # visited)))))"

definition enrichTaskErrorWithFailedSubtasks ::
  "nat \<Rightarrow> v4_client option \<Rightarrow> string \<Rightarrow> go_error \<Rightarrow> ('z world_scheme, go_error option) go" where
  "enrichTaskErrorWithFailedSubtasks fuel client_p parentTaskUUID parentErr =
     (case client_p of
        None \<Rightarrow> ret (Some parentErr)
      | Some client \<Rightarrow>
          if parentTaskUUID = [] then ret (Some parentErr)
          else bnd (collectFailedSubtaskErrors client fuel parentTaskUUID []) (\<lambda>r.
            case r of
              None \<Rightarrow> ret None
            | Some (subtaskErrs, visited) \<Rightarrow>
                if subtaskErrs = [] then ret (Some parentErr)
                else ret (Some (Wrap [] parentErr
                       (''; failed_subtasks: '' @ Join_strings subtaskErrs ''; '')))))"

definition waitForConvergedOperation ::
  "nat \<Rightarrow> v4_client option \<Rightarrow> 'a operation option \<Rightarrow> ('z world_scheme, 'a list option) go" where
  "waitForConvergedOperation fuel client_p op_p =
     (case op_p of
        None \<Rightarrow> raise (Leaf ''operation is nil'')
      | Some op \<Rightarrow>
          bnd (attempt (ext (PRead RTask ''Wait'' [op_UUID op]) (op_Wait op))) (\<lambda>r.
            case r of
              Inr result \<Rightarrow> ret (Some result)
            | Inl err \<Rightarrow>
                bnd (enrichTaskErrorWithFailedSubtasks fuel client_p (op_UUID op) err) (\<lambda>e.
                  case e of None \<Rightarrow> ret None | Some err' \<Rightarrow> raise err')))"

section \<open>Lemmas on messages\<close>

lemma appendUnique_distinct: "distinct parts \<Longrightarrow> distinct (appendUnique parts m)"
  by (simp add: appendUnique_def)

lemma appendUnique_set [simp]: "set (appendUnique parts m) = insert m (set parts)"
  by (auto simp: appendUnique_def)

lemma collect_messages_distinct: "distinct parts \<Longrightarrow> distinct (collect_messages parts ms)"
  by (induction ms arbitrary: parts) (auto simp: appendUnique_distinct split: option.split)

lemma collect_messages_set:
  "set (collect_messages parts ms) = set parts \<union> {t. t \<noteq> [] \<and> Some t \<in> set ms}"
  by (induction ms arbitrary: parts) (auto split: option.split)

lemma task_error_parts_distinct: "distinct (task_error_parts t)"
  by (auto simp: task_error_parts_def Let_def appendUnique_distinct collect_messages_distinct
      split: option.split)

lemma task_error_parts_set:
  "set (task_error_parts (Some t)) =
     (let ms = {m. m \<noteq> [] \<and> (Some m \<in> set (tk_ErrorMessages t) \<or> tk_LegacyErrorMessage t = Some m)}
      in if ms = {} then {''no error message provided''} else ms)"
proof -
  define ps where "ps = collect_messages [] (tk_ErrorMessages t)"
  have "set ps = {m. m \<noteq> [] \<and> Some m \<in> set (tk_ErrorMessages t)}"
    by (simp add: ps_def collect_messages_set)
  then show ?thesis
    by (cases "tk_LegacyErrorMessage t")
      (auto simp: task_error_parts_def Let_def Deref_def appendUnique_def simp flip: ps_def set_empty)
qed

section \<open>The collection of subtasks\<close>

definition subtask_list_call :: "string \<Rightarrow> call" where
  "subtask_list_call u = PList RTask (failedSubtasksFilter u)"

fun is_list_call :: "call \<Rightarrow> bool" where
  "is_list_call (PList r f) = True"
| "is_list_call _ = False"

lemma subtask_list_call_inj: "subtask_list_call u = subtask_list_call v \<longleftrightarrow> u = v"
  by (simp add: subtask_list_call_def failedSubtasksFilter_def squote_def)

text \<open>Every task that Prism returns has an id in U.\<close>

definition tasks_within :: "v4_client \<Rightarrow> string set \<Rightarrow> bool" where
  "tasks_within client U \<longleftrightarrow>
     (\<forall>h f ts t u. Tasks_List client h f = Inr ts \<longrightarrow> t \<in> set ts \<longrightarrow> tk_ExtId t = Some u \<longrightarrow> u \<in> U) \<and>
     (\<forall>h f t u. Tasks_Get client h f = Inr (Some t) \<longrightarrow> tk_ExtId t = Some u \<longrightarrow> u \<in> U)"

definition no_panic :: "v4_client \<Rightarrow> bool" where
  "no_panic client \<longleftrightarrow> (\<forall>h f. Tasks_List client h f \<noteq> Inl NilDeref \<and> Tasks_Get client h f \<noteq> Inl NilDeref)"

lemma get_child_run:
  assumes "no_panic client" "tasks_within client U" "\<forall>t\<in>set cs. \<forall>u. tk_ExtId t = Some u \<longrightarrow> u \<in> U"
  shows "\<exists>cs' t. get_child client ref cs s = (Inr cs', s\<lparr>trace := trace s @ t\<rparr>) \<and>
    filter is_list_call t = [] \<and> (\<forall>t\<in>set cs'. \<forall>u. tk_ExtId t = Some u \<longrightarrow> u \<in> U)"
proof (cases "ref = None \<or> ref = Some []")
  case True
  then have "get_child client ref cs s = (Inr cs, s\<lparr>trace := trace s @ []\<rparr>)"
    by (auto simp: get_child_def go_eval)
  then show ?thesis using assms(3) by (metis filter.simps(1))
next
  case False
  then obtain u where u: "ref = Some u" "u \<noteq> []" by auto
  have "Tasks_Get client (trace s) u \<noteq> Inl NilDeref" using assms(1) by (auto simp: no_panic_def)
  moreover have "tk_ExtId t = Some w \<longrightarrow> w \<in> U" if "Tasks_Get client (trace s) u = Inr (Some t)" for t w
    using assms(2) that by (auto simp: tasks_within_def)
  ultimately show ?thesis using u assms(3)
    by (cases "Tasks_Get client (trace s) u")
      (auto simp: get_child_def get_task_def go_eval split: option.split)
qed

lemma get_children_run:
  assumes "no_panic client" "tasks_within client U" "\<forall>t\<in>set cs. \<forall>u. tk_ExtId t = Some u \<longrightarrow> u \<in> U"
  shows "\<exists>cs' t. fold_go (get_child client) refs cs s = (Inr cs', s\<lparr>trace := trace s @ t\<rparr>) \<and>
    filter is_list_call t = [] \<and> (\<forall>t\<in>set cs'. \<forall>u. tk_ExtId t = Some u \<longrightarrow> u \<in> U)"
  using assms(3)
proof (induction refs arbitrary: cs s)
  case Nil
  then show ?case by (auto simp: go_eval intro!: exI [of _ "[]"])
next
  case (Cons r refs)
  obtain cs1 t1 where 1: "get_child client r cs s = (Inr cs1, s\<lparr>trace := trace s @ t1\<rparr>)"
    "filter is_list_call t1 = []" "\<forall>t\<in>set cs1. \<forall>u. tk_ExtId t = Some u \<longrightarrow> u \<in> U"
    using get_child_run [OF assms(1,2) Cons.prems] by blast
  from Cons.IH [OF 1(3), of "s\<lparr>trace := trace s @ t1\<rparr>"] obtain cs2 t2 where
    2: "fold_go (get_child client) refs cs1 (s\<lparr>trace := trace s @ t1\<rparr>) =
        (Inr cs2, s\<lparr>trace := trace s @ t1\<rparr>\<lparr>trace := trace (s\<lparr>trace := trace s @ t1\<rparr>) @ t2\<rparr>)"
    "filter is_list_call t2 = []" "\<forall>t\<in>set cs2. \<forall>u. tk_ExtId t = Some u \<longrightarrow> u \<in> U" by blast
  show ?case using 1 2
    by (intro exI [of _ cs2] exI [of _ "t1 @ t2"]) (simp add: go_eval)
qed

text \<open>What a run of the collection does: it answers, the tasks it lists are the ones it
  marks as visited, and it marks none twice.\<close>

definition collects ::
  "('z world_scheme, collected) go \<Rightarrow> string list \<Rightarrow> 'z world_scheme \<Rightarrow> bool" where
  "collects m visited s \<longleftrightarrow>
     (\<exists>ms new t. m s = (Inr (Some (ms, new @ visited)), s\<lparr>trace := trace s @ t\<rparr>) \<and>
        distinct new \<and> set new \<inter> set visited = {} \<and>
        filter is_list_call t = map subtask_list_call (rev new))"

lemma collect_children_run:
  assumes rec: "\<And>u visited s. u \<in> U \<Longrightarrow> V \<subseteq> set visited \<Longrightarrow> collects (recurse u visited) visited s"
    and "\<forall>t\<in>set children. \<forall>u. tk_ExtId t = Some u \<longrightarrow> u \<in> U" and "V \<subseteq> set visited"
  shows "collects (fold_go (collect_child recurse) children (Some (msgs, visited))) visited (s :: 'z world_scheme)"
  using assms(2,3)
proof (induction children arbitrary: msgs visited s)
  case Nil
  then show ?case
    by (auto simp: collects_def go_eval intro!: exI [of _ "[]"])
next
  case (Cons c cs msgs visited s)
  let ?u = "Deref (tk_ExtId c) []"
  show ?case
  proof (cases "tk_Status c = Some TaskFailed \<and> ?u \<noteq> []")
    case False
    then show ?thesis using Cons.IH [of visited] Cons.prems
      by (auto simp: collects_def collect_child_def go_eval Let_def)
  next
    case True
    then have "?u \<in> U" using Cons.prems by (cases "tk_ExtId c") auto
    with rec [of ?u visited s] Cons.prems obtain ms new t where
      1: "recurse ?u visited s = (Inr (Some (ms, new @ visited)), s\<lparr>trace := trace s @ t\<rparr>)"
      "distinct new" "set new \<inter> set visited = {}"
      "filter is_list_call t = map subtask_list_call (rev new)"
      by (auto simp: collects_def)
    have "V \<subseteq> set (new @ visited)" using Cons.prems by auto
    with Cons.IH [of "new @ visited" "msgs @ [formatTaskError (Some c)] @ ms" "s\<lparr>trace := trace s @ t\<rparr>"]
      Cons.prems obtain ms2 new2 t2 where
      2: "fold_go (collect_child recurse) cs (Some (msgs @ [formatTaskError (Some c)] @ ms, new @ visited))
            (s\<lparr>trace := trace s @ t\<rparr>) =
          (Inr (Some (ms2, new2 @ new @ visited)), s\<lparr>trace := trace s @ t @ t2\<rparr>)"
      "distinct new2" "set new2 \<inter> set (new @ visited) = {}"
      "filter is_list_call t2 = map subtask_list_call (rev new2)"
      by (auto simp: collects_def)
    have "fold_go (collect_child recurse) (c # cs) (Some (msgs, visited)) s =
        (Inr (Some (ms2, (new2 @ new) @ visited)), s\<lparr>trace := trace s @ t @ t2\<rparr>)"
      using True 1 2 by (simp add: go_eval collect_child_def Let_def)
    moreover have "distinct (new2 @ new)" "set (new2 @ new) \<inter> set visited = {}"
      "filter is_list_call (t @ t2) = map subtask_list_call (rev (new2 @ new))"
      using 1 2 by auto
    ultimately show ?thesis unfolding collects_def by blast
  qed
qed

lemma children_run:
  assumes "no_panic client" "tasks_within client U"
  shows "\<exists>children t.
    bnd (attempt (listFailedChildTasks client u)) (\<lambda>r. case r of
        Inl err \<Rightarrow> failedSubtasksFromParentGet client u | Inr children \<Rightarrow> ret children) s =
      (Inr children, s\<lparr>trace := trace s @ t\<rparr>) \<and>
    filter is_list_call t = [subtask_list_call u] \<and>
    (\<forall>t\<in>set children. \<forall>u. tk_ExtId t = Some u \<longrightarrow> u \<in> U)"
proof (cases "Tasks_List client (trace s) (failedSubtasksFilter u)")
  case (Inr cs)
  then have "\<forall>t\<in>set cs. \<forall>u. tk_ExtId t = Some u \<longrightarrow> u \<in> U"
    using assms(2) by (auto simp: tasks_within_def)
  with Inr show ?thesis
    by (intro exI [of _ cs] exI [of _ "[subtask_list_call u]"])
      (simp add: go_eval listFailedChildTasks_def Let_def subtask_list_call_def)
next
  case (Inl e)
  let ?s = "s\<lparr>trace := trace s @ [subtask_list_call u]\<rparr>"
  have l: "attempt (listFailedChildTasks client u) s = (Inr (Inl e), ?s)"
    using Inl assms(1) by (auto simp: go_eval listFailedChildTasks_def Let_def subtask_list_call_def no_panic_def)
  let ?t = "s\<lparr>trace := trace s @ [subtask_list_call u, PGet RTask u]\<rparr>"
  show ?thesis
  proof (cases "\<exists>p. Tasks_Get client (trace ?s) u = Inr (Some p)")
    case False
    then have "failedSubtasksFromParentGet client u ?s = (Inr [], ?t)"
      using assms(1) by (auto simp: failedSubtasksFromParentGet_def get_task_def go_eval no_panic_def
          split: sum.splits option.splits)
    with l show ?thesis
      by (intro exI [of _ "[]"] exI [of _ "[subtask_list_call u, PGet RTask u]"])
        (simp add: bnd_apply subtask_list_call_def)
  next
    case True
    then obtain p where "Tasks_Get client (trace ?s) u = Inr (Some p)" by blast
    then have g: "failedSubtasksFromParentGet client u ?s = fold_go (get_child client) (tk_SubTasks p) [] ?t"
      by (simp add: failedSubtasksFromParentGet_def get_task_def go_eval)
    obtain cs t where "fold_go (get_child client) (tk_SubTasks p) [] ?t =
        (Inr cs, ?t\<lparr>trace := trace ?t @ t\<rparr>)" "filter is_list_call t = []"
        "\<forall>t\<in>set cs. \<forall>u. tk_ExtId t = Some u \<longrightarrow> u \<in> U"
      using get_children_run [OF assms, of "[]" "tk_SubTasks p" ?t] by auto
    with l g show ?thesis
      by (intro exI [of _ cs] exI [of _ "[subtask_list_call u, PGet RTask u] @ t"])
        (simp add: bnd_apply subtask_list_call_def)
  qed
qed

lemma collect_enough_fuel:
  assumes "no_panic client" "tasks_within client U" "finite U"
  shows "u \<in> insert [] U \<Longrightarrow> card (U - set visited) < fuel \<Longrightarrow>
    collects (collectFailedSubtaskErrors client fuel u visited) visited (s :: 'z world_scheme)"
proof (induction fuel arbitrary: u visited s)
  case 0
  then show ?case by simp
next
  case (Suc fuel u visited s)
  show ?case
  proof (cases "u = [] \<or> u \<in> set visited")
    case True
    then show ?thesis by (auto simp: collects_def go_eval intro!: exI [of _ "[]"])
  next
    case False
    with Suc.prems have u: "u \<in> U" "u \<notin> set visited" "u \<noteq> []" by auto
    have sub: "insert u (set visited) \<subseteq> set w \<Longrightarrow> card (U - set w) < fuel" for w
    proof -
      assume "insert u (set visited) \<subseteq> set w"
      then have "U - set w \<subset> U - set visited" using u by auto
      then have "card (U - set w) < card (U - set visited)"
        using assms(3) by (intro psubset_card_mono) auto
      with Suc.prems(2) show ?thesis by simp
    qed
    have rec: "collects (collectFailedSubtaskErrors client fuel v w) w s'"
      if "v \<in> U" "insert u (set visited) \<subseteq> set w" for v w and s' :: "'z world_scheme"
      by (rule Suc.IH) (use that sub in auto)
    obtain children t where c:
      "bnd (attempt (listFailedChildTasks client u)) (\<lambda>r. case r of
          Inl err \<Rightarrow> failedSubtasksFromParentGet client u | Inr children \<Rightarrow> ret children) s =
        (Inr children, s\<lparr>trace := trace s @ t\<rparr>)"
      "filter is_list_call t = [subtask_list_call u]"
      "\<forall>t\<in>set children. \<forall>u. tk_ExtId t = Some u \<longrightarrow> u \<in> U"
      using children_run [OF assms(1,2), of u s] by blast
    have fin: "collects (fold_go (collect_child (collectFailedSubtaskErrors client fuel)) children
        (Some ([], u # visited))) (u # visited) (s\<lparr>trace := trace s @ t\<rparr>)"
      by (rule collect_children_run [where U = U and V = "insert u (set visited)"])
        (use rec c(3) in auto)
    then obtain ms new t2 where 2:
      "fold_go (collect_child (collectFailedSubtaskErrors client fuel)) children
        (Some ([], u # visited)) (s\<lparr>trace := trace s @ t\<rparr>) =
       (Inr (Some (ms, new @ u # visited)), s\<lparr>trace := trace s @ t @ t2\<rparr>)"
      "distinct new" "set new \<inter> set (u # visited) = {}"
      "filter is_list_call t2 = map subtask_list_call (rev new)"
      by (auto simp: collects_def)
    have "collectFailedSubtaskErrors client (Suc fuel) u visited s =
       (Inr (Some (ms, new @ u # visited)), s\<lparr>trace := trace s @ t @ t2\<rparr>)"
      using c(1) 2(1) u by (auto simp: go_eval split: prod.splits sum.splits)
    then show ?thesis unfolding collects_def
      by (intro exI [of _ ms] exI [of _ "new @ [u]"] exI [of _ "t @ t2"])
        (use 2 c u in auto)
  qed
qed

lemma enrich_keeps_parent:
  assumes "enrichTaskErrorWithFailedSubtasks fuel cl u e s = (Inr (Some e'), s')"
  shows "\<exists>post. Error_text e' = Error_text e @ post \<and> as_terminal e' = as_terminal e \<and>
    as_api_error e' = as_api_error e"
  using assms
  by (auto simp: enrichTaskErrorWithFailedSubtasks_def go_inv split: option.splits if_splits)

lemma collect_errs: "errs (\<lambda>e. e = NilDeref) (collectFailedSubtaskErrors client fuel u v)"
  by (induction fuel arbitrary: u v)
    (auto simp: collect_child_def failedSubtasksFromParentGet_def get_child_def Let_def
      intro!: errs_rules split: option.splits)

lemma enrich_errs: "errs (\<lambda>e. e = NilDeref) (enrichTaskErrorWithFailedSubtasks fuel cl u e)"
  unfolding enrichTaskErrorWithFailedSubtasks_def
  by (intro errs_rules collect_errs)

section \<open>Properties\<close>

text \<open>C21 The collection of failed subtasks terminates on every task graph Prism can
  return, cycles included: with as much fuel as there are tasks, and one more, it answers
  (no error, no panic), it lists the subtasks of a task at most once, and the tasks it has
  listed are exactly the ones it has marked as visited.\<close>

theorem collectFailedSubtaskErrors_terminates:
  assumes "no_panic client" "tasks_within client U" "finite U" "u \<in> U" "card U < fuel"
  shows "\<exists>ms new t. collectFailedSubtaskErrors client fuel u [] s =
      (Inr (Some (ms, new)), s\<lparr>trace := trace s @ t\<rparr>) \<and> distinct new \<and>
      filter is_list_call t = map subtask_list_call (rev new)"
  using collect_enough_fuel [OF assms(1-3), of u "[]" fuel s] assms(4,5)
  by (auto simp: collects_def)

text \<open>Two tasks, each the failed subtask of the other.\<close>

definition failed_task :: "string \<Rightarrow> string \<Rightarrow> prism_task" where
  "failed_task u m = \<lparr>tk_ExtId = Some u, tk_Status = Some TaskFailed, tk_Operation = Some ''op'',
     tk_OperationDescription = None, tk_ErrorMessages = [Some m, Some m],
     tk_LegacyErrorMessage = None, tk_SubTasks = []\<rparr>"

definition cyclic_client :: v4_client where
  "cyclic_client = base_v4_client\<lparr>Tasks_List := (\<lambda>h f.
     if f = failedSubtasksFilter ''a'' then Inr [failed_task ''b'' ''no lease'']
     else Inr [failed_task ''a'' ''again''])\<rparr>"

lemma cyclic_client_tasks: "no_panic cyclic_client \<and> tasks_within cyclic_client {''a'', ''b''}"
  by (auto simp: no_panic_def tasks_within_def cyclic_client_def base_v4_client_def no_service_def
      failed_task_def split: if_splits)

lemma collectFailedSubtaskErrors_terminates_witness:
  "\<exists>ms new t. collectFailedSubtaskErrors cyclic_client 3 ''a'' [] \<lparr>trace = []\<rparr> =
      (Inr (Some (ms, new)), \<lparr>trace = []\<rparr>\<lparr>trace := trace \<lparr>trace = []\<rparr> @ t\<rparr>) \<and> distinct new \<and>
      filter is_list_call t = map subtask_list_call (rev new)"
  by (rule collectFailedSubtaskErrors_terminates [where U = "{''a'', ''b''}"])
    (use cyclic_client_tasks in auto)

text \<open>The text of a failed task names every error message of the task once: the parts
  are distinct, and they are the non-empty messages and the legacy message, or the single
  note that there is none.\<close>

theorem formatTaskError_parts:
  "distinct (task_error_parts (Some t)) \<and> task_error_parts (Some t) \<noteq> [] \<and>
   set (task_error_parts (Some t)) =
     (let ms = {m. m \<noteq> [] \<and> (Some m \<in> set (tk_ErrorMessages t) \<or> tk_LegacyErrorMessage t = Some m)}
      in if ms = {} then {''no error message provided''} else ms)"
proof (intro conjI)
  show "distinct (task_error_parts (Some t))" by (rule task_error_parts_distinct)
  show "task_error_parts (Some t) \<noteq> []" by (simp add: task_error_parts_def Let_def)
qed (rule task_error_parts_set)

text \<open>A failed wait keeps its error: whatever the subtasks are, the error that
  waitForConvergedOperation returns starts with the text of the error of Wait, and the
  classification into terminal and API errors that decides on a retry is the same.\<close>

theorem wait_error_keeps_classification:
  assumes "waitForConvergedOperation fuel cl (Some op) s = (Inl e', s')"
    and "op_Wait op (trace s) = Inl e" and "e' \<noteq> NilDeref"
  shows "\<exists>post. Error_text e' = Error_text e @ post \<and> isTerminalError e' = isTerminalError e \<and>
    as_api_error e' = as_api_error e"
proof -
  let ?m = "enrichTaskErrorWithFailedSubtasks fuel cl (op_UUID op) e"
  let ?s = "s\<lparr>trace := trace s @ [PRead RTask ''Wait'' [op_UUID op]]\<rparr>"
  have "?m ?s = (Inr (Some e'), s')"
    using assms by (auto simp: waitForConvergedOperation_def go_eval
        split: if_splits prod.splits sum.splits option.splits dest: errsD [OF enrich_errs])
  with enrich_keeps_parent show ?thesis unfolding isTerminalError_def by blast
qed

text \<open>An operation that fails with a terminal error, and a client that names a subtask.\<close>

definition failing_op :: "unit operation" where
  "failing_op = \<lparr>op_UUID = ''b'', op_Wait = (\<lambda>h. Inl (Terminal ''task failed''))\<rparr>"

lemma wait_error_keeps_classification_witness:
  "isTerminalError (Wrap [] (Terminal ''task failed'') ''; failed_subtasks: [op] again; [op] no lease'')"
proof -
  have "waitForConvergedOperation 3 (Some cyclic_client) (Some failing_op) \<lparr>trace = []\<rparr> =
    (Inl (Wrap [] (Terminal ''task failed'') ''; failed_subtasks: [op] again; [op] no lease''),
     \<lparr>trace = [PRead RTask ''Wait'' [''b''], subtask_list_call ''b'', subtask_list_call ''a'']\<rparr>)"
    by code_simp
  from wait_error_keeps_classification [OF this] show ?thesis
    by (auto simp: failing_op_def isTerminalError_def)
qed

end
