(* ===== verification/Lookup.thy ===== *)
theory Lookup
  imports External Versions
begin

text \<open>
  Resolution of the Prism resources a machine names (controllers/helpers.go): Prism
  Elements, subnets, images, VM profiles and storage containers by UUID or by name, in
  the scope of a project or without one, the image lookup by template, and the two task
  queries.

  A nil project name in an error message is a panic of the source (*project.Name) and
  here the error NilDeref.  The selection among the matches of a name is the same in the
  three project-aware lookups of the source and is one definition here
  (pick_owned_then_shared); the locale scoped_resource states what it promises, once for
  all resources that know owners and sharing.
\<close>

section \<open>Projects as scopes\<close>

record ProjectInfo =
  pi_ExtID :: "string option"
  pi_Name :: "string option"

definition project_ext_id :: "ProjectInfo option \<Rightarrow> string option" where
  "project_ext_id project = (case project of None \<Rightarrow> None | Some p \<Rightarrow> pi_ExtID p)"

definition project_aware :: "ProjectInfo option \<Rightarrow> string \<Rightarrow> bool" where
  "project_aware project pcVersion =
     (isPCVersionHigherThan75 pcVersion \<and> project_ext_id project \<noteq> None)"

text \<open>An error that mentions *project.Name.\<close>

definition project_error :: "ProjectInfo option \<Rightarrow> (string \<Rightarrow> go_error) \<Rightarrow> go_error + 'a" where
  "project_error project f =
     rbnd (rderef project) (\<lambda>p. rbnd (rderef (pi_Name p)) (\<lambda>n. Inl (f n)))"

definition name_filter :: "string \<Rightarrow> string" where
  "name_filter n = ''name eq '' @ squote n"

definition get_wrapper :: "v4_client \<Rightarrow> string \<Rightarrow> string \<Rightarrow> go_error \<Rightarrow> go_error" where
  "get_wrapper client what u e =
     (if IsNotFound client e then Wrap (''failed to find '' @ what @ '' with UUID '' @ u @ '': '') e []
      else Wrap (''failed to get '' @ what @ '' with UUID '' @ u @ '': '') e [])"

text \<open>The unique element of the matches, or the error for none and for several.\<close>

definition pick_single :: "'a list \<Rightarrow> go_error \<Rightarrow> go_error \<Rightarrow> go_error + 'a" where
  "pick_single xs none_error many_error =
     (case xs of [] \<Rightarrow> Inl none_error | [x] \<Rightarrow> Inr x | _ \<Rightarrow> Inl many_error)"

definition pick_owned_then_shared ::
  "ProjectInfo option \<Rightarrow> string \<Rightarrow> string \<Rightarrow> (string \<Rightarrow> string) \<Rightarrow> 'a list \<Rightarrow> 'a list \<Rightarrow>
   go_error + 'a" where
  "pick_owned_then_shared project what name none_message owned shared =
     (if length owned = 1 then Inr (hd owned)
      else if length owned > 1 then project_error project (\<lambda>p.
        Leaf (''more than one '' @ what @ '' found with name '' @ name @ '' owned by project '' @ p))
      else if length shared = 1 then Inr (hd shared)
      else if length shared > 1 then project_error project (\<lambda>p.
        Leaf (''more than one '' @ what @ '' found with name '' @ name @ '' shared with project '' @ p @
              '' and none owned by it''))
      else project_error project (\<lambda>p. Terminal (none_message p)))"

section \<open>Prism Elements\<close>

definition hasPEClusterServiceEnabled :: "pe_cluster \<Rightarrow> bool" where
  "hasPEClusterServiceEnabled peCluster =
     (case pcl_Config peCluster of
        None \<Rightarrow> False
      | Some cfg \<Rightarrow> list_ex (\<lambda>s. ToUpper s = ''AOS'') (pcf_ClusterFunction cfg))"

definition GetPECluster :: "v4_client \<Rightarrow> string \<Rightarrow> ('z world_scheme, pe_cluster option) go" where
  "GetPECluster client peUUID =
     wrapping (get_wrapper client ''Prism Element cluster'' peUUID)
       (ext (PGet RCluster peUUID) (\<lambda>h. Clusters_Get client h peUUID))"

text \<open>The loop over the clusters of a name; a cluster without a name is a panic.\<close>

fun matching_clusters :: "string \<Rightarrow> pe_cluster list \<Rightarrow> go_error + pe_cluster list" where
  "matching_clusters peName [] = Inr []"
| "matching_clusters peName (s # ss) =
     rbnd (rderef (pcl_Name s)) (\<lambda>n.
     rbnd (matching_clusters peName ss) (\<lambda>rest.
       Inr (if EqualFold n peName \<and> hasPEClusterServiceEnabled s then s # rest else rest)))"

definition GetPEClusterByIdentifier ::
  "v4_client option \<Rightarrow> string option \<Rightarrow> string option \<Rightarrow> ('z world_scheme, pe_cluster option) go" where
  "GetPEClusterByIdentifier client_p peName peUUID =
     (case client_p of
        None \<Rightarrow> raise (Leaf ''cannot retrieve Prism Element cluster if nutanix client is nil'')
      | Some client \<Rightarrow>
          if peUUID \<noteq> None \<and> peUUID \<noteq> Some [] then GetPECluster client (the peUUID)
          else if peName \<noteq> None \<and> peName \<noteq> Some [] then
            (let n = the peName in
             bnd (ext (PList RCluster (name_filter n)) (\<lambda>h. Clusters_List client h (name_filter n)))
               (\<lambda>responsePEs. bnd (of_result (matching_clusters n responsePEs)) (\<lambda>foundPEs.
                 of_result (map_sum id Some (pick_single foundPEs
                   (Terminal (''failed to retrieve Prism Element cluster by name '' @ n))
                   (Leaf (''more than one Prism Element cluster found with name '' @ n)))))))
          else raise (Leaf ''failed to retrieve Prism Element cluster by name or uuid. Verify input parameters''))"

definition IsPEAvailable :: "v4_client \<Rightarrow> string \<Rightarrow> ('z world_scheme, bool) go" where
  "IsPEAvailable client peUUID =
     bnd (GetPECluster client peUUID) (\<lambda>pe_p. bnd (deref pe_p) (\<lambda>pe.
       ret (case pcl_Config pe of
              None \<Rightarrow> False
            | Some cfg \<Rightarrow> (case pcf_IsAvailable cfg of None \<Rightarrow> False | Some b \<Rightarrow> b))))"

definition resolvePEFromResourceGroup ::
  "v4_client \<Rightarrow> resource_group \<Rightarrow> string option \<Rightarrow> string option \<Rightarrow> ('z world_scheme, string) go" where
  "resolvePEFromResourceGroup client rg peName peUUID =
     (case rg_ExtId rg of
        None \<Rightarrow> raise (Leaf ''resource group has no ExtId; cannot resolve Prism Element'')
      | Some rgid \<Rightarrow>
          bnd (wrapping (\<lambda>e. Wrap (''failed to list Prism Elements for resource group '' @ rgid @ '': '') e [])
                (ext (PRead RResourceGroup ''ListPrismElements'' [rgid])
                  (\<lambda>h. ResourceGroups_ListPrismElements client h rgid))) (\<lambda>prismElements.
          if peUUID \<noteq> None \<and> peUUID \<noteq> Some [] then
            (if list_ex (\<lambda>pe. pei_ExtId pe = the peUUID) prismElements then ret (the peUUID)
             else raise (Terminal (''Prism Element cluster with UUID '' @ the peUUID @
                    '' is not authorized for this project (not in resource group)'')))
          else bnd (deref peName) (\<lambda>n.
            of_result (pick_single (map pei_ExtId (filter (\<lambda>pe. EqualFold (pei_Name pe) n) prismElements))
              (Terminal (''failed to retrieve Prism Element cluster by name '' @ n @
                 '' in this project'' @ [CHR 0x27] @ ''s resource group''))
              (Leaf (''more than one Prism Element cluster found with name '' @ n @
                 '' in this project'' @ [CHR 0x27] @ ''s resource group''))))))"

definition GetPEUUID ::
  "v4_client option \<Rightarrow> resource_group option \<Rightarrow> string option \<Rightarrow> string option \<Rightarrow>
   ('z world_scheme, string) go" where
  "GetPEUUID client_p rg_p peName peUUID =
     (case client_p of
        None \<Rightarrow> raise (Leaf ''cannot retrieve Prism Element UUID if nutanix client is nil'')
      | Some client \<Rightarrow>
          if peUUID = None \<and> peName = None
          then raise (Leaf ''cluster name or uuid must be passed in order to retrieve the Prism Element UUID'')
          else (case rg_p of
                  Some rg \<Rightarrow> resolvePEFromResourceGroup client rg peName peUUID
                | None \<Rightarrow> bnd (GetPEClusterByIdentifier (Some client) peName peUUID) (\<lambda>pe_p.
                    bnd (deref pe_p) (\<lambda>pe. ret (Deref (pcl_ExtId pe) [])))))"

section \<open>Subnets\<close>

definition subnetTypeOverlay :: string where "subnetTypeOverlay = ''OVERLAY''"

definition subnetBelongsToCluster :: "subnet \<Rightarrow> string \<Rightarrow> bool" where
  "subnetBelongsToCluster sn peUUID =
     (sn_ClusterReference sn = Some peUUID \<or> List.member (sn_ClusterReferenceList sn) peUUID)"

definition isSubnetUsableForProject :: "subnet option \<Rightarrow> string \<Rightarrow> bool" where
  "isSubnetUsableForProject sn_p projectExtID =
     (case sn_p of
        None \<Rightarrow> False
      | Some sn \<Rightarrow> sn_ProjectExtId sn = Some projectExtID \<or> List.member (sn_SharedWithProjects sn) projectExtID)"

definition subnetReachableFromPE :: "subnet \<Rightarrow> string \<Rightarrow> bool" where
  "subnetReachableFromPE sn peUUID =
     (if sn_SubnetType sn = Some subnetTypeOverlay then True else subnetBelongsToCluster sn peUUID)"

definition subnet_name_matches :: "string \<Rightarrow> string \<Rightarrow> subnet \<Rightarrow> bool" where
  "subnet_name_matches name peUUID sn =
     ((case sn_Name sn of None \<Rightarrow> False | Some n \<Rightarrow> sn_SubnetType sn \<noteq> None \<and> EqualFold n name) \<and>
      subnetReachableFromPE sn peUUID)"

definition GetSubnet ::
  "v4_client \<Rightarrow> string \<Rightarrow> string option \<Rightarrow> string option \<Rightarrow> ProjectInfo option \<Rightarrow> string \<Rightarrow>
   ('z world_scheme, subnet option) go" where
  "GetSubnet client peUUID subnetName subnetUUID project pcVersion =
     (if subnetUUID = None \<and> subnetName = None
      then raise (Leaf ''subnet name or subnet uuid must be passed in order to retrieve the subnet'')
      else
        (let projectAware = project_aware project pcVersion; pid = the (project_ext_id project) in
         case subnetUUID of
           Some u \<Rightarrow>
             bnd (wrapping (get_wrapper client ''subnet'' u)
                   (ext (PGet RSubnet u) (\<lambda>h. Subnets_Get client h u))) (\<lambda>subnetResp.
             if projectAware \<and> \<not> isSubnetUsableForProject subnetResp pid
             then of_result (project_error project (\<lambda>p.
                    Terminal (''subnet with UUID '' @ u @ '' is not accessible in project '' @ p)))
             else ret subnetResp)
         | None \<Rightarrow>
             (let n = the subnetName in
              bnd (ext (PList RSubnet (name_filter n)) (\<lambda>h. Subnets_List client h (name_filter n)))
                (\<lambda>responseSubnets.
                let found = filter (subnet_name_matches n peUUID) responseSubnets in
                of_result (map_sum id Some
                  (if \<not> projectAware then
                     pick_single found
                       (Terminal (''failed to retrieve subnet by name '' @ n))
                       (Leaf (''more than one subnet found with name '' @ n))
                   else
                     (let usable = filter (\<lambda>s. isSubnetUsableForProject (Some s) pid) found in
                      pick_owned_then_shared project ''subnet'' n
                        (\<lambda>p. ''failed to retrieve subnet by name '' @ n @ '' in project '' @ p)
                        (filter (\<lambda>s. sn_ProjectExtId s = Some pid) usable)
                        (filter (\<lambda>s. sn_ProjectExtId s \<noteq> Some pid) usable))))))))"

definition GetSubnetUUID ::
  "v4_client \<Rightarrow> string \<Rightarrow> string option \<Rightarrow> string option \<Rightarrow> ProjectInfo option \<Rightarrow> string \<Rightarrow>
   ('z world_scheme, string) go" where
  "GetSubnetUUID client peUUID subnetName subnetUUID project pcVersion =
     bnd (GetSubnet client peUUID subnetName subnetUUID project pcVersion) (\<lambda>sn_p.
     bnd (deref sn_p) (\<lambda>sn.
       let foundSubnetUUID = Deref (sn_ExtId sn) [] in
       if foundSubnetUUID = []
       then raise (Leaf ''failed to retrieve subnet by name or uuid. Verify input parameters'')
       else ret foundSubnetUUID))"

definition GetSubnetUUIDList ::
  "v4_client \<Rightarrow> NutanixResourceIdentifier list \<Rightarrow> string \<Rightarrow> ProjectInfo option \<Rightarrow> string \<Rightarrow>
   ('z world_scheme, string list) go" where
  "GetSubnetUUIDList client machineSubnets peUUID project pcVersion =
     map_go (\<lambda>sn. GetSubnetUUID client peUUID (id_Name sn) (id_UUID sn) project pcVersion) machineSubnets"

definition subnetNetworkKey :: "subnet option \<Rightarrow> string" where
  "subnetNetworkKey s_p =
     (case s_p of
        None \<Rightarrow> ''UNKNOWN||''
      | Some s \<Rightarrow>
          (let layer = (case sn_SubnetType s of None \<Rightarrow> ''UNKNOWN'' | Some t \<Rightarrow> t);
               vlanID = (case sn_NetworkId s of None \<Rightarrow> [] | Some i \<Rightarrow> show_int i);
               cidr = Deref (sn_IpPrefix s) []
           in layer @ ''|'' @ vlanID @ ''|'' @ cidr))"

definition subnetNetworkKeys ::
  "v4_client option \<Rightarrow> NutanixResourceIdentifier list \<Rightarrow> NutanixResourceIdentifier \<Rightarrow>
   ('z world_scheme, string list) go" where
  "subnetNetworkKeys client_p ids pe =
     (case client_p of
        None \<Rightarrow> raise (Leaf ''cannot retrieve subnet network keys if nutanix client is nil'')
      | Some client \<Rightarrow>
          bnd (GetPEUUID (Some client) None (id_Name pe) (id_UUID pe)) (\<lambda>peUUID.
          map_go (\<lambda>i.
            bnd (wrapping (\<lambda>e. Wrap (''failed to resolve subnet '' @ id_DisplayString i @ '': '') e [])
                  (GetSubnet client peUUID (id_Name i) (id_UUID i) None [])) (\<lambda>sn.
            ret (subnetNetworkKey sn))) ids))"

fun consume_remaining :: "(string \<Rightarrow> nat) \<Rightarrow> string list \<Rightarrow> bool" where
  "consume_remaining remaining [] = True"
| "consume_remaining remaining (s # ss) =
     (if remaining s = 0 then False
      else consume_remaining (remaining(s := remaining s - 1)) ss)"

definition stringSliceSetEquals :: "string list \<Rightarrow> string list \<Rightarrow> bool" where
  "stringSliceSetEquals a b =
     (if length a \<noteq> length b then False
      else consume_remaining (foldl (\<lambda>r s. r(s := r s + 1)) (\<lambda>_. 0) b) a)"

definition metroSubnetsMatch ::
  "v4_client option \<Rightarrow> NutanixResourceIdentifier list \<Rightarrow> NutanixResourceIdentifier list \<Rightarrow>
   NutanixResourceIdentifier \<Rightarrow> NutanixResourceIdentifier \<Rightarrow>
   ('z world_scheme, bool \<times> string list \<times> string list) go" where
  "metroSubnetsMatch client machineSubnets fdSubnets machinePE fdPE =
     bnd (wrapping (\<lambda>e. Wrap ''failed to resolve NutanixMachine subnet network keys: '' e [])
           (subnetNetworkKeys client machineSubnets machinePE)) (\<lambda>machineKeys.
     bnd (wrapping (\<lambda>e. Wrap ''failed to resolve NutanixFailureDomain subnet network keys: '' e [])
           (subnetNetworkKeys client fdSubnets fdPE)) (\<lambda>fdKeys.
     ret (stringSliceSetEquals machineKeys fdKeys, machineKeys, fdKeys)))"

section \<open>Images\<close>

definition isImageUsableForProject :: "prism_image option \<Rightarrow> string \<Rightarrow> bool" where
  "isImageUsableForProject img_p projectExtID =
     (case img_p of
        None \<Rightarrow> False
      | Some img \<Rightarrow>
          if im_ProjectExtId img = Some projectExtID then True
          else if im_IsSharedWithAllProjects img = Some True then True
          else False)"

definition image_name_matches :: "string \<Rightarrow> prism_image \<Rightarrow> bool" where
  "image_name_matches name img = (case im_Name img of None \<Rightarrow> False | Some n \<Rightarrow> EqualFold n name)"

definition GetImage ::
  "v4_client \<Rightarrow> NutanixResourceIdentifier \<Rightarrow> ProjectInfo option \<Rightarrow> string \<Rightarrow>
   ('z world_scheme, prism_image option) go" where
  "GetImage client i project pcVersion =
     (let projectAware = project_aware project pcVersion; pid = the (project_ext_id project) in
      if IsUUID i then
        (let u = the (id_UUID i) in
         bnd (wrapping (get_wrapper client ''image'' u)
               (ext (PGet RImage u) (\<lambda>h. Images_Get client h u))) (\<lambda>resp.
         if projectAware \<and> \<not> isImageUsableForProject resp pid
         then of_result (project_error project (\<lambda>p.
                Terminal (''image with UUID '' @ u @ '' is not accessible in project '' @ p)))
         else ret resp))
      else if IsName i then
        (let n = the (id_Name i) in
         bnd (ext (PList RImage (name_filter n)) (\<lambda>h. Images_List client h (name_filter n)))
           (\<lambda>responseImages.
           let found = filter (image_name_matches n) responseImages in
           of_result (map_sum id Some
             (if \<not> projectAware then
                pick_single found
                  (Terminal (''found no image with name '' @ n))
                  (Leaf (''more than one image found with name '' @ n))
              else
                (let usable = filter (\<lambda>m. isImageUsableForProject (Some m) pid) found in
                 pick_owned_then_shared project ''image'' n
                   (\<lambda>p. ''found no image with name '' @ n @ '' accessible in project '' @ p)
                   (filter (\<lambda>m. im_ProjectExtId m = Some pid) usable)
                   (filter (\<lambda>m. im_ProjectExtId m \<noteq> Some pid) usable))))))
      else raise (Leaf ''image identifier is missing both name and uuid''))"

text \<open>text/template and regexp, applied to a template and a pattern the user writes, are
  parameters: parse and execute a template, compile an expression.\<close>

record ImageLookup =
  lk_BaseOS :: string
  lk_K8sVersion :: string

record text_library =
  template_parse :: "string \<Rightarrow> go_error + unit"
  template_execute :: "string \<Rightarrow> ImageLookup \<Rightarrow> go_error + string"
  regexp_compile :: "string \<Rightarrow> go_error + (string \<Rightarrow> bool)"

text \<open>The order of sort.Slice: later creation times first, images without one last.\<close>

definition image_newer :: "prism_image \<Rightarrow> prism_image \<Rightarrow> bool" where
  "image_newer a b =
     (case (im_CreateTime a, im_CreateTime b) of
        (Some s, Some t) \<Rightarrow> s > t
      | (x, y) \<Rightarrow> x \<noteq> None)"

definition sortImagesByLatestCreationTime :: "prism_image list \<Rightarrow> prism_image list" where
  "sortImagesByLatestCreationTime images = sort_slice image_newer images"

text \<open>The partition of the matching images: those the project owns, or the shared ones when
  it owns none; without a project all of them.\<close>

definition lookup_candidates ::
  "ProjectInfo option \<Rightarrow> string \<Rightarrow> (string \<Rightarrow> bool) \<Rightarrow> prism_image list \<Rightarrow> prism_image list" where
  "lookup_candidates project pcVersion re responseImages =
     (let projectAware = project_aware project pcVersion; pid = the (project_ext_id project);
          matching = filter (\<lambda>m. case im_Name m of None \<Rightarrow> False | Some n \<Rightarrow> re n) responseImages;
          usable = filter (\<lambda>m. \<not> projectAware \<or> isImageUsableForProject (Some m) pid) matching;
          owned = filter (\<lambda>m. \<not> projectAware \<or> im_ProjectExtId m = Some pid) usable;
          shared = filter (\<lambda>m. \<not> (\<not> projectAware \<or> im_ProjectExtId m = Some pid)) usable
      in if owned = [] then shared else owned)"

text \<open>strings.Replace with count 1 removes the first v of the version.\<close>

definition GetImageByLookup ::
  "text_library \<Rightarrow> v4_client \<Rightarrow> string option \<Rightarrow> string option \<Rightarrow> string option \<Rightarrow>
   ProjectInfo option \<Rightarrow> string \<Rightarrow> ('z world_scheme, prism_image) go" where
  "GetImageByLookup lib client imageTemplate imageLookupBaseOS k8sVersion project pcVersion =
     (case (imageTemplate, imageLookupBaseOS, k8sVersion) of
        (Some tpl, Some baseOS, Some version0) \<Rightarrow>
          (let version = (if List.member version0 (CHR ''v'') then remove1 (CHR ''v'') version0 else version0);
               params = \<lparr>lk_BaseOS = baseOS, lk_K8sVersion = version\<rparr> in
           bnd (wrapping (\<lambda>e. Wrap (''failed to parse template given '' @ tpl @ '': '') e [])
                 (of_result (template_parse lib tpl))) (\<lambda>_.
           bnd (wrapping (\<lambda>e. Wrap (''failed to substitute string '' @ tpl @ '' with params error: '') e [])
                 (of_result (template_execute lib tpl params))) (\<lambda>pattern.
           bnd (ext (PList RImage []) (\<lambda>h. Images_List client h [])) (\<lambda>responseImages.
           bnd (wrapping (\<lambda>e. Wrap (''failed to compile image lookup regex '' @ dquote pattern @ '': '') e [])
                 (of_result (regexp_compile lib pattern))) (\<lambda>re.
           let projectAware = project_aware project pcVersion;
               sorted_images = sortImagesByLatestCreationTime (lookup_candidates project pcVersion re responseImages)
           in case sorted_images of
                [] \<Rightarrow>
                  if projectAware then of_result (project_error project (\<lambda>p.
                    Terminal (''failed to find image with filter '' @ pattern @ '' accessible in project '' @ p)))
                  else raise (Terminal (''failed to find image with filter '' @ pattern))
              | m # ms \<Rightarrow> ret m)))))
      | _ \<Rightarrow> raise (Leaf ''image lookup requires non-nil imageTemplate, imageLookupBaseOS, and k8sVersion''))"

definition ImageMarkedForDeletion :: "v4_client \<Rightarrow> prism_image \<Rightarrow> ('z world_scheme, bool) go" where
  "ImageMarkedForDeletion client img =
     bnd (deref (im_ExtId img)) (\<lambda>u.
       let f = ''entitiesAffected/any(a:a/extId eq '' @ squote u @ '') '' @
               ''and (status eq Prism.Config.TaskStatus'' @ squote ''RUNNING'' @
               '' or status eq Prism.Config.TaskStatus'' @ squote ''QUEUED'' @ '') '' @
               ''and (operation eq '' @ squote ''kImageDelete'' @ '')''
       in bnd (ext (PList RTask f) (\<lambda>h. Tasks_List client h f)) (\<lambda>tasks. ret (tasks \<noteq> [])))"

section \<open>VM profiles\<close>

definition isVMProfileUsableForProject :: "vm_profile option \<Rightarrow> string \<Rightarrow> bool" where
  "isVMProfileUsableForProject profile_p projectExtID =
     (case profile_p of
        None \<Rightarrow> False
      | Some p \<Rightarrow> vp_ProjectExtId p = Some projectExtID \<or> List.member (vp_SharedWithProjects p) projectExtID)"

definition profile_name_matches :: "string \<Rightarrow> vm_profile \<Rightarrow> bool" where
  "profile_name_matches name p = (case vp_Name p of None \<Rightarrow> False | Some n \<Rightarrow> EqualFold n name)"

definition GetVMProfile ::
  "v4_client \<Rightarrow> NutanixResourceIdentifier \<Rightarrow> ProjectInfo option \<Rightarrow>
   ('z world_scheme, vm_profile option) go" where
  "GetVMProfile client i project =
     (case project_ext_id project of
        None \<Rightarrow> raise (Leaf (''project must be set to look up VM profile '' @ id_String i))
      | Some pid \<Rightarrow>
          if IsUUID i then
            (let u = the (id_UUID i) in
             bnd (wrapping (\<lambda>e. Wrap (''failed to find VM profile with UUID '' @ u @ '': '') e [])
                   (ext (PGet RVMProfile u) (\<lambda>h. VMProfiles_Get client h u))) (\<lambda>profile.
             if \<not> isVMProfileUsableForProject profile pid
             then of_result (project_error project (\<lambda>p.
                    Terminal (''VM profile with UUID '' @ u @ '' is not accessible in project '' @ p)))
             else ret profile))
          else if IsName i then
            (let n = the (id_Name i) in
             bnd (ext (PList RVMProfile (name_filter n)) (\<lambda>h. VMProfiles_List client h (name_filter n)))
               (\<lambda>responseProfiles.
               let usable = filter (\<lambda>p. isVMProfileUsableForProject (Some p) pid)
                              (filter (profile_name_matches n) responseProfiles) in
               of_result (map_sum id Some
                 (pick_owned_then_shared project ''VM profile'' n
                   (\<lambda>p. ''found no VM profile with name '' @ n @ '' accessible in project '' @ p)
                   (filter (\<lambda>p. vp_ProjectExtId p = Some pid) usable)
                   (filter (\<lambda>p. vp_ProjectExtId p \<noteq> Some pid) usable)))))
          else raise (Leaf ''VM profile identifier is missing both name and uuid''))"

section \<open>Storage containers\<close>

definition prismElementInfoMatches :: "PrismElementInfo \<Rightarrow> NutanixResourceIdentifier \<Rightarrow> bool" where
  "prismElementInfoMatches pe peID =
     (if IsUUID peID then pei_ExtId pe = the (id_UUID peID)
      else if IsName peID then EqualFold (pei_Name pe) (the (id_Name peID))
      else False)"

definition storageContainerInfoMatches :: "StorageContainerInfo \<Rightarrow> NutanixResourceIdentifier \<Rightarrow> bool" where
  "storageContainerInfoMatches scInfo sc =
     (if IsUUID sc then sci_ExtId scInfo = the (id_UUID sc)
      else if IsName sc then EqualFold (sci_Name scInfo) (the (id_Name sc))
      else False)"

definition resolveStorageContainerFromResourceGroup ::
  "v4_client \<Rightarrow> resource_group \<Rightarrow> NutanixResourceIdentifier \<Rightarrow> NutanixResourceIdentifier \<Rightarrow>
   ('z world_scheme, storage_container) go" where
  "resolveStorageContainerFromResourceGroup client rg sc peID =
     (case rg_ExtId rg of
        None \<Rightarrow> raise (Leaf ''resource group has no ExtId; cannot resolve storage container'')
      | Some rgid \<Rightarrow>
          bnd (wrapping (\<lambda>e. Wrap (''failed to list storage containers for resource group '' @ rgid @ '': '') e [])
                (ext (PRead RResourceGroup ''ListStorageContainers'' [rgid])
                  (\<lambda>h. ResourceGroups_ListStorageContainers client h rgid))) (\<lambda>storageContainers.
          case find (\<lambda>i. prismElementInfoMatches (sci_PrismElement i) peID \<and>
                         storageContainerInfoMatches i sc) storageContainers of
            Some i \<Rightarrow> ret \<lparr>stc_ContainerExtId = Some (sci_ExtId i), stc_Name = Some (sci_Name i),
                            stc_ClusterExtId = Some (pei_ExtId (sci_PrismElement i)),
                            stc_ClusterName = Some (pei_Name (sci_PrismElement i))\<rparr>
          | None \<Rightarrow>
              (let peName = (case find (\<lambda>i. prismElementInfoMatches (sci_PrismElement i) peID \<and>
                                           pei_Name (sci_PrismElement i) \<noteq> []) storageContainers of
                               Some i \<Rightarrow> pei_Name (sci_PrismElement i) | None \<Rightarrow> id_String peID)
               in raise (Terminal (''no storage container '' @ id_String sc @
                    '' found in resource group which is associated with prism element '' @ peName)))))"

definition GetStorageContainerInCluster ::
  "v4_client \<Rightarrow> resource_group option \<Rightarrow> NutanixResourceIdentifier \<Rightarrow> NutanixResourceIdentifier \<Rightarrow>
   ('z world_scheme, storage_container) go" where
  "GetStorageContainerInCluster client rg_p sc clusterIdentifier =
     (case rg_p of
        Some rg \<Rightarrow> resolveStorageContainerFromResourceGroup client rg sc clusterIdentifier
      | None \<Rightarrow>
          if \<not> IsUUID sc \<and> \<not> IsName sc
          then raise (Leaf ''storage container identifier is missing both name and uuid'')
          else if \<not> IsUUID clusterIdentifier \<and> \<not> IsName clusterIdentifier
          then raise (Leaf ''cluster identifier is missing both name and uuid'')
          else
            (let f1 = (if IsUUID sc then ''containerExtId eq '' @ squote (the (id_UUID sc))
                       else ''name eq '' @ squote (the (id_Name sc)));
                 f = (if IsUUID clusterIdentifier
                      then f1 @ '' and clusterExtId eq '' @ squote (the (id_UUID clusterIdentifier))
                      else f1 @ '' and clusterName eq '' @ squote (the (id_Name clusterIdentifier)))
             in bnd (ext (PList RStorageContainer f) (\<lambda>h. StorageContainers_List client h f)) (\<lambda>scs.
                case scs of
                  [] \<Rightarrow> raise (Terminal (''found no storage container using filter: '' @ f))
                | c # cs \<Rightarrow> ret c)))"

section \<open>Running tasks of a VM\<close>

definition vm_task_filter :: "string \<Rightarrow> string option \<Rightarrow> string \<Rightarrow> string" where
  "vm_task_filter vmExtId projectExtID pcVersion =
     ''entitiesAffected/any(a:a/extId eq '' @ squote vmExtId @ '') '' @
     ''and (status eq Prism.Config.TaskStatus'' @ squote ''RUNNING'' @
     '' or status eq Prism.Config.TaskStatus'' @ squote ''QUEUED'' @ '')'' @
     (if isPCVersionHigherThan75 pcVersion \<and> projectExtID \<noteq> None
      then '' and projectExtId eq '' @ squote (the projectExtID) else [])"

definition VmHasTaskInProgress ::
  "v4_client \<Rightarrow> string \<Rightarrow> string option \<Rightarrow> string \<Rightarrow> ('z world_scheme, bool) go" where
  "VmHasTaskInProgress client vmExtId projectExtID pcVersion =
     (if vmExtId = [] then raise (Leaf ''cannot extract task uuid for empty vm extId'')
      else
        (let f = vm_task_filter vmExtId projectExtID pcVersion in
         bnd (ext (PList RTask f) (\<lambda>h. Tasks_List client h f)) (\<lambda>tasks.
         let identified = filter (\<lambda>t. tk_Status t \<noteq> None \<and> tk_ExtId t \<noteq> None) tasks;
             running = filter (\<lambda>t. tk_Status t = Some TaskRunning) identified;
             queued = filter (\<lambda>t. tk_Status t = Some TaskQueued) identified
         in ret (running \<noteq> [] \<or> queued \<noteq> []))))"

section \<open>What a scoped selection promises\<close>

lemma filter_eq_singleton: "filter P xs = [x] \<Longrightarrow> x \<in> set xs \<and> P x"
  by (metis list.set_intros(1) mem_Collect_eq set_filter)

locale scoped_resource =
  fixes usable :: "'a \<Rightarrow> string \<Rightarrow> bool"
    and owner :: "'a \<Rightarrow> string option"
  assumes owned_usable: "owner x = Some p \<Longrightarrow> usable x p"
begin

definition chosen :: "string \<Rightarrow> 'a list \<Rightarrow> 'a \<Rightarrow> bool" where
  "chosen pid xs x \<longleftrightarrow>
     filter (\<lambda>y. owner y = Some pid) xs = [x] \<or>
     (filter (\<lambda>y. owner y = Some pid) xs = [] \<and> filter (\<lambda>y. usable y pid) xs = [x])"

lemma select_iff:
  "pick_owned_then_shared project what name msg
     (filter (\<lambda>x. owner x = Some pid) (filter (\<lambda>x. usable x pid) xs))
     (filter (\<lambda>x. owner x \<noteq> Some pid) (filter (\<lambda>x. usable x pid) xs)) = Inr x \<longleftrightarrow> chosen pid xs x"
proof -
  have o: "filter (\<lambda>x. owner x = Some pid) (filter (\<lambda>x. usable x pid) xs) =
      filter (\<lambda>y. owner y = Some pid) xs"
    using owned_usable by (auto intro: filter_cong)
  have n: "filter (\<lambda>x. owner x \<noteq> Some pid) (filter (\<lambda>x. usable x pid) xs) =
      filter (\<lambda>y. usable y pid) xs" if "filter (\<lambda>y. owner y = Some pid) xs = []"
    using that by (auto simp: filter_empty_conv intro: filter_cong)
  have e: "project_error project f \<noteq> Inr x" for f
    by (cases project; cases "pi_Name (the project)") (auto simp: project_error_def)
  show ?thesis
  proof (cases "filter (\<lambda>y. owner y = Some pid) xs")
    case Nil
    show ?thesis unfolding o n [OF Nil] using Nil e
      by (cases "filter (\<lambda>y. usable y pid) xs"; cases "tl (filter (\<lambda>y. usable y pid) xs)")
        (auto simp: pick_owned_then_shared_def chosen_def)
  next
    case (Cons y ys)
    then show ?thesis unfolding o using e
      by (cases ys) (auto simp: pick_owned_then_shared_def chosen_def)
  qed
qed

lemma chosen_usable:
  assumes "chosen pid xs x"
  shows "x \<in> set xs \<and> usable x pid"
proof -
  from assms have "(x \<in> set xs \<and> owner x = Some pid) \<or> (x \<in> set xs \<and> usable x pid)"
    unfolding chosen_def by (auto dest: filter_eq_singleton)
  with owned_usable show ?thesis by auto
qed

lemma chosen_unique: "chosen pid xs x \<Longrightarrow> chosen pid xs y \<Longrightarrow> x = y"
  by (auto simp: chosen_def)

lemma chosen_prefers_owned:
  assumes "chosen pid xs x" "y \<in> set xs" "owner y = Some pid"
  shows "x = y \<and> owner x = Some pid"
proof -
  have y: "y \<in> set (filter (\<lambda>y. owner y = Some pid) xs)" using assms(2,3) by simp
  then have "filter (\<lambda>y. owner y = Some pid) xs = [x]"
    using assms(1) unfolding chosen_def by (metis empty_iff list.set(1))
  with y assms(3) show ?thesis by (metis empty_iff list.set(1,2) singletonD)
qed

end

interpretation subnets: scoped_resource "\<lambda>s p. isSubnetUsableForProject (Some s) p" sn_ProjectExtId
  by unfold_locales (simp add: isSubnetUsableForProject_def)

interpretation images: scoped_resource "\<lambda>m p. isImageUsableForProject (Some m) p" im_ProjectExtId
  by unfold_locales (simp add: isImageUsableForProject_def)

interpretation profiles: scoped_resource "\<lambda>v p. isVMProfileUsableForProject (Some v) p" vp_ProjectExtId
  by unfold_locales (simp add: isVMProfileUsableForProject_def)

lemma project_error_Inr [simp]: "project_error project f \<noteq> Inr x" "Inr x \<noteq> project_error project f"
  by (cases project; cases "pi_Name (the project)"; simp add: project_error_def)+

lemma of_result_project_error_Inr [simp]:
  "of_result (project_error project f) s = (Inr x, s') \<longleftrightarrow> False"
  by (simp add: of_result_def)

lemma IsName_not_IsUUID: "IsName i \<Longrightarrow> \<not> IsUUID i"
  by (simp add: IsUUID_def IsName_def)

lemma map_sum_id_Inr:
  "map_sum id f r = Inr y \<longleftrightarrow> (\<exists>x. r = Inr x \<and> y = f x)"
  "Inr y = map_sum id f r \<longleftrightarrow> (\<exists>x. r = Inr x \<and> y = f x)"
  by (cases r; auto)+

lemma project_awareD: "project_aware project v \<Longrightarrow> \<exists>pid. project_ext_id project = Some pid"
  by (auto simp: project_aware_def)

lemma GetSubnet_by_name:
  assumes "GetSubnet client pe (Some n) None project v s = (Inr r, s')"
    and aware: "project_aware project v" "project_ext_id project = Some pid"
  shows "\<exists>found sn. Subnets_List client (trace s) (name_filter n) = Inr found \<and> r = Some sn \<and>
    subnets.chosen pid (filter (subnet_name_matches n pe) found) sn \<and>
    s' = s\<lparr>trace := trace s @ [PList RSubnet (name_filter n)]\<rparr>"
  using assms
  by (auto simp: GetSubnet_def Let_def go_inv map_sum_id_Inr subnets.select_iff simp del: filter_filter)

lemma GetImage_by_name:
  assumes "GetImage client i project v s = (Inr r, s')" "IsName i" "id_Name i = Some n"
    and aware: "project_aware project v" "project_ext_id project = Some pid"
  shows "\<exists>found m. Images_List client (trace s) (name_filter n) = Inr found \<and> r = Some m \<and>
    images.chosen pid (filter (image_name_matches n) found) m"
  using assms IsName_not_IsUUID [OF assms(2)]
  by (auto simp: GetImage_def Let_def go_inv map_sum_id_Inr images.select_iff simp del: filter_filter)

lemma GetVMProfile_by_name:
  assumes "GetVMProfile client i project s = (Inr r, s')" "IsName i" "id_Name i = Some n"
    and aware: "project_ext_id project = Some pid"
  shows "\<exists>found p. VMProfiles_List client (trace s) (name_filter n) = Inr found \<and> r = Some p \<and>
    profiles.chosen pid (filter (profile_name_matches n) found) p"
  using assms IsName_not_IsUUID [OF assms(2)]
  by (auto simp: GetVMProfile_def Let_def go_inv map_sum_id_Inr profiles.select_iff simp del: filter_filter)

lemma GetSubnet_usable:
  assumes "GetSubnet client pe n u project v s = (Inr r, s')"
    and aware: "project_aware project v" "project_ext_id project = Some pid"
  shows "isSubnetUsableForProject r pid"
proof (cases u)
  case None
  with assms(1) obtain m where m: "n = Some m"
    by (cases n) (auto simp: GetSubnet_def go_inv)
  from GetSubnet_by_name [OF assms(1) [unfolded None m] aware] subnets.chosen_usable
  show ?thesis by blast
next
  case (Some w)
  with assms show ?thesis by (auto simp: GetSubnet_def Let_def go_inv split: if_splits)
qed

lemma GetImage_usable:
  assumes "GetImage client i project v s = (Inr r, s')"
    and aware: "project_aware project v" "project_ext_id project = Some pid"
  shows "isImageUsableForProject r pid"
proof (cases "IsUUID i")
  case False
  with assms(1) have n: "IsName i" by (auto simp: GetImage_def Let_def go_inv split: if_splits)
  then obtain m where "id_Name i = Some m" using IsName_Some by blast
  from GetImage_by_name [OF assms(1) n this aware] images.chosen_usable show ?thesis by blast
next
  case True
  with assms show ?thesis by (auto simp: GetImage_def Let_def go_inv split: if_splits)
qed

lemma GetVMProfile_usable:
  assumes "GetVMProfile client i project s = (Inr r, s')" and "project_ext_id project = Some pid"
  shows "isVMProfileUsableForProject r pid"
proof (cases "IsUUID i")
  case False
  with assms have n: "IsName i" by (auto simp: GetVMProfile_def Let_def go_inv split: if_splits)
  then obtain m where "id_Name i = Some m" using IsName_Some by blast
  from GetVMProfile_by_name [OF assms(1) n this assms(2)] profiles.chosen_usable show ?thesis by blast
next
  case True
  with assms show ?thesis by (auto simp: GetVMProfile_def Let_def go_inv split: if_splits)
qed

section \<open>Network keys\<close>

lemma count_fold: "foldl (\<lambda>r s. r(s := Suc (r s))) f b = (\<lambda>x. f x + count (mset b) x)"
  by (induction b arbitrary: f) (auto simp: fun_eq_iff)

lemma consume_iff: "consume_remaining r a \<longleftrightarrow> (\<forall>x. count (mset a) x \<le> r x)"
proof (induction a arbitrary: r)
  case (Cons y a r)
  show ?case
  proof (cases "r y")
    case 0
    then show ?thesis by (auto intro!: exI [of _ y])
  next
    case (Suc n)
    then have "(count (mset a) x \<le> (r(y := n)) x) \<longleftrightarrow> count (mset (y # a)) x \<le> r x" for x
      by (cases "y = x") auto
    then have "consume_remaining (r(y := n)) a \<longleftrightarrow> (\<forall>x. count (mset (y # a)) x \<le> r x)"
      unfolding Cons.IH [of "r(y := n)"] by simp
    with Suc show ?thesis by simp
  qed
qed simp

lemma stringSliceSetEquals_iff: "stringSliceSetEquals a b \<longleftrightarrow> mset a = mset b"
proof
  assume e: "stringSliceSetEquals a b"
  then have l: "length a = length b"
    by (simp add: stringSliceSetEquals_def split: if_splits)
  with e have "\<forall>x. count (mset a) x \<le> count (mset b) x"
    by (simp add: stringSliceSetEquals_def consume_iff count_fold)
  then have "mset a \<subseteq># mset b" by (simp add: subseteq_mset_def)
  with l show "mset a = mset b"
    by (metis mset_subset_size nless_le size_mset subset_mset.nless_le)
next
  assume e: "mset a = mset b"
  then have "length a = length b" by (rule mset_eq_length)
  with e show "stringSliceSetEquals a b"
    by (simp add: stringSliceSetEquals_def consume_iff count_fold)
qed

section \<open>Newest image\<close>

interpretation newest: strict_weak_order image_newer
  by unfold_locales (auto simp: image_newer_def split: option.splits)

section \<open>The lookups only read\<close>

lemma GetPECluster_reads: "moves (only_calls is_prism_read) (GetPECluster client u)"
  unfolding GetPECluster_def by (intro only_rules) simp

lemma GetPEClusterByIdentifier_reads:
  "moves (only_calls is_prism_read) (GetPEClusterByIdentifier client n u)"
  unfolding GetPEClusterByIdentifier_def Let_def by (intro only_rules GetPECluster_reads) simp

lemma resolvePE_reads: "moves (only_calls is_prism_read) (resolvePEFromResourceGroup client rg n u)"
  unfolding resolvePEFromResourceGroup_def by (intro only_rules) simp

lemma GetPEUUID_reads: "moves (only_calls is_prism_read) (GetPEUUID client rg n u)"
  unfolding GetPEUUID_def by (intro only_rules resolvePE_reads GetPEClusterByIdentifier_reads)

lemma GetSubnet_reads: "moves (only_calls is_prism_read) (GetSubnet client pe n u project v)"
  unfolding GetSubnet_def Let_def by (intro only_rules) simp_all

lemma GetSubnetUUIDList_reads: "moves (only_calls is_prism_read) (GetSubnetUUIDList client ids pe project v)"
  unfolding GetSubnetUUIDList_def GetSubnetUUID_def Let_def by (intro only_rules GetSubnet_reads)

lemma subnetNetworkKeys_reads: "moves (only_calls is_prism_read) (subnetNetworkKeys client ids pe)"
  unfolding subnetNetworkKeys_def by (intro only_rules GetSubnet_reads GetPEUUID_reads)

lemma metroSubnetsMatch_reads: "moves (only_calls is_prism_read) (metroSubnetsMatch client a b c d)"
  unfolding metroSubnetsMatch_def by (intro only_rules subnetNetworkKeys_reads)

lemma GetImage_reads: "moves (only_calls is_prism_read) (GetImage client i project v)"
  unfolding GetImage_def Let_def by (intro only_rules) simp_all

lemma GetImageByLookup_reads:
  "moves (only_calls is_prism_read) (GetImageByLookup lib client t b k project v)"
  unfolding GetImageByLookup_def Let_def by (intro only_rules) simp_all

lemma GetVMProfile_reads: "moves (only_calls is_prism_read) (GetVMProfile client i project)"
  unfolding GetVMProfile_def Let_def by (intro only_rules) simp_all

lemma GetStorageContainer_reads:
  "moves (only_calls is_prism_read) (GetStorageContainerInCluster client rg sc c)"
  unfolding GetStorageContainerInCluster_def resolveStorageContainerFromResourceGroup_def Let_def
  by (intro only_rules) simp_all

lemma VmHasTaskInProgress_reads: "moves (only_calls is_prism_read) (VmHasTaskInProgress client u p v)"
  unfolding VmHasTaskInProgress_def Let_def by (intro only_rules) simp_all

section \<open>Properties\<close>

lemma lookup_candidates_sound:
  assumes "m \<in> set (lookup_candidates project v re imgs)"
  shows "m \<in> set imgs \<and> (\<exists>n. im_Name m = Some n \<and> re n) \<and>
    (\<forall>pid. project_aware project v \<and> project_ext_id project = Some pid \<longrightarrow> isImageUsableForProject (Some m) pid)"
  using assms by (auto simp: lookup_candidates_def Let_def split: option.splits if_splits)

lemma lookup_candidates_complete:
  assumes "c \<in> set imgs" "im_Name c = Some n" "re n"
    and "project_aware project v \<Longrightarrow> im_ProjectExtId c = project_ext_id project"
  shows "c \<in> set (lookup_candidates project v re imgs)"
proof -
  have "project_aware project v \<Longrightarrow> im_ProjectExtId c = Some (the (project_ext_id project))"
    using assms(4) project_awareD by fastforce
  with assms(1-3) images.owned_usable show ?thesis
    by (auto simp: lookup_candidates_def Let_def filter_empty_conv)
qed

lemma GetImageByLookup_newest:
  assumes "GetImageByLookup lib client t b k project v s = (Inr m, s')"
  shows "\<exists>pattern re imgs h. regexp_compile lib pattern = Inr re \<and> Images_List client h [] = Inr imgs \<and>
    m \<in> set (lookup_candidates project v re imgs) \<and>
    (\<forall>c\<in>set (lookup_candidates project v re imgs). \<not> image_newer c m)"
proof -
  obtain tpl base k8s where a: "t = Some tpl" "b = Some base" "k = Some k8s"
    using assms by (cases t; cases b; cases k) (auto simp: GetImageByLookup_def go_inv)
  have pick: "\<exists>ms. xs = m # ms" if "(case xs of [] \<Rightarrow> if c then of_result (project_error project f)
      else raise e | m # ms \<Rightarrow> ret m) s1 = (Inr m, s')" for xs c f e s1
    using that by (cases xs) (auto simp: go_inv split: if_splits)
  from assms obtain pattern re imgs ms where "regexp_compile lib pattern = Inr re"
    "Images_List client (trace s) [] = Inr imgs"
    and r: "sortImagesByLatestCreationTime (lookup_candidates project v re imgs) = m # ms"
    unfolding a GetImageByLookup_def Let_def option.case prod.case
      bnd_Inr wrapping_Inr of_result_eq ext_Inr by (blast dest: pick)
  moreover from r have "m \<in> set (lookup_candidates project v re imgs) \<and>
      (\<forall>c\<in>set (lookup_candidates project v re imgs). \<not> image_newer c m)"
    unfolding sortImagesByLatestCreationTime_def by (rule newest.head_least)
  ultimately show ?thesis by blast
qed

text \<open>C7 Project isolation: on a Prism Central that knows projects, whatever subnet or
  image the lookups return by UUID or by name is owned by the project of the machine or
  shared with it, and so is every VM profile, on any version.\<close>

theorem lookups_respect_project:
  assumes "project_ext_id project = Some pid"
  shows "(project_aware project v \<longrightarrow> GetSubnet client pe n u project v s = (Inr sn, s') \<longrightarrow>
      isSubnetUsableForProject sn pid) \<and>
    (project_aware project v \<longrightarrow> GetImage client i project v s = (Inr im, s') \<longrightarrow>
      isImageUsableForProject im pid) \<and>
    (GetVMProfile client i project s = (Inr pr, s') \<longrightarrow> isVMProfileUsableForProject pr pid)"
  using assms by (auto intro: GetSubnet_usable GetImage_usable GetVMProfile_usable)

text \<open>A project, a subnet it owns and one of the same name shared with it.\<close>

definition demo_project :: ProjectInfo where
  "demo_project = \<lparr>pi_ExtID = Some ''p1'', pi_Name = Some ''dev''\<rparr>"

definition demo_subnet :: "string \<Rightarrow> string option \<Rightarrow> string list \<Rightarrow> subnet" where
  "demo_subnet u owner shared = \<lparr>sn_ExtId = Some u, sn_Name = Some ''net'', sn_SubnetType = Some ''OVERLAY'',
     sn_ClusterReference = None, sn_ClusterReferenceList = [], sn_ProjectExtId = owner,
     sn_SharedWithProjects = shared, sn_NetworkId = None, sn_IpPrefix = None\<rparr>"

definition demo_subnet_client :: v4_client where
  "demo_subnet_client = base_v4_client\<lparr>Subnets_List := (\<lambda>h f. Inr
     [demo_subnet ''s1'' (Some ''p2'') [''p1''], demo_subnet ''s2'' (Some ''p1'') [], demo_subnet ''s3'' (Some ''p3'') []])\<rparr>"

lemma lookups_respect_project_witness:
  "isSubnetUsableForProject (Some (demo_subnet ''s2'' (Some ''p1'') [])) ''p1''"
proof -
  have r: "GetSubnet demo_subnet_client ''pe'' (Some ''NET'') None (Some demo_project) ''7.6'' \<lparr>trace = []\<rparr> =
     (Inr (Some (demo_subnet ''s2'' (Some ''p1'') [])), \<lparr>trace = [PList RSubnet (name_filter ''NET'')]\<rparr>)"
    by code_simp
  have "project_ext_id (Some demo_project) = Some ''p1''" "project_aware (Some demo_project) ''7.6''"
    by code_simp+
  from lookups_respect_project [OF this(1), of "''7.6''"] this(2) r show ?thesis by blast
qed

text \<open>A subnet found by name in a project is the only one of that name the project
  owns among the subnets reachable from the Prism Element or, when it owns none, the only
  one shared with it; the lookup makes one request and changes nothing.\<close>

theorem GetSubnet_name_functional:
  assumes "GetSubnet client pe (Some n) None project v s = (Inr r, s')"
    and "project_aware project v" "project_ext_id project = Some pid"
  shows "\<exists>found sn. Subnets_List client (trace s) (name_filter n) = Inr found \<and> r = Some sn \<and>
    (let reachable = filter (subnet_name_matches n pe) found in
     filter (\<lambda>x. sn_ProjectExtId x = Some pid) reachable = [sn] \<or>
     filter (\<lambda>x. sn_ProjectExtId x = Some pid) reachable = [] \<and>
     filter (\<lambda>x. isSubnetUsableForProject (Some x) pid) reachable = [sn]) \<and>
    s' = s\<lparr>trace := trace s @ [PList RSubnet (name_filter n)]\<rparr>"
  using GetSubnet_by_name [OF assms] unfolding subnets.chosen_def Let_def by blast

lemma GetSubnet_name_functional_witness:
  "\<exists>found sn. Subnets_List demo_subnet_client [] (name_filter ''NET'') = Inr found \<and>
     sn \<in> set found \<and> sn_ExtId sn = Some ''s2''"
proof -
  have r: "GetSubnet demo_subnet_client ''pe'' (Some ''NET'') None (Some demo_project) ''7.6'' \<lparr>trace = []\<rparr> =
     (Inr (Some (demo_subnet ''s2'' (Some ''p1'') [])), \<lparr>trace = [PList RSubnet (name_filter ''NET'')]\<rparr>)"
    by code_simp
  have p: "project_aware (Some demo_project) ''7.6''" "project_ext_id (Some demo_project) = Some ''p1''"
    by code_simp+
  from GetSubnet_name_functional [OF r p] show ?thesis
    unfolding Let_def by (fastforce dest!: filter_eq_singleton simp: demo_subnet_def)
qed


definition demo_image :: "string \<Rightarrow> int option \<Rightarrow> prism_image" where
  "demo_image u c = \<lparr>im_ExtId = Some u, im_Name = Some ''ubuntu-1.28'', im_ProjectExtId = None,
     im_IsSharedWithAllProjects = None, im_CreateTime = c\<rparr>"

definition demo_image_client :: v4_client where
  "demo_image_client = base_v4_client\<lparr>Images_List := (\<lambda>h f. Inr
     [demo_image ''i1'' None, demo_image ''i2'' (Some 5), demo_image ''i3'' (Some 9), demo_image ''i4'' (Some 7)])\<rparr>"

definition demo_text_library :: text_library where
  "demo_text_library = \<lparr>template_parse = (\<lambda>t. Inr ()),
     template_execute = (\<lambda>t p. Inr (lk_BaseOS p @ ''-'' @ lk_K8sVersion p)),
     regexp_compile = (\<lambda>r. Inr (\<lambda>n. n = r))\<rparr>"


text \<open>The comparison of the network keys of a metro is the equality of multisets: it
  does not depend on the order of the subnets, and a key that occurs twice on one side
  has to occur twice on the other.\<close>

theorem stringSliceSetEquals_multiset: "stringSliceSetEquals a b \<longleftrightarrow> mset a = mset b"
  by (rule stringSliceSetEquals_iff)

text \<open>A Prism Element resolved in the resource group of a project is one of the
  group's placement targets, whichever of name and UUID the machine gives.\<close>

theorem GetPEUUID_in_resource_group:
  assumes "GetPEUUID (Some client) (Some rg) n u s = (Inr pe, s')"
  shows "\<exists>rgid targets. rg_ExtId rg = Some rgid \<and>
    ResourceGroups_ListPrismElements client (trace s) rgid = Inr targets \<and> pe \<in> pei_ExtId ` set targets"
proof -
  have single: "pick_single xs a b = Inr x \<Longrightarrow> x \<in> set xs" for xs :: "string list" and a b x
    by (cases xs; cases "tl xs") (auto simp: pick_single_def)
  from assms show ?thesis
    by (auto simp: GetPEUUID_def resolvePEFromResourceGroup_def go_inv list_ex_iff
        dest!: single [OF sym] single split: if_splits option.splits)
qed

definition demo_rg_client :: v4_client where
  "demo_rg_client = base_v4_client\<lparr>ResourceGroups_ListPrismElements := (\<lambda>h g. Inr
     [\<lparr>pei_ExtId = ''u1'', pei_Name = ''pe-a''\<rparr>, \<lparr>pei_ExtId = ''u2'', pei_Name = ''pe-b''\<rparr>])\<rparr>"

lemma GetPEUUID_in_resource_group_witness:
  "\<exists>targets. ResourceGroups_ListPrismElements demo_rg_client [] ''g'' = Inr targets \<and>
     ''u2'' \<in> pei_ExtId ` set targets"
proof -
  have "GetPEUUID (Some demo_rg_client) (Some \<lparr>rg_ExtId = Some ''g'', rg_ProjectExtId = None\<rparr>)
      (Some ''PE-B'') None \<lparr>trace = []\<rparr> =
      (Inr ''u2'', \<lparr>trace = [PRead RResourceGroup ''ListPrismElements'' [''g'']]\<rparr>)"
    by code_simp
  from GetPEUUID_in_resource_group [OF this] show ?thesis by simp
qed

text \<open>An empty UUID and no name, with a resource group, is a nil dereference.\<close>

lemma GetPEUUID_empty_uuid_panics:
  "fst (GetPEUUID (Some demo_rg_client) (Some \<lparr>rg_ExtId = Some ''g'', rg_ProjectExtId = None\<rparr>)
      None (Some []) \<lparr>trace = []\<rparr>) = Inl NilDeref"
  by code_simp

end
