(* ===== verification/Categories.thy ===== *)
theory Categories
  imports External
begin

text \<open>
  Prism categories (controllers/helpers.go): lookup in the scope of a project, creation
  on demand with the recovery from a concurrent creation, deletion, and the references
  that go on a VM.

  The deletion groups the identifiers by key in a Go map, whose iteration order is not
  defined: the order is the parameter ord, which gives the keys in some order.
\<close>

section \<open>Identifiers of a cluster\<close>

definition DefaultCAPICategoryKeyForName :: string where
  "DefaultCAPICategoryKeyForName = ''KubernetesClusterName''"

definition ObsoleteDefaultCAPICategoryPrefix :: string where
  "ObsoleteDefaultCAPICategoryPrefix = ''kubernetes-io-cluster-''"

definition GetDefaultCAPICategoryIdentifiers :: "string \<Rightarrow> NutanixCategoryIdentifier option list" where
  "GetDefaultCAPICategoryIdentifiers clusterName =
     [Some \<lparr>cat_Key = DefaultCAPICategoryKeyForName, cat_Value = clusterName\<rparr>]"

definition GetObsoleteDefaultCAPICategoryIdentifiers :: "string \<Rightarrow> NutanixCategoryIdentifier option list" where
  "GetObsoleteDefaultCAPICategoryIdentifiers clusterName =
     [Some \<lparr>cat_Key = ObsoleteDefaultCAPICategoryPrefix @ clusterName, cat_Value = ''owned''\<rparr>]"

section \<open>Lookup\<close>

definition category_filter :: "string \<Rightarrow> string \<Rightarrow> string" where
  "category_filter key v = ''key eq '' @ squote key @ '' and value eq '' @ squote v"

definition getCategories :: "v4_client \<Rightarrow> string \<Rightarrow> string \<Rightarrow> ('z world_scheme, prism_category list) go" where
  "getCategories client key v =
     wrapping (\<lambda>e. Wrap (''failed to retrieve category value '' @ v @ '' in category '' @ key @ ''. error: '') e [])
       (ext (PList RCategory (category_filter key v)) (\<lambda>h. Categories_List client h (category_filter key v)))"

definition getCategory :: "v4_client \<Rightarrow> string \<Rightarrow> string \<Rightarrow> ('z world_scheme, prism_category option) go" where
  "getCategory client key v =
     bnd (getCategories client key v) (\<lambda>cs. ret (case cs of [] \<Rightarrow> None | c # _ \<Rightarrow> Some c))"

definition isCategoryUsableForProject :: "prism_category option \<Rightarrow> string \<Rightarrow> bool" where
  "isCategoryUsableForProject c_p projectExtID =
     (case c_p of
        None \<Rightarrow> False
      | Some c \<Rightarrow>
          if ct_ProjectExtId c = Some projectExtID then True
          else if ct_IsSharedWithAllProjects c = Some True then True
          else List.member (ct_SharedWithProjects c) projectExtID)"

definition getCategoryForProject :: "prism_category list \<Rightarrow> string option \<Rightarrow> prism_category option" where
  "getCategoryForProject cs projectExtID =
     (case cs of
        [] \<Rightarrow> None
      | c # _ \<Rightarrow>
          (case projectExtID of
             None \<Rightarrow> Some c
           | Some pid \<Rightarrow>
               (case find (\<lambda>x. ct_ProjectExtId x = Some pid) cs of
                  Some x \<Rightarrow> Some x
                | None \<Rightarrow> find (\<lambda>x. isCategoryUsableForProject (Some x) pid) cs)))"

section \<open>Creation\<close>

definition re_space :: "char \<Rightarrow> bool" where
  "re_space c = List.member [CHR 0x09, CHR 0x0A, CHR 0x0C, CHR 0x0D, CHR '' ''] c"

definition categoryAlreadyExistsMessage :: string where
  "categoryAlreadyExistsMessage = ''category with the provided key and value already exists''"

text \<open>The first submatch of the pattern: the marker, white space, and the longest run of
  other characters, at the leftmost place where the run is not empty.\<close>

fun match_ext_id :: "string \<Rightarrow> string option" where
  "match_ext_id [] = None"
| "match_ext_id (c # cs) =
     (case CutPrefix (c # cs) ''already exists with extId:'' of
        Some r \<Rightarrow>
          (let w = takeWhile (\<lambda>x. \<not> re_space x) (dropWhile re_space r) in
           if w \<noteq> [] then Some w else match_ext_id cs)
      | None \<Rightarrow> match_ext_id cs)"

definition existingCategoryExtID :: "go_error option \<Rightarrow> string \<times> bool" where
  "existingCategoryExtID err =
     (case err of
        None \<Rightarrow> ([], False)
      | Some e \<Rightarrow>
          if \<not> Contains (Error_text e) categoryAlreadyExistsMessage then ([], False)
          else (case match_ext_id (Error_text e) of
                  None \<Rightarrow> ([], True)
                | Some m \<Rightarrow> (TrimRight m ''.,;'', True)))"

definition new_category :: "NutanixCategoryIdentifier \<Rightarrow> string option \<Rightarrow> prism_category" where
  "new_category ci projectExtID =
     \<lparr>ct_ExtId = None, ct_Key = Some (cat_Key ci), ct_Value = Some (cat_Value ci),
      ct_Description = Some ''Managed by CAPX'', ct_ProjectExtId = projectExtID,
      ct_IsSharedWithAllProjects = None, ct_SharedWithProjects = []\<rparr>"

definition create_category ::
  "v4_client \<Rightarrow> NutanixCategoryIdentifier \<Rightarrow> string option \<Rightarrow> ('z world_scheme, prism_category option) go" where
  "create_category client ci projectExtID =
     (let c = new_category ci projectExtID in
      bnd (ext (PCreate_category c) (\<lambda>h. Inr (Categories_Create client h c))) (\<lambda>(err, prismCategory).
      case err of
        None \<Rightarrow> ret prismCategory
      | Some e \<Rightarrow>
          (let (extID, alreadyExists) = existingCategoryExtID err in
           if alreadyExists then
             (if prismCategory \<noteq> None \<and> ct_ExtId (the prismCategory) \<noteq> None then ret prismCategory
              else if extID = [] then raise (Wrap (''category with key '' @ cat_Key ci @ '' and value '' @
                     cat_Value ci @ '' already exists, but the error did not include an extId: '') e [])
              else ret (Some (c\<lparr>ct_ExtId := Some extID\<rparr>)))
           else raise (Wrap (''failed to create category with key '' @ cat_Key ci @ '' and value '' @
                     cat_Value ci @ ''. error: '') e []))))"

definition getOrCreateCategoryForProject ::
  "v4_client \<Rightarrow> NutanixCategoryIdentifier option \<Rightarrow> string option \<Rightarrow>
   ('z world_scheme, prism_category option) go" where
  "getOrCreateCategoryForProject client ci_p projectExtID =
     (case ci_p of
        None \<Rightarrow> raise (Leaf ''category identifier cannot be nil when getting or creating categories'')
      | Some ci \<Rightarrow>
          if cat_Key ci = []
          then raise (Leaf ''category identifier key must be set when when getting or creating categories'')
          else if cat_Value ci = []
          then raise (Leaf ''category identifier key must be set when when getting or creating categories'')
          else
            bnd (wrapping (\<lambda>e. Wrap (''failed to retrieve category with key '' @ cat_Key ci @ ''. error: '') e [])
                  (getCategories client (cat_Key ci) (cat_Value ci))) (\<lambda>categories.
            case getCategoryForProject categories projectExtID of
              Some c \<Rightarrow> ret (Some c)
            | None \<Rightarrow> create_category client ci projectExtID))"

definition getOrCreateCategory ::
  "v4_client \<Rightarrow> NutanixCategoryIdentifier option \<Rightarrow> ('z world_scheme, prism_category option) go" where
  "getOrCreateCategory client ci = getOrCreateCategoryForProject client ci None"

definition GetOrCreateCategoriesForProject ::
  "v4_client \<Rightarrow> NutanixCategoryIdentifier option list \<Rightarrow> string option \<Rightarrow>
   ('z world_scheme, prism_category option list) go" where
  "GetOrCreateCategoriesForProject client cis projectExtID =
     map_go (\<lambda>ci. if ci = None then raise (Leaf ''cannot get or create nil category'')
                  else getOrCreateCategoryForProject client ci projectExtID) cis"

definition GetOrCreateCategories ::
  "v4_client \<Rightarrow> NutanixCategoryIdentifier option list \<Rightarrow> ('z world_scheme, prism_category option list) go" where
  "GetOrCreateCategories client cis = GetOrCreateCategoriesForProject client cis None"

section \<open>Deletion\<close>

text \<open>The groups in the order in which their keys first occur; a nil identifier is a
  panic.\<close>

fun group_add :: "string \<Rightarrow> string \<Rightarrow> (string \<times> string list) list \<Rightarrow> (string \<times> string list) list" where
  "group_add k v [] = [(k, [v])]"
| "group_add k v ((k', vs) # g) = (if k = k' then (k', vs @ [v]) # g else (k', vs) # group_add k v g)"

fun group_categories ::
  "NutanixCategoryIdentifier option list \<Rightarrow> (string \<times> string list) list \<Rightarrow>
   go_error + (string \<times> string list) list" where
  "group_categories [] g = Inr g"
| "group_categories (ci # cis) g =
     rbnd (rderef ci) (\<lambda>c. group_categories cis (group_add (cat_Key c) (cat_Value c) g))"

definition pairs_in_order ::
  "(string list \<Rightarrow> string list) \<Rightarrow> (string \<times> string list) list \<Rightarrow> (string \<times> string) list" where
  "pairs_in_order ord g =
     concat (map (\<lambda>k. map (\<lambda>v. (k, v)) (case map_of g k of None \<Rightarrow> [] | Some vs \<Rightarrow> vs)) (ord (map fst g)))"

primrec delete_pairs ::
  "v4_client \<Rightarrow> string option \<Rightarrow> (string \<times> string) list \<Rightarrow> ('z world_scheme, unit) go" where
  "delete_pairs client projectExtID [] = ret ()"
| "delete_pairs client projectExtID (kv # rest) =
     (let key = fst kv; v = snd kv in
      bnd (wrapping (\<lambda>e. Wrap (''failed to retrieve category value '' @ v @ '' in category '' @ key @ ''. error: '') e [])
            (getCategories client key v)) (\<lambda>categories.
      case getCategoryForProject categories projectExtID of
        None \<Rightarrow> delete_pairs client projectExtID rest
      | Some c \<Rightarrow>
          bnd (deref (ct_ExtId c)) (\<lambda>u.
          bnd (attempt (ext (PDelete RCategory u) (\<lambda>h. Categories_Delete client h u))) (\<lambda>r.
            case r of Inl err \<Rightarrow> ret () | Inr _ \<Rightarrow> delete_pairs client projectExtID rest))))"

definition deleteCategoryKeyValuesForProject ::
  "(string list \<Rightarrow> string list) \<Rightarrow> v4_client \<Rightarrow> NutanixCategoryIdentifier option list \<Rightarrow> string option \<Rightarrow>
   ('z world_scheme, unit) go" where
  "deleteCategoryKeyValuesForProject ord client cis projectExtID =
     bnd (of_result (group_categories cis [])) (\<lambda>g. delete_pairs client projectExtID (pairs_in_order ord g))"

definition deleteCategoryKeyValues ::
  "(string list \<Rightarrow> string list) \<Rightarrow> v4_client \<Rightarrow> NutanixCategoryIdentifier option list \<Rightarrow>
   ('z world_scheme, unit) go" where
  "deleteCategoryKeyValues ord client cis = deleteCategoryKeyValuesForProject ord client cis None"

definition DeleteCategoriesForProject ::
  "(string list \<Rightarrow> string list) \<Rightarrow> v4_client \<Rightarrow> NutanixCategoryIdentifier option list \<Rightarrow>
   NutanixCategoryIdentifier option list \<Rightarrow> string option \<Rightarrow> ('z world_scheme, unit) go" where
  "DeleteCategoriesForProject ord client cis obsolete projectExtID =
     thn (deleteCategoryKeyValuesForProject ord client cis projectExtID)
         (deleteCategoryKeyValuesForProject ord client obsolete projectExtID)"

definition DeleteCategories ::
  "(string list \<Rightarrow> string list) \<Rightarrow> v4_client \<Rightarrow> NutanixCategoryIdentifier option list \<Rightarrow>
   NutanixCategoryIdentifier option list \<Rightarrow> ('z world_scheme, unit) go" where
  "DeleteCategories ord client cis obsolete = DeleteCategoriesForProject ord client cis obsolete None"

section \<open>References\<close>

definition add_category_ref ::
  "v4_client \<Rightarrow> string option \<Rightarrow> NutanixCategoryIdentifier option \<Rightarrow> string list \<Rightarrow>
   ('z world_scheme, string list) go" where
  "add_category_ref client projectExtID ci_p extIds =
     (case ci_p of
        None \<Rightarrow> raise (Leaf ''category identifier cannot be nil'')
      | Some ci \<Rightarrow>
          bnd (wrapping (\<lambda>e. Wrap (''error occurred while to retrieving category value '' @ cat_Value ci @
                 '' in category '' @ cat_Key ci @ ''. error: '') e [])
                (getCategories client (cat_Key ci) (cat_Value ci))) (\<lambda>categories.
          case getCategoryForProject categories projectExtID of
            None \<Rightarrow> raise (Terminal (''category value '' @ cat_Value ci @ '' not found in category '' @ cat_Key ci))
          | Some c \<Rightarrow>
              (case ct_ExtId c of
                 None \<Rightarrow> raise (Terminal (''category value '' @ cat_Value ci @ '' not found in category '' @ cat_Key ci))
               | Some u \<Rightarrow> ret (if List.member extIds u then extIds else extIds @ [u]))))"

definition GetPrismReferencesOfCategoryIdentifiersForProject ::
  "v4_client \<Rightarrow> NutanixCategoryIdentifier option list \<Rightarrow> string option \<Rightarrow>
   ('z world_scheme, string option list) go" where
  "GetPrismReferencesOfCategoryIdentifiersForProject client cis projectExtID =
     bnd (fold_go (add_category_ref client projectExtID) cis []) (\<lambda>extIds. ret (map Some extIds))"

definition GetPrismReferencesOfCategoryIdentifiers ::
  "v4_client \<Rightarrow> NutanixCategoryIdentifier option list \<Rightarrow> ('z world_scheme, string option list) go" where
  "GetPrismReferencesOfCategoryIdentifiers client cis =
     GetPrismReferencesOfCategoryIdentifiersForProject client cis None"

section \<open>Lemmas\<close>

lemma getCategoryForProject_simps:
  "getCategoryForProject cs None = (case cs of [] \<Rightarrow> None | c # _ \<Rightarrow> Some c)"
  "getCategoryForProject cs (Some pid) =
     (case find (\<lambda>x. ct_ProjectExtId x = Some pid) cs of
        Some x \<Rightarrow> Some x | None \<Rightarrow> find (\<lambda>x. isCategoryUsableForProject (Some x) pid) cs)"
  by (auto simp: getCategoryForProject_def split: list.split)

lemma owned_category_usable: "ct_ProjectExtId c = Some pid \<Longrightarrow> isCategoryUsableForProject (Some c) pid"
  by (simp add: isCategoryUsableForProject_def)

lemma getCategoryForProject_SomeD:
  assumes "getCategoryForProject cs p = Some c"
  shows "c \<in> set cs \<and>
    (\<forall>pid. p = Some pid \<longrightarrow> isCategoryUsableForProject (Some c) pid \<and>
       ((\<exists>x\<in>set cs. ct_ProjectExtId x = Some pid) \<longrightarrow> ct_ProjectExtId c = Some pid))"
proof (cases p)
  case None
  with assms show ?thesis by (auto simp: getCategoryForProject_simps split: list.splits)
next
  case (Some pid)
  with assms show ?thesis
    by (auto simp: getCategoryForProject_simps find_None_iff owned_category_usable
        split: option.splits dest!: find_SomeD)
qed

lemma getCategoryForProject_None_iff:
  "getCategoryForProject cs p = None \<longleftrightarrow>
     (case p of None \<Rightarrow> cs = [] | Some pid \<Rightarrow> \<forall>c\<in>set cs. \<not> isCategoryUsableForProject (Some c) pid)"
  using owned_category_usable
  by (cases p) (auto simp: getCategoryForProject_simps find_None_iff split: list.splits option.splits
      dest!: find_SomeD)

lemma getCategories_reads: "moves (only_calls is_prism_read) (getCategories client k v)"
  unfolding getCategories_def by (intro only_rules) simp

lemma getCategory_reads: "moves (only_calls is_prism_read) (getCategory client k v)"
  unfolding getCategory_def by (intro only_rules getCategories_reads)

lemma references_reads:
  "moves (only_calls is_prism_read) (GetPrismReferencesOfCategoryIdentifiersForProject client cis p)"
  unfolding GetPrismReferencesOfCategoryIdentifiersForProject_def add_category_ref_def
  by (intro only_rules getCategories_reads)

lemma getCategories_Inr:
  "getCategories client k v s = (Inr cs, s') \<longleftrightarrow>
     Categories_List client (trace s) (category_filter k v) = Inr cs \<and>
     s' = s\<lparr>trace := trace s @ [PList RCategory (category_filter k v)]\<rparr>"
  by (simp add: getCategories_def go_inv)

lemma category_filter_inj_key:
  "category_filter k v = category_filter k v' \<longleftrightarrow> v = v'"
  by (simp add: category_filter_def squote_def)

lemma refs_fold:
  assumes "fold_go (add_category_ref client p) cis ids s = (Inr ids', s')" "distinct ids"
  shows "distinct ids' \<and> (\<exists>new. ids' = ids @ new) \<and>
    (\<forall>ci\<in>set cis. \<exists>c cs h u. ci = Some c \<and> Categories_List client h (category_filter (cat_Key c) (cat_Value c)) = Inr cs \<and>
       (\<exists>x. getCategoryForProject cs p = Some x \<and> ct_ExtId x = Some u \<and> u \<in> set ids'))"
  using assms
proof (induction cis arbitrary: ids s)
  case Nil
  then show ?case by (simp add: go_inv)
next
  case (Cons ci cis ids s)
  from Cons.prems obtain ids1 s1 where 1: "add_category_ref client p ci ids s = (Inr ids1, s1)"
    "fold_go (add_category_ref client p) cis ids1 s1 = (Inr ids', s')" by (auto simp: go_inv)
  from 1(1) obtain c cs x u where c: "ci = Some c"
    "Categories_List client (trace s) (category_filter (cat_Key c) (cat_Value c)) = Inr cs"
    "getCategoryForProject cs p = Some x" "ct_ExtId x = Some u"
    "ids1 = (if List.member ids u then ids else ids @ [u])"
    by (auto simp: add_category_ref_def go_inv getCategories_Inr split: option.splits)
  have "distinct ids1" "u \<in> set ids1" "\<exists>new. ids1 = ids @ new" using c(5) Cons.prems(2) by auto
  with Cons.IH [OF 1(2)] c(1-4) show ?case by fastforce
qed

section \<open>Properties\<close>

text \<open>C32 A category is created only when no listed category is usable, at most once, and
  with the key, value, description and project of the request; otherwise the listed one is
  returned and nothing is written.  When Prism answers that the category exists already,
  the result is the category Prism returned or the requested one with the id that the
  error names.\<close>

theorem getOrCreateCategory_functional:
  assumes "getOrCreateCategoryForProject client (Some ci) p s = (Inr r, s')"
  shows "\<exists>cs. Categories_List client (trace s) (category_filter (cat_Key ci) (cat_Value ci)) = Inr cs \<and>
    (let listed = PList RCategory (category_filter (cat_Key ci) (cat_Value ci));
         answer = Categories_Create client (trace s @ [listed]) (new_category ci p) in
     case getCategoryForProject cs p of
       Some c \<Rightarrow> r = Some c \<and> s' = s\<lparr>trace := trace s @ [listed]\<rparr>
     | None \<Rightarrow> s' = s\<lparr>trace := trace s @ [listed, PCreate_category (new_category ci p)]\<rparr> \<and>
         (case fst answer of
            None \<Rightarrow> r = snd answer
          | Some e \<Rightarrow> snd (existingCategoryExtID (Some e)) \<and> r \<noteq> None \<and>
              (r = snd answer \<or> r = Some ((new_category ci p)\<lparr>ct_ExtId := Some (fst (existingCategoryExtID (Some e)))\<rparr>))))"
  using assms
  by (auto simp: getOrCreateCategoryForProject_def create_category_def go_inv getCategories_Inr Let_def
      split: option.splits if_splits prod.splits)

definition race_client :: v4_client where
  "race_client = base_v4_client\<lparr>Categories_List := (\<lambda>h f. Inr []),
     Categories_Create := (\<lambda>h c. (Some (Lib_error
       ''category with the provided key and value already exists with extId: c-7.'' True), None))\<rparr>"

lemma getOrCreateCategory_functional_witness:
  "fst (getOrCreateCategoryForProject race_client (Some \<lparr>cat_Key = ''k'', cat_Value = ''v''\<rparr>) None \<lparr>trace = []\<rparr>) =
     Inr (Some ((new_category \<lparr>cat_Key = ''k'', cat_Value = ''v''\<rparr> None)\<lparr>ct_ExtId := Some ''c-7''\<rparr>))"
proof -
  have "getOrCreateCategoryForProject race_client (Some \<lparr>cat_Key = ''k'', cat_Value = ''v''\<rparr>) None \<lparr>trace = []\<rparr> =
     (Inr (Some ((new_category \<lparr>cat_Key = ''k'', cat_Value = ''v''\<rparr> None)\<lparr>ct_ExtId := Some ''c-7''\<rparr>)),
      \<lparr>trace = [PList RCategory (category_filter ''k'' ''v''),
         PCreate_category (new_category \<lparr>cat_Key = ''k'', cat_Value = ''v''\<rparr> None)]\<rparr>)"
    by code_simp
  from getOrCreateCategory_functional [OF this] this show ?thesis by simp
qed

text \<open>C36 The id is recovered from Prism's answer: for the message that Prism documents,
  with any id that has no white space and does not end in a stripped character, the parser
  returns exactly that id.\<close>

theorem existingCategoryExtID_roundtrip:
  assumes "u \<noteq> []" "list_all (\<lambda>c. \<not> re_space c) u" "last u \<notin> set ''.,;''"
  shows "existingCategoryExtID (Some (Lib_error
     (''400 InvalidArgument: Operation failed as a category with the provided key and value already exists with extId: '' @ u)
     True)) = (u, True)"
proof -
  have d: "dropWhile re_space u = u" "takeWhile (\<lambda>c. \<not> re_space c) u = u"
    using assms(1,2) by (cases u; auto simp: list_all_iff takeWhile_eq_all_conv)+
  obtain w z where w: "u = w @ [z]" using assms(1) by (meson rev_exhaust)
  with assms(3) have t: "TrimRight u ''.,;'' = u" by (simp add: TrimRight_def)
  have sp: "re_space CHR '' ''" by (simp add: re_space_def)
  show ?thesis
    by (simp add: existingCategoryExtID_def categoryAlreadyExistsMessage_def CutPrefix_def Let_def
        sp d t assms(1))
qed

lemma existingCategoryExtID_roundtrip_witness:
  "existingCategoryExtID (Some (Lib_error
     ''400 InvalidArgument: Operation failed as a category with the provided key and value already exists with extId: 9f-1''
     True)) = (''9f-1'', True)"
  using existingCategoryExtID_roundtrip [of "''9f-1''"] by (simp add: re_space_def)

text \<open>C33 The category references of a VM have no duplicates and cover every identifier:
  each one contributes the id of the category selected for the project, and resolving
  them writes nothing.\<close>

theorem category_references_correct:
  assumes "GetPrismReferencesOfCategoryIdentifiersForProject client cis p s = (Inr refs, s')"
  shows "distinct refs \<and> None \<notin> set refs \<and>
    (\<forall>ci\<in>set cis. \<exists>c cs h x. ci = Some c \<and>
       Categories_List client h (category_filter (cat_Key c) (cat_Value c)) = Inr cs \<and>
       getCategoryForProject cs p = Some x \<and> ct_ExtId x \<in> set refs) \<and>
    only_calls is_prism_read s s'"
proof -
  from assms obtain ids where f: "fold_go (add_category_ref client p) cis [] s = (Inr ids, s')"
    and r: "refs = map Some ids"
    by (auto simp: GetPrismReferencesOfCategoryIdentifiersForProject_def go_inv)
  have "only_calls is_prism_read s s'" by (rule movesD [OF references_reads assms])
  with refs_fold [OF f] show ?thesis unfolding r
    by (auto simp: distinct_map) (metis imageI)
qed

definition two_category_client :: v4_client where
  "two_category_client = base_v4_client\<lparr>Categories_List := (\<lambda>h f. Inr
     [(new_category \<lparr>cat_Key = ''k'', cat_Value = ''v''\<rparr> None)\<lparr>ct_ExtId := Some ''c1''\<rparr>])\<rparr>"

lemma category_references_correct_witness:
  "distinct [Some ''c1''] \<and> fst (GetPrismReferencesOfCategoryIdentifiersForProject two_category_client
     [Some \<lparr>cat_Key = ''k'', cat_Value = ''v''\<rparr>, Some \<lparr>cat_Key = ''k'', cat_Value = ''w''\<rparr>] None \<lparr>trace = []\<rparr>) =
     Inr [Some ''c1'']"
proof -
  have "GetPrismReferencesOfCategoryIdentifiersForProject two_category_client
     [Some \<lparr>cat_Key = ''k'', cat_Value = ''v''\<rparr>, Some \<lparr>cat_Key = ''k'', cat_Value = ''w''\<rparr>] None \<lparr>trace = []\<rparr> =
     (Inr [Some ''c1''], \<lparr>trace = [PList RCategory (category_filter ''k'' ''v''),
        PList RCategory (category_filter ''k'' ''w'')]\<rparr>)"
    by code_simp
  from category_references_correct [OF this] this show ?thesis by simp
qed

text \<open>A failed deletion ends the deletion of all the remaining categories with success:
  when Prism refuses to delete the first category found, no other category of the list is
  looked up or deleted, and the caller is told that all went well.\<close>

theorem delete_stops_at_first_failure:
  assumes "pairs_in_order ord g = (k, v) # rest" "group_categories cis [] = Inr g"
    and "Categories_List client (trace s) (category_filter k v) = Inr cs"
    and "getCategoryForProject cs p = Some c" "ct_ExtId c = Some u"
    and "Categories_Delete client (trace s @ [PList RCategory (category_filter k v)]) u = Inl e" "e \<noteq> NilDeref"
  shows "deleteCategoryKeyValuesForProject ord client cis p s =
    (Inr (), s\<lparr>trace := trace s @ [PList RCategory (category_filter k v), PDelete RCategory u]\<rparr>)"
  using assms
  by (simp add: deleteCategoryKeyValuesForProject_def go_eval getCategories_def Let_def)

definition in_use_client :: v4_client where
  "in_use_client = two_category_client\<lparr>Categories_Delete := (\<lambda>h u. Inl (Lib_error ''in use'' True))\<rparr>"

lemma delete_stops_at_first_failure_witness:
  "deleteCategoryKeyValuesForProject id in_use_client
     [Some \<lparr>cat_Key = ''k'', cat_Value = ''v''\<rparr>, Some \<lparr>cat_Key = ''other'', cat_Value = ''w''\<rparr>] None \<lparr>trace = []\<rparr> =
   (Inr (), \<lparr>trace = [PList RCategory (category_filter ''k'' ''v''), PDelete RCategory ''c1'']\<rparr>)"
  using delete_stops_at_first_failure [of id "[(''k'', [''v'']), (''other'', [''w''])]" "''k''" "''v''"
      "[(''other'', ''w'')]" "[Some \<lparr>cat_Key = ''k'', cat_Value = ''v''\<rparr>, Some \<lparr>cat_Key = ''other'', cat_Value = ''w''\<rparr>]"
      in_use_client "\<lparr>trace = []\<rparr>" _ None _ "''c1''" "Lib_error ''in use'' True"]
  by (simp add: pairs_in_order_def in_use_client_def two_category_client_def getCategoryForProject_def)

end
