(* ===== verification/Machine_Context.thy ===== *)
theory Machine_Context
  imports Lookup
begin

text \<open>
  The context of a NutanixMachine reconcile (pkg/context/context.go) and the helpers that
  update the machine object (controllers/helpers.go).

  The fields of MachineContext that a reconcile only reads are the record rctx; the
  NutanixMachine object and the Datastore, which it updates, are the state.  The package
  functions the source takes from other modules (uuid.Parse, schema.ParseGroupVersion and the
  finalizer functions of controller-runtime) are the record libs, and their documented behaviour is the predicate
  finalizer_laws.
\<close>

record libs =
  parse_uuid :: "string \<Rightarrow> go_error + unit"
  ContainsFinalizer :: "string list \<Rightarrow> string \<Rightarrow> bool"
  AddFinalizer :: "string list \<Rightarrow> string \<Rightarrow> string list"
  RemoveFinalizer :: "string list \<Rightarrow> string \<Rightarrow> string list"
  ParseGroup :: "string \<Rightarrow> go_error + string"

definition finalizer_laws :: "libs \<Rightarrow> bool" where
  "finalizer_laws L \<longleftrightarrow>
     (\<forall>fs f. ContainsFinalizer L fs f \<longleftrightarrow> f \<in> set fs) \<and>
     (\<forall>fs f. set (AddFinalizer L fs f) = insert f (set fs)) \<and>
     (\<forall>fs f. set (RemoveFinalizer L fs f) = set fs - {f})"

text \<open>A concrete library for instances: a UUID is any text with a dash, and the group of an API
  version is what precedes the slash.\<close>

definition demo_libs :: libs where
  "demo_libs = \<lparr>parse_uuid = (\<lambda>s. if List.member s (CHR ''-'') then Inr () else Inl (Leaf ''invalid UUID'')),
     ContainsFinalizer = List.member,
     AddFinalizer = (\<lambda>fs f. if List.member fs f then fs else fs @ [f]),
     RemoveFinalizer = (\<lambda>fs f. removeAll f fs),
     ParseGroup = (\<lambda>v. Inr (takeWhile (\<lambda>c. c \<noteq> CHR ''/'') v))\<rparr>"

lemma demo_finalizer_laws: "finalizer_laws demo_libs"
  by (auto simp: finalizer_laws_def demo_libs_def)

text \<open>The Kubernetes client and the uncached reader of the machine reconciler.\<close>

record kube_client =
  Kube_GetFailureDomain :: "call list \<Rightarrow> string \<Rightarrow> string \<Rightarrow> go_error + NutanixFailureDomain"
  Kube_GetMetro :: "call list \<Rightarrow> string \<Rightarrow> string \<Rightarrow> go_error + NutanixMetro"
  Kube_GetMetroSite :: "call list \<Rightarrow> string \<Rightarrow> string \<Rightarrow> go_error + NutanixMetroSite"
  Kube_ListVHADomains :: "call list \<Rightarrow> string \<Rightarrow> go_error + NutanixVirtualHADomain list"
  Kube_ListNutanixMachines :: "call list \<Rightarrow> string \<Rightarrow> (string \<times> string) list \<Rightarrow> go_error + NutanixMachine list"
  Kube_ListMachines :: "call list \<Rightarrow> string \<Rightarrow> (string \<times> string) list \<Rightarrow> go_error + capi_Machine list"

definition base_kube_client :: kube_client where
  "base_kube_client = \<lparr>
     Kube_GetFailureDomain = (\<lambda>h n ns. no_service), Kube_GetMetro = (\<lambda>h n ns. no_service),
     Kube_GetMetroSite = (\<lambda>h n ns. no_service), Kube_ListVHADomains = (\<lambda>h ns. no_service),
     Kube_ListNutanixMachines = (\<lambda>h ns l. no_service), Kube_ListMachines = (\<lambda>h ns l. no_service)\<rparr>"

record rctx =
  rx_libs :: libs
  rx_Cluster :: capi_Cluster
  rx_Machine :: "capi_Machine option"
  rx_NutanixCluster :: NutanixCluster
  rx_PCVersion :: string
  rx_ProjectPolicy :: string
  rx_V4 :: v4_client
  rx_V3 :: "v3_client option"
  rx_kube :: kube_client

record machine_ctx = world +
  NM :: NutanixMachine
  Datastore :: string_map

section \<open>Updating the machine\<close>

definition update_NM :: "(NutanixMachine \<Rightarrow> NutanixMachine) \<Rightarrow> ('z machine_ctx_scheme, unit) go" where
  "update_NM f = modify (\<lambda>s. s\<lparr>NM := f (NM s)\<rparr>)"

definition update_status ::
  "(NutanixMachineStatus \<Rightarrow> NutanixMachineStatus) \<Rightarrow> ('z machine_ctx_scheme, unit) go" where
  "update_status f = update_NM (\<lambda>m. m\<lparr>nm_Status := f (nm_Status m)\<rparr>)"

definition update_meta :: "(obj_meta \<Rightarrow> obj_meta) \<Rightarrow> ('z machine_ctx_scheme, unit) go" where
  "update_meta f = update_NM (\<lambda>m. m\<lparr>nm_Meta := f (nm_Meta m)\<rparr>)"

definition conditions :: "condition_op list \<Rightarrow> ('z machine_ctx_scheme, unit) go" where
  "conditions ops = update_status (\<lambda>st. st\<lparr>mst_Conditions := mst_Conditions st @ ops\<rparr>)"

text \<open>MarkFalse of the v1beta1 conditions and Set to false of the v1beta2 conditions, with
  the text of an error.\<close>

definition mark_failed :: "string \<Rightarrow> string \<Rightarrow> severity \<Rightarrow> go_error \<Rightarrow> ('z machine_ctx_scheme, unit) go" where
  "mark_failed cond reason sev e =
     conditions [MarkFalse cond reason sev (Error_text e), SetFalse cond reason (Error_text e)]"

definition mark_true :: "string \<Rightarrow> ('z machine_ctx_scheme, unit) go" where
  "mark_true cond = conditions [MarkTrue cond, SetTrue cond Succeeded []]"

definition SetFailureStatus :: "string \<Rightarrow> go_error \<Rightarrow> ('z machine_ctx_scheme, unit) go" where
  "SetFailureStatus failureReason failureMessage =
     update_status (\<lambda>st. st\<lparr>mst_FailureMessage := Some (Error_text failureMessage),
                            mst_FailureReason := Some failureReason\<rparr>)"

definition IsControlPlaneMachine :: "NutanixMachine option \<Rightarrow> bool" where
  "IsControlPlaneMachine nma =
     (case nma of None \<Rightarrow> False
      | Some m \<Rightarrow> om_Labels (nm_Meta m) ''cluster.x-k8s.io/control-plane-name'' \<noteq> None)"

definition nutanixMachineAnnotation :: "NutanixMachine option \<Rightarrow> string \<Rightarrow> string" where
  "nutanixMachineAnnotation nm key =
     (case nm of None \<Rightarrow> [] | Some m \<Rightarrow> map_get (om_Annotations (nm_Meta m)) key)"

definition setNutanixMachineAnnotation :: "string \<Rightarrow> string \<Rightarrow> ('z machine_ctx_scheme, unit) go" where
  "setNutanixMachineAnnotation key v =
     update_meta (\<lambda>m. m\<lparr>om_Annotations := (om_Annotations m)(key \<mapsto> v)\<rparr>)"

definition deleteNutanixMachineAnnotation :: "string \<Rightarrow> ('z machine_ctx_scheme, unit) go" where
  "deleteNutanixMachineAnnotation key =
     update_meta (\<lambda>m. m\<lparr>om_Annotations := (om_Annotations m)(key := None)\<rparr>)"

section \<open>Lemmas\<close>

lemma update_NM_apply [go_eval]: "update_NM f s = (Inr (), s\<lparr>NM := f (NM s)\<rparr>)"
  by (simp add: update_NM_def go_eval)

lemma update_NM_eq [go_inv]: "update_NM f s = (r, s') \<longleftrightarrow> r = Inr () \<and> s' = s\<lparr>NM := f (NM s)\<rparr>"
  by (auto simp: update_NM_apply)

lemmas machine_update_defs = update_status_def update_meta_def conditions_def mark_failed_def mark_true_def
  SetFailureStatus_def setNutanixMachineAnnotation_def deleteNutanixMachineAnnotation_def

lemma update_NM_adds: "moves (adds_calls A) (update_NM f)"
  by (simp add: moves_def update_NM_apply adds_calls_def)

lemma updates_adds:
  "moves (adds_calls A) (conditions ops)" "moves (adds_calls A) (mark_failed c r sev e)"
  "moves (adds_calls A) (mark_true c)" "moves (adds_calls A) (SetFailureStatus r e)"
  "moves (adds_calls A) (setNutanixMachineAnnotation k v)"
  "moves (adds_calls A) (deleteNutanixMachineAnnotation k)"
  "moves (adds_calls A) (update_meta f)" "moves (adds_calls A) (update_status g)"
  by (simp_all add: machine_update_defs update_NM_adds)

text \<open>A computation that changes the conditions of the machine at most by adding to them,
  and nothing else of the machine.\<close>

definition same_machine :: "'z machine_ctx_scheme \<Rightarrow> 'z machine_ctx_scheme \<Rightarrow> bool" where
  "same_machine s s' \<longleftrightarrow> NM s' = NM s \<and> Datastore s' = Datastore s"

interpretation same: state_order same_machine
  by unfold_locales (auto simp: same_machine_def)

lemma only_same: "moves (only_calls A) m \<Longrightarrow> moves same_machine m"
  by (auto simp: moves_def only_calls_def same_machine_def) (metis machine_ctx.ext_inject machine_ctx.surjective
      machine_ctx.select_convs world.update_convs(1))+

section \<open>Sample objects\<close>

text \<open>Objects at which the properties of the reconcilers are instantiated.\<close>

definition sample_meta :: "string \<Rightarrow> obj_meta" where
  "sample_meta n = \<lparr>om_Name = n, om_Namespace = ''ns'', om_Labels = Map.empty, om_Annotations = Map.empty,
     om_Finalizers = [], om_Deleting = False, om_CreationTimestamp = 0, om_OwnerReferences = [],
     om_UID = []\<rparr>"

definition sample_spec :: NutanixMachineSpec where
  "sample_spec = \<lparr>ms_ProviderID = [], ms_VCPUsPerSocket = 1, ms_VCPUSockets = 2,
     ms_MemorySize = Quantity ''4Gi'', ms_Image = Some (name_id ''ubuntu''), ms_ImageLookup = None,
     ms_Cluster = name_id ''pe-a'', ms_Subnets = [name_id ''net''], ms_AdditionalCategories = [],
     ms_Project = None, ms_BootType = Legacy, ms_SystemDiskSize = Quantity ''40Gi'', ms_DataDisks = [],
     ms_BootstrapRef = None, ms_GPUs = [], ms_VMProfile = None\<rparr>"

definition sample_status :: NutanixMachineStatus where
  "sample_status = \<lparr>mst_Ready = False, mst_Addresses = [], mst_VmUUID = [], mst_FailureReason = None,
     mst_FailureMessage = None, mst_FailureDomain = None, mst_Conditions = []\<rparr>"

definition sample_NM :: "string \<Rightarrow> NutanixMachine" where
  "sample_NM n = \<lparr>nm_Meta = sample_meta n, nm_Spec = sample_spec, nm_Status = sample_status\<rparr>"

definition sample_Machine :: "string \<Rightarrow> string \<Rightarrow> capi_Machine" where
  "sample_Machine n fd = \<lparr>cm_Meta = sample_meta n, cm_ClusterName = ''c'', cm_FailureDomain = fd, cm_InfrastructureRefName = n,
     cm_InfrastructureRefKind = ''NutanixMachine'', cm_Version = ''v1.30.0'', cm_NodeInfo_SystemUUID = None,
     cm_ProviderID = [], cm_BootstrapDataSecretName = None\<rparr>"

definition sample_Cluster :: capi_Cluster where
  "sample_Cluster = \<lparr>cc_Meta = sample_meta ''c'', cc_InfrastructureRefName = ''c'',
     cc_InfrastructureProvisioned = Some True, cc_ControlPlaneInitialized = None\<rparr>"

definition sample_NutanixCluster :: NutanixCluster where
  "sample_NutanixCluster = \<lparr>ncl_Meta = sample_meta ''c'', ncl_PrismCentral = None, ncl_FailureDomains = [],
     ncl_ControlPlaneFailureDomains = [], ncl_Ready = False, ncl_StatusFailureDomains = [], ncl_Conditions = [],
     ncl_FailureReason = None, ncl_FailureMessage = None\<rparr>"

definition sample_rctx :: "v4_client \<Rightarrow> rctx" where
  "sample_rctx client = \<lparr>rx_libs = demo_libs, rx_Cluster = sample_Cluster,
     rx_Machine = Some (sample_Machine ''m'' []), rx_NutanixCluster = sample_NutanixCluster,
     rx_PCVersion = ''7.6'', rx_ProjectPolicy = ''unrestricted'', rx_V4 = client, rx_V3 = None,
     rx_kube = base_kube_client\<rparr>"

definition sample_ctx :: machine_ctx where
  "sample_ctx = \<lparr>trace = [], NM = sample_NM ''m'', Datastore = Map.empty\<rparr>"

end
