(* ===== verification/Projects.thy ===== *)
theory Projects
  imports Machine_Context
begin

text \<open>
  Projects: which project and which resource group a machine or a cluster uses, and the
  project policy of the cluster (controllers/helpers.go, the functions on projects, and
  resolveEffectiveProject, validateProjectPolicy and addVMToProject of
  controllers/nutanixmachine_controller.go).
\<close>

definition ProjectAssignedCondition :: string where "ProjectAssignedCondition = ''ProjectAssigned''"
definition ProjectAssignationFailed :: string where "ProjectAssignationFailed = ''ProjectAssignationFailed''"
definition CAPXProjectPolicyDefaultOnly :: string where "CAPXProjectPolicyDefaultOnly = ''default-only''"
definition CAPXProjectPolicyUnrestricted :: string where "CAPXProjectPolicyUnrestricted = ''unrestricted''"
definition CAPXProjectPolicySingleProject :: string where "CAPXProjectPolicySingleProject = ''single-project''"
definition CAPXProjectUUIDAnnotation :: string where "CAPXProjectUUIDAnnotation = ''capx.nutanix.com/project-uuid''"
definition zeroProjectUUID :: string where "zeroProjectUUID = ''00000000-0000-0000-0000-000000000000''"

lemmas policy_defs = CAPXProjectPolicyDefaultOnly_def CAPXProjectPolicyUnrestricted_def
  CAPXProjectPolicySingleProject_def

section \<open>Resolution\<close>

definition get_default_project :: "v4_client \<Rightarrow> ('z world_scheme, prism_project option) go" where
  "get_default_project client = ext (PRead RProject ''GetDefaultProject'' []) (Projects_GetDefault client)"

definition GetDefaultProjectUUID :: "v4_client \<Rightarrow> string \<Rightarrow> ('z world_scheme, string) go" where
  "GetDefaultProjectUUID client pcVersion =
     (if \<not> isPCVersionHigherThan75 pcVersion then ret []
      else bnd (get_default_project client) (\<lambda>p_p. bnd (deref p_p) (\<lambda>p. deref (pj_ExtId p))))"

definition resolveProjectInfoForPolicy ::
  "v4_client \<Rightarrow> string \<Rightarrow> string \<Rightarrow> string \<Rightarrow> ('z world_scheme, ProjectInfo option) go" where
  "resolveProjectInfoForPolicy client projectPolicy projectUUID pcVersion =
     (if \<not> isPCVersionHigherThan75 pcVersion then ret None
      else if projectPolicy = [] \<or> projectPolicy = CAPXProjectPolicyUnrestricted then ret None
      else if projectPolicy = CAPXProjectPolicyDefaultOnly then
        bnd (wrapping (\<lambda>e. Wrap (''failed to get default project for policy '' @ dquote projectPolicy @ '': '') e [])
              (get_default_project client)) (\<lambda>p_p. bnd (deref p_p) (\<lambda>p.
          ret (Some \<lparr>pi_ExtID = pj_ExtId p, pi_Name = pj_Name p\<rparr>)))
      else if projectPolicy = CAPXProjectPolicySingleProject then
        (if projectUUID = []
         then raise (Leaf (''single-project policy requires '' @ CAPXProjectUUIDAnnotation @ '' annotation''))
         else ret (Some \<lparr>pi_ExtID = Some projectUUID, pi_Name = Some projectUUID\<rparr>))
      else raise (Leaf (''invalid project policy '' @ dquote projectPolicy)))"

definition GetResourceGroupForProject ::
  "v4_client \<Rightarrow> string \<Rightarrow> ('z world_scheme, resource_group option) go" where
  "GetResourceGroupForProject client projectExtID =
     (let f = ''projectExtId eq '' @ squote projectExtID in
      bnd (ext (PList RResourceGroup f) (\<lambda>h. ResourceGroups_List client h f)) (\<lambda>rgs.
        ret (find (\<lambda>rg. rg_ProjectExtId rg = Some projectExtID) rgs)))"

definition resolveResourceGroup ::
  "v4_client \<Rightarrow> string \<Rightarrow> ProjectInfo \<Rightarrow> ('z world_scheme, resource_group option) go" where
  "resolveResourceGroup client pcVersion effectiveProject =
     bnd (deref (pi_ExtID effectiveProject)) (\<lambda>pid.
     bnd (attempt (GetDefaultProjectUUID client pcVersion)) (\<lambda>r.
       let defaultUUID = (case r of Inl err \<Rightarrow> zeroProjectUUID | Inr u \<Rightarrow> u) in
       if pid = defaultUUID then ret None
       else bnd (GetResourceGroupForProject client pid) (\<lambda>rg.
         case rg of
           Some g \<Rightarrow> ret (Some g)
         | None \<Rightarrow> bnd (deref (pi_Name effectiveProject)) (\<lambda>n.
             raise (Terminal (''no resource group found for project '' @ n))))))"

definition resolveResourceGroupForProjectPolicy ::
  "v4_client \<Rightarrow> string \<Rightarrow> string \<Rightarrow> string \<Rightarrow> ('z world_scheme, resource_group option) go" where
  "resolveResourceGroupForProjectPolicy client projectPolicy projectUUID pcVersion =
     bnd (resolveProjectInfoForPolicy client projectPolicy projectUUID pcVersion) (\<lambda>project.
     case project_ext_id project of
       None \<Rightarrow> ret None
     | Some pid \<Rightarrow>
         bnd (attempt (get_default_project client)) (\<lambda>r.
         bnd (case r of
                Inl derr \<Rightarrow> ret zeroProjectUUID
              | Inr p_p \<Rightarrow> bnd (deref p_p) (\<lambda>p.
                  ret (case pj_ExtId p of None \<Rightarrow> zeroProjectUUID | Some u \<Rightarrow> u))) (\<lambda>defaultUUID.
         if pid = defaultUUID then ret None
         else bnd (GetResourceGroupForProject client pid) (\<lambda>rg.
           case rg of
             Some g \<Rightarrow> ret (Some g)
           | None \<Rightarrow> raise (Terminal (''no resource group found for project '' @ pid))))))"

definition GetProjectV4 ::
  "v4_client \<Rightarrow> NutanixResourceIdentifier \<Rightarrow> ('z world_scheme, ProjectInfo) go" where
  "GetProjectV4 client projectRef =
     (case (id_UUID projectRef, id_Name projectRef) of
        (None, None) \<Rightarrow> raise (Leaf ''name or uuid must be passed in order to retrieve the project'')
      | (Some u, _) \<Rightarrow>
          bnd (ext (PGet RProject u) (\<lambda>h. Projects_Get client h u)) (\<lambda>p_p. bnd (deref p_p) (\<lambda>p.
            ret \<lparr>pi_ExtID = pj_ExtId p, pi_Name = pj_Name p\<rparr>))
      | (None, Some n) \<Rightarrow>
          bnd (ext (PRead RProject ''GetByName'' [n]) (\<lambda>h. Projects_GetByName client h n)) (\<lambda>p_p.
          bnd (deref p_p) (\<lambda>p. ret \<lparr>pi_ExtID = pj_ExtId p, pi_Name = pj_Name p\<rparr>)))"

definition GetProjectV3 ::
  "v3_client option \<Rightarrow> NutanixResourceIdentifier \<Rightarrow> ('z world_scheme, ProjectInfo) go" where
  "GetProjectV3 client_p projectRef =
     (case (id_UUID projectRef, id_Name projectRef) of
        (None, None) \<Rightarrow> raise (Leaf ''name or uuid must be passed in order to retrieve the project'')
      | (Some u, _) \<Rightarrow>
          bnd (deref client_p) (\<lambda>client.
          bnd (wrapping (\<lambda>e. if Contains (Error_text e) ''ENTITY_NOT_FOUND''
                 then Terminal (''failed to find project with UUID '' @ u @ '': '' @ Error_text e)
                 else Wrap (''failed to get project with UUID '' @ u @ '': '') e [])
                (ext (PRead RProject ''v3.GetProject'' [u]) (\<lambda>h. V3_GetProject client h u))) (\<lambda>p.
            ret \<lparr>pi_ExtID = pv3_UUID p, pi_Name = Some (pv3_Name p)\<rparr>))
      | (None, Some n) \<Rightarrow>
          bnd (deref client_p) (\<lambda>client.
          bnd (ext (PRead RProject ''v3.ListAllProject'' []) (V3_ListAllProject client)) (\<lambda>ps.
            of_result (map_sum id (\<lambda>p. \<lparr>pi_ExtID = pv3_UUID p, pi_Name = Some (pv3_Name p)\<rparr>)
              (pick_single (filter (\<lambda>p. EqualFold (pv3_Name p) n) ps)
                (Terminal (''failed to retrieve project by name '' @ n))
                (Leaf (''more than one project found with name '' @ n)))))))"

section \<open>The effective project of a machine\<close>

definition markProjectAssignationFailed :: "go_error \<Rightarrow> ('z machine_ctx_scheme, unit) go" where
  "markProjectAssignationFailed e =
     mark_failed ProjectAssignedCondition ProjectAssignationFailed SeverityError e"

definition resolveEffectiveProject :: "rctx \<Rightarrow> ('z machine_ctx_scheme, ProjectInfo option) go" where
  "resolveEffectiveProject rctx =
     (let vmName = (case rx_Machine rctx of None \<Rightarrow> [] | Some m \<Rightarrow> om_Name (cm_Meta m)) in
      bnd (gets (\<lambda>s. ms_Project (nm_Spec (NM s)))) (\<lambda>projectRef.
      case projectRef of
        Some ref \<Rightarrow>
          bnd (attempt (if isPCVersionHigherThan75 (rx_PCVersion rctx)
                        then GetProjectV4 (rx_V4 rctx) ref else GetProjectV3 (rx_V3 rctx) ref)) (\<lambda>r.
          case r of
            Inl err \<Rightarrow>
              (let errorMsg = Wrap (''error occurred while searching for project for VM '' @ vmName @ '': '') err [] in
               thn (markProjectAssignationFailed errorMsg) (raise errorMsg))
          | Inr project \<Rightarrow> ret (Some project))
      | None \<Rightarrow>
          if \<not> isPCVersionHigherThan75 (rx_PCVersion rctx) then ret None
          else bnd (attempt (GetDefaultProjectUUID (rx_V4 rctx) (rx_PCVersion rctx))) (\<lambda>r.
            case r of
              Inl err \<Rightarrow>
                (let errorMsg = Leaf (''error occurred while getting default project: '' @ Error_text err) in
                 thn (markProjectAssignationFailed errorMsg) (raise errorMsg))
            | Inr u \<Rightarrow> ret (Some \<lparr>pi_ExtID = Some u, pi_Name = Some ''_internal''\<rparr>))))"

text \<open>A policy violation: the message mentions *effectiveProject.Name.\<close>

definition project_violation ::
  "ProjectInfo \<Rightarrow> (string \<Rightarrow> string) \<Rightarrow> ('z machine_ctx_scheme, unit) go" where
  "project_violation p msg =
     bnd (deref (pi_Name p)) (\<lambda>n.
       thn (markProjectAssignationFailed (Leaf (msg n))) (raise (Terminal (msg n))))"

definition validateProjectPolicy ::
  "rctx \<Rightarrow> ProjectInfo option \<Rightarrow> ('z machine_ctx_scheme, unit) go" where
  "validateProjectPolicy rctx effectiveProject =
     bnd (gets (\<lambda>s. om_Name (nm_Meta (NM s)))) (\<lambda>nmName.
     let policy = rx_ProjectPolicy rctx in
     if policy = CAPXProjectPolicyUnrestricted then ret ()
     else if policy = CAPXProjectPolicyDefaultOnly then
       bnd (attempt (GetDefaultProjectUUID (rx_V4 rctx) (rx_PCVersion rctx))) (\<lambda>r.
       case r of
         Inl err \<Rightarrow>
           (let errorMsg = Wrap ''failed to get default project for policy validation: '' err [] in
            thn (markProjectAssignationFailed errorMsg) (raise errorMsg))
       | Inr defaultUUID \<Rightarrow>
           (case effectiveProject of
              None \<Rightarrow> ret ()
            | Some p \<Rightarrow> bnd (deref (pi_ExtID p)) (\<lambda>u.
                if u \<noteq> defaultUUID then project_violation p (\<lambda>n. ''project policy violation: machine '' @
                  nmName @ '' uses project '' @ dquote n @ '' but cluster policy requires default project '' @ defaultUUID)
                else ret ())))
     else if policy = CAPXProjectPolicySingleProject then
       (case om_Annotations (cc_Meta (rx_Cluster rctx)) CAPXProjectUUIDAnnotation of
          None \<Rightarrow>
            (let m = ''single-project policy requires '' @ CAPXProjectUUIDAnnotation @ '' annotation on the Cluster'' in
             thn (markProjectAssignationFailed (Leaf m)) (raise (Terminal m)))
        | Some policyProjectUUID \<Rightarrow>
            (case effectiveProject of
               None \<Rightarrow> ret ()
             | Some p \<Rightarrow> bnd (deref (pi_ExtID p)) (\<lambda>u.
                 if u \<noteq> policyProjectUUID then project_violation p (\<lambda>n. ''single-project policy violation: machine '' @
                   nmName @ '' uses project '' @ dquote n @ '' but cluster policy requires project with uuid '' @
                   dquote policyProjectUUID)
                 else ret ())))
     else
       (let m = ''invalid project policy '' @ dquote policy in
        thn (markProjectAssignationFailed (Leaf m)) (raise (Terminal m))))"

text \<open>The VM with its project set.\<close>

definition addVMToProject ::
  "rctx \<Rightarrow> vm option \<Rightarrow> string option \<Rightarrow> ('z machine_ctx_scheme, vm option) go" where
  "addVMToProject rctx vm_p projectExtID =
     bnd (deref (rx_Machine rctx)) (\<lambda>m.
     case vm_p of
       None \<Rightarrow>
         (let errorMsg = Leaf (''VM cannot be nil when adding VM '' @ om_Name (cm_Meta m) @ '' to project'') in
          thn (markProjectAssignationFailed errorMsg) (raise errorMsg))
     | Some v \<Rightarrow>
         (case projectExtID of
            None \<Rightarrow> ret (Some v)
          | Some pid \<Rightarrow>
              thn (mark_true ProjectAssignedCondition) (ret (Some (v\<lparr>vm_Project := Some (Some pid)\<rparr>)))))"

section \<open>Lemmas\<close>

lemma isPCVersionHigherThan75_76: "isPCVersionHigherThan75 ''7.6''"
  by code_simp

lemma GetDefaultProjectUUID_reads: "moves (only_calls is_prism_read) (GetDefaultProjectUUID client v)"
  unfolding GetDefaultProjectUUID_def get_default_project_def by (intro only_rules) simp

lemma GetResourceGroupForProject_reads:
  "moves (only_calls is_prism_read) (GetResourceGroupForProject client p)"
  unfolding GetResourceGroupForProject_def Let_def by (intro only_rules) simp

lemma resolveResourceGroup_reads: "moves (only_calls is_prism_read) (resolveResourceGroup client v p)"
  unfolding resolveResourceGroup_def Let_def
  by (intro only_rules GetDefaultProjectUUID_reads GetResourceGroupForProject_reads)

lemma GetProject_reads:
  "moves (only_calls is_prism_read) (GetProjectV4 c ref)" "moves (only_calls is_prism_read) (GetProjectV3 c3 ref)"
  unfolding GetProjectV4_def GetProjectV3_def by (intro only_rules; simp)+

lemma GetDefaultProjectUUID_same:
  "GetDefaultProjectUUID client v s = (r, s') \<Longrightarrow> NM s' = NM s \<and> Datastore s' = Datastore s"
  by (drule movesD [OF only_same [OF GetDefaultProjectUUID_reads]]) (simp add: same_machine_def)

lemma mark_failed_NM:
  "NM (snd (mark_failed c r sev e s)) = (NM s)\<lparr>nm_Status := (nm_Status (NM s))
     \<lparr>mst_Conditions := mst_Conditions (nm_Status (NM s)) @
        [MarkFalse c r sev (Error_text e), SetFalse c r (Error_text e)]\<rparr>\<rparr>"
  by (simp add: machine_update_defs update_NM_apply)

text \<open>The log entries of a project failure.\<close>

definition project_failure_ops :: "string \<Rightarrow> condition_op list" where
  "project_failure_ops m =
     [MarkFalse ProjectAssignedCondition ProjectAssignationFailed SeverityError m,
      SetFalse ProjectAssignedCondition ProjectAssignationFailed m]"

definition condition_log :: "'z machine_ctx_scheme \<Rightarrow> condition_op list" where
  "condition_log s = mst_Conditions (nm_Status (NM s))"

lemma markProjectAssignationFailed_log:
  "markProjectAssignationFailed e s = (r, s') \<Longrightarrow>
     condition_log s' = condition_log s @ project_failure_ops (Error_text e)"
  unfolding condition_log_def project_failure_ops_def markProjectAssignationFailed_def
  using mark_failed_NM [of ProjectAssignedCondition ProjectAssignationFailed SeverityError e s]
  by (auto simp: machine_update_defs update_NM_apply)

lemma marked_then_raised:
  "thn (markProjectAssignationFailed e) (raise e') s = (Inl e'', s') \<Longrightarrow>
     e'' = e' \<and> condition_log s' = condition_log s @ project_failure_ops (Error_text e)"
  by (auto simp: thn_def bnd_Inl go_inv markProjectAssignationFailed_log)
    (simp_all add: markProjectAssignationFailed_def machine_update_defs update_NM_apply)

section \<open>Properties\<close>

text \<open>The three accepting cases of the policy.\<close>

definition policy_allows :: "rctx \<Rightarrow> ProjectInfo option \<Rightarrow> 'z machine_ctx_scheme \<Rightarrow> bool" where
  "policy_allows rctx project s \<longleftrightarrow>
     rx_ProjectPolicy rctx = CAPXProjectPolicyUnrestricted \<or>
     (rx_ProjectPolicy rctx = CAPXProjectPolicyDefaultOnly \<and>
        (\<exists>u. fst (GetDefaultProjectUUID (rx_V4 rctx) (rx_PCVersion rctx) s) = Inr u \<and>
          (\<forall>p. project = Some p \<longrightarrow> pi_ExtID p = Some u))) \<or>
     (rx_ProjectPolicy rctx = CAPXProjectPolicySingleProject \<and>
        (\<exists>u. om_Annotations (cc_Meta (rx_Cluster rctx)) CAPXProjectUUIDAnnotation = Some u \<and>
          (\<forall>p. project = Some p \<longrightarrow> pi_ExtID p = Some u)))"

lemma policies_distinct [simp]:
  "CAPXProjectPolicyDefaultOnly \<noteq> CAPXProjectPolicyUnrestricted"
  "CAPXProjectPolicySingleProject \<noteq> CAPXProjectPolicyUnrestricted"
  "CAPXProjectPolicySingleProject \<noteq> CAPXProjectPolicyDefaultOnly"
  "CAPXProjectPolicyUnrestricted \<noteq> CAPXProjectPolicyDefaultOnly"
  "CAPXProjectPolicyUnrestricted \<noteq> CAPXProjectPolicySingleProject"
  "CAPXProjectPolicyDefaultOnly \<noteq> CAPXProjectPolicySingleProject"
  by (simp_all add: policy_defs)

lemma violation_outcome:
  "project_violation p msg s = (r, s') \<Longrightarrow>
     (r = Inl NilDeref \<and> s' = s) \<or>
     (\<exists>m. r = Inl (Terminal m) \<and> condition_log s' = condition_log s @ project_failure_ops m)"
  by (cases "pi_Name p")
    (auto simp: project_violation_def markProjectAssignationFailed_def condition_log_def
      project_failure_ops_def machine_update_defs go_eval)

lemma validate_default_only:
  assumes pol: "rx_ProjectPolicy rctx = CAPXProjectPolicyDefaultOnly"
    and run: "validateProjectPolicy rctx project s = (r, s')" "r \<noteq> Inl NilDeref"
  shows "(r = Inr () \<longleftrightarrow> policy_allows rctx project s) \<and>
    (\<forall>e. r = Inl e \<longrightarrow> condition_log s' = condition_log s @ project_failure_ops (Error_text e))"
proof -
  obtain d s1 where d: "GetDefaultProjectUUID (rx_V4 rctx) (rx_PCVersion rctx) s = (d, s1)" by force
  then have l: "condition_log s1 = condition_log s"
    using GetDefaultProjectUUID_same [OF d] by (simp add: condition_log_def)
  show ?thesis
  proof (cases d)
    case (Inl e)
    with d run l pol show ?thesis
      by (auto simp: validateProjectPolicy_def go_eval Let_def policy_allows_def
          markProjectAssignationFailed_def machine_update_defs condition_log_def project_failure_ops_def split: if_splits)
  next
    case (Inr u)
    show ?thesis
    proof (cases "project = None \<or> pi_ExtID (the project) = Some u \<or> pi_ExtID (the project) = None")
      case True
      with Inr d run l pol show ?thesis
        by (cases project; cases "pi_ExtID (the project)")
          (auto simp: validateProjectPolicy_def go_eval Let_def policy_allows_def)
    next
      case False
      then obtain p w where p: "project = Some p" "pi_ExtID p = Some w" "w \<noteq> u" by auto
      with Inr d run pol obtain msg where "project_violation p msg s1 = (r, s')"
        by (auto simp: validateProjectPolicy_def go_eval Let_def)
      with violation_outcome [OF this] run(2) l p Inr d pol show ?thesis
        by (auto simp: policy_allows_def)
    qed
  qed
qed

lemma validate_single_project:
  assumes pol: "rx_ProjectPolicy rctx = CAPXProjectPolicySingleProject"
    and run: "validateProjectPolicy rctx project s = (r, s')" "r \<noteq> Inl NilDeref"
  shows "(r = Inr () \<longleftrightarrow> policy_allows rctx project s) \<and>
    (\<forall>e. r = Inl e \<longrightarrow> condition_log s' = condition_log s @ project_failure_ops (Error_text e))"
proof (cases "om_Annotations (cc_Meta (rx_Cluster rctx)) CAPXProjectUUIDAnnotation")
  case None
  with run pol show ?thesis
    by (auto simp: validateProjectPolicy_def go_eval Let_def policy_allows_def
        markProjectAssignationFailed_def machine_update_defs condition_log_def project_failure_ops_def)
next
  case (Some u)
  show ?thesis
  proof (cases "project = None \<or> pi_ExtID (the project) = Some u \<or> pi_ExtID (the project) = None")
    case True
    with Some run pol show ?thesis
      by (cases project; cases "pi_ExtID (the project)")
        (auto simp: validateProjectPolicy_def go_eval Let_def policy_allows_def)
  next
    case False
    then obtain p w where p: "project = Some p" "pi_ExtID p = Some w" "w \<noteq> u" by auto
    with Some run pol obtain msg where "project_violation p msg s = (r, s')"
      by (auto simp: validateProjectPolicy_def go_eval Let_def)
    with violation_outcome [OF this] run(2) p Some pol show ?thesis
      by (auto simp: policy_allows_def)
  qed
qed

text \<open>C18 The project policy is enforced: unless a nil field makes it panic,
  validateProjectPolicy succeeds exactly when the policy of the cluster is unrestricted, or
  default-only with the default project, or single-project with the annotated project (a
  machine without a project passes the last two), and every rejection marks the condition
  ProjectAssigned false with the text of the returned error.\<close>

theorem validateProjectPolicy_enforces:
  assumes "validateProjectPolicy rctx project s = (r, s')" "r \<noteq> Inl NilDeref"
  shows "(r = Inr () \<longleftrightarrow> policy_allows rctx project s) \<and>
    (\<forall>e. r = Inl e \<longrightarrow> condition_log s' = condition_log s @ project_failure_ops (Error_text e))"
proof -
  consider "rx_ProjectPolicy rctx = CAPXProjectPolicyDefaultOnly"
    | "rx_ProjectPolicy rctx = CAPXProjectPolicySingleProject"
    | "rx_ProjectPolicy rctx = CAPXProjectPolicyUnrestricted"
    | "rx_ProjectPolicy rctx \<notin> {CAPXProjectPolicyDefaultOnly, CAPXProjectPolicySingleProject,
         CAPXProjectPolicyUnrestricted}" by blast
  then show ?thesis
  proof cases
    case 1
    then show ?thesis by (rule validate_default_only [OF _ assms])
  next
    case 2
    then show ?thesis by (rule validate_single_project [OF _ assms])
  next
    case 3
    with assms show ?thesis by (auto simp: validateProjectPolicy_def go_eval Let_def policy_allows_def)
  next
    case 4
    with assms show ?thesis
      by (auto simp: validateProjectPolicy_def go_eval Let_def policy_allows_def
          markProjectAssignationFailed_def machine_update_defs condition_log_def project_failure_ops_def)
  qed
qed

definition default_only_rctx :: rctx where
  "default_only_rctx = (sample_rctx (base_v4_client\<lparr>Projects_GetDefault :=
     (\<lambda>h. Inr (Some \<lparr>pj_ExtId = Some ''d0'', pj_Name = Some ''default''\<rparr>))\<rparr>))\<lparr>rx_ProjectPolicy := ''default-only''\<rparr>"

lemma validateProjectPolicy_enforces_witness:
  "\<not> policy_allows default_only_rctx (Some \<lparr>pi_ExtID = Some ''p1'', pi_Name = Some ''dev''\<rparr>) sample_ctx \<and>
   policy_allows default_only_rctx (Some \<lparr>pi_ExtID = Some ''d0'', pi_Name = Some ''_internal''\<rparr>) sample_ctx"
proof -
  let ?m = "''project policy violation: machine m uses project '' @ dquote ''dev'' @
      '' but cluster policy requires default project d0''"
  obtain s1 where 1: "validateProjectPolicy default_only_rctx
      (Some \<lparr>pi_ExtID = Some ''p1'', pi_Name = Some ''dev''\<rparr>) sample_ctx = (Inl (Terminal ?m), s1)"
    by (simp add: validateProjectPolicy_def default_only_rctx_def sample_rctx_def sample_ctx_def policy_defs
        go_eval Let_def GetDefaultProjectUUID_def get_default_project_def project_violation_def
        markProjectAssignationFailed_def machine_update_defs sample_NM_def sample_meta_def dquote_def
        isPCVersionHigherThan75_76)
  obtain s2 where 2: "validateProjectPolicy default_only_rctx
      (Some \<lparr>pi_ExtID = Some ''d0'', pi_Name = Some ''_internal''\<rparr>) sample_ctx = (Inr (), s2)"
    by (simp add: validateProjectPolicy_def default_only_rctx_def sample_rctx_def sample_ctx_def policy_defs
        go_eval Let_def GetDefaultProjectUUID_def get_default_project_def isPCVersionHigherThan75_76)
  from validateProjectPolicy_enforces [OF 1] validateProjectPolicy_enforces [OF 2] show ?thesis by simp
qed

text \<open>The resource group that a machine's lookups are confined to belongs to the
  machine's project; there is none only when the project is the default project, or the
  zero project when the default one cannot be read.\<close>

theorem resolveResourceGroup_correct:
  assumes "resolveResourceGroup client v p s = (Inr r, s')"
  shows "\<exists>pid. pi_ExtID p = Some pid \<and>
    (case r of
       Some g \<Rightarrow> rg_ProjectExtId g = Some pid
     | None \<Rightarrow> (case fst (GetDefaultProjectUUID client v s) of Inl _ \<Rightarrow> pid = zeroProjectUUID | Inr u \<Rightarrow> pid = u))"
proof -
  have f: "GetResourceGroupForProject client pid t = (Inr (Some g), t') \<Longrightarrow> rg_ProjectExtId g = Some pid"
    for pid t t' and g :: resource_group
    by (auto simp: GetResourceGroupForProject_def Let_def go_inv dest!: find_SomeD [OF sym])
  from assms show ?thesis
    by (auto simp: resolveResourceGroup_def Let_def go_inv attempt_Inr dest!: f
        split: if_splits option.splits sum.splits)
qed

definition group_client :: v4_client where
  "group_client = base_v4_client\<lparr>ResourceGroups_List := (\<lambda>h f. Inr
     [\<lparr>rg_ExtId = Some ''g0'', rg_ProjectExtId = None\<rparr>, \<lparr>rg_ExtId = Some ''g1'', rg_ProjectExtId = Some ''p1''\<rparr>])\<rparr>"

lemma resolveResourceGroup_correct_witness:
  "\<exists>r s'. resolveResourceGroup group_client ''7.6'' \<lparr>pi_ExtID = Some ''p1'', pi_Name = None\<rparr> \<lparr>trace = []\<rparr> = (Inr (Some r), s') \<and>
     rg_ProjectExtId r = Some ''p1''"
proof -
  obtain s1 where 1: "resolveResourceGroup group_client ''7.6'' \<lparr>pi_ExtID = Some ''p1'', pi_Name = None\<rparr> \<lparr>trace = []\<rparr> =
      (Inr (Some \<lparr>rg_ExtId = Some ''g1'', rg_ProjectExtId = Some ''p1''\<rparr>), s1)"
    by (simp add: resolveResourceGroup_def group_client_def base_v4_client_def no_service_def go_eval
        GetDefaultProjectUUID_def get_default_project_def isPCVersionHigherThan75_76 Let_def
        GetResourceGroupForProject_def zeroProjectUUID_def)
  from resolveResourceGroup_correct [OF 1] 1 show ?thesis by auto
qed

end
