(* ===== verification/Vm_Find.thy ===== *)
theory Vm_Find
  imports Machine_Context
begin

text \<open>
  Finding the VM of a machine (controllers/helpers.go, from DeleteVM to vmNamesForDelete):
  the UUID a machine records, the lookup by UUID and by name, and the Metro path that
  leaves VMs alone that disaster recovery has decoupled.
\<close>

definition providerIdPrefix :: string where "providerIdPrefix = ''nutanix://''"
definition metroFailureDomainPrefix :: string where "metroFailureDomainPrefix = ''NutanixMetro/''"
definition metroSiteFailureDomainPrefix :: string where "metroSiteFailureDomainPrefix = ''NutanixMetroSite/''"
definition metroActivePlacementPEAnnotation :: string where
  "metroActivePlacementPEAnnotation = ''metro.nutanix.com/active-placement-pe''"
definition skippedDecoupledVMUUIDAnnotation :: string where
  "skippedDecoupledVMUUIDAnnotation = ''capx.nutanix.com/skipped-decoupled-vm-uuid''"
definition recoveredVMUUIDAnnotation :: string where
  "recoveredVMUUIDAnnotation = ''capx.nutanix.com/recovered-vm-uuid''"

definition isNutanixMetroFailureDomain :: "string \<Rightarrow> bool" where
  "isNutanixMetroFailureDomain fdName = HasPrefix fdName metroFailureDomainPrefix"

definition isNutanixMetroSiteFailureDomain :: "string \<Rightarrow> bool" where
  "isNutanixMetroSiteFailureDomain fdName = HasPrefix fdName metroSiteFailureDomainPrefix"

section \<open>The recorded UUID\<close>

definition GenerateProviderID :: "string \<Rightarrow> string" where
  "GenerateProviderID u = providerIdPrefix @ u"

definition valid_uuid :: "libs \<Rightarrow> string \<Rightarrow> bool" where
  "valid_uuid L u = (case parse_uuid L u of Inl _ \<Rightarrow> False | Inr _ \<Rightarrow> True)"

definition GetVMUUID :: "libs \<Rightarrow> capi_Machine option \<Rightarrow> NutanixMachine \<Rightarrow> go_error + string" where
  "GetVMUUID L machine nm =
     (let nodeUUID = (case machine of None \<Rightarrow> [] | Some m \<Rightarrow> Deref (cm_NodeInfo_SystemUUID m) []);
          vmUUID = mst_VmUUID (nm_Status nm); providerID = ms_ProviderID (nm_Spec nm) in
      if nodeUUID \<noteq> [] then
        (case parse_uuid L nodeUUID of
           Inl err \<Rightarrow> Inl (Wrap (''Machine.Status.NodeInfo.SystemUUID was set but was not a valid UUID: '' @
                            nodeUUID @ '' err: '') err [])
         | Inr _ \<Rightarrow> Inr nodeUUID)
      else if vmUUID \<noteq> [] then
        (case parse_uuid L vmUUID of
           Inl err \<Rightarrow> Inl (Wrap (''VMUUID was set but was not a valid UUID: '' @ vmUUID @ '' err: '') err [])
         | Inr _ \<Rightarrow> Inr vmUUID)
      else if providerID \<noteq> [] then
        (case CutPrefix providerID providerIdPrefix of
           None \<Rightarrow> Inr []
         | Some u \<Rightarrow> (case parse_uuid L u of Inl _ \<Rightarrow> Inr [] | Inr _ \<Rightarrow> Inr u))
      else Inr [])"

section \<open>Lookup by UUID and by name\<close>

definition isVMUsableForProject :: "vm option \<Rightarrow> string \<Rightarrow> bool" where
  "isVMUsableForProject vm_p projectExtID =
     (case vm_p of
        None \<Rightarrow> False
      | Some v \<Rightarrow> (case vm_Project v of
                     None \<Rightarrow> False
                   | Some None \<Rightarrow> False
                   | Some (Some p) \<Rightarrow> p = projectExtID))"

definition FindVMByUUID ::
  "v4_client \<Rightarrow> string \<Rightarrow> string option \<Rightarrow> string \<Rightarrow> ('z world_scheme, vm option) go" where
  "FindVMByUUID client u projectExtID pcVersion =
     bnd (attempt (ext (PGet RVM u) (\<lambda>h. VMs_Get client h u))) (\<lambda>r.
     case r of
       Inl err \<Rightarrow> if IsNotFound client err then ret None else raise err
     | Inr response \<Rightarrow>
         if isPCVersionHigherThan75 pcVersion \<and> projectExtID \<noteq> None \<and>
            \<not> isVMUsableForProject response (the projectExtID)
         then raise (Terminal (''VM with UUID '' @ u @ '' is not in project '' @ the projectExtID))
         else ret response)"

definition FindVMByName ::
  "v4_client \<Rightarrow> string \<Rightarrow> string option \<Rightarrow> string \<Rightarrow> ('z world_scheme, vm option) go" where
  "FindVMByName client vmName projectExtID pcVersion =
     (let f = (if isPCVersionHigherThan75 pcVersion \<and> projectExtID \<noteq> None
               then name_filter vmName @ '' and projectExtId eq '' @ squote (the projectExtID)
               else name_filter vmName) in
      bnd (ext (PList RVM f) (\<lambda>h. VMs_List client h f)) (\<lambda>vms.
      case vms of
        [] \<Rightarrow> ret None
      | [v] \<Rightarrow>
          (case vm_ExtId v of
             None \<Rightarrow> raise (Leaf (''vm with name '' @ vmName @ '' has a nil ExtId''))
           | Some u \<Rightarrow> FindVMByUUID client u projectExtID pcVersion)
      | _ \<Rightarrow> raise (Leaf (''error: found more than one ('' @ show_nat (length vms) @ '') vms with name '' @ vmName))))"

section \<open>The Metro path\<close>

fun first_value :: "string list option list \<Rightarrow> string option" where
  "first_value [] = None"
| "first_value (p # ps) = (case p of Some (v # vs) \<Rightarrow> Some v | _ \<Rightarrow> first_value ps)"

fun field_value :: "groups_field option list \<Rightarrow> string \<Rightarrow> string" where
  "field_value [] name = []"
| "field_value (d # ds) name =
     (case d of
        None \<Rightarrow> field_value ds name
      | Some g \<Rightarrow>
          if gf_Name g \<noteq> name then field_value ds name
          else (case first_value (gf_Values g) of Some v \<Rightarrow> v | None \<Rightarrow> field_value ds name))"

definition groupsFieldValue :: "groups_entity option \<Rightarrow> string \<Rightarrow> string" where
  "groupsFieldValue entity name = (case entity of None \<Rightarrow> [] | Some e \<Rightarrow> field_value (ge_Data e) name)"

definition useMetroDRDeletePath :: "capi_Machine option \<Rightarrow> NutanixMachine \<Rightarrow> bool" where
  "useMetroDRDeletePath machine nm =
     (let machineFD = (case machine of None \<Rightarrow> [] | Some m \<Rightarrow> cm_FailureDomain m);
          fd = Deref (mst_FailureDomain (nm_Status nm)) [] in
      if machine \<noteq> None \<and> (isNutanixMetroFailureDomain machineFD \<or> isNutanixMetroSiteFailureDomain machineFD)
      then True
      else if isNutanixMetroFailureDomain fd \<or> isNutanixMetroSiteFailureDomain fd then True
      else if nutanixMachineAnnotation (Some nm) metroActivePlacementPEAnnotation \<noteq> [] then True
      else nutanixMachineAnnotation (Some nm) skippedDecoupledVMUUIDAnnotation \<noteq> [] \<or>
           nutanixMachineAnnotation (Some nm) recoveredVMUUIDAnnotation \<noteq> [])"

definition drRoleDecoupled :: string where "drRoleDecoupled = ''kDecoupled''"
definition drConfigRoleAttribute :: string where "drConfigRoleAttribute = ''role''"

definition entity_decoupled :: "groups_entity option list option list \<Rightarrow> bool" where
  "entity_decoupled groups =
     list_ex (\<lambda>g. case g of
         None \<Rightarrow> False
       | Some entities \<Rightarrow> list_ex (\<lambda>e. groupsFieldValue e drConfigRoleAttribute = drRoleDecoupled) entities) groups"

definition isVMDecoupled :: "v3_client option \<Rightarrow> string \<Rightarrow> ('z world_scheme, bool) go" where
  "isVMDecoupled v3_p vmUUID =
     (case v3_p of
        None \<Rightarrow> ret False
      | Some v3 \<Rightarrow>
          if vmUUID = [] then ret False
          else
            bnd (wrapping (\<lambda>e. Wrap (''failed to get DR config for VM '' @ vmUUID @ '': '') e [])
                  (ext (PRead REntityGroup ''GroupsGetEntities'' [vmUUID]) (\<lambda>h. GroupsGetEntities v3 h vmUUID)))
              (\<lambda>resp. ret (case resp of None \<Rightarrow> False | Some groups \<Rightarrow> entity_decoupled groups)))"

definition vmsUsableForProject :: "vm list \<Rightarrow> string option \<Rightarrow> string \<Rightarrow> vm list" where
  "vmsUsableForProject vms projectExtID pcVersion =
     (if projectExtID = None \<or> \<not> isPCVersionHigherThan75 pcVersion then vms
      else filter (\<lambda>v. isVMUsableForProject (Some v) (the projectExtID)) vms)"

text \<open>One VM of a listing: skipped without an id, when seen before, when decoupled and when
  it is gone; otherwise added to the live ones.  The accumulator is (seen, live).\<close>

definition consider_vm ::
  "v4_client \<Rightarrow> v3_client option \<Rightarrow> string \<Rightarrow> vm \<Rightarrow> string list \<times> vm list \<Rightarrow>
   ('z world_scheme, string list \<times> vm list) go" where
  "consider_vm client v3 pcVersion v acc =
     (case acc of (seen, live) \<Rightarrow>
        (let u = Deref (vm_ExtId v) [] in
         if u = [] then ret acc
         else if List.member seen u then ret acc
         else bnd (isVMDecoupled v3 u) (\<lambda>decoupled.
           if decoupled then ret (u # seen, live)
           else bnd (FindVMByUUID client u None pcVersion) (\<lambda>full.
             case full of None \<Rightarrow> ret (u # seen, live) | Some w \<Rightarrow> ret (u # seen, live @ [w])))))"

definition consider_name ::
  "v4_client \<Rightarrow> v3_client option \<Rightarrow> string \<Rightarrow> string \<Rightarrow> string list \<times> vm list \<Rightarrow>
   ('z world_scheme, string list \<times> vm list) go" where
  "consider_name client v3 pcVersion name acc =
     (if name = [] then ret acc
      else bnd (wrapping (\<lambda>e. Wrap (''failed to list VMs named '' @ name @ '': '') e [])
                 (ext (PList RVM (name_filter name)) (\<lambda>h. VMs_List client h (name_filter name)))) (\<lambda>vms.
        fold_go (consider_vm client v3 pcVersion) vms acc))"

definition findNonDecoupledVMByName ::
  "v4_client \<Rightarrow> v3_client option \<Rightarrow> string list \<Rightarrow> string option \<Rightarrow> string \<Rightarrow> ('z world_scheme, vm option) go" where
  "findNonDecoupledVMByName client v3 names projectExtID pcVersion =
     bnd (fold_go (consider_name client v3 pcVersion) names ([], [])) (\<lambda>(seen, all_live).
       let live = vmsUsableForProject all_live projectExtID pcVersion in
       case live of
         [] \<Rightarrow> ret None
       | [v] \<Rightarrow> ret (Some v)
       | _ \<Rightarrow> raise (Leaf (''found more than one ('' @ show_nat (length live) @
                 '') non-decoupled VMs with names ['' @ Join_strings names '' '' @ '']'')))"

definition vmNamesForDelete :: "string \<Rightarrow> string \<Rightarrow> string list" where
  "vmNamesForDelete machineName nutanixMachineName =
     (if nutanixMachineName \<noteq> [] \<and> nutanixMachineName \<noteq> machineName
      then [machineName, nutanixMachineName] else [machineName])"

section \<open>The VM of a machine\<close>

definition FindVM ::
  "libs \<Rightarrow> v4_client \<Rightarrow> capi_Machine option \<Rightarrow> NutanixMachine \<Rightarrow> string \<Rightarrow> string option \<Rightarrow> string \<Rightarrow>
   v3_client option \<Rightarrow> ('z world_scheme, vm option) go" where
  "FindVM L client machine nm vmName projectExtID pcVersion v3 =
     bnd (of_result (GetVMUUID L machine nm)) (\<lambda>vmUUID.
     let metro = useMetroDRDeletePath machine nm; nmName = om_Name (nm_Meta nm);
         by_name = findNonDecoupledVMByName client v3 (vmNamesForDelete vmName nmName) projectExtID pcVersion;
         missing = Leaf (''no vm '' @ vmName @ '' found with UUID '' @ vmUUID @ '' but was expected to be present'');
         or_live = (if metro
                    then bnd by_name (\<lambda>live. case live of Some v \<Rightarrow> ret (Some v) | None \<Rightarrow> raise missing)
                    else raise missing) in
     if vmUUID = [] then
       (if metro then by_name else FindVMByName client vmName projectExtID pcVersion)
     else
       bnd (FindVMByUUID client vmUUID projectExtID pcVersion) (\<lambda>vm_p.
       case vm_p of
         None \<Rightarrow> or_live
       | Some v \<Rightarrow>
           (case vm_Name v of
              None \<Rightarrow> raise (Leaf (''found VM with UUID '' @ vmUUID @ '' but name was empty''))
            | Some n \<Rightarrow>
                if n \<noteq> vmName \<and> n \<noteq> nmName
                then raise (Leaf (''found VM with UUID '' @ vmUUID @ '' but name '' @ n @ '' did not match '' @ vmName))
                else if \<not> metro then ret (Some v)
                else bnd (isVMDecoupled v3 vmUUID) (\<lambda>decoupled.
                  if \<not> decoupled then ret (Some v) else or_live))))"

text \<open>The task of the deletion, or the empty text for an empty UUID.\<close>

definition DeleteVM :: "v4_client \<Rightarrow> string \<Rightarrow> string \<Rightarrow> ('z world_scheme, string) go" where
  "DeleteVM client vmName vmUUID =
     (if vmUUID = [] then ret []
      else bnd (ext (PDelete RVM vmUUID) (\<lambda>h. VMs_DeleteAsync client h vmUUID)) (\<lambda>task.
        case task of
          None \<Rightarrow> raise (Leaf (''no task received for vm '' @ vmName))
        | Some t \<Rightarrow> ret t))"

section \<open>Lemmas\<close>

lemma FindVMByUUID_reads: "moves (only_calls is_prism_read) (FindVMByUUID client u p v)"
  unfolding FindVMByUUID_def by (intro only_rules) simp

lemma FindVMByName_reads: "moves (only_calls is_prism_read) (FindVMByName client n p v)"
  unfolding FindVMByName_def Let_def by (intro only_rules FindVMByUUID_reads) simp

lemma isVMDecoupled_reads: "moves (only_calls is_prism_read) (isVMDecoupled v3 u)"
  unfolding isVMDecoupled_def by (intro only_rules) simp

lemma findNonDecoupled_reads:
  "moves (only_calls is_prism_read) (findNonDecoupledVMByName client v3 ns p v)"
  unfolding findNonDecoupledVMByName_def consider_name_def consider_vm_def Let_def
  by (intro only_rules FindVMByUUID_reads isVMDecoupled_reads) simp

lemma FindVM_reads: "moves (only_calls is_prism_read) (FindVM L client m nm n p v v3)"
  unfolding FindVM_def Let_def
  by (intro only_rules FindVMByUUID_reads FindVMByName_reads isVMDecoupled_reads findNonDecoupled_reads)

lemma GetVMUUID_valid: "GetVMUUID L m nm = Inr u \<Longrightarrow> u = [] \<or> valid_uuid L u"
  by (auto simp: GetVMUUID_def valid_uuid_def Let_def split: if_splits sum.splits option.splits)

end
