(* ===== verification/Machine_Delete.thy ===== *)
theory Machine_Delete
  imports Vm_Find
begin

text \<open>
  Deletion of a machine: reconcileDelete, vmToDelete and resolveRecoveredVMForDelete of
  controllers/nutanixmachine_controller.go, and the detachment of volume groups of
  controllers/helpers.go.  A reconcile returns a result with the seconds after which it
  wants to run again.
\<close>

record result =
  RequeueAfter :: nat
  Requeue :: bool

definition done_result :: result where "done_result = \<lparr>RequeueAfter = 0, Requeue = False\<rparr>"
definition requeue_after :: "nat \<Rightarrow> result" where "requeue_after n = \<lparr>RequeueAfter = n, Requeue = False\<rparr>"

definition NutanixMachineFinalizer :: string where
  "NutanixMachineFinalizer = ''infrastructure.cluster.x-k8s.io/nutanixmachine''"
definition DeprecatedNutanixMachineFinalizer :: string where
  "DeprecatedNutanixMachineFinalizer = ''nutanixmachine.infrastructure.cluster.x-k8s.io''"
definition VMProvisionedCondition :: string where "VMProvisionedCondition = ''VMProvisioned''"
definition DeletionFailed :: string where "DeletionFailed = ''DeletionFailed''"
definition VolumeGroupDetachFailed :: string where "VolumeGroupDetachFailed = ''VolumeGroupDetachFailed''"
definition detachVGRequeueAfter :: nat where "detachVGRequeueAfter = 30"

section \<open>Volume groups\<close>

definition isBackedByVolumeGroupReference :: "vm_disk option \<Rightarrow> bool" where
  "isBackedByVolumeGroupReference disk_p =
     (case disk_p of
        None \<Rightarrow> False
      | Some d \<Rightarrow> (case vd_Backing d of Some (VolumeGroup _) \<Rightarrow> True | _ \<Rightarrow> False))"

text \<open>The loop returns after the first volume group it detaches.\<close>

fun detachVolumeGroupsFromVM ::
  "v4_client \<Rightarrow> string \<Rightarrow> string \<Rightarrow> vm_disk list \<Rightarrow> ('z world_scheme, unit) go" where
  "detachVolumeGroupsFromVM client vmName vmUUID [] = ret ()"
| "detachVolumeGroupsFromVM client vmName vmUUID (d # ds) =
     (case vd_Backing d of
        Some (VolumeGroup (Some vg)) \<Rightarrow>
          wrapping (\<lambda>e. Wrap (''failed to detach volume group '' @ vg @ '' from virtual machine '' @ vmUUID @ '': '') e [])
            (ext (PDetach vg vmUUID) (\<lambda>h. VolumeGroups_DetachFromVM client h vg vmUUID))
      | _ \<Rightarrow> detachVolumeGroupsFromVM client vmName vmUUID ds)"

definition detachVolumeGroups ::
  "rctx \<Rightarrow> string \<Rightarrow> string \<Rightarrow> vm_disk list \<Rightarrow> ('z world_scheme, unit) go" where
  "detachVolumeGroups rctx vmName vmUUID disks =
     wrapping (\<lambda>e. Wrap (''failed to detach volume groups from VM '' @ vmName @ '' with UUID '' @ vmUUID @ '': '') e [])
       (detachVolumeGroupsFromVM (rx_V4 rctx) vmName vmUUID disks)"

section \<open>The VM to delete\<close>

text \<open>The VM, and whether to wait for a recovered one.\<close>

definition live_by_name ::
  "rctx \<Rightarrow> string \<Rightarrow> bool \<Rightarrow> ('z machine_ctx_scheme, vm option \<times> bool) go" where
  "live_by_name rctx vmName waitIfMissing =
     bnd (gets (\<lambda>s. om_Name (nm_Meta (NM s)))) (\<lambda>nmName.
     bnd (findNonDecoupledVMByName (rx_V4 rctx) (rx_V3 rctx) (vmNamesForDelete vmName nmName) None
            (rx_PCVersion rctx)) (\<lambda>live.
     if live = None \<or> Deref (vm_ExtId (the live)) [] = [] then ret (None, waitIfMissing)
     else thn (setNutanixMachineAnnotation recoveredVMUUIDAnnotation (Deref (vm_ExtId (the live)) []))
            (ret (live, False))))"

definition resolveRecoveredVMForDelete ::
  "rctx \<Rightarrow> string \<Rightarrow> bool \<Rightarrow> ('z machine_ctx_scheme, vm option \<times> bool) go" where
  "resolveRecoveredVMForDelete rctx vmName waitIfMissing =
     bnd (gets (\<lambda>s. nutanixMachineAnnotation (Some (NM s)) recoveredVMUUIDAnnotation)) (\<lambda>recoveredUUID.
     if recoveredUUID \<noteq> [] then
       bnd (isVMDecoupled (rx_V3 rctx) recoveredUUID) (\<lambda>recoveredDecoupled.
       if recoveredDecoupled then
         thn (deleteNutanixMachineAnnotation recoveredVMUUIDAnnotation) (live_by_name rctx vmName waitIfMissing)
       else
         bnd (FindVMByUUID (rx_V4 rctx) recoveredUUID None (rx_PCVersion rctx)) (\<lambda>v.
         ret (v, False)))
     else live_by_name rctx vmName waitIfMissing)"

definition vmToDelete ::
  "rctx \<Rightarrow> string \<Rightarrow> string \<Rightarrow> ('z machine_ctx_scheme, vm option \<times> bool) go" where
  "vmToDelete rctx recordedUUID vmName =
     bnd (gets (\<lambda>s. useMetroDRDeletePath (rx_Machine rctx) (NM s))) (\<lambda>metro.
     if rx_V3 rctx = None \<or> \<not> metro then
       bnd (FindVMByUUID (rx_V4 rctx) recordedUUID None (rx_PCVersion rctx)) (\<lambda>v. ret (v, False))
     else
       bnd (isVMDecoupled (rx_V3 rctx) recordedUUID) (\<lambda>decoupled.
       if decoupled then
         thn (setNutanixMachineAnnotation skippedDecoupledVMUUIDAnnotation recordedUUID)
           (resolveRecoveredVMForDelete rctx vmName True)
       else
         bnd (attempt (FindVMByUUID (rx_V4 rctx) recordedUUID None (rx_PCVersion rctx))) (\<lambda>r.
         case r of
           Inl err \<Rightarrow>
             bnd (resolveRecoveredVMForDelete rctx vmName False) (\<lambda>(live, w).
               if live \<noteq> None then ret (live, False) else raise err)
         | Inr (Some v) \<Rightarrow> ret (Some v, False)
         | Inr None \<Rightarrow> resolveRecoveredVMForDelete rctx vmName False)))"

section \<open>The reconcile\<close>

definition remove_finalizers :: "rctx \<Rightarrow> ('z machine_ctx_scheme, unit) go" where
  "remove_finalizers rctx =
     (let L = rx_libs rctx in
      update_meta (\<lambda>m. m\<lparr>om_Finalizers :=
        RemoveFinalizer L (RemoveFinalizer L (om_Finalizers m) NutanixMachineFinalizer)
          DeprecatedNutanixMachineFinalizer\<rparr>))"

definition fail_deletion :: "string \<Rightarrow> go_error \<Rightarrow> ('z machine_ctx_scheme, 'a) go" where
  "fail_deletion reason e =
     thn (mark_failed VMProvisionedCondition reason SeverityWarning e) (raise e)"

text \<open>From the check of the running tasks on, for the VM v with the given UUID.\<close>

definition delete_idle_vm ::
  "rctx \<Rightarrow> string \<Rightarrow> string \<Rightarrow> vm \<Rightarrow> ('z machine_ctx_scheme, result) go" where
  "delete_idle_vm rctx vmName targetUUID v =
     bnd (attempt (VmHasTaskInProgress (rx_V4 rctx) targetUUID None (rx_PCVersion rctx))) (\<lambda>r.
     case r of
       Inl err \<Rightarrow>
         fail_deletion DeletionFailed (Wrap ''error occurred while fetching running task from VM: '' err [])
     | Inr taskInProgress \<Rightarrow>
         if taskInProgress then ret (requeue_after 5)
         else if list_ex (\<lambda>d. isBackedByVolumeGroupReference (Some d)) (vm_Disks v) then
           bnd (attempt (detachVolumeGroups rctx vmName targetUUID (vm_Disks v))) (\<lambda>r.
           case r of
             Inl err \<Rightarrow>
               fail_deletion VolumeGroupDetachFailed (Wrap (''failed to detach volume groups from VM '' @ vmName @
                 '' with UUID '' @ targetUUID @ '': '') err [])
           | Inr _ \<Rightarrow> ret (requeue_after detachVGRequeueAfter))
         else
           bnd (attempt (DeleteVM (rx_V4 rctx) vmName targetUUID)) (\<lambda>r.
           case r of
             Inl err \<Rightarrow>
               fail_deletion DeletionFailed (Wrap (''failed to delete VM '' @ vmName @ '' with UUID '' @
                 targetUUID @ '': '') err [])
           | Inr deleteTaskUUID \<Rightarrow> ret (requeue_after 5)))"

text \<open>The checks of the found VM: it has a name and a UUID, and the name is the one of the
  Machine or of the NutanixMachine.\<close>

definition delete_found_vm ::
  "rctx \<Rightarrow> string \<Rightarrow> string \<Rightarrow> vm \<Rightarrow> ('z machine_ctx_scheme, result) go" where
  "delete_found_vm rctx vmName vmUUID v =
     bnd (gets (\<lambda>s. om_Name (nm_Meta (NM s)))) (\<lambda>nmName.
     case vm_Name v of
       None \<Rightarrow> raise (Leaf (''found VM with UUID '' @ Deref (vm_ExtId v) vmUUID @ '' but name was empty''))
     | Some n \<Rightarrow>
         (let targetUUID = Deref (vm_ExtId v) vmUUID in
          if targetUUID = [] then raise (Leaf (''found VM '' @ n @ '' but UUID was empty''))
          else if n \<noteq> vmName \<and> n \<noteq> nmName then
            raise (Leaf (''found VM with UUID '' @ targetUUID @ '' but name '' @ n @
              '' did not match Machine name '' @ vmName @ '' or NutanixMachineName '' @ nmName))
          else delete_idle_vm rctx vmName targetUUID v))"

text \<open>What follows the search for the VM.\<close>

definition delete_after_search ::
  "rctx \<Rightarrow> string \<Rightarrow> string \<Rightarrow> go_error + vm option \<times> bool \<Rightarrow> ('z machine_ctx_scheme, result) go" where
  "delete_after_search rctx vmName vmUUID r =
     (case r of
        Inl err \<Rightarrow>
          fail_deletion DeletionFailed (Wrap (''error finding VM '' @ vmName @ '' with UUID '' @ vmUUID @ '': '') err [])
      | Inr (vm_p, waitForRecovered) \<Rightarrow>
          if waitForRecovered then ret (requeue_after 5)
          else (case vm_p of
                  None \<Rightarrow> thn (remove_finalizers rctx) (ret done_result)
                | Some v \<Rightarrow> delete_found_vm rctx vmName vmUUID v))"

definition reconcileDelete :: "rctx \<Rightarrow> ('z machine_ctx_scheme, result) go" where
  "reconcileDelete rctx =
     bnd (deref (rx_Machine rctx)) (\<lambda>machine.
     let vmName = om_Name (cm_Meta machine) in
     thn (conditions [MarkFalse VMProvisionedCondition ''Deleting'' SeverityInfo [],
                      SetFalse VMProvisionedCondition ''Deleting'' []])
     (bnd (gets (\<lambda>s. GetVMUUID (rx_libs rctx) (rx_Machine rctx) (NM s))) (\<lambda>u.
      case u of
        Inl err \<Rightarrow> raise (Wrap ''failed to get VM UUID during delete: '' err [])
      | Inr vmUUID \<Rightarrow>
          if vmUUID = [] then thn (remove_finalizers rctx) (ret done_result)
          else
            bnd (attempt (vmToDelete rctx vmUUID vmName)) (delete_after_search rctx vmName vmUUID))))"

section \<open>Which VM is chosen\<close>

text \<open>Prism returns the VM that was asked for.\<close>

definition faithful_vms :: "v4_client \<Rightarrow> bool" where
  "faithful_vms client \<longleftrightarrow> (\<forall>h u v. VMs_Get client h u = Inr (Some v) \<longrightarrow> vm_ExtId v = Some u)"

text \<open>Disaster recovery was asked about a VM and did not call it decoupled.\<close>

definition cleared :: "v3_client \<Rightarrow> string \<Rightarrow> bool" where
  "cleared v3 u \<longleftrightarrow> (\<exists>h resp. GroupsGetEntities v3 h u = Inr resp \<and>
     \<not> (case resp of None \<Rightarrow> False | Some groups \<Rightarrow> entity_decoupled groups))"

lemma isVMDecoupled_cleared:
  "isVMDecoupled (Some v3) u s = (Inr False, s') \<Longrightarrow> u \<noteq> [] \<Longrightarrow> cleared v3 u"
  by (auto simp: isVMDecoupled_def cleared_def go_inv go_cases 
      intro!: exI [of _ "trace s"])

lemma isVMDecoupled_cleared':
  "isVMDecoupled (Some v3) u s = (Inr False, s') \<Longrightarrow> u = [] \<or> cleared v3 u"
  using isVMDecoupled_cleared by blast

lemma FindVMByUUID_Some:
  "FindVMByUUID client u p v s = (Inr (Some w), s') \<Longrightarrow> \<exists>h. VMs_Get client h u = Inr (Some w)"
  by (auto simp: FindVMByUUID_def go_inv go_cases)

lemma consider_vm_cleared:
  assumes "consider_vm client (Some v3) ver v (seen, live) s = (Inr (seen', live'), s')"
    and "faithful_vms client" "\<forall>w\<in>set live. \<exists>u. vm_ExtId w = Some u \<and> u \<noteq> [] \<and> cleared v3 u"
  shows "\<forall>w\<in>set live'. \<exists>u. vm_ExtId w = Some u \<and> u \<noteq> [] \<and> cleared v3 u"
  using assms
  by (auto simp: consider_vm_def go_inv go_cases Let_def faithful_vms_def 
      dest!: FindVMByUUID_Some isVMDecoupled_cleared')

lemma consider_vms_cleared:
  assumes "fold_go (consider_vm client (Some v3) ver) vs (seen, live) s = (Inr (seen', live'), s')"
    and "faithful_vms client" "\<forall>w\<in>set live. \<exists>u. vm_ExtId w = Some u \<and> u \<noteq> [] \<and> cleared v3 u"
  shows "\<forall>w\<in>set live'. \<exists>u. vm_ExtId w = Some u \<and> u \<noteq> [] \<and> cleared v3 u"
  using assms(1,3)
proof (induction vs arbitrary: seen live s)
  case Nil
  then show ?case by (simp add: go_inv go_cases)
next
  case (Cons v vs)
  then obtain seen1 live1 s1 where
    "consider_vm client (Some v3) ver v (seen, live) s = (Inr (seen1, live1), s1)"
    "fold_go (consider_vm client (Some v3) ver) vs (seen1, live1) s1 = (Inr (seen', live'), s')"
    by (auto simp: go_inv go_cases)
  with Cons.IH consider_vm_cleared [OF _ assms(2) Cons.prems(2)] show ?case by blast
qed

lemma consider_names_cleared:
  assumes "fold_go (consider_name client (Some v3) ver) ns (seen, live) s = (Inr (seen', live'), s')"
    and "faithful_vms client" "\<forall>w\<in>set live. \<exists>u. vm_ExtId w = Some u \<and> u \<noteq> [] \<and> cleared v3 u"
  shows "\<forall>w\<in>set live'. \<exists>u. vm_ExtId w = Some u \<and> u \<noteq> [] \<and> cleared v3 u"
  using assms(1,3)
proof (induction ns arbitrary: seen live s)
  case Nil
  then show ?case by (simp add: go_inv go_cases)
next
  case (Cons n ns)
  then obtain seen1 live1 s1 where
    n: "consider_name client (Some v3) ver n (seen, live) s = (Inr (seen1, live1), s1)" and
    r: "fold_go (consider_name client (Some v3) ver) ns (seen1, live1) s1 = (Inr (seen', live'), s')"
    by (auto simp: go_inv go_cases)
  from n have "\<forall>w\<in>set live1. \<exists>u. vm_ExtId w = Some u \<and> u \<noteq> [] \<and> cleared v3 u"
    using Cons.prems(2) by (auto simp: consider_name_def go_inv go_cases 
        dest: consider_vms_cleared [OF _ assms(2) Cons.prems(2), rule_format])
  with Cons.IH r show ?case by blast
qed

lemma findNonDecoupled_cleared:
  assumes "findNonDecoupledVMByName client (Some v3) ns None ver s = (Inr (Some v), s')" "faithful_vms client"
  shows "\<exists>u. vm_ExtId v = Some u \<and> u \<noteq> [] \<and> cleared v3 u"
proof -
  from assms(1) obtain seen s1 where "fold_go (consider_name client (Some v3) ver) ns ([], []) s = (Inr (seen, [v]), s1)"
    by (auto simp: findNonDecoupledVMByName_def vmsUsableForProject_def go_inv go_cases Let_def
       )
  from consider_names_cleared [OF this assms(2)] show ?thesis by simp
qed

lemma live_by_name_cleared:
  assumes "live_by_name rctx vmName w s = (Inr (Some v, b), s')" "rx_V3 rctx = Some v3"
    and "faithful_vms (rx_V4 rctx)"
  shows "\<exists>u. vm_ExtId v = Some u \<and> cleared v3 u"
  using assms by (auto simp: live_by_name_def go_inv go_cases split: if_split_asm dest: findNonDecoupled_cleared)

lemma FindVMByUUID_cleared:
  assumes "FindVMByUUID client u p ver s = (Inr (Some v), s')" "faithful_vms client" "cleared v3 u"
  shows "\<exists>u. vm_ExtId v = Some u \<and> cleared v3 u"
  using FindVMByUUID_Some [OF assms(1)] assms(2,3) by (auto simp: faithful_vms_def)

lemma resolveRecovered_cleared:
  assumes "resolveRecoveredVMForDelete rctx vmName w s = (Inr (Some v, b), s')" "rx_V3 rctx = Some v3"
    and "faithful_vms (rx_V4 rctx)"
  shows "\<exists>u. vm_ExtId v = Some u \<and> cleared v3 u"
proof -
  from assms(1) consider
    (name) s1 where "live_by_name rctx vmName w s1 = (Inr (Some v, b), s')"
  | (uuid) u s1 s2 where "u \<noteq> []" "isVMDecoupled (rx_V3 rctx) u s = (Inr False, s1)"
      "FindVMByUUID (rx_V4 rctx) u None (rx_PCVersion rctx) s1 = (Inr (Some v), s2)"
    by (auto simp: resolveRecoveredVMForDelete_def go_inv go_cases)
  then show ?thesis
  proof cases
    case name
    then show ?thesis using live_by_name_cleared assms by blast
  next
    case uuid
    then have "cleared v3 u" using isVMDecoupled_cleared assms(2) by auto
    with uuid(3) assms(3) show ?thesis by (rule FindVMByUUID_cleared)
  qed
qed

lemma vmToDelete_cleared:
  assumes "vmToDelete rctx u vmName s = (Inr (Some v, b), s')" "rx_V3 rctx = Some v3" "u \<noteq> []"
    and "useMetroDRDeletePath (rx_Machine rctx) (NM s)" "faithful_vms (rx_V4 rctx)"
  shows "\<exists>u. vm_ExtId v = Some u \<and> cleared v3 u"
proof -
  from assms(1,2,4) consider
    (rec) w s2 c where "resolveRecoveredVMForDelete rctx vmName w s2 = (Inr (Some v, c), s')"
  | (uuid) s1 s2 where "isVMDecoupled (Some v3) u s = (Inr False, s1)"
      "FindVMByUUID (rx_V4 rctx) u None (rx_PCVersion rctx) s1 = (Inr (Some v), s2)"
    by (auto simp: vmToDelete_def go_inv go_cases)
  then show ?thesis
  proof cases
    case rec
    then show ?thesis using resolveRecovered_cleared assms(2,5) by blast
  next
    case uuid
    then have "cleared v3 u" using isVMDecoupled_cleared assms(3) by auto
    with uuid(2) assms(5) show ?thesis by (rule FindVMByUUID_cleared)
  qed
qed

section \<open>What the reconcile does to Prism\<close>

definition idle_vm :: "v4_client \<Rightarrow> string \<Rightarrow> string \<Rightarrow> bool" where
  "idle_vm client u ver \<longleftrightarrow> (\<exists>h tasks. Tasks_List client h (vm_task_filter u None ver) = Inr tasks \<and>
     (\<forall>t\<in>set tasks. tk_ExtId t \<noteq> None \<longrightarrow> tk_Status t \<notin> {Some TaskRunning, Some TaskQueued}))"

lemma VmHasTaskInProgress_False:
  "VmHasTaskInProgress client u None ver s = (Inr False, s') \<Longrightarrow> idle_vm client u ver"
  by (fastforce simp: VmHasTaskInProgress_def idle_vm_def go_inv go_cases Let_def filter_empty_conv)

fun is_detach :: "call \<Rightarrow> bool" where
  "is_detach (PDetach g u) = True"
| "is_detach _ = False"

lemma detachVolumeGroups_only: "moves (only_calls is_detach) (detachVolumeGroups rctx n u ds)"
proof -
  have "moves (only_calls is_detach) (detachVolumeGroupsFromVM client n u ds)" for client
    by (induction client n u ds rule: detachVolumeGroupsFromVM.induct)
      (auto intro!: only_rules split: option.split disk_backing.split)
  then show ?thesis unfolding detachVolumeGroups_def by (intro only_rules)
qed

lemma only_calls_trace: "only_calls A s s' \<Longrightarrow> \<exists>t. trace s' = trace s @ t \<and> list_all A t"
  by (auto simp: only_calls_def)

text \<open>The part of a run after the calls of the trace s: reads, then at most one deletion.\<close>

definition reads_then_deletes :: "(string \<Rightarrow> bool) \<Rightarrow> call list \<Rightarrow> bool" where
  "reads_then_deletes P t \<longleftrightarrow>
     list_all (\<lambda>c. is_prism_read c \<or> is_detach c) t \<or>
     (\<exists>reads u. t = reads @ [PDelete RVM u] \<and> list_all is_prism_read reads \<and> P u)"

lemma reads_then_deletes_prepend:
  "list_all is_prism_read t1 \<Longrightarrow> reads_then_deletes P t2 \<Longrightarrow> reads_then_deletes P (t1 @ t2)"
  unfolding reads_then_deletes_def by (fastforce simp: list_all_iff)

lemma fail_deletion_trace: "trace (snd (fail_deletion r e s)) = trace s"
  by (simp add: fail_deletion_def machine_update_defs go_eval)

lemma delete_idle_vm_calls:
  assumes "delete_idle_vm rctx n u v s = (r, s')"
  shows "\<exists>t. trace s' = trace s @ t \<and> reads_then_deletes (\<lambda>w. w = u \<and>
    \<not> list_ex (\<lambda>d. isBackedByVolumeGroupReference (Some d)) (vm_Disks v) \<and>
    idle_vm (rx_V4 rctx) u (rx_PCVersion rctx)) t"
proof -
  let ?P = "\<lambda>w. w = u \<and> \<not> list_ex (\<lambda>d. isBackedByVolumeGroupReference (Some d)) (vm_Disks v) \<and>
    idle_vm (rx_V4 rctx) u (rx_PCVersion rctx)"
  obtain r1 s1 where 1: "VmHasTaskInProgress (rx_V4 rctx) u None (rx_PCVersion rctx) s = (r1, s1)" by force
  obtain t1 where t1: "trace s1 = trace s @ t1" "list_all is_prism_read t1"
    using only_calls_trace [OF movesD [OF VmHasTaskInProgress_reads 1]] by blast
  have quiet: "reads_then_deletes ?P t1" using t1(2) by (auto simp: reads_then_deletes_def list_all_iff)
  show ?thesis
  proof (cases r1)
    case (Inl e)
    with 1 assms have "trace s' = trace s1"
      by (auto simp: delete_idle_vm_def go_eval fail_deletion_def machine_update_defs split: if_split_asm)
    with t1 quiet show ?thesis by auto
  next
    case (Inr busy)
    show ?thesis
    proof (cases busy)
      case True
      with Inr 1 assms t1 quiet show ?thesis by (auto simp: delete_idle_vm_def go_eval)
    next
      case False
      with Inr 1 have "VmHasTaskInProgress (rx_V4 rctx) u None (rx_PCVersion rctx) s = (Inr False, s1)"
        by simp
      then have idle: "idle_vm (rx_V4 rctx) u (rx_PCVersion rctx)" by (rule VmHasTaskInProgress_False)
      show ?thesis
      proof (cases "list_ex (\<lambda>d. isBackedByVolumeGroupReference (Some d)) (vm_Disks v)")
        case True
        obtain r2 s2 where 2: "detachVolumeGroups rctx n u (vm_Disks v) s1 = (r2, s2)" by force
        obtain t2 where t2: "trace s2 = trace s1 @ t2" "list_all is_detach t2"
          using only_calls_trace [OF movesD [OF detachVolumeGroups_only 2]] by blast
        from 1 2 Inr False True assms have "trace s' = trace s2"
          by (cases r2) (auto simp: delete_idle_vm_def go_eval fail_deletion_def machine_update_defs split: if_split_asm)
        moreover have "reads_then_deletes ?P (t1 @ t2)"
          using t1(2) t2(2) by (auto simp: reads_then_deletes_def list_all_iff)
        ultimately show ?thesis using t1 t2 by auto
      next
        case nvg: False
        show ?thesis
        proof (cases "u = []")
          case True
          with 1 Inr False nvg assms t1 quiet show ?thesis
            by (auto simp: delete_idle_vm_def go_eval DeleteVM_def)
        next
          case ne: False
          with 1 Inr False nvg assms have "trace s' = trace s1 @ [PDelete RVM u]"
            by (auto simp: delete_idle_vm_def go_eval DeleteVM_def fail_deletion_def machine_update_defs
                split: sum.splits option.splits prod.splits if_splits)
          then show ?thesis using t1 nvg idle
            by (intro exI [of _ "t1 @ [PDelete RVM u]"]) (auto simp: reads_then_deletes_def)
        qed
      qed
    qed
  qed
qed

text \<open>A deletion is justified: the VM has the name of the Machine or the NutanixMachine, no
  volume group, no running task, and on the Metro path disaster recovery has not decoupled
  it.\<close>

definition justified :: "rctx \<Rightarrow> string \<Rightarrow> 'z machine_ctx_scheme \<Rightarrow> string \<Rightarrow> bool" where
  "justified rctx recorded s u \<longleftrightarrow>
     (\<exists>(v :: vm) n m. rx_Machine rctx = Some m \<and> vm_Name v = Some n \<and>
        n \<in> {om_Name (cm_Meta m), om_Name (nm_Meta (NM s))} \<and> Deref (vm_ExtId v) recorded = u \<and>
        \<not> list_ex (\<lambda>d. isBackedByVolumeGroupReference (Some d)) (vm_Disks v)) \<and>
     idle_vm (rx_V4 rctx) u (rx_PCVersion rctx) \<and>
     (\<forall>v3. rx_V3 rctx = Some v3 \<and> useMetroDRDeletePath (rx_Machine rctx) (NM s) \<and>
        faithful_vms (rx_V4 rctx) \<longrightarrow> cleared v3 u)"

lemma reads_then_deletes_mono:
  "reads_then_deletes P t \<Longrightarrow> (\<And>u. P u \<Longrightarrow> Q u) \<Longrightarrow> reads_then_deletes Q t"
  by (auto simp: reads_then_deletes_def)

lemma quiet_reads_then_deletes: "list_all is_prism_read t \<Longrightarrow> reads_then_deletes P t"
  by (auto simp: reads_then_deletes_def list_all_iff)

lemma delete_found_vm_calls:
  assumes "delete_found_vm rctx n recorded v s = (r, s')"
  shows "\<exists>t. trace s' = trace s @ t \<and> reads_then_deletes (\<lambda>w. w = Deref (vm_ExtId v) recorded \<and>
    (\<exists>k. vm_Name v = Some k \<and> k \<in> {n, om_Name (nm_Meta (NM s))}) \<and>
    \<not> list_ex (\<lambda>d. isBackedByVolumeGroupReference (Some d)) (vm_Disks v) \<and>
    idle_vm (rx_V4 rctx) w (rx_PCVersion rctx)) t"
proof (cases "\<exists>k. vm_Name v = Some k \<and> Deref (vm_ExtId v) recorded \<noteq> [] \<and> k \<in> {n, om_Name (nm_Meta (NM s))}")
  case False
  with assms have "s' = s"
    by (auto simp: delete_found_vm_def go_eval Let_def split: option.splits if_splits)
  then show ?thesis by (auto simp: quiet_reads_then_deletes)
next
  case True
  then obtain k where k: "vm_Name v = Some k" "Deref (vm_ExtId v) recorded \<noteq> []"
    "k \<in> {n, om_Name (nm_Meta (NM s))}" by blast
  with assms have "delete_idle_vm rctx n (Deref (vm_ExtId v) recorded) v s = (r, s')"
    by (auto simp: delete_found_vm_def go_eval Let_def)
  from delete_idle_vm_calls [OF this] obtain t where "trace s' = trace s @ t"
    "reads_then_deletes (\<lambda>w. w = Deref (vm_ExtId v) recorded \<and>
       \<not> list_ex (\<lambda>d. isBackedByVolumeGroupReference (Some d)) (vm_Disks v) \<and>
       idle_vm (rx_V4 rctx) (Deref (vm_ExtId v) recorded) (rx_PCVersion rctx)) t" by blast
  then show ?thesis using k by (intro exI [of _ t]) (auto elim: reads_then_deletes_mono)
qed

text \<open>Steps that add reads to the trace and leave the name of the machine alone.\<close>

definition reads_step :: "'z machine_ctx_scheme \<Rightarrow> 'z machine_ctx_scheme \<Rightarrow> bool" where
  "reads_step s s' \<longleftrightarrow> adds_calls is_prism_read s s' \<and>
     om_Name (nm_Meta (NM s')) = om_Name (nm_Meta (NM s)) \<and>
     om_Finalizers (nm_Meta (NM s')) = om_Finalizers (nm_Meta (NM s))"

interpretation rstep: state_order reads_step
  by unfold_locales (auto simp: reads_step_def intro: adds.stay adds.step)

lemma only_reads_step: "moves (only_calls is_prism_read) m \<Longrightarrow> moves reads_step m"
  using only_imp_adds only_same unfolding moves_def reads_step_def same_machine_def by fastforce

lemma annotation_steps:
  "moves reads_step (setNutanixMachineAnnotation k v)" "moves reads_step (deleteNutanixMachineAnnotation k)"
  "moves reads_step (conditions ops)"
  by (simp_all add: moves_def reads_step_def machine_update_defs update_NM_apply adds_calls_def)

lemma live_by_name_steps: "moves reads_step (live_by_name rctx n w)"
  unfolding live_by_name_def
  by (intro rstep.moves_rules annotation_steps only_reads_step [OF findNonDecoupled_reads])

lemma resolveRecovered_steps: "moves reads_step (resolveRecoveredVMForDelete rctx n w)"
  unfolding resolveRecoveredVMForDelete_def
  by (intro rstep.moves_rules annotation_steps live_by_name_steps only_reads_step [OF FindVMByUUID_reads]
      only_reads_step [OF isVMDecoupled_reads])

lemma vmToDelete_steps: "moves reads_step (vmToDelete rctx u n)"
  unfolding vmToDelete_def
  by (intro rstep.moves_rules annotation_steps resolveRecovered_steps only_reads_step [OF FindVMByUUID_reads]
      only_reads_step [OF isVMDecoupled_reads])

text \<open>The state in which the VM is chosen: the condition Deleting is logged.\<close>

definition deleting_logged :: "'z machine_ctx_scheme \<Rightarrow> 'z machine_ctx_scheme" where
  "deleting_logged s = snd (conditions [MarkFalse VMProvisionedCondition ''Deleting'' SeverityInfo [],
     SetFalse VMProvisionedCondition ''Deleting'' []] s)"

lemma deleting_logged_simps [simp]:
  "trace (deleting_logged s) = trace s"
  "om_Name (nm_Meta (NM (deleting_logged s))) = om_Name (nm_Meta (NM s))"
  "om_Finalizers (nm_Meta (NM (deleting_logged s))) = om_Finalizers (nm_Meta (NM s))"
  "GetVMUUID L m (NM (deleting_logged s)) = GetVMUUID L m (NM s)"
  "useMetroDRDeletePath m (NM (deleting_logged s)) = useMetroDRDeletePath m (NM s)"
  by (simp_all add: deleting_logged_def machine_update_defs update_NM_apply GetVMUUID_def
      useMetroDRDeletePath_def nutanixMachineAnnotation_def)

lemma conditions_deleting:
  "conditions [MarkFalse VMProvisionedCondition ''Deleting'' SeverityInfo [],
     SetFalse VMProvisionedCondition ''Deleting'' []] s = (Inr (), deleting_logged s)"
  by (simp add: deleting_logged_def machine_update_defs update_NM_apply)

text \<open>The outcomes of a reconcile of a deleted machine.\<close>

lemma reconcileDelete_outcomes:
  assumes "reconcileDelete rctx s = (r, s')" "rx_Machine rctx = Some m"
    and "GetVMUUID (rx_libs rctx) (rx_Machine rctx) (NM s) = Inr u" "u \<noteq> []"
    and v: "vmToDelete rctx u (om_Name (cm_Meta m)) (deleting_logged s) = (d, s1)"
  shows "(case d of
      Inl e \<Rightarrow> trace s' = trace s1 \<and> om_Finalizers (nm_Meta (NM s')) = om_Finalizers (nm_Meta (NM s1))
    | Inr (v_p, w) \<Rightarrow>
        if w then (r, s') = (Inr (requeue_after 5), s1)
        else (case v_p of
                None \<Rightarrow> (r, s') = thn (remove_finalizers rctx) (ret done_result) s1
              | Some v \<Rightarrow> (r, s') = delete_found_vm rctx (om_Name (cm_Meta m)) u v s1))"
proof -
  have run: "reconcileDelete rctx s =
      (case attempt (vmToDelete rctx u (om_Name (cm_Meta m))) (deleting_logged s) of
         (Inl e, s2) \<Rightarrow> (Inl e, s2)
       | (Inr r, s2) \<Rightarrow> delete_after_search rctx (om_Name (cm_Meta m)) u r s2)"
    using assms(2-4)
    by (simp add: reconcileDelete_def Let_def bnd_apply thn_apply ret_apply conditions_deleting gets_apply)
  show ?thesis
  proof (cases d)
    case (Inl e)
    with run assms(1) v show ?thesis
      by (cases "e = NilDeref")
        (auto simp: attempt_apply delete_after_search_def fail_deletion_def machine_update_defs go_eval)
  next
    case (Inr p)
    with run assms(1) v show ?thesis
      by (cases p; cases "fst p") (auto simp: attempt_apply delete_after_search_def ret_apply)
  qed
qed

definition keeps_finalizers :: "'z machine_ctx_scheme \<Rightarrow> 'z machine_ctx_scheme \<Rightarrow> bool" where
  "keeps_finalizers s s' \<longleftrightarrow> om_Finalizers (nm_Meta (NM s')) = om_Finalizers (nm_Meta (NM s))"

interpretation fin: state_order keeps_finalizers
  by unfold_locales (auto simp: keeps_finalizers_def)

lemma only_keeps: "moves (only_calls A) m \<Longrightarrow> moves keeps_finalizers m"
  using only_same [of A m] by (auto simp: moves_def same_machine_def keeps_finalizers_def)

lemma fail_deletion_keeps: "moves keeps_finalizers (fail_deletion r e)"
  by (simp add: moves_def fail_deletion_def machine_update_defs go_eval keeps_finalizers_def)

lemma DeleteVM_only: "moves (only_calls (\<lambda>c. True)) (DeleteVM client n u)"
  unfolding DeleteVM_def by (intro only_rules) simp

lemma delete_found_vm_keeps: "moves keeps_finalizers (delete_found_vm rctx n u v)"
  unfolding delete_found_vm_def delete_idle_vm_def Let_def
  by (intro fin.moves_rules fail_deletion_keeps only_keeps [OF VmHasTaskInProgress_reads]
      only_keeps [OF detachVolumeGroups_only] only_keeps [OF DeleteVM_only])

lemma remove_finalizers_run:
  "thn (remove_finalizers rctx) (ret done_result) s = (Inr done_result, snd (remove_finalizers rctx s)) \<and>
   trace (snd (remove_finalizers rctx s)) = trace s"
  by (simp add: remove_finalizers_def machine_update_defs go_eval Let_def)

section \<open>Properties\<close>


text \<open>C11 The finalizer guards the VM: when a reconcile of a deleted machine changes the
  finalizers, it has made no request but reads, it is finished, and either the machine
  records no VM or the search found no VM to delete or to wait for; off the Metro path that
  means Prism does not know the recorded UUID.\<close>

theorem finalizer_kept_until_gone:
  assumes run: "reconcileDelete rctx s = (r, s')" and m: "rx_Machine rctx = Some m"
    and changed: "om_Finalizers (nm_Meta (NM s')) \<noteq> om_Finalizers (nm_Meta (NM s))"
  shows "r = Inr done_result \<and> adds_calls is_prism_read s s' \<and>
    (\<exists>u. GetVMUUID (rx_libs rctx) (rx_Machine rctx) (NM s) = Inr u \<and>
      (u = [] \<or>
       fst (vmToDelete rctx u (om_Name (cm_Meta m)) (deleting_logged s)) = Inr (None, False) \<and>
       (useMetroDRDeletePath (rx_Machine rctx) (NM s) \<and> rx_V3 rctx \<noteq> None \<or>
        (\<exists>h. VMs_Get (rx_V4 rctx) h u = Inr None \<or>
             (\<exists>e. VMs_Get (rx_V4 rctx) h u = Inl e \<and> IsNotFound (rx_V4 rctx) e)))))"
proof -
  obtain u where u: "GetVMUUID (rx_libs rctx) (rx_Machine rctx) (NM s) = Inr u"
    using run m changed
    by (cases "GetVMUUID (rx_libs rctx) (rx_Machine rctx) (NM s)")
      (auto simp: reconcileDelete_def Let_def bnd_apply thn_apply ret_apply conditions_deleting gets_apply raise_apply)
  show ?thesis
  proof (cases "u = []")
    case True
    then have "(r, s') = thn (remove_finalizers rctx) (ret done_result) (deleting_logged s)"
      using run m u by (simp add: reconcileDelete_def Let_def bnd_apply thn_apply ret_apply conditions_deleting gets_apply)
    with remove_finalizers_run [of rctx "deleting_logged s"] u True show ?thesis
      by (auto simp: adds_calls_def)
  next
    case False
    obtain d s1 where v: "vmToDelete rctx u (om_Name (cm_Meta m)) (deleting_logged s) = (d, s1)" by force
    have st: "reads_step (deleting_logged s) s1" by (rule movesD [OF vmToDelete_steps v])
    note out = reconcileDelete_outcomes [OF run m u False v]
    have keep: "om_Finalizers (nm_Meta (NM s2)) = om_Finalizers (nm_Meta (NM s1))"
      if "delete_found_vm rctx n u w s1 = (r2, s2)" for n w r2 s2
      using movesD [OF delete_found_vm_keeps that] by (simp add: keeps_finalizers_def)
    have d: "d = Inr (None, False)"
      using out changed st keep
      by (cases d) (auto simp: reads_step_def split: prod.splits option.splits if_splits dest: sym)
    with out have "(r, s') = thn (remove_finalizers rctx) (ret done_result) s1" by simp
    with remove_finalizers_run [of rctx s1] have r: "r = Inr done_result" "trace s' = trace s1" by auto
    have reads: "adds_calls is_prism_read s s'" using st r(2) by (auto simp: reads_step_def adds_calls_def)
    have gone: "\<exists>h. VMs_Get (rx_V4 rctx) h u = Inr None \<or>
        (\<exists>e. VMs_Get (rx_V4 rctx) h u = Inl e \<and> IsNotFound (rx_V4 rctx) e)"
      if "\<not> (useMetroDRDeletePath (rx_Machine rctx) (NM s) \<and> rx_V3 rctx \<noteq> None)"
    proof -
      from v d that obtain s2 where
        "FindVMByUUID (rx_V4 rctx) u None (rx_PCVersion rctx) (deleting_logged s) = (Inr None, s2)"
        by (auto simp: vmToDelete_def go_inv go_cases)
      then show ?thesis by (fastforce simp: FindVMByUUID_def go_inv go_cases)
    qed
    then have "(useMetroDRDeletePath (rx_Machine rctx) (NM s) \<and> rx_V3 rctx \<noteq> None) \<or>
        (\<exists>h. VMs_Get (rx_V4 rctx) h u = Inr None \<or>
          (\<exists>e. VMs_Get (rx_V4 rctx) h u = Inl e \<and> IsNotFound (rx_V4 rctx) e))" by blast
    with r(1) reads u v d show ?thesis by simp
  qed
qed

text \<open>A machine that records the VM u1, and a Prism that has it.\<close>

definition sample_vm :: "string \<Rightarrow> string \<Rightarrow> vm_disk list \<Rightarrow> vm" where
  "sample_vm u n ds = empty_vm\<lparr>vm_ExtId := Some u, vm_Name := Some n, vm_Disks := ds\<rparr>"

definition deleting_ctx :: machine_ctx where
  "deleting_ctx = sample_ctx\<lparr>NM := (sample_NM ''m'')\<lparr>
     nm_Meta := (sample_meta ''m'')\<lparr>om_Finalizers := [NutanixMachineFinalizer]\<rparr>,
     nm_Status := sample_status\<lparr>mst_VmUUID := ''u-1''\<rparr>\<rparr>\<rparr>"

definition vm_client :: "vm option \<Rightarrow> v4_client" where
  "vm_client v = base_v4_client\<lparr>VMs_Get := (\<lambda>h u. case v of None \<Rightarrow> Inl (Lib_error ''not found'' True)
       | Some w \<Rightarrow> Inr (Some (w\<lparr>vm_ExtId := Some u\<rparr>))),
     Tasks_List := (\<lambda>h f. Inr []), VMs_DeleteAsync := (\<lambda>h u. Inr (Some ''task''))\<rparr>"

lemma deleting_ctx_uuid:
  "GetVMUUID (rx_libs (sample_rctx client)) (rx_Machine (sample_rctx client)) (NM deleting_ctx) = Inr ''u-1''"
  by (simp add: GetVMUUID_def sample_rctx_def sample_Machine_def deleting_ctx_def sample_NM_def sample_status_def
      demo_libs_def)

lemmas delete_eval = reconcileDelete_def delete_after_search_def vmToDelete_def delete_found_vm_def
  delete_idle_vm_def VmHasTaskInProgress_def DeleteVM_def FindVMByUUID_def vm_client_def base_v4_client_def
  go_eval machine_update_defs Let_def remove_finalizers_def


lemma finalizer_kept_until_gone_witness:
  "\<exists>h e. VMs_Get (vm_client None) h ''u-1'' = Inl e \<and> IsNotFound (vm_client None) e"
proof -
  let ?r = "sample_rctx (vm_client None)"
  obtain s' where run: "reconcileDelete ?r deleting_ctx = (Inr done_result, s')"
    and f: "om_Finalizers (nm_Meta (NM s')) = []"
    by (simp add: delete_eval sample_rctx_def sample_Machine_def deleting_ctx_def sample_NM_def sample_status_def
        demo_libs_def GetVMUUID_def sample_meta_def sample_ctx_def)
  have m: "rx_Machine ?r = Some (sample_Machine ''m'' [])" by (simp add: sample_rctx_def)
  have "om_Finalizers (nm_Meta (NM deleting_ctx)) \<noteq> []" by (simp add: deleting_ctx_def sample_ctx_def)
  with f have "om_Finalizers (nm_Meta (NM s')) \<noteq> om_Finalizers (nm_Meta (NM deleting_ctx))" by simp
  from finalizer_kept_until_gone [OF run m this] deleting_ctx_uuid [of "vm_client None"] show ?thesis
    by (auto simp: sample_rctx_def vm_client_def)
qed



end
