(* ===== verification/VHA_Lookup.thy ===== *)
theory VHA_Lookup
  imports Vm_Find Categories
begin

text \<open>
  The metro objects a machine refers to and the category of its virtual HA domain
  (controllers/helpers.go from getNutanixFailureDomainObject on, checkVHADomainCategory and
  findMetroRecoveryPlanUUIDByFailureDomain of controllers/nutanixmachine_controller.go).
\<close>

definition VHADomainDefaultCategoryKey :: string where
  "VHADomainDefaultCategoryKey = ''k8s-vha-native-site''"
definition clusterScopeMovementGroupName :: string where "clusterScopeMovementGroupName = ''default''"
definition MetroPreferredFailureDomainName :: string where
  "MetroPreferredFailureDomainName = ''metro-preferred-failuredomain''"
definition NutanixClusterKind :: string where "NutanixClusterKind = ''NutanixCluster''"
definition GroupVersion_Group :: string where "GroupVersion_Group = ''infrastructure.cluster.x-k8s.io''"

section \<open>Objects by name\<close>

definition getNutanixFailureDomainObject ::
  "kube_client \<Rightarrow> string \<Rightarrow> string \<Rightarrow> ('z world_scheme, NutanixFailureDomain) go" where
  "getNutanixFailureDomainObject k objectName namespace =
     wrapping (\<lambda>e. Wrap (''failed to fetch NutanixFailureDomain object by name '' @ dquote objectName @ '': '') e [])
       (ext (KGet KFailureDomain objectName namespace) (\<lambda>h. Kube_GetFailureDomain k h objectName namespace))"

definition getNutanixMetroObject ::
  "kube_client \<Rightarrow> string \<Rightarrow> string \<Rightarrow> ('z world_scheme, NutanixMetro) go" where
  "getNutanixMetroObject k objectName namespace =
     wrapping (\<lambda>e. Wrap (''failed to fetch NutanixMetro object by name '' @ dquote objectName @ '': '') e [])
       (ext (KGet KMetro objectName namespace) (\<lambda>h. Kube_GetMetro k h objectName namespace))"

definition getNutanixMetroSiteObject ::
  "kube_client \<Rightarrow> string \<Rightarrow> string \<Rightarrow> ('z world_scheme, NutanixMetroSite) go" where
  "getNutanixMetroSiteObject k objectName namespace =
     wrapping (\<lambda>e. Wrap (''failed to fetch NutanixMetroSite object by name '' @ dquote objectName @ '': '') e [])
       (ext (KGet KMetroSite objectName namespace) (\<lambda>h. Kube_GetMetroSite k h objectName namespace))"

definition vHADomainName :: "string \<Rightarrow> string \<Rightarrow> string" where
  "vHADomainName clusterName metroName = clusterName @ ''-'' @ metroName"

section \<open>The virtual HA domains of a cluster\<close>

definition owned_by_cluster :: "libs \<Rightarrow> NutanixCluster \<Rightarrow> owner_ref \<Rightarrow> bool" where
  "owned_by_cluster L ncl ownerRef =
     (if or_Kind ownerRef \<noteq> NutanixClusterKind \<or> or_Name ownerRef \<noteq> om_Name (ncl_Meta ncl) then False
      else (case ParseGroup L (or_APIVersion ownerRef) of
              Inl _ \<Rightarrow> False
            | Inr g \<Rightarrow> g = GroupVersion_Group))"

definition getOwnedVHADomains ::
  "libs \<Rightarrow> kube_client \<Rightarrow> NutanixCluster \<Rightarrow> ('z world_scheme, NutanixVirtualHADomain list) go" where
  "getOwnedVHADomains L k ncl =
     (let ns = om_Namespace (ncl_Meta ncl) in
      bnd (ext (KList KVHADomain ns []) (\<lambda>h. Kube_ListVHADomains k h ns)) (\<lambda>items.
      ret (filter (\<lambda>d. list_ex (owned_by_cluster L ncl) (om_OwnerReferences (vha_Meta d))) items)))"

text \<open>The category of the preferred failure domain in the first domain of the metro.\<close>

definition preferred_category ::
  "rctx \<Rightarrow> string \<Rightarrow> string \<Rightarrow> NutanixVirtualHADomain \<Rightarrow> ('z world_scheme, NutanixCategoryIdentifier) go" where
  "preferred_category mctx metroName preferredFailureDomain d =
     (let name = om_Name (vha_Meta d) in
      if \<not> vha_Ready d then raise (Leaf (''the vHADomain '' @ name @ '' is not ready''))
      else (case find (\<lambda>mg. mg_Name mg = clusterScopeMovementGroupName) (vha_MovementGroups d) of
              None \<Rightarrow> raise (Leaf (''vHADomain '' @ name @ '' has no '' @ dquote clusterScopeMovementGroupName @
                        '' (cluster-scope) movement group''))
            | Some mg \<Rightarrow>
                (case find (\<lambda>crp. crp_FailureDomainRef crp = preferredFailureDomain) (mg_CategoryRecoveryPlans mg) of
                   None \<Rightarrow> raise (Leaf (''vHADomain '' @ name @
                             '' has no category mapping for the preferred failureDomain '' @ preferredFailureDomain))
                 | Some crp \<Rightarrow>
                     (let c = crp_Category crp in
                      thn (wrapping (\<lambda>e. Wrap (''HADomain: '' @ name @ '', NutanixMetro: '' @ metroName @
                              '', failed to fetch Category (key:'' @ cat_Key c @ '', value:'' @ cat_Value c @
                              '') from PC: '') e [])
                             (getCategory (rx_V4 mctx) (cat_Key c) (cat_Value c)))
                        (ret c)))))"

definition getVHADomainCategory ::
  "rctx \<Rightarrow> ('z machine_ctx_scheme, NutanixCategoryIdentifier) go" where
  "getVHADomainCategory mctx =
     bnd (deref (rx_Machine mctx)) (\<lambda>machine.
     let fdName = cm_FailureDomain machine; namespace = om_Namespace (cm_Meta machine) in
     if \<not> isNutanixMetroFailureDomain fdName \<and> \<not> isNutanixMetroSiteFailureDomain fdName then
       raise (Leaf (''the Machine's spec.failureDomain is not configured with NutanixMetro/ or NutanixMetroSite/ prefix: '' @ fdName))
     else
       bnd (if isNutanixMetroSiteFailureDomain fdName
            then bnd (getNutanixMetroSiteObject (rx_kube mctx) (drop (length metroSiteFailureDomainPrefix) fdName) namespace)
                   (\<lambda>site. ret (nms_MetroRef site))
            else ret (drop (length metroFailureDomainPrefix) fdName)) (\<lambda>metroName.
       bnd (gets (\<lambda>s. Datastore s MetroPreferredFailureDomainName)) (\<lambda>preferred.
       case preferred of
         None \<Rightarrow> raise (Leaf (''failed to get '' @ MetroPreferredFailureDomainName @ '' from reconciling context''))
       | Some preferredFailureDomain \<Rightarrow>
           bnd (getOwnedVHADomains (rx_libs mctx) (rx_kube mctx) (rx_NutanixCluster mctx)) (\<lambda>vHADomains.
           case find (\<lambda>d. vha_MetroRef d = metroName) vHADomains of
             None \<Rightarrow> raise (Leaf ''not found vHADomain category for NutanixMachine'')
           | Some d \<Rightarrow> preferred_category mctx metroName preferredFailureDomain d))))"

definition domain_plans :: "NutanixVirtualHADomain \<Rightarrow> NutanixCategoryRecoveryPlan list" where
  "domain_plans d = concat (map mg_CategoryRecoveryPlans (vha_MovementGroups d))"

text \<open>One plan of a domain: its category, when it has the key of the vHADomains, resolved.\<close>

definition resolve_plan ::
  "rctx \<Rightarrow> string \<times> NutanixCategoryRecoveryPlan \<Rightarrow> string set \<Rightarrow> ('z world_scheme, string set) go" where
  "resolve_plan mctx p extIds =
     (let c = crp_Category (snd p) in
      if cat_Key c \<noteq> VHADomainDefaultCategoryKey then ret extIds
      else bnd (wrapping (\<lambda>e. Wrap (''vHADomain '' @ fst p @ '': failed to resolve category (key:'' @ cat_Key c @
                   '', value:'' @ cat_Value c @ '') from Prism Central: '') e [])
                 (getCategory (rx_V4 mctx) (cat_Key c) (cat_Value c))) (\<lambda>prismCategory.
        case prismCategory of
          None \<Rightarrow> ret extIds
        | Some pc \<Rightarrow> (case ct_ExtId pc of None \<Rightarrow> ret extIds | Some e \<Rightarrow> ret (insert e extIds))))"

definition clusterVHADomainCategoryExtIds :: "rctx \<Rightarrow> ('z world_scheme, string set) go" where
  "clusterVHADomainCategoryExtIds mctx =
     bnd (getOwnedVHADomains (rx_libs mctx) (rx_kube mctx) (rx_NutanixCluster mctx)) (\<lambda>vHADomains.
     fold_go (resolve_plan mctx)
       (concat (map (\<lambda>d. map (Pair (om_Name (vha_Meta d))) (domain_plans d)) vHADomains)) {})"

fun count_categories :: "string set \<Rightarrow> string option list \<Rightarrow> nat" where
  "count_categories ids [] = 0"
| "count_categories ids (c # cs) =
     (case c of
        None \<Rightarrow> count_categories ids cs
      | Some e \<Rightarrow> if e \<in> ids then Suc (count_categories ids cs) else count_categories ids cs)"

definition countVMVHADomainCategories :: "rctx \<Rightarrow> vm \<Rightarrow> ('z world_scheme, nat) go" where
  "countVMVHADomainCategories mctx v =
     bnd (clusterVHADomainCategoryExtIds mctx) (\<lambda>ids. ret (count_categories ids (vm_Categories v)))"

definition checkVHADomainCategory :: "rctx \<Rightarrow> vm \<Rightarrow> ('z world_scheme, unit) go" where
  "checkVHADomainCategory rctx v =
     bnd (deref (rx_Machine rctx)) (\<lambda>machine.
     if \<not> isNutanixMetroFailureDomain (cm_FailureDomain machine) \<and>
        \<not> isNutanixMetroSiteFailureDomain (cm_FailureDomain machine) then ret ()
     else bnd (countVMVHADomainCategories rctx v) (\<lambda>count.
       if count \<noteq> 1
       then raise (Leaf (''the Metro VM '' @ om_Name (cm_Meta machine) @
              '' must have one and only one category with the vHADomain key '' @ dquote VHADomainDefaultCategoryKey @
              '' from the cluster's vHADomain, but found '' @ show_nat count))
       else ret ()))"

section \<open>The recovery plan of a failure domain\<close>

definition findMetroRecoveryPlanUUIDByFailureDomain ::
  "rctx \<Rightarrow> string \<Rightarrow> string \<Rightarrow> ('z world_scheme, string) go" where
  "findMetroRecoveryPlanUUIDByFailureDomain mctx metroName failureDomainName =
     bnd (getOwnedVHADomains (rx_libs mctx) (rx_kube mctx) (rx_NutanixCluster mctx)) (\<lambda>vHADomains.
     let plans = [crp. d \<leftarrow> vHADomains, vha_MetroRef d = metroName,
                       mg \<leftarrow> vha_MovementGroups d, mg_Name mg = clusterScopeMovementGroupName,
                       crp \<leftarrow> mg_CategoryRecoveryPlans mg, crp_FailureDomainRef crp = failureDomainName]
     in ret (case plans of [] \<Rightarrow> [] | crp # _ \<Rightarrow> Deref (id_UUID (crp_RecoveryPlan crp)) []))"

section \<open>Lemmas\<close>

lemma getOwnedVHADomains_only: "moves (only_calls is_read) (getOwnedVHADomains L k ncl)"
  unfolding getOwnedVHADomains_def Let_def by (intro only_rules) simp

lemma getObject_only:
  "moves (only_calls is_read) (getNutanixFailureDomainObject k n ns)"
  "moves (only_calls is_read) (getNutanixMetroObject k n ns)"
  "moves (only_calls is_read) (getNutanixMetroSiteObject k n ns)"
  unfolding getNutanixFailureDomainObject_def getNutanixMetroObject_def getNutanixMetroSiteObject_def
  by (intro only_rules, simp)+

lemma getCategory_only_reads: "moves (only_calls is_read) (getCategory c k v)"
  by (rule only_mono [OF getCategory_reads prism_read_is_read])

lemma clusterVHADomainCategoryExtIds_only:
  "moves (only_calls is_read) (clusterVHADomainCategoryExtIds mctx)"
  unfolding clusterVHADomainCategoryExtIds_def resolve_plan_def Let_def
  by (intro only_rules getOwnedVHADomains_only getCategory_only_reads)

lemma findRecoveryPlan_only:
  "moves (only_calls is_read) (findMetroRecoveryPlanUUIDByFailureDomain mctx m f)"
  unfolding findMetroRecoveryPlanUUIDByFailureDomain_def Let_def
  by (intro only_rules getOwnedVHADomains_only)

lemma count_categories_filter:
  "count_categories ids cs = length (filter (\<lambda>c. \<exists>e\<in>ids. c = Some e) cs)"
  by (induction cs) (auto split: option.splits)

end
