(* ===== verification/Metro_Placement.thy ===== *)
theory Metro_Placement
  imports VHA_Lookup
begin

text \<open>
  The placement of a machine in a metro failure domain (getMetroFailureDomainSpec,
  getMetroSiteFailureDomainSpec, computeMetroPlacementIndex and their helpers, of
  controllers/nutanixmachine_controller.go).

  The choice of the native failure domain is a greedy simulation over the machines that have
  none yet, in the order of their names; the recovery plan jobs of Prism Central can move the
  VM to the paired site.
\<close>

definition metroNativeFailureDomainLabelKey :: string where
  "metroNativeFailureDomainLabelKey = ''metro.nutanix.com/native-failuredomain''"
definition metroNativePELabelKey :: string where "metroNativePELabelKey = ''metro.nutanix.com/native-pe''"
definition MetroPreferredPE :: string where "MetroPreferredPE = ''metro-preferred-pe''"
definition MetroNodeGroupNameLabel :: string where "MetroNodeGroupNameLabel = ''metro-node-group-name-label''"
definition MetroRecoveryPlacementCondition :: string where
  "MetroRecoveryPlacementCondition = ''MetroRecoveryPlacement''"
definition MetroRecoveryPlacementSiteMaintenanceReason :: string where
  "MetroRecoveryPlacementSiteMaintenanceReason = ''SiteMaintenance''"
definition ClusterNameLabel :: string where "ClusterNameLabel = ''cluster.x-k8s.io/cluster-name''"
definition MachineControlPlaneLabel :: string where
  "MachineControlPlaneLabel = ''cluster.x-k8s.io/control-plane''"

text \<open>MachineSet, MachineDeployment and MachinePool.\<close>

definition metroPlacementGroupOwnerLabels :: "string list" where
  "metroPlacementGroupOwnerLabels =
     [''cluster.x-k8s.io/set-name'', ''cluster.x-k8s.io/deployment-name'', ''cluster.x-k8s.io/pool-name'']"

section \<open>Balancing groups\<close>

text \<open>The first owner label with a value.\<close>

fun owner_label :: "string list \<Rightarrow> string_map \<Rightarrow> (string \<times> string) option" where
  "owner_label [] labels = None"
| "owner_label (k # ks) labels =
     (case labels k of
        Some v \<Rightarrow> if v \<noteq> [] then Some (k, v) else owner_label ks labels
      | None \<Rightarrow> owner_label ks labels)"

definition metroPlacementGroupLabel :: "string_map \<Rightarrow> (string \<times> string) option" where
  "metroPlacementGroupLabel labels =
     (case owner_label metroPlacementGroupOwnerLabels labels of
        Some kv \<Rightarrow> Some kv
      | None \<Rightarrow> (case labels MachineControlPlaneLabel of
                  Some v \<Rightarrow> Some (MachineControlPlaneLabel, v)
                | None \<Rightarrow> None))"

definition metroPlacementGroupKey :: "string_map \<Rightarrow> string" where
  "metroPlacementGroupKey labels =
     (case metroPlacementGroupLabel labels of
        None \<Rightarrow> []
      | Some (key, v) \<Rightarrow> if v = [] then key else key @ ''='' @ v)"

definition metroPlacementGroupSelector :: "string_map \<Rightarrow> (string \<times> string) list option" where
  "metroPlacementGroupSelector labels =
     (case metroPlacementGroupLabel labels of None \<Rightarrow> None | Some (key, v) \<Rightarrow> Some [(key, v)])"

fun machine_keys :: "capi_Machine list \<Rightarrow> string_map" where
  "machine_keys [] = Map.empty"
| "machine_keys (m # ms) =
     (\<lambda>n. case machine_keys ms n of
            Some k \<Rightarrow> Some k
          | None \<Rightarrow> if n = cm_InfrastructureRefName m \<and> n \<noteq> []
                     then Some (metroPlacementGroupKey (om_Labels (cm_Meta m))) else None)"

definition metroMachineGroupKeys :: "rctx \<Rightarrow> ('z world_scheme, string_map) go" where
  "metroMachineGroupKeys rctx =
     (let ns = om_Namespace (ncl_Meta (rx_NutanixCluster rctx));
          sel = (case rx_Machine rctx of
                   None \<Rightarrow> []
                 | Some m \<Rightarrow> (case metroPlacementGroupSelector (om_Labels (cm_Meta m)) of
                               None \<Rightarrow> [] | Some l \<Rightarrow> l));
          opts = (ClusterNameLabel, om_Name (cc_Meta (rx_Cluster rctx))) # sel in
      bnd (ext (KList KMachine ns opts) (\<lambda>h. Kube_ListMachines (rx_kube rctx) h ns opts)) (\<lambda>ms.
      ret (machine_keys ms)))"

section \<open>The greedy choice\<close>

text \<open>The index of a failure domain; of two with one name the last.\<close>

definition fd_index :: "string list \<Rightarrow> string \<Rightarrow> nat option" where
  "fd_index fdNames = map_of (rev (zip fdNames [0..<length fdNames]))"

text \<open>One machine of the listing: another group, being deleted, placed, or pending.  The
  accumulator is the counts of the failure domains and the names of the pending machines.\<close>

definition consider_sibling ::
  "string \<Rightarrow> string_map \<Rightarrow> string \<Rightarrow> string list \<Rightarrow> NutanixMachine \<Rightarrow> int list \<times> string list \<Rightarrow>
   int list \<times> string list" where
  "consider_sibling groupKey keys self fdNames nm acc =
     (case acc of (counts, pending) \<Rightarrow>
        (let name = om_Name (nm_Meta nm) in
         if groupKey \<noteq> [] \<and> name \<noteq> self \<and> map_get keys name \<noteq> groupKey then acc
         else if om_Deleting (nm_Meta nm) \<and> name \<noteq> self then acc
         else case om_Labels (nm_Meta nm) metroNativeFailureDomainLabelKey of
                Some fdName \<Rightarrow>
                  (case fd_index fdNames fdName of
                     Some idx \<Rightarrow> (counts[idx := counts ! idx + 1], pending)
                   | None \<Rightarrow> acc)
              | None \<Rightarrow> (counts, pending @ [name])))"

text \<open>The scan for the least count: the position, the rest, the best index and its count.\<close>

fun least_count :: "nat \<Rightarrow> int list \<Rightarrow> nat \<Rightarrow> int \<Rightarrow> nat" where
  "least_count i [] idx minCount = idx"
| "least_count i (c # cs) idx minCount =
     (if minCount < 0 \<or> c < minCount then least_count (Suc i) cs i c
      else least_count (Suc i) cs idx minCount)"

text \<open>The slot of the machine self; None is the index error of counts[idx].\<close>

fun greedy_slot :: "string \<Rightarrow> string list \<Rightarrow> int list \<Rightarrow> nat option" where
  "greedy_slot self [] counts = Some 0"
| "greedy_slot self (name # names) counts =
     (let idx = least_count 0 counts 0 (-1) in
      if name = self then Some idx
      else if idx < length counts then greedy_slot self names (counts[idx := counts ! idx + 1])
      else None)"

definition placement_state ::
  "string \<Rightarrow> string_map \<Rightarrow> string \<Rightarrow> string list \<Rightarrow> NutanixMachine list \<Rightarrow> int list \<times> string list" where
  "placement_state groupKey keys self fdNames machines =
     (case fold (consider_sibling groupKey keys self fdNames) machines
             (replicate (length fdNames) 0, []) of
        (counts, pending) \<Rightarrow>
          (counts, sort_slice str_less (if List.member pending self then pending else pending @ [self])))"

definition computeMetroPlacementIndex ::
  "rctx \<Rightarrow> NutanixFailureDomain list \<Rightarrow> ('z machine_ctx_scheme, nat) go" where
  "computeMetroPlacementIndex rctx fdObjs =
     (let groupKey = (case rx_Machine rctx of
                        None \<Rightarrow> [] | Some m \<Rightarrow> metroPlacementGroupKey (om_Labels (cm_Meta m)));
          fdNames = map (\<lambda>f. om_Name (nfd_Meta f)) fdObjs;
          ns = om_Namespace (ncl_Meta (rx_NutanixCluster rctx));
          opts = [(ClusterNameLabel, om_Name (cc_Meta (rx_Cluster rctx)))] in
      bnd (metroMachineGroupKeys rctx) (\<lambda>keys.
      bnd (ext (KList KNutanixMachine ns opts) (\<lambda>h. Kube_ListNutanixMachines (rx_kube rctx) h ns opts)) (\<lambda>machines.
      bnd (gets (\<lambda>s. om_Name (nm_Meta (NM s)))) (\<lambda>self.
      case placement_state groupKey keys self fdNames machines of
        (counts, pending) \<Rightarrow> deref (greedy_slot self pending counts)))))"

definition storeMetroPlacementSelection :: "NutanixFailureDomain \<Rightarrow> ('z machine_ctx_scheme, unit) go" where
  "storeMetroPlacementSelection selectedFd =
     (let name = om_Name (nfd_Meta selectedFd); pe = id_String (fd_PrismElementCluster (nfd_Spec selectedFd)) in
      thn (modify (\<lambda>s. s\<lparr>Datastore := (Datastore s)(MetroPreferredFailureDomainName \<mapsto> name, MetroPreferredPE \<mapsto> pe)\<rparr>))
        (update_meta (\<lambda>m. m\<lparr>om_Labels := (om_Labels m)(metroNativeFailureDomainLabelKey \<mapsto> name,
           metroNativePELabelKey \<mapsto> pe)\<rparr>)))"

section \<open>Recovery plan jobs\<close>

definition latestRecoveryPlanJob :: "v3_client \<Rightarrow> string \<Rightarrow> ('z world_scheme, recovery_plan_job option) go" where
  "latestRecoveryPlanJob v3 recoveryPlanUUID =
     bnd (ext (PRead RRecoveryPlanJob ''ListRecoveryPlanJobs'' [recoveryPlanUUID])
            (\<lambda>h. ListRecoveryPlanJobs v3 h recoveryPlanUUID)) (\<lambda>resp.
     ret (case resp of
            None \<Rightarrow> None
          | Some entities \<Rightarrow>
              (case find (\<lambda>j. case j of None \<Rightarrow> False
                                 | Some job \<Rightarrow> rpj_RecoveryPlanUUID job = Some recoveryPlanUUID) entities of
                 None \<Rightarrow> None | Some j \<Rightarrow> j)))"

fun first_uuid :: "string option option list \<Rightarrow> string option" where
  "first_uuid [] = None"
| "first_uuid (r # rs) =
     (case r of Some (Some u) \<Rightarrow> if u \<noteq> [] then Some u else first_uuid rs | _ \<Rightarrow> first_uuid rs)"

fun zone_uuid :: "string option option list option list \<Rightarrow> string" where
  "zone_uuid [] = []"
| "zone_uuid (az # azs) =
     (case az of
        None \<Rightarrow> zone_uuid azs
      | Some refs \<Rightarrow> (case first_uuid refs of Some u \<Rightarrow> u | None \<Rightarrow> zone_uuid azs))"

definition activePlacementPEUUIDFromRecoveryPlanJob :: "recovery_plan_job option \<Rightarrow> string" where
  "activePlacementPEUUIDFromRecoveryPlanJob job_p =
     (case job_p of
        None \<Rightarrow> []
      | Some job \<Rightarrow> if \<not> rpj_HasExecutionParameters job then [] else zone_uuid (rpj_RecoveryZones job))"

definition resolveFailureDomainPEUUID ::
  "rctx \<Rightarrow> NutanixFailureDomainSpec \<Rightarrow> ('z world_scheme, string) go" where
  "resolveFailureDomainPEUUID rctx fdSpec =
     (let pe = fd_PrismElementCluster fdSpec in
      bnd (GetPEClusterByIdentifier (Some (rx_V4 rctx)) (id_Name pe) (id_UUID pe)) (\<lambda>c.
      bnd (deref c) (\<lambda>peCluster. ret (Deref (pcl_ExtId peCluster) []))))"

text \<open>The availability the cluster reports; None when there is no report.\<close>

definition reported_available :: "pe_cluster option \<Rightarrow> bool option" where
  "reported_available c =
     (case c of None \<Rightarrow> None
      | Some pe \<Rightarrow> (case pcl_Config pe of None \<Rightarrow> None | Some cfg \<Rightarrow> pcf_IsAvailable cfg))"

definition pairedFailureDomainIfNativePEUnavailable ::
  "rctx \<Rightarrow> NutanixFailureDomain \<Rightarrow> NutanixFailureDomain option list \<Rightarrow>
   ('z world_scheme, NutanixFailureDomain option) go" where
  "pairedFailureDomainIfNativePEUnavailable rctx nativeFd fdObjs =
     (let pe = fd_PrismElementCluster (nfd_Spec nativeFd) in
      bnd (attempt (GetPEClusterByIdentifier (Some (rx_V4 rctx)) (id_Name pe) (id_UUID pe))) (\<lambda>r.
      case r of
        Inl err \<Rightarrow> ret None
      | Inr peCluster \<Rightarrow>
          if reported_available peCluster \<noteq> Some False then ret None
          else ret (case find (\<lambda>f. case f of None \<Rightarrow> False
                                 | Some fd \<Rightarrow> om_Name (nfd_Meta fd) \<noteq> om_Name (nfd_Meta nativeFd)) fdObjs of
                      None \<Rightarrow> None | Some f \<Rightarrow> f)))"

text \<open>The loop over the failure domains for the one on the active Prism Element.\<close>

definition on_active_pe ::
  "rctx \<Rightarrow> string \<Rightarrow> NutanixFailureDomain option \<Rightarrow> ('z world_scheme, NutanixFailureDomain option) go" where
  "on_active_pe rctx activePEUUID fdObj =
     (case fdObj of
        None \<Rightarrow> ret None
      | Some fd \<Rightarrow>
          bnd (attempt (resolveFailureDomainPEUUID rctx (nfd_Spec fd))) (\<lambda>r.
          case r of
            Inl err \<Rightarrow> ret None
          | Inr peUUID \<Rightarrow> ret (if peUUID = activePEUUID then Some fd else None)))"

definition resolveMetroPlacementFailureDomainFromRecoveryPlanJob ::
  "rctx \<Rightarrow> string \<Rightarrow> NutanixFailureDomain \<Rightarrow> NutanixFailureDomain option list \<Rightarrow>
   ('z world_scheme, NutanixFailureDomain option) go" where
  "resolveMetroPlacementFailureDomainFromRecoveryPlanJob rctx metroName nativeFd fdObjs =
     (case rx_V3 rctx of
        None \<Rightarrow> ret None
      | Some v3 \<Rightarrow>
          bnd (findMetroRecoveryPlanUUIDByFailureDomain rctx metroName (om_Name (nfd_Meta nativeFd))) (\<lambda>rpUUID.
          if rpUUID = [] then ret None
          else bnd (latestRecoveryPlanJob v3 rpUUID) (\<lambda>latestJob.
            if latestJob = None then pairedFailureDomainIfNativePEUnavailable rctx nativeFd fdObjs
            else (let activePEUUID = activePlacementPEUUIDFromRecoveryPlanJob latestJob in
                  if activePEUUID = [] then ret None
                  else first_go (on_active_pe rctx activePEUUID) fdObjs))))"

definition setMetroRecoveryPlacementStatus ::
  "NutanixFailureDomain \<Rightarrow> NutanixFailureDomain \<Rightarrow> ('z machine_ctx_scheme, unit) go" where
  "setMetroRecoveryPlacementStatus nativeFd placementFd =
     (let n = om_Name (nfd_Meta nativeFd); p = om_Name (nfd_Meta placementFd) in
      if n = p then ret ()
      else thn (setNutanixMachineAnnotation metroActivePlacementPEAnnotation
                 (id_String (fd_PrismElementCluster (nfd_Spec placementFd))))
             (conditions [MarkTrue MetroRecoveryPlacementCondition,
                SetTrue MetroRecoveryPlacementCondition MetroRecoveryPlacementSiteMaintenanceReason
                  (''Placed on paired site ('' @ p @ '') due to maintenance/disaster recovery activity on native site ('' @ n @ '')'')]))"

section \<open>The failure domain of a machine\<close>

definition validateFailureDomainSpec ::
  "rctx \<Rightarrow> NutanixFailureDomainSpec \<Rightarrow> ProjectInfo option \<Rightarrow> resource_group option \<Rightarrow>
   ('z world_scheme, unit) go" where
  "validateFailureDomainSpec rctx fdSpec effectiveProject resourceGroup =
     (let pe = fd_PrismElementCluster fdSpec in
      bnd (GetPEUUID (Some (rx_V4 rctx)) resourceGroup (id_Name pe) (id_UUID pe)) (\<lambda>peUUID.
      thn (GetSubnetUUIDList (rx_V4 rctx) (fd_Subnets fdSpec) peUUID effectiveProject (rx_PCVersion rctx))
        (ret ())))"

text \<open>The end of both getMetroFailureDomainSpec and getMetroSiteFailureDomainSpec: the
  selection is stored, the recovery plan may move the VM, and the remaining failure domain is
  the fallback of a placement that does not validate.\<close>

definition place_metro ::
  "rctx \<Rightarrow> string \<Rightarrow> NutanixFailureDomain \<Rightarrow> NutanixFailureDomain option \<Rightarrow>
   NutanixFailureDomain option list \<Rightarrow> ('z machine_ctx_scheme, NutanixFailureDomainSpec) go" where
  "place_metro rctx metroName selectedFd remainingFd fdObjs =
     thn (storeMetroPlacementSelection selectedFd)
     (bnd (attempt (resolveMetroPlacementFailureDomainFromRecoveryPlanJob rctx metroName selectedFd fdObjs)) (\<lambda>r.
      let placementFd = (case r of Inl perr \<Rightarrow> selectedFd
                         | Inr None \<Rightarrow> selectedFd
                         | Inr (Some fd) \<Rightarrow> fd) in
      bnd (attempt (validateFailureDomainSpec rctx (nfd_Spec placementFd) None None)) (\<lambda>r.
      bnd (case r of
             Inr _ \<Rightarrow> ret placementFd
           | Inl err \<Rightarrow>
               (case remainingFd of
                  None \<Rightarrow> raise err
                | Some fd \<Rightarrow> thn (validateFailureDomainSpec rctx (nfd_Spec fd) None None) (ret fd))) (\<lambda>placementFd.
      thn (setMetroRecoveryPlacementStatus selectedFd placementFd)
        (ret (nfd_Spec placementFd))))))"

text \<open>The loop that fetches the failure domains: Inl is the early return at the native one.\<close>

fun fetch_failure_domains ::
  "rctx \<Rightarrow> string \<Rightarrow> string \<Rightarrow> string list \<Rightarrow>
   ('z world_scheme, NutanixFailureDomain + NutanixFailureDomain list) go" where
  "fetch_failure_domains rctx namespace nativeFdName [] = ret (Inr [])"
| "fetch_failure_domains rctx namespace nativeFdName (ref # refs) =
     bnd (getNutanixFailureDomainObject (rx_kube rctx) ref namespace) (\<lambda>fdObj.
     if nativeFdName = om_Name (nfd_Meta fdObj) then ret (Inl fdObj)
     else bnd (fetch_failure_domains rctx namespace nativeFdName refs) (\<lambda>r.
       ret (case r of Inl fd \<Rightarrow> Inl fd | Inr fds \<Rightarrow> Inr (fdObj # fds))))"

definition native_label :: "('z machine_ctx_scheme, string) go" where
  "native_label = gets (\<lambda>s. map_get (om_Labels (nm_Meta (NM s))) metroNativeFailureDomainLabelKey)"

text \<open>The last failure domain at another index.\<close>

definition remaining_fd :: "nat \<Rightarrow> NutanixFailureDomain list \<Rightarrow> NutanixFailureDomain option" where
  "remaining_fd idx fdObjs =
     (case rev (filter (\<lambda>p. fst p \<noteq> idx) (zip [0..<length fdObjs] fdObjs)) of
        [] \<Rightarrow> None | p # _ \<Rightarrow> Some (snd p))"

definition getMetroFailureDomainSpec ::
  "rctx \<Rightarrow> string \<Rightarrow> ('z machine_ctx_scheme, NutanixFailureDomainSpec) go" where
  "getMetroFailureDomainSpec rctx metroName =
     bnd (deref (rx_Machine rctx)) (\<lambda>machine.
     let namespace = om_Namespace (cm_Meta machine) in
     bnd (getNutanixMetroObject (rx_kube rctx) metroName namespace) (\<lambda>metroObj.
     bnd native_label (\<lambda>nativeFdName.
     bnd (fetch_failure_domains rctx namespace nativeFdName (nmt_FailureDomains metroObj)) (\<lambda>r.
     case r of
       Inl fdObj \<Rightarrow> thn (storeMetroPlacementSelection fdObj) (ret (nfd_Spec fdObj))
     | Inr fdObjs \<Rightarrow>
         if fdObjs = [] then raise (Leaf (''the NutanixMetro '' @ metroName @ '' has no failureDomains''))
         else bnd (computeMetroPlacementIndex rctx fdObjs) (\<lambda>idx.
           bnd (deref (if idx < length fdObjs then Some (fdObjs ! idx) else None)) (\<lambda>selectedFd.
           place_metro rctx metroName selectedFd (remaining_fd idx fdObjs) (map Some fdObjs)))))))"

text \<open>The failure domains of the metro split by the site's preference, the last of each kind.\<close>

definition place_metrosite ::
  "rctx \<Rightarrow> string \<Rightarrow> NutanixMetroSite \<Rightarrow> NutanixMetro \<Rightarrow> NutanixFailureDomain list \<Rightarrow>
   ('z machine_ctx_scheme, NutanixFailureDomainSpec) go" where
  "place_metrosite rctx metrositeName metrositeObj metroObj fdObjs =
     (let preferred = nms_PreferredFailureDomain metrositeObj;
          selectedFd = find (\<lambda>f. om_Name (nfd_Meta f) = preferred) (rev fdObjs);
          remainingFd = find (\<lambda>f. om_Name (nfd_Meta f) \<noteq> preferred) (rev fdObjs) in
      case selectedFd of
        None \<Rightarrow> raise (Leaf (''the NutanixMetroSite '' @ metrositeName @ '' preferredFailureDomain '' @ preferred @
                  '' is not in the NutanixMetro '' @ om_Name (nmt_Meta metroObj) @ '' failureDomains''))
      | Some selected \<Rightarrow>
          place_metro rctx (om_Name (nmt_Meta metroObj)) selected remainingFd [Some selected, remainingFd])"

definition getMetroSiteFailureDomainSpec ::
  "rctx \<Rightarrow> string \<Rightarrow> ('z machine_ctx_scheme, NutanixFailureDomainSpec) go" where
  "getMetroSiteFailureDomainSpec rctx metrositeName =
     bnd (deref (rx_Machine rctx)) (\<lambda>machine.
     let namespace = om_Namespace (cm_Meta machine) in
     bnd (getNutanixMetroSiteObject (rx_kube rctx) metrositeName namespace) (\<lambda>metrositeObj.
     bnd (getNutanixMetroObject (rx_kube rctx) (nms_MetroRef metrositeObj) namespace) (\<lambda>metroObj.
     thn (case nms_GroupNameLabel metrositeObj of
            None \<Rightarrow> ret ()
          | Some l \<Rightarrow> when_go (l \<noteq> []) (modify (\<lambda>s. s\<lparr>Datastore := (Datastore s)(MetroNodeGroupNameLabel \<mapsto> l)\<rparr>)))
     (bnd native_label (\<lambda>nativeFdName.
      bnd (fetch_failure_domains rctx namespace nativeFdName (nmt_FailureDomains metroObj)) (\<lambda>r.
      case r of
        Inl fdObj \<Rightarrow> thn (storeMetroPlacementSelection fdObj) (ret (nfd_Spec fdObj))
      | Inr fdObjs \<Rightarrow> place_metrosite rctx metrositeName metrositeObj metroObj fdObjs))))))"

section \<open>The greedy choice balances\<close>

text \<open>The index found by the scan holds a least count.\<close>

lemma least_count_min:
  assumes "\<forall>c\<in>set cs. 0 \<le> c" "mn < 0 \<longleftrightarrow> pre = []" "length pre = i"
    and "pre \<noteq> [] \<longrightarrow> idx < i \<and> pre ! idx = mn \<and> (\<forall>c\<in>set pre. mn \<le> c)"
    and "pre @ cs \<noteq> []"
  shows "least_count i cs idx mn < length (pre @ cs) \<and>
    (\<forall>c\<in>set (pre @ cs). (pre @ cs) ! least_count i cs idx mn \<le> c)"
  using assms
proof (induction cs arbitrary: i idx mn pre)
  case Nil
  then show ?case by auto
next
  case (Cons c cs)
  show ?case
  proof (cases "mn < 0 \<or> c < mn")
    case True
    from Cons.prems True have le: "\<forall>d\<in>set (pre @ [c]). c \<le> d" by (cases "pre = []") force+
    from Cons.prems have "(pre @ [c]) ! i = c" by auto
    with Cons.IH [of c "pre @ [c]" "Suc i" i] Cons.prems le show ?thesis using True by auto
  next
    case False
    with Cons.prems have "pre \<noteq> []" by auto
    with Cons.prems False have "(pre @ [c]) ! idx = mn \<and> (\<forall>d\<in>set (pre @ [c]). mn \<le> d)"
      by (auto simp: nth_append)
    with Cons.IH [of mn "pre @ [c]" "Suc i" idx] Cons.prems False \<open>pre \<noteq> []\<close> show ?thesis by auto
  qed
qed

lemma least_count_least:
  assumes "\<forall>c\<in>set counts. 0 \<le> c" "counts \<noteq> []"
  shows "least_count 0 counts 0 (-1) < length counts"
    and "j < length counts \<Longrightarrow> counts ! least_count 0 counts 0 (-1) \<le> counts ! j"
  using least_count_min [of counts "-1" "[]" 0 0] assms by auto

text \<open>The whole simulation: every name with its slot, and the counts afterwards.\<close>

fun greedy_all :: "string list \<Rightarrow> int list \<Rightarrow> (string \<times> nat) list \<times> int list" where
  "greedy_all [] counts = ([], counts)"
| "greedy_all (name # names) counts =
     (let idx = least_count 0 counts 0 (-1);
          r = greedy_all names (counts[idx := counts ! idx + 1]) in
      ((name, idx) # fst r, snd r))"

lemma greedy_all_names: "map fst (fst (greedy_all names counts)) = names"
  by (induction names counts rule: greedy_all.induct) (auto simp: Let_def)

lemma greedy_slot_all:
  assumes "\<forall>c\<in>set counts. 0 \<le> c" "counts \<noteq> []" "distinct names" "self \<in> set names"
  shows "greedy_slot self names counts = map_of (fst (greedy_all names counts)) self"
  using assms
proof (induction names counts rule: greedy_all.induct)
  case (2 name names counts)
  let ?i = "least_count 0 counts 0 (-1)"
  have i: "?i < length counts" by (rule least_count_least(1) [OF 2(2,3)])
  then have "0 \<le> counts ! ?i" using 2(2) by simp
  then have "\<forall>c\<in>set (counts[?i := counts ! ?i + 1]). 0 \<le> c"
    using 2(2) by (auto dest!: set_update_subset_insert [THEN subsetD])
  with 2 i show ?case by (auto simp: Let_def)
qed simp

definition balanced_from :: "int list \<Rightarrow> int list \<Rightarrow> bool" where
  "balanced_from c0 c \<longleftrightarrow> length c = length c0 \<and>
     (\<forall>i<length c. \<forall>j<length c. c ! i \<le> max (c0 ! i) (c ! j + 1))"

lemma balanced_step:
  assumes "balanced_from c0 c" "k < length c" "\<forall>j<length c. c ! k \<le> c ! j"
  shows "balanced_from c0 (c[k := c ! k + 1])"
  using assms by (auto simp: balanced_from_def nth_list_update) force+

lemma greedy_all_balanced:
  assumes "\<forall>c\<in>set counts. 0 \<le> c" "counts \<noteq> []" "balanced_from c0 counts"
  shows "balanced_from c0 (snd (greedy_all names counts)) \<and>
    (\<forall>i<length counts. snd (greedy_all names counts) ! i =
       counts ! i + int (length (filter (\<lambda>p. snd p = i) (fst (greedy_all names counts)))))"
  using assms
proof (induction names counts rule: greedy_all.induct)
  case (2 name names counts)
  let ?i = "least_count 0 counts 0 (-1)"
  have i: "?i < length counts" by (rule least_count_least(1) [OF 2(2,3)])
  then have "0 \<le> counts ! ?i" using 2(2) by simp
  then have "\<forall>c\<in>set (counts[?i := counts ! ?i + 1]). 0 \<le> c"
    using 2(2) by (auto dest!: set_update_subset_insert [THEN subsetD])
  moreover have "balanced_from c0 (counts[?i := counts ! ?i + 1])"
    by (rule balanced_step [OF 2(4) i]) (use least_count_least(2) [OF 2(2,3)] in blast)
  ultimately show ?case using 2(1) [OF refl] 2(3) i by (auto simp: Let_def nth_list_update)
qed simp

lemma slots_in_range:
  assumes "\<forall>c\<in>set counts. 0 \<le> c" "counts \<noteq> []"
  shows "\<forall>p\<in>set (fst (greedy_all names counts)). snd p < length counts"
  using assms
proof (induction names counts rule: greedy_all.induct)
  case (2 name names counts)
  let ?i = "least_count 0 counts 0 (-1)"
  have i: "?i < length counts" by (rule least_count_least(1) [OF 2(2,3)])
  then have "0 \<le> counts ! ?i" using 2(2) by simp
  then have "\<forall>c\<in>set (counts[?i := counts ! ?i + 1]). 0 \<le> c"
    using 2(2) by (auto dest!: set_update_subset_insert [THEN subsetD])
  with 2(1) [OF refl] 2(3) i show ?case by (auto simp: Let_def)
qed simp

section \<open>The state of a placement\<close>

text \<open>A machine of the group that is not being deleted, those of them placed on the failure
  domain i and the names of those not placed.\<close>

definition eligible :: "string \<Rightarrow> string_map \<Rightarrow> NutanixMachine \<Rightarrow> bool" where
  "eligible groupKey keys m \<longleftrightarrow>
     (groupKey = [] \<or> map_get keys (om_Name (nm_Meta m)) = groupKey) \<and> \<not> om_Deleting (nm_Meta m)"

definition native_of :: "NutanixMachine \<Rightarrow> string option" where
  "native_of m = om_Labels (nm_Meta m) metroNativeFailureDomainLabelKey"

definition native_count ::
  "string \<Rightarrow> string_map \<Rightarrow> string list \<Rightarrow> NutanixMachine list \<Rightarrow> nat \<Rightarrow> nat" where
  "native_count groupKey keys fdNames ms i =
     length (filter (\<lambda>m. eligible groupKey keys m \<and> native_of m \<noteq> None \<and>
       fd_index fdNames (the (native_of m)) = Some i) ms)"

definition pending_names :: "string \<Rightarrow> string_map \<Rightarrow> NutanixMachine list \<Rightarrow> string list" where
  "pending_names groupKey keys ms =
     map (\<lambda>m. om_Name (nm_Meta m)) (filter (\<lambda>m. eligible groupKey keys m \<and> native_of m = None) ms)"

lemma fd_index_bound: "fd_index fdNames n = Some i \<Longrightarrow> i < length fdNames"
  by (auto simp: fd_index_def dest!: map_of_SomeD) (auto simp: set_zip)

lemma fold_siblings:
  assumes "\<forall>m\<in>set ms. om_Name (nm_Meta m) = self \<longrightarrow> eligible groupKey keys m"
    and "length counts = length fdNames"
  shows "fold (consider_sibling groupKey keys self fdNames) ms (counts, pending) =
    (map (\<lambda>i. counts ! i + int (native_count groupKey keys fdNames ms i)) [0..<length fdNames],
     pending @ pending_names groupKey keys ms)"
  using assms
proof (induction ms arbitrary: counts pending)
  case Nil
  then show ?case by (auto simp: native_count_def pending_names_def intro: nth_equalityI)
next
  case (Cons m ms)
  let ?n = "om_Name (nm_Meta m)"
  have "\<exists>c p. consider_sibling groupKey keys self fdNames m (counts, pending) = (c, pending @ p) \<and>
    length c = length fdNames \<and> p = pending_names groupKey keys [m] \<and>
    (\<forall>i<length fdNames. c ! i = counts ! i + int (native_count groupKey keys fdNames [m] i))"
  proof (cases "eligible groupKey keys m")
    case False
    with Cons.prems show ?thesis
      by (auto simp: consider_sibling_def eligible_def native_count_def pending_names_def Let_def)
  next
    case True
    with Cons.prems(2) show ?thesis
      by (auto simp: consider_sibling_def eligible_def native_count_def pending_names_def native_of_def
          Let_def nth_list_update split: option.splits dest: fd_index_bound)
  qed
  then obtain c p where c: "consider_sibling groupKey keys self fdNames m (counts, pending) = (c, pending @ p)"
    "length c = length fdNames" "p = pending_names groupKey keys [m]"
    "\<forall>i<length fdNames. c ! i = counts ! i + int (native_count groupKey keys fdNames [m] i)" by blast
  from c(4) have "map (\<lambda>i. c ! i + int (native_count groupKey keys fdNames ms i)) [0..<length fdNames] =
    map (\<lambda>i. counts ! i + int (native_count groupKey keys fdNames (m # ms) i)) [0..<length fdNames]"
    by (auto simp: native_count_def)
  moreover have "p @ pending_names groupKey keys ms = pending_names groupKey keys (m # ms)"
    using c(3) by (simp add: pending_names_def)
  ultimately show ?case using Cons.IH [OF _ c(2)] Cons.prems(1) c(1) by simp
qed

definition initial_counts :: "string \<Rightarrow> string_map \<Rightarrow> string list \<Rightarrow> NutanixMachine list \<Rightarrow> int list" where
  "initial_counts groupKey keys fdNames ms =
     map (\<lambda>i. int (native_count groupKey keys fdNames ms i)) [0..<length fdNames]"

lemma placement_state_pending:
  assumes "self \<in> set (pending_names groupKey keys ms)" "distinct (map (\<lambda>m. om_Name (nm_Meta m)) ms)"
  shows "placement_state groupKey keys self fdNames ms =
    (initial_counts groupKey keys fdNames ms, sort_slice str_less (pending_names groupKey keys ms))"
proof -
  from assms(1) obtain m where m: "m \<in> set ms" "eligible groupKey keys m" "om_Name (nm_Meta m) = self"
    by (auto simp: pending_names_def)
  with assms(2) have "\<forall>m'\<in>set ms. om_Name (nm_Meta m') = self \<longrightarrow> eligible groupKey keys m'"
    by (auto simp: distinct_map inj_on_def)
  from fold_siblings [OF this, of "replicate (length fdNames) 0" fdNames "[]"] assms(1) show ?thesis
    by (simp add: placement_state_def initial_counts_def List.member_iff cong: map_cong)
qed

text \<open>The index a reconcile computes from a snapshot of the machines.\<close>

definition snapshot :: "kube_client \<Rightarrow> capi_Machine list \<Rightarrow> NutanixMachine list \<Rightarrow> bool" where
  "snapshot k cms nms \<longleftrightarrow>
     (\<forall>h ns l. Kube_ListMachines k h ns l = Inr cms \<and> Kube_ListNutanixMachines k h ns l = Inr nms)"

definition group_of :: "rctx \<Rightarrow> string" where
  "group_of rctx = (case rx_Machine rctx of None \<Rightarrow> [] | Some m \<Rightarrow> metroPlacementGroupKey (om_Labels (cm_Meta m)))"

definition fd_names :: "NutanixFailureDomain list \<Rightarrow> string list" where
  "fd_names fds = map (\<lambda>f. om_Name (nfd_Meta f)) fds"

lemma computeMetroPlacementIndex_snapshot:
  assumes "snapshot (rx_kube rctx) cms nms"
  shows "fst (computeMetroPlacementIndex rctx fds s) =
    (case placement_state (group_of rctx) (machine_keys cms) (om_Name (nm_Meta (NM s))) (fd_names fds) nms of
       (counts, pending) \<Rightarrow> rderef (greedy_slot (om_Name (nm_Meta (NM s))) pending counts))"
  using assms
  by (auto simp: computeMetroPlacementIndex_def metroMachineGroupKeys_def snapshot_def group_of_def
      fd_names_def Let_def go_eval deref_def rderef_def split: prod.split option.split)

lemma initial_counts_facts:
  "length (initial_counts g keys names ms) = length names"
  "\<forall>c\<in>set (initial_counts g keys names ms). 0 \<le> c"
  "i < length names \<Longrightarrow> initial_counts g keys names ms ! i = int (native_count g keys names ms i)"
  by (auto simp: initial_counts_def)

lemma pending_distinct:
  "distinct (map (\<lambda>m. om_Name (nm_Meta m)) ms) \<Longrightarrow> distinct (pending_names g keys ms)"
  unfolding pending_names_def by (rule distinct_map_filter)

lemma count_pairs:
  assumes "distinct (map fst ps)" "\<And>p. p \<in> fst ` set ps \<Longrightarrow> map_of ps p = Some (slot p)"
  shows "length (filter (\<lambda>p. snd p = i) ps) = card {p \<in> fst ` set ps. slot p = i}"
proof -
  have s: "snd q = slot (fst q)" if "q \<in> set ps" for q
    using that assms by (metis image_eqI map_of_eq_Some_iff option.inject prod.collapse)
  have d: "distinct (filter (\<lambda>p. snd p = i) ps)" using assms(1) by (auto simp: distinct_map)
  have "inj_on fst (set (filter (\<lambda>p. snd p = i) ps))"
    using assms(1) by (auto simp: distinct_map inj_on_def)
  then have "card (fst ` set (filter (\<lambda>p. snd p = i) ps)) = length (filter (\<lambda>p. snd p = i) ps)"
    by (metis card_image d distinct_card)
  moreover have "fst ` set (filter (\<lambda>p. snd p = i) ps) = {p \<in> fst ` set ps. slot p = i}"
    using s by force
  ultimately show ?thesis by simp
qed

text \<open>The slots of all pending machines of a snapshot are those of one simulation.\<close>

lemma slots_of_snapshot:
  assumes "fds \<noteq> []" "distinct (map (\<lambda>m. om_Name (nm_Meta m)) nms)" "p \<in> set (pending_names g (machine_keys cms) nms)"
    and "snapshot (rx_kube rctx) cms nms" "group_of rctx = g" "om_Name (nm_Meta (NM s)) = p"
  shows "\<exists>i<length fds. fst (computeMetroPlacementIndex rctx fds s) = Inr i \<and>
    map_of (fst (greedy_all (sort_slice str_less (pending_names g (machine_keys cms) nms))
      (initial_counts g (machine_keys cms) (fd_names fds) nms))) p = Some i"
proof -
  let ?names = "sort_slice str_less (pending_names g (machine_keys cms) nms)"
  let ?counts = "initial_counts g (machine_keys cms) (fd_names fds) nms"
  have d: "distinct ?names"
    using pending_distinct [OF assms(2)] go_string.sort_mset by (metis mset_eq_imp_distinct_iff)
  have p: "p \<in> set ?names" using assms(3) by (simp add: go_string.sort_set)
  have ne: "?counts \<noteq> []" using assms(1) by (simp add: initial_counts_def fd_names_def)
  have slot: "greedy_slot p ?names ?counts = map_of (fst (greedy_all ?names ?counts)) p"
    by (rule greedy_slot_all [OF initial_counts_facts(2) ne d p])
  from p greedy_all_names [of ?names ?counts] obtain i where
    i: "map_of (fst (greedy_all ?names ?counts)) p = Some i"
    by (metis map_of_eq_None_iff not_None_eq list.set_map)
  have "i < length fds"
    using slots_in_range [OF initial_counts_facts(2) ne, of ?names] map_of_SomeD [OF i]
    by (auto simp: initial_counts_facts(1) fd_names_def)
  with i slot assms placement_state_pending [OF assms(3,2), of "fd_names fds"] show ?thesis
    by (auto simp: computeMetroPlacementIndex_snapshot [OF assms(4)])
qed

section \<open>Properties of the balance\<close>

text \<open>C5 Metro placement balances a snapshot: when every pending machine of a group reads the
  same machines, each gets one of the failure domains, and afterwards no failure domain that
  received a machine has more than one machine more than any other; a failure domain that
  received none keeps its count.  In particular counts that differ by at most one still do.\<close>

theorem metro_placement_balanced:
  assumes fds: "fds \<noteq> []" and names: "distinct (map (\<lambda>m. om_Name (nm_Meta m)) nms)"
    and P: "P = pending_names g (machine_keys cms) nms"
    and reads: "\<forall>p\<in>set P. snapshot (rx_kube (rc p)) cms nms \<and> group_of (rc p) = g \<and> om_Name (nm_Meta (NM (st p))) = p"
  shows "\<exists>slot. (\<forall>p\<in>set P. slot p < length fds \<and> fst (computeMetroPlacementIndex (rc p) fds (st p)) = Inr (slot p)) \<and>
    (let native = native_count g (machine_keys cms) (fd_names fds) nms;
         load = (\<lambda>i. native i + card {p \<in> set P. slot p = i}) in
     \<forall>i<length fds. \<forall>j<length fds. load i \<le> max (native i) (load j + 1))"
proof -
  let ?names = "sort_slice str_less P"
  let ?counts = "initial_counts g (machine_keys cms) (fd_names fds) nms"
  let ?ps = "fst (greedy_all ?names ?counts)"
  let ?slot = "\<lambda>p. the (map_of ?ps p)"
  have run: "\<exists>i<length fds. fst (computeMetroPlacementIndex (rc p) fds (st p)) = Inr i \<and> map_of ?ps p = Some i"
    if "p \<in> set P" for p
    using slots_of_snapshot [OF fds names, of p g cms "rc p" "st p"] reads that P by simp
  have dom: "map fst ?ps = ?names" by (rule greedy_all_names)
  then have P': "fst ` set ?ps = set P" by (metis go_string.sort_set list.set_map)
  have d: "distinct (map fst ?ps)"
    using pending_distinct [OF names] go_string.sort_mset dom P by (metis mset_eq_imp_distinct_iff)
  have cnt: "length (filter (\<lambda>p. snd p = i) ?ps) = card {p \<in> set P. ?slot p = i}" for i
    using count_pairs [OF d, of ?slot i] P' run by fastforce
  have len: "length ?counts = length fds" by (simp add: initial_counts_facts(1) fd_names_def)
  have ne: "?counts \<noteq> []" using fds len by auto
  have "balanced_from ?counts ?counts" by (auto simp: balanced_from_def)
  from greedy_all_balanced [OF initial_counts_facts(2) ne this, of ?names] len
  have b: "balanced_from ?counts (snd (greedy_all ?names ?counts))"
    and fin: "\<And>i. i < length fds \<Longrightarrow> snd (greedy_all ?names ?counts) ! i = ?counts ! i + int (card {p \<in> set P. ?slot p = i})"
    by (auto simp: cnt)
  let ?native = "native_count g (machine_keys cms) (fd_names fds) nms"
  let ?load = "\<lambda>i. ?native i + card {p \<in> set P. ?slot p = i}"
  have load: "snd (greedy_all ?names ?counts) ! i = int (?load i)" if "i < length fds" for i
    using fin [OF that] that initial_counts_facts(3) [of i "fd_names fds" g "machine_keys cms" nms]
    by (simp add: fd_names_def)
  have "?load i \<le> max (?native i) (?load j + 1)" if ij: "i < length fds" "j < length fds" for i j
  proof -
    have "snd (greedy_all ?names ?counts) ! i \<le> max (?counts ! i) (snd (greedy_all ?names ?counts) ! j + 1)"
      using b ij len by (simp add: balanced_from_def)
    moreover have "?counts ! i = int (?native i)"
      using ij by (simp add: initial_counts_facts(3) fd_names_def)
    ultimately have "int (?load i) \<le> max (int (?native i)) (int (?load j) + 1)"
      unfolding load [OF ij(1)] load [OF ij(2)] by simp
    then show ?thesis unfolding max_def by (auto split: if_split_asm)
  qed
  then show ?thesis using run by (intro exI [of _ ?slot]) (fastforce simp: Let_def)
qed

section \<open>A metro with two sites and three machines\<close>

definition sample_fd :: "string \<Rightarrow> NutanixFailureDomain" where
  "sample_fd n = \<lparr>nfd_Meta = sample_meta n,
     nfd_Spec = \<lparr>fd_PrismElementCluster = uuid_id (''pe-'' @ n), fd_Subnets = []\<rparr>, nfd_Conditions = []\<rparr>"

definition worker :: "string \<Rightarrow> capi_Machine" where
  "worker n = (sample_Machine n ''NutanixMetro/metro'')
     \<lparr>cm_Meta := (sample_meta n)\<lparr>om_Labels := [''cluster.x-k8s.io/set-name'' \<mapsto> ''md-1'']\<rparr>\<rparr>"

definition workers :: "capi_Machine list" where "workers = [worker ''m1'', worker ''m2'', worker ''m3'']"

definition unplaced :: "NutanixMachine list" where
  "unplaced = [sample_NM ''m1'', sample_NM ''m2'', sample_NM ''m3'']"

definition metro_kube :: "NutanixMachine list \<Rightarrow> kube_client" where
  "metro_kube listed = base_kube_client\<lparr>
     Kube_GetFailureDomain := (\<lambda>h n ns. Inr (sample_fd n)),
     Kube_GetMetro := (\<lambda>h n ns. Inr \<lparr>nmt_Meta = sample_meta n, nmt_FailureDomains = [''a'', ''b''], nmt_Conditions = []\<rparr>),
     Kube_ListMachines := (\<lambda>h ns l. Inr workers),
     Kube_ListNutanixMachines := (\<lambda>h ns l. Inr listed)\<rparr>"

definition metro_client :: v4_client where
  "metro_client = base_v4_client\<lparr>Clusters_Get := (\<lambda>h u. Inr (Some \<lparr>pcl_ExtId = Some u, pcl_Name = Some u,
     pcl_Config = None\<rparr>))\<rparr>"

definition metro_rctx :: "NutanixMachine list \<Rightarrow> string \<Rightarrow> rctx" where
  "metro_rctx listed n = (sample_rctx metro_client)\<lparr>rx_Machine := Some (worker n), rx_kube := metro_kube listed\<rparr>"

definition metro_ctx :: "string \<Rightarrow> machine_ctx" where
  "metro_ctx n = sample_ctx\<lparr>NM := sample_NM n\<rparr>"

text \<open>The machine after its reconcile, when it reads the given machines.\<close>

definition placed :: "NutanixMachine list \<Rightarrow> string \<Rightarrow> NutanixMachine" where
  "placed listed n = NM (snd (getMetroFailureDomainSpec (metro_rctx listed n) ''metro'' (metro_ctx n)))"

lemma metro_placement_balanced_witness:
  "\<exists>slot. (\<forall>p\<in>{''m1'', ''m2'', ''m3''}. slot p < (2::nat) \<and>
      fst (computeMetroPlacementIndex (metro_rctx unplaced p) [sample_fd ''a'', sample_fd ''b''] (metro_ctx p)) = Inr (slot p)) \<and>
    card {p \<in> {''m1'', ''m2'', ''m3''}. slot p = 0} \<le> card {p \<in> {''m1'', ''m2'', ''m3''}. slot p = 1} + 1 \<and>
    card {p \<in> {''m1'', ''m2'', ''m3''}. slot p = 1} \<le> card {p \<in> {''m1'', ''m2'', ''m3''}. slot p = 0} + 1"
proof -
  let ?g = "''cluster.x-k8s.io/set-name=md-1''"
  have P: "pending_names ?g (machine_keys workers) unplaced = [''m1'', ''m2'', ''m3'']" by code_simp
  have n: "distinct (map (\<lambda>m. om_Name (nm_Meta m)) unplaced)" by code_simp
  have g: "group_of (metro_rctx unplaced p) = ?g" for p
    by (simp add: metro_rctx_def group_of_def worker_def metroPlacementGroupKey_def
        metroPlacementGroupLabel_def metroPlacementGroupOwnerLabels_def)
  have r: "\<forall>p\<in>set [''m1'', ''m2'', ''m3'']. snapshot (rx_kube (metro_rctx unplaced p)) workers unplaced \<and>
      group_of (metro_rctx unplaced p) = ?g \<and> om_Name (nm_Meta (NM (metro_ctx p))) = p"
    unfolding g by (simp add: metro_rctx_def metro_kube_def snapshot_def metro_ctx_def sample_NM_def sample_meta_def)
  have z: "native_count ?g (machine_keys workers) names unplaced i = 0" for names i
    by (simp add: native_count_def unplaced_def sample_NM_def sample_meta_def native_of_def)
  from metro_placement_balanced [OF _ n P [symmetric] r, of "[sample_fd ''a'', sample_fd ''b'']"]
  obtain slot where s: "\<forall>p\<in>{''m1'', ''m2'', ''m3''}. slot p < 2 \<and>
      fst (computeMetroPlacementIndex (metro_rctx unplaced p) [sample_fd ''a'', sample_fd ''b''] (metro_ctx p)) = Inr (slot p)"
    and b: "\<forall>i<2. \<forall>j<2. card {p \<in> {''m1'', ''m2'', ''m3''}. slot p = i} \<le> card {p \<in> {''m1'', ''m2'', ''m3''}. slot p = j} + 1"
    by (auto simp: Let_def z numeral_2_eq_2)
  from b have "card {p \<in> {''m1'', ''m2'', ''m3''}. slot p = 0} \<le> card {p \<in> {''m1'', ''m2'', ''m3''}. slot p = 1} + 1"
    "card {p \<in> {''m1'', ''m2'', ''m3''}. slot p = 1} \<le> card {p \<in> {''m1'', ''m2'', ''m3''}. slot p = 0} + 1" by simp_all
  with s show ?thesis by blast
qed


end
