(* ===== verification/Metro_Spec.thy ===== *)
theory Metro_Spec
  imports Metro_Placement
begin

text \<open>
  What the failure domain of a metro machine guarantees: the placement is one of the failure
  domains of the metro and was validated, the native one is recorded and stays, and a VM moved
  by disaster recovery is annotated.  Also the category of the virtual HA domain.
\<close>

section \<open>Reads only\<close>

lemma PE_only: "moves (only_calls is_read) (GetPEClusterByIdentifier c n u)"
  by (rule only_mono [OF GetPEClusterByIdentifier_reads prism_read_is_read])

lemma PEUUID_only: "moves (only_calls is_read) (GetPEUUID c rg n u)"
  by (rule only_mono [OF GetPEUUID_reads prism_read_is_read])

lemmas PE_reads = PE_only PEUUID_only

lemma validateFailureDomainSpec_only:
  "moves (only_calls is_read) (validateFailureDomainSpec rctx spec p rg)"
  unfolding validateFailureDomainSpec_def Let_def
  by (intro only_rules PE_reads only_mono [OF GetSubnetUUIDList_reads prism_read_is_read])

lemma resolveFailureDomainPEUUID_only:
  "moves (only_calls is_read) (resolveFailureDomainPEUUID rctx spec)"
  unfolding resolveFailureDomainPEUUID_def Let_def by (intro only_rules PE_reads)

lemma resolvePlacement_only:
  "moves (only_calls is_read) (resolveMetroPlacementFailureDomainFromRecoveryPlanJob rctx m n fds)"
  unfolding resolveMetroPlacementFailureDomainFromRecoveryPlanJob_def latestRecoveryPlanJob_def
    pairedFailureDomainIfNativePEUnavailable_def on_active_pe_def Let_def
  by (intro only_rules findRecoveryPlan_only PE_reads resolveFailureDomainPEUUID_only) simp

lemma fetch_only: "moves (only_calls is_read) (fetch_failure_domains rctx ns n refs)"
  by (induction refs) (auto intro!: only_rules getObject_only)

lemma compute_only: "moves (only_calls is_read) (computeMetroPlacementIndex rctx fds)"
  unfolding computeMetroPlacementIndex_def metroMachineGroupKeys_def Let_def
  by (intro only_rules) simp_all

text \<open>A read-only step keeps the machine and the Datastore.\<close>

lemma read_same: "moves (only_calls A) m \<Longrightarrow> m s = (r, s') \<Longrightarrow> NM s' = NM s \<and> Datastore s' = Datastore s"
  using movesD [OF only_same] by (fastforce simp: same_machine_def)

section \<open>Where the placement comes from\<close>

lemma first_go_in:
  assumes "first_go f xs s = (Inr (Some y), s')" "\<And>x s s'. f x s = (Inr (Some y), s') \<Longrightarrow> x = Some y"
  shows "Some y \<in> set xs"
  using assms by (induction xs arbitrary: s) (auto simp: go_inv go_cases)

lemma paired_in:
  "pairedFailureDomainIfNativePEUnavailable rctx n fds s = (Inr (Some fd), s') \<Longrightarrow> Some fd \<in> set fds"
  by (auto simp: pairedFailureDomainIfNativePEUnavailable_def go_inv go_cases Let_def
      split: option.split_asm if_split_asm dest!: find_SomeD)

lemma on_active_pe_in: "on_active_pe rctx u x s = (Inr (Some fd), s') \<Longrightarrow> x = Some fd"
  by (auto simp: on_active_pe_def go_inv go_cases split: if_split_asm)

lemma resolvePlacement_in:
  "resolveMetroPlacementFailureDomainFromRecoveryPlanJob rctx m n fds s = (Inr (Some fd), s') \<Longrightarrow> Some fd \<in> set fds"
  by (auto simp: resolveMetroPlacementFailureDomainFromRecoveryPlanJob_def go_inv go_cases Let_def
      dest: paired_in first_go_in [OF _ on_active_pe_in])

lemma fetch_from:
  "fetch_failure_domains rctx ns n refs s = (Inr r, s') \<Longrightarrow>
   (case r of Inl fd \<Rightarrow> om_Name (nfd_Meta fd) = n \<and> (\<exists>ref\<in>set refs. \<exists>h. Kube_GetFailureDomain (rx_kube rctx) h ref ns = Inr fd)
    | Inr fds \<Rightarrow> \<forall>fd\<in>set fds. \<exists>ref\<in>set refs. \<exists>h. Kube_GetFailureDomain (rx_kube rctx) h ref ns = Inr fd)"
proof (induction refs arbitrary: r s)
  case (Cons ref refs)
  from Cons.prems obtain fd s1 where fd: "getNutanixFailureDomainObject (rx_kube rctx) ref ns s = (Inr fd, s1)"
    and k: "(if n = om_Name (nfd_Meta fd) then ret (Inl fd)
       else bnd (fetch_failure_domains rctx ns n refs) (\<lambda>r. ret (case r of Inl fd \<Rightarrow> Inl fd | Inr fds \<Rightarrow> Inr (fd # fds)))) s1 = (Inr r, s')"
    by (auto simp only: fetch_failure_domains.simps bnd_Inr)
  from fd have fd': "\<exists>h. Kube_GetFailureDomain (rx_kube rctx) h ref ns = Inr fd"
    by (auto simp: getNutanixFailureDomainObject_def go_inv)
  show ?case
  proof (cases "n = om_Name (nfd_Meta fd)")
    case True
    with k fd' show ?thesis by (auto simp: go_inv)
  next
    case False
    with k obtain q where q: "fetch_failure_domains rctx ns n refs s1 = (Inr q, s')"
      "r = (case q of Inl fd \<Rightarrow> Inl fd | Inr fds \<Rightarrow> Inr (fd # fds))" by (auto simp: go_inv)
    from Cons.IH [OF q(1)] q(2) fd' show ?thesis by (cases q) auto
  qed
qed (simp add: go_inv)

lemma fetch_other:
  "fetch_failure_domains rctx ns n refs s = (Inr (Inr fds), s') \<Longrightarrow> fd \<in> set fds \<Longrightarrow> om_Name (nfd_Meta fd) \<noteq> n"
  by (induction refs arbitrary: fds s) (auto simp: go_inv split: if_split_asm sum.split_asm,
      metis obj_sumE set_ConsD)

text \<open>A failure domain of the metro n in the namespace of the machine.\<close>

definition domain_of :: "rctx \<Rightarrow> string \<Rightarrow> NutanixFailureDomain \<Rightarrow> bool" where
  "domain_of rctx n fd \<longleftrightarrow> (\<exists>m h h' metro ref. rx_Machine rctx = Some m \<and>
     Kube_GetMetro (rx_kube rctx) h n (om_Namespace (cm_Meta m)) = Inr metro \<and> ref \<in> set (nmt_FailureDomains metro) \<and>
     Kube_GetFailureDomain (rx_kube rctx) h' ref (om_Namespace (cm_Meta m)) = Inr fd)"

definition validated :: "rctx \<Rightarrow> NutanixFailureDomainSpec \<Rightarrow> bool" where
  "validated rctx spec \<longleftrightarrow> (\<exists>(s :: machine_ctx) s'. validateFailureDomainSpec rctx spec None None s = (Inr (), s'))"

definition fd_name :: "NutanixFailureDomain \<Rightarrow> string" where "fd_name fd = om_Name (nfd_Meta fd)"
definition fd_pe :: "NutanixFailureDomain \<Rightarrow> string" where
  "fd_pe fd = id_String (fd_PrismElementCluster (nfd_Spec fd))"

text \<open>The selection of native is recorded in the labels and in the Datastore.\<close>

definition records_native :: "NutanixFailureDomain \<Rightarrow> machine_ctx \<Rightarrow> bool" where
  "records_native native s \<longleftrightarrow> native_of (NM s) = Some (fd_name native) \<and>
     om_Labels (nm_Meta (NM s)) metroNativePELabelKey = Some (fd_pe native) \<and>
     Datastore s MetroPreferredFailureDomainName = Some (fd_name native) \<and>
     Datastore s MetroPreferredPE = Some (fd_pe native)"

text \<open>The annotation of the active placement when the VM is placed away from native.\<close>

definition annotated :: "NutanixFailureDomain \<Rightarrow> NutanixFailureDomain \<Rightarrow> string_map \<Rightarrow> string_map" where
  "annotated native fd a = (if fd_name fd = fd_name native then a
     else a(metroActivePlacementPEAnnotation \<mapsto> fd_pe fd))"

abbreviation annotations_of :: "machine_ctx \<Rightarrow> string_map" where
  "annotations_of s \<equiv> om_Annotations (nm_Meta (NM s))"

lemma metro_keys_distinct:
  "metroNativeFailureDomainLabelKey \<noteq> metroNativePELabelKey" "MetroPreferredFailureDomainName \<noteq> MetroPreferredPE"
  by code_simp+

lemma store_records:
  "storeMetroPlacementSelection fd s = (r, s') \<Longrightarrow> records_native fd s' \<and> annotations_of s' = annotations_of s"
  using metro_keys_distinct
  by (auto simp: storeMetroPlacementSelection_def Let_def machine_update_defs go_eval records_native_def
      native_of_def fd_name_def fd_pe_def)

lemma setStatus_records:
  assumes "setMetroRecoveryPlacementStatus native fd s = (r, s')"
  shows "om_Labels (nm_Meta (NM s')) = om_Labels (nm_Meta (NM s))"
    and "Datastore s' = Datastore s" and "annotations_of s' = annotated native fd (annotations_of s)"
  using assms
  by (auto simp: setMetroRecoveryPlacementStatus_def annotated_def fd_name_def fd_pe_def Let_def
      machine_update_defs go_eval split: if_split_asm)

lemma place_metro_sound:
  assumes run: "place_metro rctx m sel rem fds s = (Inr spec, s')"
    and F: "sel \<in> F" "\<forall>fd. rem = Some fd \<longrightarrow> fd \<in> F" "\<forall>fd. Some fd \<in> set fds \<longrightarrow> fd \<in> F"
  shows "\<exists>fd\<in>F. spec = nfd_Spec fd \<and> validated rctx spec \<and> records_native sel s' \<and>
    annotations_of s' = annotated sel fd (annotations_of s)"
proof -
  from run obtain s1 r s2 where st: "storeMetroPlacementSelection sel s = (Inr (), s1)"
    and r: "attempt (resolveMetroPlacementFailureDomainFromRecoveryPlanJob rctx m sel fds) s1 = (Inr r, s2)"
    and k: "(let p = (case r of Inl perr \<Rightarrow> sel | Inr None \<Rightarrow> sel | Inr (Some fd) \<Rightarrow> fd) in
      bnd (attempt (validateFailureDomainSpec rctx (nfd_Spec p) None None)) (\<lambda>r.
      bnd (case r of
             Inr _ \<Rightarrow> ret p
           | Inl err \<Rightarrow>
               (case rem of
                  None \<Rightarrow> raise err
                | Some fd \<Rightarrow> thn (validateFailureDomainSpec rctx (nfd_Spec fd) None None) (ret fd))) (\<lambda>p.
      thn (setMetroRecoveryPlacementStatus sel p) (ret (nfd_Spec p))))) s2 = (Inr spec, s')"
    by (auto simp: place_metro_def go_inv)
  define p where "p = (case r of Inl perr \<Rightarrow> sel | Inr None \<Rightarrow> sel | Inr (Some fd) \<Rightarrow> fd)"
  have "p \<in> F" using r F(1,3)
    by (auto simp: p_def attempt_Inr split: sum.splits option.splits dest!: resolvePlacement_in)
  from k obtain v s3 q s4 where v: "attempt (validateFailureDomainSpec rctx (nfd_Spec p) None None) s2 = (Inr v, s3)"
    and q: "(case v of Inr _ \<Rightarrow> ret p
           | Inl err \<Rightarrow> (case rem of None \<Rightarrow> raise err
                | Some fd \<Rightarrow> thn (validateFailureDomainSpec rctx (nfd_Spec fd) None None) (ret fd))) s3 = (Inr q, s4)"
    and s4: "setMetroRecoveryPlacementStatus sel q s4 = (Inr (), s')" "spec = nfd_Spec q"
    unfolding p_def [symmetric] Let_def by (auto simp: bnd_Inr thn_Inr ret_Inr)
  have v': "validated rctx (nfd_Spec p)" if "v = Inr ()"
    using v that by (auto simp: validated_def go_inv)
  have s3: "NM s3 = NM s2" "Datastore s3 = Datastore s2"
    using read_same [OF only.attempt_moves [OF validateFailureDomainSpec_only] v] by auto
  have q': "(q = p \<or> rem = Some q) \<and> validated rctx (nfd_Spec q) \<and> NM s4 = NM s3 \<and> Datastore s4 = Datastore s3"
  proof (cases v)
    case (Inr u)
    with q v' show ?thesis by (simp add: ret_Inr)
  next
    case (Inl e)
    with q obtain fd where fd: "rem = Some fd" "validateFailureDomainSpec rctx (nfd_Spec fd) None None s3 = (Inr (), s4)" "q = fd"
      by (auto simp: go_inv split: option.split_asm)
    with read_same [OF validateFailureDomainSpec_only fd(2)] show ?thesis by (auto simp: validated_def)
  qed
  have s2: "NM s2 = NM s1" "Datastore s2 = Datastore s1"
    using read_same [OF only.attempt_moves [OF resolvePlacement_only] r] by auto
  have "records_native sel s'"
    using store_records [OF st] setStatus_records [OF s4(1)] s2 s3 q' by (simp add: records_native_def native_of_def)
  moreover have "annotations_of s' = annotated sel q (annotations_of s)"
    using store_records [OF st] setStatus_records [OF s4(1)] s2 s3 q' by simp
  ultimately show ?thesis using q' s4(2) \<open>p \<in> F\<close> F(2) by blast
qed

section \<open>Both kinds of metro failure domain\<close>

definition metro_outcome ::
  "rctx \<Rightarrow> string \<Rightarrow> machine_ctx \<Rightarrow> NutanixFailureDomain \<Rightarrow> NutanixFailureDomain \<Rightarrow> machine_ctx \<Rightarrow> bool" where
  "metro_outcome rctx metro s native fd s' \<longleftrightarrow>
     domain_of rctx metro native \<and> domain_of rctx metro fd \<and> records_native native s' \<and>
     (if fd_name native = map_get (om_Labels (nm_Meta (NM s))) metroNativeFailureDomainLabelKey
      then fd = native \<and> annotations_of s' = annotations_of s
      else validated rctx (nfd_Spec fd) \<and> annotations_of s' = annotated native fd (annotations_of s))"

lemma compute_snapshot_in:
  "domain_of rctx n fd" if "rx_Machine rctx = Some m" "getNutanixMetroObject (rx_kube rctx) n (om_Namespace (cm_Meta m)) s = (Inr metro, s1)"
    "ref \<in> set (nmt_FailureDomains metro)" "Kube_GetFailureDomain (rx_kube rctx) h ref (om_Namespace (cm_Meta m)) = Inr fd"
  using that by (auto simp: domain_of_def getNutanixMetroObject_def go_inv)

text \<open>After the metro object is read: the rest of both functions.\<close>

lemma metro_after_fetch_pref:
  assumes m: "rx_Machine rctx = Some m"
    and metro: "getNutanixMetroObject (rx_kube rctx) n (om_Namespace (cm_Meta m)) s0 = (Inr metro, s1)"
    and l: "l = map_get (om_Labels (nm_Meta (NM s))) metroNativeFailureDomainLabelKey"
    and s2: "NM s2 = NM s"
    and fetch: "fetch_failure_domains rctx (om_Namespace (cm_Meta m)) l (nmt_FailureDomains metro) s2 = (Inr r, s3)"
    and rest: "case r of Inl fd \<Rightarrow> thn (storeMetroPlacementSelection fd) (ret (nfd_Spec fd)) s3 = (Inr spec, s')
      | Inr fds \<Rightarrow> \<exists>s4 sel rem Fs. place_metro rctx n' sel rem Fs s4 = (Inr spec, s') \<and> NM s4 = NM s3 \<and> sel \<in> set (filter Q fds) \<and>
          (\<forall>fd. rem = Some fd \<longrightarrow> fd \<in> set fds) \<and> (\<forall>fd. Some fd \<in> set Fs \<longrightarrow> fd \<in> set fds)"
  shows "\<exists>native fd. spec = nfd_Spec fd \<and> metro_outcome rctx n s native fd s' \<and> (fd_name native = l \<or> Q native)"
proof -
  have dom: "domain_of rctx n fd" if "ref \<in> set (nmt_FailureDomains metro)"
    "Kube_GetFailureDomain (rx_kube rctx) h ref (om_Namespace (cm_Meta m)) = Inr fd" for ref h fd
    using compute_snapshot_in [OF m metro that] .
  have s3: "NM s3 = NM s" using read_same [OF fetch_only fetch] s2 by simp
  show ?thesis
  proof (cases r)
    case (Inl fd)
    with fetch_from [OF fetch] dom have "fd_name fd = l" "domain_of rctx n fd" by (auto simp: fd_name_def)
    moreover from Inl rest have st: "storeMetroPlacementSelection fd s3 = (Inr (), s')" "spec = nfd_Spec fd"
      by (auto simp: go_inv)
    ultimately show ?thesis using store_records [OF st(1)] s3 l by (auto simp: metro_outcome_def)
  next
    case (Inr fds)
    with rest obtain s4 sel rem Fs where p: "place_metro rctx n' sel rem Fs s4 = (Inr spec, s')" "NM s4 = NM s3" "Q sel"
      and F: "sel \<in> set fds" "\<forall>fd. rem = Some fd \<longrightarrow> fd \<in> set fds" "\<forall>fd. Some fd \<in> set Fs \<longrightarrow> fd \<in> set fds" by auto
    from place_metro_sound [OF p(1) F] obtain fd where fd: "fd \<in> set fds" "spec = nfd_Spec fd" "validated rctx spec"
      "records_native sel s'" "annotations_of s' = annotated sel fd (annotations_of s4)" by blast
    have all: "\<forall>fd\<in>set fds. domain_of rctx n fd" using fetch_from [OF fetch] Inr dom by auto
    have "fd_name sel \<noteq> l" using fetch_other [OF fetch [unfolded Inr]] F(1) by (auto simp: fd_name_def)
    with all fd F(1) p(2,3) s3 l show ?thesis
      by (intro exI [of _ sel] exI [of _ fd]) (simp add: metro_outcome_def)
  qed
qed


lemma remaining_fd_in: "remaining_fd i fds = Some fd \<Longrightarrow> fd \<in> set fds"
proof -
  assume "remaining_fd i fds = Some fd"
  then obtain p ps where "rev (filter (\<lambda>p. fst p \<noteq> i) (zip [0..<length fds] fds)) = p # ps" "snd p = fd"
    by (auto simp: remaining_fd_def split: list.split_asm)
  then have "p \<in> set (zip [0..<length fds] fds)" by (metis (no_types, lifting) list.set_intros(1) set_rev filter_is_subset subsetD)
  with \<open>snd p = fd\<close> show "fd \<in> set fds" by (metis prod.collapse set_zip_rightD)
qed

text \<open>C24 A metro placement is sound: on success the VM is placed on one of the failure domains
  of the metro; the native failure domain and its Prism Element are recorded in the labels and
  for the rest of the reconcile; a machine that has a native one keeps it and is placed there;
  otherwise the placement was validated, and the active placement is annotated exactly when
  it is not the native one.\<close>

theorem metro_placement_sound:
  assumes "getMetroFailureDomainSpec rctx metro s = (Inr spec, s')"
  shows "\<exists>native fd. spec = nfd_Spec fd \<and> metro_outcome rctx metro s native fd s'"
proof -
  from assms obtain m o1 s1 r s3 where m: "rx_Machine rctx = Some m"
    and o1: "getNutanixMetroObject (rx_kube rctx) metro (om_Namespace (cm_Meta m)) s = (Inr o1, s1)"
    and f: "fetch_failure_domains rctx (om_Namespace (cm_Meta m))
      (map_get (om_Labels (nm_Meta (NM s1))) metroNativeFailureDomainLabelKey) (nmt_FailureDomains o1) s1 = (Inr r, s3)"
    and k: "(case r of Inl fdObj \<Rightarrow> thn (storeMetroPlacementSelection fdObj) (ret (nfd_Spec fdObj))
     | Inr fdObjs \<Rightarrow>
         if fdObjs = [] then raise (Leaf (''the NutanixMetro '' @ metro @ '' has no failureDomains''))
         else bnd (computeMetroPlacementIndex rctx fdObjs) (\<lambda>idx.
           bnd (deref (if idx < length fdObjs then Some (fdObjs ! idx) else None)) (\<lambda>selectedFd.
           place_metro rctx metro selectedFd (remaining_fd idx fdObjs) (map Some fdObjs)))) s3 = (Inr spec, s')"
    by (auto simp: getMetroFailureDomainSpec_def Let_def native_label_def bnd_Inr deref_Inr gets_Inr)
  have s1: "NM s1 = NM s" using read_same [OF getObject_only(2) o1] by simp
  have rest: "case r of Inl fd \<Rightarrow> thn (storeMetroPlacementSelection fd) (ret (nfd_Spec fd)) s3 = (Inr spec, s')
    | Inr fds \<Rightarrow> \<exists>s4 sel rem Fs. place_metro rctx metro sel rem Fs s4 = (Inr spec, s') \<and> NM s4 = NM s3 \<and>
        sel \<in> set (filter (\<lambda>f. True) fds) \<and> (\<forall>fd. rem = Some fd \<longrightarrow> fd \<in> set fds) \<and> (\<forall>fd. Some fd \<in> set Fs \<longrightarrow> fd \<in> set fds)"
  proof (cases r)
    case (Inr fds)
    with k obtain idx s4 where "computeMetroPlacementIndex rctx fds s3 = (Inr idx, s4)" "idx < length fds"
      "place_metro rctx metro (fds ! idx) (remaining_fd idx fds) (map Some fds) s4 = (Inr spec, s')"
      by (auto simp: go_inv split: if_split_asm)
    moreover from this have "NM s4 = NM s3" using read_same [OF compute_only] by blast
    ultimately show ?thesis using Inr remaining_fd_in
      by (auto intro!: exI [of _ s4] exI [of _ "fds ! idx"] exI [of _ "remaining_fd idx fds"] exI [of _ "map Some fds"])
  qed (use k in simp)
  from metro_after_fetch_pref [OF m o1 refl s1 f [unfolded s1] rest] show ?thesis by blast
qed

text \<open>A site of the sample metro that prefers b.\<close>

definition site_rctx :: "string \<Rightarrow> rctx" where
  "site_rctx n = (metro_rctx unplaced n)\<lparr>rx_kube := (metro_kube unplaced)\<lparr>Kube_GetMetroSite := (\<lambda>h n ns.
     Inr \<lparr>nms_Meta = sample_meta n, nms_PreferredFailureDomain = ''b'', nms_MetroRef = ''metro'',
       nms_GroupNameLabel = Some ''pool'', nms_Conditions = []\<rparr>)\<rparr>\<rparr>"

lemma metro_placement_sound_witness:
  "\<exists>native fd. \<lparr>fd_PrismElementCluster = uuid_id ''pe-b'', fd_Subnets = []\<rparr> = nfd_Spec fd \<and>
     metro_outcome (metro_rctx unplaced ''m2'') ''metro'' (metro_ctx ''m2'') native fd
       (snd (getMetroFailureDomainSpec (metro_rctx unplaced ''m2'') ''metro'' (metro_ctx ''m2'')))"
proof (rule metro_placement_sound, rule prod_eqI)
  show "fst (getMetroFailureDomainSpec (metro_rctx unplaced ''m2'') ''metro'' (metro_ctx ''m2'')) =
    fst (Inr \<lparr>fd_PrismElementCluster = uuid_id ''pe-b'', fd_Subnets = []\<rparr>,
      snd (getMetroFailureDomainSpec (metro_rctx unplaced ''m2'') ''metro'' (metro_ctx ''m2'')))"
    by code_simp
qed simp

text \<open>A MetroSite placement is sound in the same way; and a machine without a native failure
  domain gets the preferred one of the site as its native one.\<close>

theorem metrosite_placement_sound:
  assumes "getMetroSiteFailureDomainSpec rctx site s = (Inr spec, s')"
  shows "\<exists>o1 native fd h ns. Kube_GetMetroSite (rx_kube rctx) h site ns = Inr o1 \<and> spec = nfd_Spec fd \<and>
    metro_outcome rctx (nms_MetroRef o1) s native fd s' \<and>
    (fd_name native = map_get (om_Labels (nm_Meta (NM s))) metroNativeFailureDomainLabelKey \<or>
     fd_name native = nms_PreferredFailureDomain o1)"
proof -
  from assms obtain m o1 s1 o2 s2 s3 r s4 where m: "rx_Machine rctx = Some m"
    and o1: "getNutanixMetroSiteObject (rx_kube rctx) site (om_Namespace (cm_Meta m)) s = (Inr o1, s1)"
    and o2: "getNutanixMetroObject (rx_kube rctx) (nms_MetroRef o1) (om_Namespace (cm_Meta m)) s1 = (Inr o2, s2)"
    and g: "(case nms_GroupNameLabel o1 of
            None \<Rightarrow> ret ()
          | Some l \<Rightarrow> when_go (l \<noteq> []) (modify (\<lambda>s. s\<lparr>Datastore := (Datastore s)(MetroNodeGroupNameLabel \<mapsto> l)\<rparr>))) s2 = (Inr (), s3)"
    and f: "fetch_failure_domains rctx (om_Namespace (cm_Meta m))
      (map_get (om_Labels (nm_Meta (NM s3))) metroNativeFailureDomainLabelKey) (nmt_FailureDomains o2) s3 = (Inr r, s4)"
    and k: "(case r of Inl fdObj \<Rightarrow> thn (storeMetroPlacementSelection fdObj) (ret (nfd_Spec fdObj))
      | Inr fdObjs \<Rightarrow> place_metrosite rctx site o1 o2 fdObjs) s4 = (Inr spec, s')"
    by (auto simp: getMetroSiteFailureDomainSpec_def Let_def native_label_def bnd_Inr thn_Inr deref_Inr gets_Inr)
  from o1 obtain h where h: "Kube_GetMetroSite (rx_kube rctx) h site (om_Namespace (cm_Meta m)) = Inr o1"
    by (auto simp: getNutanixMetroSiteObject_def go_inv)
  have s3: "NM s3 = NM s"
    using read_same [OF getObject_only(3) o1] read_same [OF getObject_only(2) o2] g
    by (auto simp: go_inv split: option.split_asm if_split_asm)
  let ?pref = "\<lambda>f. om_Name (nfd_Meta f) = nms_PreferredFailureDomain o1"
  have rest: "case r of Inl fd \<Rightarrow> thn (storeMetroPlacementSelection fd) (ret (nfd_Spec fd)) s4 = (Inr spec, s')
    | Inr fds \<Rightarrow> \<exists>s5 sel rem Fs. place_metro rctx (om_Name (nmt_Meta o2)) sel rem Fs s5 = (Inr spec, s') \<and> NM s5 = NM s4 \<and>
        sel \<in> set (filter ?pref fds) \<and> (\<forall>fd. rem = Some fd \<longrightarrow> fd \<in> set fds) \<and> (\<forall>fd. Some fd \<in> set Fs \<longrightarrow> fd \<in> set fds)"
  proof (cases r)
    case (Inr fds)
    with k obtain sel where sel: "find ?pref (rev fds) = Some sel"
      "place_metro rctx (om_Name (nmt_Meta o2)) sel (find (\<lambda>f. om_Name (nfd_Meta f) \<noteq> nms_PreferredFailureDomain o1) (rev fds))
         [Some sel, find (\<lambda>f. om_Name (nfd_Meta f) \<noteq> nms_PreferredFailureDomain o1) (rev fds)] s4 = (Inr spec, s')"
      by (auto simp: place_metrosite_def Let_def go_inv split: option.split_asm)
    have "fd \<in> set fds" if "find (\<lambda>f. om_Name (nfd_Meta f) \<noteq> nms_PreferredFailureDomain o1) (rev fds) = Some fd" for fd
      using find_SomeD [OF that] by simp
    with Inr sel find_SomeD [OF sel(1)] show ?thesis
      by (auto intro!: exI [of _ s4] exI [of _ sel] exI [of _ "find (\<lambda>f. om_Name (nfd_Meta f) \<noteq> nms_PreferredFailureDomain o1) (rev fds)"]
          exI [of _ "[Some sel, find (\<lambda>f. om_Name (nfd_Meta f) \<noteq> nms_PreferredFailureDomain o1) (rev fds)]"])
  qed (use k in simp)
  from metro_after_fetch_pref [OF m o2 refl s3 f [unfolded s3] rest] h show ?thesis
    unfolding fd_name_def by blast
qed

lemma sample_site_run:
  "fst (getMetroSiteFailureDomainSpec (site_rctx ''m2'') ''site-b'' (metro_ctx ''m2'')) =
     Inr \<lparr>fd_PrismElementCluster = uuid_id ''pe-b'', fd_Subnets = []\<rparr>"
  by code_simp

lemma metrosite_placement_sound_witness:
  "\<exists>o1 native fd h ns. Kube_GetMetroSite (rx_kube (site_rctx ''m2'')) h ''site-b'' ns = Inr o1 \<and>
     \<lparr>fd_PrismElementCluster = uuid_id ''pe-b'', fd_Subnets = []\<rparr> = nfd_Spec fd \<and>
     metro_outcome (site_rctx ''m2'') (nms_MetroRef o1) (metro_ctx ''m2'') native fd
       (snd (getMetroSiteFailureDomainSpec (site_rctx ''m2'') ''site-b'' (metro_ctx ''m2''))) \<and>
     (fd_name native = map_get (om_Labels (nm_Meta (NM (metro_ctx ''m2'')))) metroNativeFailureDomainLabelKey \<or>
      fd_name native = nms_PreferredFailureDomain o1)"
  by (rule metrosite_placement_sound, rule prod_eqI) (simp_all add: sample_site_run)

section \<open>The native failure domain stays\<close>

fun is_kube_get :: "call \<Rightarrow> bool" where
  "is_kube_get (KGet k n ns) = True"
| "is_kube_get _ = False"

lemma fetch_native:
  assumes "\<forall>ref\<in>set refs. \<forall>h. Kube_GetFailureDomain (rx_kube rctx) h ref ns = Inr (fd ref) \<and> fd_name (fd ref) = ref"
    and "n \<in> set refs"
  shows "\<exists>s'. fetch_failure_domains rctx ns n refs s = (Inr (Inl (fd n)), s') \<and> adds_calls is_kube_get s s' \<and> NM s' = NM s"
  using assms
proof (induction refs arbitrary: s)
  case (Cons ref refs)
  let ?s = "s\<lparr>trace := trace s @ [KGet KFailureDomain ref ns]\<rparr>"
  have g: "getNutanixFailureDomainObject (rx_kube rctx) ref ns s = (Inr (fd ref), ?s)"
    and n: "om_Name (nfd_Meta (fd ref)) = ref"
    using Cons.prems(1) by (auto simp: getNutanixFailureDomainObject_def go_eval fd_name_def)
  have a: "adds_calls is_kube_get s ?s" by (simp add: adds_calls_def)
  show ?case
  proof (cases "n = ref")
    case True
    with g n a show ?thesis by (auto simp: bnd_apply ret_apply)
  next
    case False
    with Cons obtain s' where "fetch_failure_domains rctx ns n refs ?s = (Inr (Inl (fd n)), s')"
      "adds_calls is_kube_get ?s s'" "NM s' = NM s" by force
    with False g n a show ?thesis by (auto simp: bnd_apply ret_apply intro: adds.step)
  qed
qed simp

text \<open>Placement is sticky: a machine whose native failure domain is still in the metro is
  placed there on every later reconcile, keeps its labels, and this makes no request but the
  reads of the metro objects: neither the other machines nor Prism Central are asked.\<close>

theorem metro_native_sticky:
  assumes m: "rx_Machine rctx = Some m" and o1: "\<forall>h. Kube_GetMetro (rx_kube rctx) h metro (om_Namespace (cm_Meta m)) = Inr o1"
    and fds: "\<forall>ref\<in>set (nmt_FailureDomains o1). \<forall>h.
      Kube_GetFailureDomain (rx_kube rctx) h ref (om_Namespace (cm_Meta m)) = Inr (fd ref) \<and> fd_name (fd ref) = ref"
    and n: "native_of (NM (s :: machine_ctx)) = Some n" "n \<in> set (nmt_FailureDomains o1)"
  shows "\<exists>s'. getMetroFailureDomainSpec rctx metro s = (Inr (nfd_Spec (fd n)), s') \<and>
    native_of (NM s') = Some n \<and> adds_calls is_kube_get s s'"
proof -
  let ?ns = "om_Namespace (cm_Meta m)"
  let ?s = "s\<lparr>trace := trace s @ [KGet KMetro metro ?ns]\<rparr>"
  have g: "getNutanixMetroObject (rx_kube rctx) metro ?ns s = (Inr o1, ?s)"
    using o1 by (simp add: getNutanixMetroObject_def go_eval)
  obtain s1 where f: "fetch_failure_domains rctx ?ns n (nmt_FailureDomains o1) ?s = (Inr (Inl (fd n)), s1)"
    "adds_calls is_kube_get ?s s1" "NM s1 = NM s"
    using fetch_native [OF fds n(2), of ?s] by auto
  obtain s2 where s2: "storeMetroPlacementSelection (fd n) s1 = (Inr (), s2)" "trace s2 = trace s1"
    by (simp add: storeMetroPlacementSelection_def Let_def machine_update_defs go_eval)
  have "fd_name (fd n) = n" using fds n(2) by blast
  then have "native_of (NM s2) = Some n" using store_records [OF s2(1)] by (simp add: records_native_def)
  moreover have "adds_calls is_kube_get s s2"
    using f(2) s2(2) by (auto simp: adds_calls_def)
  moreover have "getMetroFailureDomainSpec rctx metro s = (Inr (nfd_Spec (fd n)), s2)"
    using m n(1) g f(1) s2(1)
    by (simp add: getMetroFailureDomainSpec_def Let_def native_label_def bnd_apply gets_apply thn_apply ret_apply
        map_get_def native_of_def)
  ultimately show ?thesis by blast
qed

text \<open>The machine m1 placed on b.\<close>

definition on_b :: machine_ctx where
  "on_b = (metro_ctx ''m1'')\<lparr>NM := (sample_NM ''m1'')\<lparr>nm_Meta := (sample_meta ''m1'')
     \<lparr>om_Labels := [metroNativeFailureDomainLabelKey \<mapsto> ''b'']\<rparr>\<rparr>\<rparr>"

lemma metro_native_sticky_witness:
  "\<exists>s'. getMetroFailureDomainSpec (metro_rctx unplaced ''m1'') ''metro'' on_b = (Inr (nfd_Spec (sample_fd ''b'')), s') \<and>
     native_of (NM s') = Some ''b'' \<and> adds_calls is_kube_get on_b s'"
  by (rule metro_native_sticky [of _ "worker ''m1''" _ "\<lparr>nmt_Meta = sample_meta ''metro'', nmt_FailureDomains = [''a'', ''b''], nmt_Conditions = []\<rparr>"])
    (simp_all add: metro_rctx_def metro_kube_def fd_name_def sample_fd_def sample_meta_def on_b_def native_of_def)

section \<open>The fallback of a recovery placement\<close>

text \<open>When the recovery plan places the VM on the remaining failure domain and that does not
  validate, the placement fails: the fallback is the remaining failure domain again, and the
  native one is never tried, even if it would validate.\<close>

theorem recovery_fallback_is_itself:
  assumes "storeMetroPlacementSelection sel s = (Inr (), s1 :: machine_ctx)"
    and "resolveMetroPlacementFailureDomainFromRecoveryPlanJob rctx m sel fds s1 = (Inr (Some fd), s2)"
    and "\<forall>(s :: machine_ctx). \<exists>e s'. validateFailureDomainSpec rctx (nfd_Spec fd) None None s = (Inl e, s') \<and> e \<noteq> NilDeref"
  shows "\<exists>e s'. place_metro rctx m sel (Some fd) fds s = (Inl e, s')"
proof -
  obtain e s3 where v: "validateFailureDomainSpec rctx (nfd_Spec fd) None None s2 = (Inl e, s3)" "e \<noteq> NilDeref" using assms(3) by blast
  obtain e' s4 where w: "validateFailureDomainSpec rctx (nfd_Spec fd) None None s3 = (Inl e', s4)" using assms(3) by blast
  show ?thesis using assms(1,2) v w
    by (simp add: place_metro_def thn_apply bnd_apply attempt_apply)
qed

text \<open>A virtual HA domain whose last recovery plan job moved the site a to pe-b, where the
  subnet of the failure domain b is gone.\<close>

definition broken_b :: NutanixFailureDomain where
  "broken_b = (sample_fd ''b'')\<lparr>nfd_Spec := \<lparr>fd_PrismElementCluster = uuid_id ''pe-b'', fd_Subnets = [name_id ''gone'']\<rparr>\<rparr>"

definition failed_over_vha :: NutanixVirtualHADomain where
  "failed_over_vha = \<lparr>vha_Meta = (sample_meta ''vha'')\<lparr>om_OwnerReferences :=
        [\<lparr>or_APIVersion = GroupVersion_Group @ ''/v1beta1'', or_Kind = NutanixClusterKind, or_Name = ''c'', or_UID = []\<rparr>]\<rparr>,
      vha_MetroRef = ''metro'', vha_ProtectionPolicy = None,
      vha_MovementGroups = [\<lparr>mg_Name = clusterScopeMovementGroupName, mg_CategoryRecoveryPlans =
        [\<lparr>crp_Category = \<lparr>cat_Key = VHADomainDefaultCategoryKey, cat_Value = ''a''\<rparr>, crp_RecoveryPlan = uuid_id ''rp'',
          crp_FailureDomainRef = ''a''\<rparr>]\<rparr>], vha_Ready = True, vha_Conditions = []\<rparr>"

definition failed_over_v3 :: v3_client where
  "failed_over_v3 = base_v3_client\<lparr>ListRecoveryPlanJobs := (\<lambda>h u. Inr (Some
      [Some \<lparr>rpj_RecoveryPlanUUID = Some ''rp'', rpj_HasExecutionParameters = True,
        rpj_RecoveryZones = [Some [Some (Some ''pe-b'')]]\<rparr>]))\<rparr>"

definition failed_over_rctx :: rctx where
  "failed_over_rctx = (metro_rctx unplaced ''m1'')
     \<lparr>rx_kube := (metro_kube unplaced)\<lparr>Kube_ListVHADomains := (\<lambda>h ns. Inr [failed_over_vha])\<rparr>,
      rx_V3 := Some failed_over_v3\<rparr>"

definition stored_a :: machine_ctx where
  "stored_a = snd (storeMetroPlacementSelection (sample_fd ''a'') (metro_ctx ''m1''))"

definition resolved_b :: machine_ctx where
  "resolved_b = snd (resolveMetroPlacementFailureDomainFromRecoveryPlanJob failed_over_rctx ''metro'' (sample_fd ''a'')
     [Some (sample_fd ''a''), Some broken_b] stored_a)"

lemma failed_over_name:
  "(case fst (resolveMetroPlacementFailureDomainFromRecoveryPlanJob failed_over_rctx ''metro'' (sample_fd ''a'')
       [Some (sample_fd ''a''), Some broken_b] stored_a) of
      Inr (Some fd) \<Rightarrow> om_Name (nfd_Meta fd) = ''b'' | _ \<Rightarrow> False)"
  by code_simp

lemma failed_over_to_b:
  "fst (resolveMetroPlacementFailureDomainFromRecoveryPlanJob failed_over_rctx ''metro'' (sample_fd ''a'')
     [Some (sample_fd ''a''), Some broken_b] stored_a) = Inr (Some broken_b)"
proof -
  obtain r s' where r: "resolveMetroPlacementFailureDomainFromRecoveryPlanJob failed_over_rctx ''metro'' (sample_fd ''a'')
     [Some (sample_fd ''a''), Some broken_b] stored_a = (r, s')" by force
  with failed_over_name obtain fd where "r = Inr (Some fd)" "om_Name (nfd_Meta fd) = ''b''"
    by (auto split: sum.split_asm option.split_asm)
  with resolvePlacement_in r show ?thesis by (fastforce simp: sample_fd_def sample_meta_def)
qed

lemma sample_metro_client_simps:
  "rx_V4 failed_over_rctx = metro_client" "Clusters_Get metro_client h u = Inr (Some \<lparr>pcl_ExtId = Some u, pcl_Name = Some u, pcl_Config = None\<rparr>)"
  "Subnets_List metro_client h f = no_service"
  by (simp_all add: failed_over_rctx_def metro_rctx_def sample_rctx_def metro_client_def base_v4_client_def)

lemma broken_b_fails:
  "\<exists>e s'. validateFailureDomainSpec failed_over_rctx (nfd_Spec broken_b) None None s = (Inl e, s') \<and> e \<noteq> NilDeref"
  by (simp add: validateFailureDomainSpec_def Let_def GetPEUUID_def GetPEClusterByIdentifier_def GetPECluster_def
      GetSubnetUUIDList_def GetSubnetUUID_def GetSubnet_def broken_b_def sample_metro_client_simps uuid_id_def name_id_def
      IsUUID_def IsName_def go_eval no_service_def)

lemma recovery_fallback_is_itself_witness:
  "(\<exists>e s'. place_metro failed_over_rctx ''metro'' (sample_fd ''a'') (Some broken_b)
      [Some (sample_fd ''a''), Some broken_b] (metro_ctx ''m1'') = (Inl e, s')) \<and>
   fst (validateFailureDomainSpec failed_over_rctx (nfd_Spec (sample_fd ''a'')) None None (metro_ctx ''m1'')) = Inr ()"
proof
  have st: "storeMetroPlacementSelection (sample_fd ''a'') (metro_ctx ''m1'') = (Inr (), stored_a)"
    by (simp add: stored_a_def storeMetroPlacementSelection_def Let_def machine_update_defs go_eval)
  have rs: "resolveMetroPlacementFailureDomainFromRecoveryPlanJob failed_over_rctx ''metro'' (sample_fd ''a'')
     [Some (sample_fd ''a''), Some broken_b] stored_a = (Inr (Some broken_b), resolved_b)"
    using failed_over_to_b by (simp add: resolved_b_def prod_eq_iff)
  show "\<exists>e s'. place_metro failed_over_rctx ''metro'' (sample_fd ''a'') (Some broken_b)
      [Some (sample_fd ''a''), Some broken_b] (metro_ctx ''m1'') = (Inl e, s')"
    by (rule recovery_fallback_is_itself [OF st rs]) (use broken_b_fails in blast)
qed code_simp

end
