(* ===== verification/Scale_Down.thy ===== *)
theory Scale_Down
  imports Metro_Placement
begin

text \<open>
  The scale-down balancer of stretched metro worker pools
  (controllers/nutanixmetro_scaledown_controller.go): it marks the machines of the fuller site
  with the annotation that makes Cluster API delete them first.

  The Kubernetes client of the reconciler and the functions of Cluster API it calls are the
  record balancer_env; the objects the API server accepted from a patch are the log Patched.
  The set of victims is the list of their names in the order they are picked, and the map of
  the sites is an association list, sorted by name before it is used.
\<close>

record machine_set =
  mset_Meta :: obj_meta
  mset_FailureDomain :: string
  mset_Replicas :: "32 word option"

record balancer_env =
  be_IsNotFound :: "go_error \<Rightarrow> bool"
  Get_MachineSet :: "call list \<Rightarrow> string \<Rightarrow> string \<Rightarrow> go_error + machine_set"
  GetClusterFromMetadata :: "call list \<Rightarrow> obj_meta \<Rightarrow> go_error + capi_Cluster"
  IsPaused :: "capi_Cluster \<Rightarrow> machine_set \<Rightarrow> bool"
  List_Machines :: "call list \<Rightarrow> string \<Rightarrow> (string \<times> string) list \<Rightarrow> go_error + capi_Machine list"
  List_MachineSets :: "call list \<Rightarrow> string \<Rightarrow> (string \<times> string) list \<Rightarrow> go_error + machine_set list"
  Get_NutanixMachine :: "call list \<Rightarrow> string \<Rightarrow> string \<Rightarrow> go_error + NutanixMachine"
  New_Helper :: "capi_Machine \<Rightarrow> go_error + unit"
  Patch_Machine :: "call list \<Rightarrow> capi_Machine \<Rightarrow> go_error + unit"

record balancer_state = world +
  Patched :: "capi_Machine list"

definition managedDeleteMachineAnnotation :: string where
  "managedDeleteMachineAnnotation = ''metro.nutanix.com/managed-delete-machine''"
definition DeleteMachineAnnotation :: string where
  "DeleteMachineAnnotation = ''cluster.x-k8s.io/delete-machine''"
definition MachineSetNameLabel :: string where "MachineSetNameLabel = ''cluster.x-k8s.io/set-name''"

abbreviation cm_Name :: "capi_Machine \<Rightarrow> string" where "cm_Name m \<equiv> om_Name (cm_Meta m)"
abbreviation cm_Deleting :: "capi_Machine \<Rightarrow> bool" where "cm_Deleting m \<equiv> om_Deleting (cm_Meta m)"

section \<open>Which MachineSets are reconciled\<close>

text \<open>None is an object of another type; a request is a namespace and a name.\<close>

definition mapMachineToMachineSet :: "capi_Machine option \<Rightarrow> (string \<times> string) list" where
  "mapMachineToMachineSet o1 =
     (case o1 of
        None \<Rightarrow> []
      | Some m \<Rightarrow>
          (let msName = map_get (om_Labels (cm_Meta m)) MachineSetNameLabel in
           if msName = [] then [] else [(om_Namespace (cm_Meta m), msName)]))"

definition mapClusterToMachineSets ::
  "balancer_env \<Rightarrow> capi_Cluster option \<Rightarrow> ('z world_scheme, (string \<times> string) list) go" where
  "mapClusterToMachineSets env o1 =
     (case o1 of
        None \<Rightarrow> ret []
      | Some c \<Rightarrow>
          (let ns = om_Namespace (cc_Meta c); l = [(ClusterNameLabel, om_Name (cc_Meta c))] in
           bnd (attempt (ext (KList KMachineSet ns l) (\<lambda>h. List_MachineSets env h ns l))) (\<lambda>r.
           ret (case r of
                  Inl err \<Rightarrow> []
                | Inr items \<Rightarrow> map (\<lambda>ms. (om_Namespace (mset_Meta ms), om_Name (mset_Meta ms))) items))))"

section \<open>The sites of the machines\<close>

text \<open>The native site of a machine, or None when it is not recorded yet.\<close>

definition machineSite :: "balancer_env \<Rightarrow> capi_Machine \<Rightarrow> ('z world_scheme, string option) go" where
  "machineSite env m =
     (let infraName = cm_InfrastructureRefName m; ns = om_Namespace (cm_Meta m) in
      if infraName = [] then ret None
      else bnd (attempt (ext (KGet KNutanixMachine infraName ns) (\<lambda>h. Get_NutanixMachine env h infraName ns))) (\<lambda>r.
        case r of
          Inl err \<Rightarrow> if be_IsNotFound env err then ret None else raise err
        | Inr nm \<Rightarrow>
            (let site = map_get (om_Labels (nm_Meta nm)) metroNativeFailureDomainLabelKey in
             ret (if site = [] then None else Some site))))"

type_synonym sites = "(string \<times> capi_Machine list) list"

fun add_to_site :: "string \<Rightarrow> capi_Machine \<Rightarrow> sites \<Rightarrow> sites" where
  "add_to_site site m [] = [(site, [m])]"
| "add_to_site site m ((name, ms) # rest) =
     (if name = site then (name, ms @ [m]) # rest else (name, ms) # add_to_site site m rest)"

text \<open>One machine of the set; the accumulator is (bySite, liveTotal, knownTotal).\<close>

definition group_machine ::
  "balancer_env \<Rightarrow> capi_Machine \<Rightarrow> sites \<times> nat \<times> nat \<Rightarrow> ('z world_scheme, sites \<times> nat \<times> nat) go" where
  "group_machine env m acc =
     (case acc of (bySite, liveTotal, knownTotal) \<Rightarrow>
        if cm_Deleting m then ret acc
        else bnd (machineSite env m) (\<lambda>site.
          case site of
            None \<Rightarrow> ret (bySite, liveTotal + 1, knownTotal)
          | Some s \<Rightarrow> ret (add_to_site s m bySite, liveTotal + 1, knownTotal + 1)))"

definition machine_newer :: "capi_Machine \<Rightarrow> capi_Machine \<Rightarrow> bool" where
  "machine_newer a b =
     (let ti = om_CreationTimestamp (cm_Meta a); tj = om_CreationTimestamp (cm_Meta b) in
      if ti = tj then str_less (cm_Name a) (cm_Name b) else tj < ti)"

definition sortMachinesNewestFirst :: "capi_Machine list \<Rightarrow> capi_Machine list" where
  "sortMachinesNewestFirst machines = sort_slice machine_newer machines"

definition sort_sites :: "sites \<Rightarrow> sites" where
  "sort_sites bySite =
     map (\<lambda>(name, ms). (name, sortMachinesNewestFirst ms)) (sort_slice (\<lambda>a b. str_less (fst a) (fst b)) bySite)"

text \<open>The scan for the least and the greatest count.\<close>

fun count_range :: "sites \<Rightarrow> int \<Rightarrow> int \<Rightarrow> int \<times> int" where
  "count_range [] minCount maxCount = (minCount, maxCount)"
| "count_range ((name, ms) # rest) minCount maxCount =
     (let n = int (length ms) in
      count_range rest (if minCount < 0 \<or> n < minCount then n else minCount) (if n > maxCount then n else maxCount))"

definition siteExcess :: "sites \<Rightarrow> int" where
  "siteExcess bySite =
     (if length bySite < 2 then 0
      else (case count_range bySite (-1) 0 of (minCount, maxCount) \<Rightarrow> maxCount - minCount))"

section \<open>The victims\<close>

fun largest_site :: "sites \<Rightarrow> string \<Rightarrow> int \<Rightarrow> string \<times> int" where
  "largest_site [] pick best = (pick, best)"
| "largest_site ((name, ms) # rest) pick best =
     (if int (length ms) > best then largest_site rest name (int (length ms)) else largest_site rest pick best)"

fun drop_first_at :: "string \<Rightarrow> sites \<Rightarrow> sites" where
  "drop_first_at site [] = []"
| "drop_first_at site ((name, ms) # rest) =
     (if name = site then (name, tl ms) # rest else (name, ms) # drop_first_at site rest)"

fun first_at :: "string \<Rightarrow> sites \<Rightarrow> capi_Machine option" where
  "first_at site [] = None"
| "first_at site ((name, ms) # rest) =
     (if name = site then (case ms of [] \<Rightarrow> None | m # _ \<Rightarrow> Some m) else first_at site rest)"

text \<open>The greedy loop: i steps are left; the pick has a machine, since best is positive.\<close>

fun drain :: "nat \<Rightarrow> sites \<Rightarrow> string list \<Rightarrow> string list" where
  "drain 0 remaining victims = victims"
| "drain (Suc i) remaining victims =
     (case largest_site remaining [] (-1) of
        (pick, best) \<Rightarrow>
          if best \<le> 0 then victims
          else (case first_at pick remaining of
                  None \<Rightarrow> victims
                | Some victim \<Rightarrow> drain i (drop_first_at pick remaining) (victims @ [cm_Name victim])))"

text \<open>The number of victims: the pending scale-down or else the imbalance, at most knownTotal.\<close>

definition victim_count :: "32 word option \<Rightarrow> nat \<Rightarrow> nat \<Rightarrow> int \<Rightarrow> int" where
  "victim_count replicas liveTotal knownTotal excess =
     (let pendingDelete = (case replicas of
            None \<Rightarrow> 0
          | Some n \<Rightarrow> if sint n < int liveTotal then int liveTotal - sint n else 0);
          k = (if pendingDelete > 0 then pendingDelete else excess) in
      if k > int knownTotal then int knownTotal else k)"

definition selectVictims ::
  "balancer_env \<Rightarrow> machine_set \<Rightarrow> capi_Machine list \<Rightarrow> ('z world_scheme, string list) go" where
  "selectVictims env ms machines =
     bnd (fold_go (group_machine env) machines ([], 0, 0)) (\<lambda>(bySite, liveTotal, knownTotal).
     if knownTotal = 0 then ret []
     else (let sorted = sort_sites bySite;
               k = victim_count (mset_Replicas ms) liveTotal knownTotal (siteExcess sorted) in
           if k \<le> 0 then ret [] else ret (drain (nat k) sorted [])))"

section \<open>The annotations\<close>

definition annotate :: "bool \<Rightarrow> capi_Machine \<Rightarrow> capi_Machine" where
  "annotate mark m =
     m\<lparr>cm_Meta := (cm_Meta m)\<lparr>om_Annotations :=
       (if mark
        then (om_Annotations (cm_Meta m))(DeleteMachineAnnotation \<mapsto> ''true'', managedDeleteMachineAnnotation \<mapsto> ''true'')
        else (om_Annotations (cm_Meta m))(DeleteMachineAnnotation := None, managedDeleteMachineAnnotation := None))\<rparr>\<rparr>"

definition patchMachineAnnotations ::
  "balancer_env \<Rightarrow> capi_Machine \<Rightarrow> bool \<Rightarrow> (balancer_state, unit) go" where
  "patchMachineAnnotations env m mark =
     thn (of_result (New_Helper env m))
     (thn (ext (KWrite KMachine (cm_Name m) (om_Namespace (cm_Meta m)) (if mark then ''mark'' else ''clear''))
             (\<lambda>h. Patch_Machine env h (annotate mark m)))
       (modify (\<lambda>s. s\<lparr>Patched := Patched s @ [annotate mark m]\<rparr>)))"

definition has_annotation :: "capi_Machine \<Rightarrow> string \<Rightarrow> bool" where
  "has_annotation m key = (om_Annotations (cm_Meta m) key \<noteq> None)"

definition apply_annotation ::
  "balancer_env \<Rightarrow> string list \<Rightarrow> capi_Machine \<Rightarrow> (balancer_state, unit) go" where
  "apply_annotation env victims m =
     (let wantVictim = List.member victims (cm_Name m);
          hasDelete = has_annotation m DeleteMachineAnnotation;
          isManaged = has_annotation m managedDeleteMachineAnnotation in
      if cm_Deleting m then ret ()
      else if wantVictim then (if hasDelete then ret () else patchMachineAnnotations env m True)
      else if isManaged then patchMachineAnnotations env m False else ret ())"

definition applyDeleteAnnotations ::
  "balancer_env \<Rightarrow> capi_Machine list \<Rightarrow> string list \<Rightarrow> (balancer_state, unit) go" where
  "applyDeleteAnnotations env machines victims = iter_go (apply_annotation env victims) machines"

section \<open>The reconcile\<close>

definition listMachineSetMachines ::
  "balancer_env \<Rightarrow> machine_set \<Rightarrow> ('z world_scheme, capi_Machine list) go" where
  "listMachineSetMachines env ms =
     (let ns = om_Namespace (mset_Meta ms); l = [(MachineSetNameLabel, om_Name (mset_Meta ms))] in
      ext (KList KMachine ns l) (\<lambda>h. List_Machines env h ns l))"

definition balance_machine_set :: "balancer_env \<Rightarrow> machine_set \<Rightarrow> (balancer_state, unit) go" where
  "balance_machine_set env ms =
     bnd (listMachineSetMachines env ms) (\<lambda>machines.
     bnd (selectVictims env ms machines) (\<lambda>victims.
     applyDeleteAnnotations env machines victims))"

definition balancer_Reconcile :: "balancer_env \<Rightarrow> string \<Rightarrow> string \<Rightarrow> (balancer_state, unit) go" where
  "balancer_Reconcile env ns name =
     bnd (attempt (ext (KGet KMachineSet name ns) (\<lambda>h. Get_MachineSet env h name ns))) (\<lambda>r.
     case r of
       Inl err \<Rightarrow> if be_IsNotFound env err then ret () else raise err
     | Inr ms \<Rightarrow>
         if \<not> isNutanixMetroFailureDomain (mset_FailureDomain ms) then ret ()
         else if om_Deleting (mset_Meta ms) then ret ()
         else
           bnd (attempt (ext (KGet KCluster (map_get (om_Labels (mset_Meta ms)) ClusterNameLabel) ns)
                  (\<lambda>h. GetClusterFromMetadata env h (mset_Meta ms)))) (\<lambda>r.
           case r of
             Inl err \<Rightarrow> ret ()
           | Inr cluster \<Rightarrow> if IsPaused env cluster ms then ret () else balance_machine_set env ms))"

section \<open>The reads of a balancer\<close>

lemma machineSite_only: "moves (only_calls is_read) (machineSite env m)"
  unfolding machineSite_def Let_def by (intro only_rules) simp

lemma selectVictims_only: "moves (only_calls is_read) (selectVictims env ms machines)"
  unfolding selectVictims_def group_machine_def Let_def
  by (intro only_rules machineSite_only)

section \<open>The sites as a function\<close>

definition machines_at :: "sites \<Rightarrow> string \<Rightarrow> capi_Machine list" where
  "machines_at X t = (case map_of X t of None \<Rightarrow> [] | Some ms \<Rightarrow> ms)"

lemma machines_at_simps [simp]:
  "machines_at [] t = []"
  "machines_at ((n, ms) # X) t = (if t = n then ms else machines_at X t)"
  by (auto simp: machines_at_def)

lemma machines_at_add: "machines_at (add_to_site s m X) t = (if t = s then machines_at X t @ [m] else machines_at X t)"
  by (induction s m X rule: add_to_site.induct) auto

lemma add_keys: "fst ` set (add_to_site s m X) = insert s (fst ` set X)"
  by (induction s m X rule: add_to_site.induct) auto

lemma add_distinct: "distinct (map fst X) \<Longrightarrow> distinct (map fst (add_to_site s m X))"
proof (induction s m X rule: add_to_site.induct)
  case (2 site m name ms rest)
  then show ?case using add_keys [of site m rest] by auto
qed simp

lemma add_mset_all: "mset (concat (map snd (add_to_site s m X))) = add_mset m (mset (concat (map snd X)))"
  by (induction s m X rule: add_to_site.induct) auto

lemma mset_eq_length_Suc: "mset xs = add_mset y (mset ys) \<Longrightarrow> length xs = Suc (length ys)"
  by (metis size_add_mset size_mset)

lemma add_nonempty: "\<forall>p\<in>set X. snd p \<noteq> [] \<Longrightarrow> \<forall>p\<in>set (add_to_site s m X). snd p \<noteq> []"
  by (induction s m X rule: add_to_site.induct) auto

lemma machines_at_drop: "machines_at (drop_first_at p X) t = (if t = p then tl (machines_at X t) else machines_at X t)"
  by (induction p X rule: drop_first_at.induct) auto

lemma drop_keys [simp]: "map fst (drop_first_at p X) = map fst X"
  by (induction p X rule: drop_first_at.induct) auto

lemma first_at_machines: "first_at p X = (case machines_at X p of [] \<Rightarrow> None | m # _ \<Rightarrow> Some m)"
  by (induction p X rule: first_at.induct) auto

lemma drop_mset_all:
  "first_at p X = Some m \<Longrightarrow> mset (concat (map snd X)) = add_mset m (mset (concat (map snd (drop_first_at p X))))"
  by (induction p X rule: drop_first_at.induct) (auto split: list.splits if_splits)

lemma machines_at_mset: "distinct (map fst X) \<Longrightarrow> m \<in> set (machines_at X t) \<Longrightarrow> m \<in> set (concat (map snd X))"
  by (induction X) (auto split: if_splits)

text \<open>The scan finds a largest site.\<close>

lemma largest_site_max:
  assumes "largest_site X p b = (pick, best)" "distinct (map fst X)"
  shows "b \<le> best \<and> (\<forall>t\<in>fst ` set X. int (length (machines_at X t)) \<le> best) \<and>
    (pick = p \<and> best = b \<or> pick \<in> fst ` set X \<and> best = int (length (machines_at X pick)))"
  using assms
proof (induction X p b rule: largest_site.induct)
  case (2 name ms rest p b)
  show ?case
  proof (cases "int (length ms) > b")
    case True
    with 2 have "int (length ms) \<le> best \<and> (\<forall>t\<in>fst ` set rest. int (length (machines_at rest t)) \<le> best) \<and>
      (pick = name \<and> best = int (length ms) \<or> pick \<in> fst ` set rest \<and> best = int (length (machines_at rest pick)))"
      by simp
    with 2(4) True show ?thesis by auto
  next
    case False
    with 2 have "b \<le> best \<and> (\<forall>t\<in>fst ` set rest. int (length (machines_at rest t)) \<le> best) \<and>
      (pick = p \<and> best = b \<or> pick \<in> fst ` set rest \<and> best = int (length (machines_at rest pick)))"
      by simp
    with 2(4) False show ?thesis by auto
  qed
qed simp

lemma machines_at_other: "t \<notin> fst ` set X \<Longrightarrow> machines_at X t = []"
  by (induction X) auto

lemma largest_site_facts:
  assumes "largest_site X [] (-1) = (pick, best)" "distinct (map fst X)" "0 < best"
  shows "best = int (length (machines_at X pick))" "length (machines_at X t) \<le> length (machines_at X pick)"
  using largest_site_max [OF assms(1,2)] assms(3) machines_at_other [of t X]
  by (cases "t \<in> fst ` set X"; fastforce)+

lemma largest_site_none:
  assumes "largest_site X [] (-1) = (pick, best)" "distinct (map fst X)" "best \<le> 0"
  shows "machines_at X t = []"
  using largest_site_max [OF assms(1,2)] assms(3) machines_at_other [of t X]
  by (cases "t \<in> fst ` set X") fastforce+

section \<open>The specification of a drain\<close>

text \<open>Taking machines one at a time, each from a fullest site: the abstract state is the number
  of machines of each site.\<close>

inductive drains :: "(string \<Rightarrow> nat) \<Rightarrow> nat \<Rightarrow> (string \<Rightarrow> nat) \<Rightarrow> bool" where
  drains_0: "drains c 0 c"
| drains_Suc: "0 < c p \<Longrightarrow> \<forall>t. c t \<le> c p \<Longrightarrow> drains (c(p := c p - 1)) k c' \<Longrightarrow> drains c (Suc k) c'"

lemma drains_le: "drains c k c' \<Longrightarrow> c' t \<le> c t"
proof (induction arbitrary: t rule: drains.induct)
  case (drains_Suc c p k c')
  then show ?case by (metis fun_upd_apply le_trans diff_le_self)
qed simp

lemma drains_balanced: "drains c k c' \<Longrightarrow> c' t < c t \<Longrightarrow> c' u \<le> c' t + 1"
proof (induction arbitrary: t u rule: drains.induct)
  case (drains_Suc c p k c')
  show ?case
  proof (cases "c' t < (c(p := c p - 1)) t")
    case True
    then show ?thesis by (rule drains_Suc.IH)
  next
    case False
    with drains_le [OF drains_Suc.hyps(3), of t] have t: "c' t = (c(p := c p - 1)) t" by simp
    with drains_Suc.prems have "t = p" by (auto split: if_splits)
    moreover have "c' u \<le> c u" using drains_le [OF drains_Suc.hyps(3), of u] by (auto split: if_splits)
    ultimately show ?thesis using t drains_Suc.hyps(1,2) by (auto intro: le_trans)
  qed
qed simp

text \<open>The greedy loop takes a prefix of each site and implements the specification: n t is the
  number of machines it takes from the site t.\<close>

lemma drain_acc: "drain k X vs = vs @ drain k X []"
proof (induction k arbitrary: X vs)
  case (Suc k)
  show ?case
    by (auto split: prod.split option.split simp: Suc.IH [of _ "vs @ [_]"] Suc.IH [of _ "[_]"])
qed simp

definition taken_names :: "sites \<Rightarrow> (string \<Rightarrow> nat) \<Rightarrow> string set" where
  "taken_names X n = {cm_Name m |m t. m \<in> set (take (n t) (machines_at X t))}"

lemma drain_refines:
  assumes "distinct (map fst X)"
  shows "\<exists>n. (\<forall>t. n t \<le> length (machines_at X t)) \<and> set (drain k X []) = taken_names X n \<and>
    drains (\<lambda>t. length (machines_at X t)) (length (drain k X [])) (\<lambda>t. length (machines_at X t) - n t) \<and>
    (length (drain k X []) = k \<or> length (drain k X []) \<le> k \<and> (\<forall>t. n t = length (machines_at X t)))"
  using assms
proof (induction k arbitrary: X)
  case 0
  show ?case by (rule exI [of _ "\<lambda>t. 0"]) (simp add: taken_names_def drains_0)
next
  case (Suc k)
  obtain p b where pb: "largest_site X [] (-1) = (p, b)" by force
  show ?case
  proof (cases "b \<le> 0")
    case True
    with largest_site_none [OF pb Suc.prems] pb show ?thesis
      by (intro exI [of _ "\<lambda>t. 0"]) (simp add: taken_names_def drains_0)
  next
    case False
    note big = largest_site_facts [OF pb Suc.prems]
    with False obtain m ms where m: "machines_at X p = m # ms"
      by (cases "machines_at X p") auto
    let ?X = "drop_first_at p X"
    let ?vs = "drain k ?X []"
    have d: "drain (Suc k) X [] = cm_Name m # ?vs"
      using pb False m by (simp add: first_at_machines) (subst drain_acc, simp)
    from Suc.IH [of ?X] Suc.prems obtain n where n: "\<forall>t. n t \<le> length (machines_at ?X t)"
      "set ?vs = taken_names ?X n"
      "drains (\<lambda>t. length (machines_at ?X t)) (length ?vs) (\<lambda>t. length (machines_at ?X t) - n t)"
      "length ?vs = k \<or> length ?vs \<le> k \<and> (\<forall>t. n t = length (machines_at ?X t))" by auto
    let ?n = "n(p := Suc (n p))"
    have c: "(\<lambda>t. length (machines_at ?X t)) = (\<lambda>t. length (machines_at X t))(p := length (machines_at X p) - 1)"
      "(\<lambda>t. length (machines_at ?X t) - n t) = (\<lambda>t. length (machines_at X t) - ?n t)"
      using m by (auto simp: machines_at_drop)
    have "drains (\<lambda>t. length (machines_at X t)) (Suc (length ?vs)) (\<lambda>t. length (machines_at X t) - ?n t)"
      by (rule drains_Suc [of _ p]) (use m False big n(3) c in auto)
    moreover have "insert (cm_Name m) (taken_names ?X n) = taken_names X ?n"
    proof -
      have "set (take (?n t) (machines_at X t)) = (if t = p then insert m (set (take (n p) ms)) else set (take (n t) (machines_at X t)))" for t
        using m by simp
      moreover have "set (take (n t) (machines_at ?X t)) = (if t = p then set (take (n p) ms) else set (take (n t) (machines_at X t)))" for t
        using m by (simp add: machines_at_drop)
      ultimately show ?thesis unfolding taken_names_def by (auto split: if_splits)
    qed
    then have "set (cm_Name m # ?vs) = taken_names X ?n" using n(2) by simp
    moreover have "\<forall>t. ?n t \<le> length (machines_at X t)" "length (cm_Name m # ?vs) = Suc k \<or>
        length (cm_Name m # ?vs) \<le> Suc k \<and> (\<forall>t. ?n t = length (machines_at X t))"
      using n(1,4) m by (auto simp: machines_at_drop split: if_splits)
    ultimately show ?thesis unfolding d
      by (intro exI [of _ ?n] conjI) (simp_all del: fun_upd_apply set_simps)
  qed
qed

section \<open>The grouping\<close>

interpretation newest_machine: strict_weak_order machine_newer
  by unfold_locales (auto simp: machine_newer_def Let_def dest: str_less_asym str_less_neg_trans split: if_splits)

interpretation site_order: strict_weak_order "\<lambda>a b :: string \<times> capi_Machine list. str_less (fst a) (fst b)"
  by unfold_locales (auto dest: str_less_asym str_less_neg_trans)

lemma sort_sites_keys: "distinct (map fst X) \<Longrightarrow> distinct (map fst (sort_sites X))"
proof -
  assume d: "distinct (map fst X)"
  have "map fst (sort_sites X) = map fst (sort_slice (\<lambda>a b. str_less (fst a) (fst b)) X)"
    by (auto simp: sort_sites_def)
  moreover have "mset \<dots> = mset (map fst X)" by (simp add: site_order.sort_mset)
  ultimately show ?thesis using d by (metis mset_eq_imp_distinct_iff)
qed

lemma machines_at_sort:
  assumes "distinct (map fst X)"
  shows "machines_at (sort_sites X) t = sortMachinesNewestFirst (machines_at X t)"
proof -
  have e: "(t, l) \<in> set (sort_sites X) \<longleftrightarrow> (\<exists>l'. (t, l') \<in> set X \<and> l = sortMachinesNewestFirst l')" for l
    by (auto simp: sort_sites_def site_order.sort_set)
  show ?thesis
  proof (cases "map_of X t")
    case None
    with e have "map_of (sort_sites X) t = None"
      by (metis map_of_SomeD map_of_eq_None_iff not_None_eq image_eqI fst_conv)
    with None show ?thesis by (simp add: machines_at_def sortMachinesNewestFirst_def sort_slice_def)
  next
    case (Some l)
    then have "(t, l) \<in> set X" by (rule map_of_SomeD)
    with e have "(t, sortMachinesNewestFirst l) \<in> set (sort_sites X)" by blast
    then have "map_of (sort_sites X) t = Some (sortMachinesNewestFirst l)"
      using sort_sites_keys [OF assms] by simp
    with Some show ?thesis by (simp add: machines_at_def)
  qed
qed

text \<open>The site function of a run: what the API server answered for each live machine.\<close>

definition answers :: "balancer_env \<Rightarrow> capi_Machine \<Rightarrow> string option \<Rightarrow> bool" where
  "answers env m site \<longleftrightarrow> (\<exists>(s :: balancer_state) s'. machineSite env m s = (Inr site, s'))"

definition live_at :: "(capi_Machine \<Rightarrow> string option) \<Rightarrow> capi_Machine list \<Rightarrow> string \<Rightarrow> capi_Machine list" where
  "live_at site machines t = filter (\<lambda>m. \<not> cm_Deleting m \<and> site m = Some t) machines"

lemma group_machines:
  assumes "fold_go (group_machine env) machines (X, l, k) (s :: balancer_state) = (Inr (X', l', k'), s')"
    and "distinct machines" "distinct (map fst X)" "\<forall>p\<in>set X. snd p \<noteq> []" "length (concat (map snd X)) = k"
  shows "\<exists>site. (\<forall>m\<in>set machines. \<not> cm_Deleting m \<longrightarrow> answers env m (site m)) \<and> distinct (map fst X') \<and>
    (\<forall>p\<in>set X'. snd p \<noteq> []) \<and> length (concat (map snd X')) = k' \<and>
    (\<forall>t. machines_at X' t = machines_at X t @ live_at site machines t) \<and>
    l' = l + length (filter (\<lambda>m. \<not> cm_Deleting m) machines) \<and>
    k' = k + length (filter (\<lambda>m. \<not> cm_Deleting m \<and> site m \<noteq> None) machines)"
  using assms
proof (induction machines arbitrary: X l k s)
  case Nil
  then show ?case by (simp add: go_inv live_at_def)
next
  case (Cons m ms)
  from Cons.prems(1) obtain a s1 where g: "group_machine env m (X, l, k) s = (Inr a, s1)"
    and f: "fold_go (group_machine env) ms a s1 = (Inr (X', l', k'), s')"
    by (auto simp: bnd_Inr)
  show ?case
  proof (cases "cm_Deleting m")
    case True
    with g have "a = (X, l, k)" by (simp add: group_machine_def go_inv)
    with Cons.IH [of X l k s1] f Cons.prems(2-5) obtain site where
      "(\<forall>m\<in>set ms. \<not> cm_Deleting m \<longrightarrow> answers env m (site m)) \<and> distinct (map fst X') \<and>
      (\<forall>p\<in>set X'. snd p \<noteq> []) \<and> length (concat (map snd X')) = k' \<and>
      (\<forall>t. machines_at X' t = machines_at X t @ live_at site ms t) \<and>
      l' = l + length (filter (\<lambda>m. \<not> cm_Deleting m) ms) \<and>
      k' = k + length (filter (\<lambda>m. \<not> cm_Deleting m \<and> site m \<noteq> None) ms)" by auto
    with True show ?thesis by (intro exI [of _ site]) (auto simp: live_at_def)
  next
    case False
    with g obtain st where st: "machineSite env m s = (Inr st, s1)"
      "a = (case st of None \<Rightarrow> (X, l + 1, k) | Some t \<Rightarrow> (add_to_site t m X, l + 1, k + 1))"
      by (auto simp: group_machine_def go_inv split: option.split_asm)
    let ?X = "case st of None \<Rightarrow> X | Some t \<Rightarrow> add_to_site t m X"
    let ?k = "case st of None \<Rightarrow> k | Some t \<Rightarrow> k + 1"
    have a: "a = (?X, l + 1, ?k)" using st(2) by (simp split: option.split)
    have "distinct (map fst ?X)" using Cons.prems(3) add_distinct by (simp split: option.split)
    moreover have "\<forall>p\<in>set ?X. snd p \<noteq> []" using Cons.prems(4) add_nonempty by (simp split: option.split)
    moreover have "length (concat (map snd ?X)) = ?k"
      using Cons.prems(5) add_mset_all [THEN mset_eq_length_Suc] by (simp split: option.split)
    ultimately obtain site where site:
      "\<forall>m\<in>set ms. \<not> cm_Deleting m \<longrightarrow> answers env m (site m)" "distinct (map fst X')"
      "\<forall>p\<in>set X'. snd p \<noteq> []" "length (concat (map snd X')) = k'"
      "\<And>t. machines_at X' t = machines_at ?X t @ live_at site ms t"
      "l' = l + 1 + length (filter (\<lambda>m. \<not> cm_Deleting m) ms)"
      "k' = ?k + length (filter (\<lambda>m. \<not> cm_Deleting m \<and> site m \<noteq> None) ms)"
      using Cons.IH [of ?X "l + 1" ?k s1] f Cons.prems(2) a by auto
    let ?site = "site(m := st)"
    have same: "filter (\<lambda>x. \<not> cm_Deleting x \<and> Q (?site x)) ms = filter (\<lambda>x. \<not> cm_Deleting x \<and> Q (site x)) ms" for Q
      using Cons.prems(2) by (intro filter_cong) auto
    have "answers env m st" using st(1) by (auto simp: answers_def)
    then show ?thesis using site same [of "\<lambda>v. v = Some _"] same [of "\<lambda>v. v \<noteq> None"] False Cons.prems(2)
      by (intro exI [of _ ?site]) (auto simp: live_at_def machines_at_add split: option.split)
  qed
qed

section \<open>The victims of a run\<close>

text \<open>The machines of a site that are not victims.\<close>

definition left_at :: "(capi_Machine \<Rightarrow> string option) \<Rightarrow> string list \<Rightarrow> capi_Machine list \<Rightarrow> string \<Rightarrow> capi_Machine list" where
  "left_at site victims machines t = filter (\<lambda>m. cm_Name m \<notin> set victims) (live_at site machines t)"

lemma length_drain:
  "distinct (map fst X) \<Longrightarrow> length (drain k X []) = min k (length (concat (map snd X)))"
proof (induction k arbitrary: X)
  case (Suc k)
  obtain p b where pb: "largest_site X [] (-1) = (p, b)" by force
  show ?case
  proof (cases "b \<le> 0")
    case True
    have "l = []" if "(t, l) \<in> set X" for t l
      using largest_site_none [OF pb Suc.prems True, of t] that Suc.prems by (simp add: machines_at_def)
    then have "concat (map snd X) = []" by auto
    then have z: "length (concat (map snd X)) = 0" by (simp only: list.size)
    show ?thesis unfolding z using True pb by simp
  next
    case False
    with largest_site_facts(1) [OF pb Suc.prems] obtain m ms where m: "machines_at X p = m # ms"
      by (cases "machines_at X p") auto
    then have f: "first_at p X = Some m" by (simp add: first_at_machines)
    have "length (drain (Suc k) X []) = Suc (length (drain k (drop_first_at p X) []))"
      using pb False f by simp (subst drain_acc, simp)
    with Suc.IH [of "drop_first_at p X"] Suc.prems mset_eq_length_Suc [OF drop_mset_all [OF f]]
    show ?thesis by simp
  qed
qed simp

lemma sort_sites_total: "length (concat (map snd (sort_sites X))) = length (concat (map snd X))"
proof -
  let ?s = "sort_slice (\<lambda>a b. str_less (fst a) (fst b)) X"
  have l: "length (sortMachinesNewestFirst ms) = length ms" for ms
    by (metis newest_machine.sort_mset size_mset sortMachinesNewestFirst_def)
  have "length (concat (map snd (sort_sites X))) = sum_list (map (\<lambda>p. length (snd p)) ?s)"
    by (simp add: sort_sites_def length_concat l comp_def case_prod_beta)
  also have "\<dots> = sum_mset (mset (map (\<lambda>p. length (snd p)) ?s))" by (simp only: sum_mset_sum_list)
  also have "\<dots> = sum_mset (mset (map (\<lambda>p. length (snd p)) X))" by (simp add: site_order.sort_mset)
  also have "\<dots> = length (concat (map snd X))" by (simp only: sum_mset_sum_list length_concat map_map comp_def)
  finally show ?thesis .
qed

lemma count_not_taken:
  assumes "distinct ms"
  shows "length (filter (\<lambda>m. m \<notin> set (take n ms)) ms) = length ms - n"
proof -
  have "filter (\<lambda>m. m \<notin> set (take n ms)) (take n ms @ drop n ms) = drop n ms"
  proof -
    have "filter (\<lambda>m. m \<notin> set (take n ms)) (drop n ms) = drop n ms"
      using assms set_take_disj_set_drop_if_distinct [of ms n n] by (auto simp: filter_id_conv)
    moreover have "filter (\<lambda>m. m \<notin> set (take n ms)) (take n ms) = []" by (simp add: filter_empty_conv)
    ultimately show ?thesis by (simp only: filter_append append_Nil)
  qed
  then show ?thesis by simp
qed

text \<open>What the greedy loop leaves of each site.\<close>

lemma drain_leaves:
  fixes machines :: "capi_Machine list"
  assumes d: "distinct (map cm_Name machines)" and X: "distinct (map fst X)"
    and at: "\<And>t. machines_at X t = live_at site machines t"
    and vs: "vs = drain k (sort_sites X) []"
  shows "drains (\<lambda>t. length (live_at site machines t)) (length vs) (\<lambda>t. length (left_at site vs machines t))"
    and "v \<in> set (live_at site machines t) \<Longrightarrow> cm_Name v \<in> set vs \<Longrightarrow> m \<in> set (left_at site vs machines t) \<Longrightarrow> \<not> machine_newer m v"
    and "set vs \<subseteq> cm_Name ` {m \<in> set machines. \<not> cm_Deleting m \<and> site m \<noteq> None}"
proof -
  define L where "L t = sortMachinesNewestFirst (live_at site machines t)" for t
  have at': "machines_at (sort_sites X) t = L t" for t by (simp add: machines_at_sort [OF X] at L_def)
  have mL: "mset (L t) = mset (live_at site machines t)" "set (L t) = set (live_at site machines t)" for t
    by (simp_all add: L_def sortMachinesNewestFirst_def newest_machine.sort_mset newest_machine.sort_set)
  have inj: "a = b" if "a \<in> set machines" "b \<in> set machines" "cm_Name a = cm_Name b" for a b
    using d that by (auto simp: distinct_map inj_on_def)
  obtain n where n: "set vs = taken_names (sort_sites X) n"
    and dr: "drains (\<lambda>t. length (L t)) (length vs) (\<lambda>t. length (L t) - n t)"
    using drain_refines [OF sort_sites_keys [OF X], of k] by (auto simp: at' vs)
  have sub: "set (take (n t) (L t)) \<subseteq> set machines \<inter> {m. \<not> cm_Deleting m \<and> site m = Some t}" for t
    using set_take_subset [of "n t" "L t"] by (auto simp: mL live_at_def)
  have victim: "cm_Name m \<in> set vs \<longleftrightarrow> m \<in> set (take (n t) (L t))" if "m \<in> set (live_at site machines t)" for m t
  proof
    assume "cm_Name m \<in> set vs"
    then obtain m' t' where m': "m' \<in> set (take (n t') (L t'))" "cm_Name m' = cm_Name m"
      unfolding n taken_names_def at' by auto
    from m'(1) sub [of t'] have t': "m' \<in> set machines" "site m' = Some t'" by auto
    with that inj [OF _ _ m'(2)] have "m' = m" "t' = t" by (auto simp: live_at_def)
    with m'(1) show "m \<in> set (take (n t) (L t))" by simp
  qed (auto simp: n taken_names_def at')
  have dL: "distinct (L t)" for t
    using d mL(1) [of t] by (metis distinct_filter distinct_map live_at_def mset_eq_imp_distinct_iff)
  have len: "length (left_at site vs machines t) = length (L t) - n t" for t
  proof -
    have "length (left_at site vs machines t) = length (filter (\<lambda>m. m \<notin> set (take (n t) (L t))) (live_at site machines t))"
      unfolding left_at_def by (intro arg_cong [of _ _ length] filter_cong) (auto simp: victim)
    also have "\<dots> = length (filter (\<lambda>m. m \<notin> set (take (n t) (L t))) (L t))"
      by (metis mL(1) mset_filter size_mset)
    finally show ?thesis by (simp add: count_not_taken dL)
  qed
  have "length (L t) = length (live_at site machines t)" for t by (metis mL(1) size_mset)
  with dr show "drains (\<lambda>t. length (live_at site machines t)) (length vs) (\<lambda>t. length (left_at site vs machines t))"
    by (simp add: len)
  show "\<not> machine_newer m v" if "v \<in> set (live_at site machines t)" "cm_Name v \<in> set vs" "m \<in> set (left_at site vs machines t)"
  proof -
    from that(3) have m: "m \<in> set (live_at site machines t)" "cm_Name m \<notin> set vs" by (auto simp: left_at_def)
    then have "m \<in> set (drop (n t) (L t))"
      using victim [OF m(1)] mL(2) [of t] by (metis Un_iff append_take_drop_id set_append)
    with victim [OF that(1)] that(2) show ?thesis
      unfolding L_def sortMachinesNewestFirst_def by (intro newest_machine.take_least) auto
  qed
  show "set vs \<subseteq> cm_Name ` {m \<in> set machines. \<not> cm_Deleting m \<and> site m \<noteq> None}"
    unfolding n taken_names_def at' using sub by fastforce
qed

text \<open>A run of selectVictims, with what the API server answered.\<close>

lemma selectVictims_run:
  assumes "selectVictims env ms machines (s :: balancer_state) = (Inr vs, s')" "distinct (map cm_Name machines)"
  shows "\<exists>site X live known. (\<forall>m\<in>set machines. \<not> cm_Deleting m \<longrightarrow> answers env m (site m)) \<and>
    distinct (map fst X) \<and> (\<forall>p\<in>set X. snd p \<noteq> []) \<and> (\<forall>t. machines_at X t = live_at site machines t) \<and>
    length (concat (map snd X)) = known \<and>
    live = length (filter (\<lambda>m. \<not> cm_Deleting m) machines) \<and>
    known = length (filter (\<lambda>m. \<not> cm_Deleting m \<and> site m \<noteq> None) machines) \<and>
    vs = drain (nat (victim_count (mset_Replicas ms) live known (siteExcess (sort_sites X)))) (sort_sites X) []"
proof -
  from assms(1) obtain X live known s1 where f: "fold_go (group_machine env) machines ([], 0, 0) s = (Inr (X, live, known), s1)"
    and vs: "vs = (if known = 0 then [] else let k = victim_count (mset_Replicas ms) live known (siteExcess (sort_sites X)) in
      if k \<le> 0 then [] else drain (nat k) (sort_sites X) [])"
    by (auto simp: selectVictims_def go_inv Let_def split: if_split_asm)
  have "distinct machines" using assms(2) by (auto simp: distinct_map)
  with group_machines [OF f] obtain site where site:
    "\<forall>m\<in>set machines. \<not> cm_Deleting m \<longrightarrow> answers env m (site m)" "distinct (map fst X)"
    "\<forall>p\<in>set X. snd p \<noteq> []" "length (concat (map snd X)) = known" "\<forall>t. machines_at X t = live_at site machines t"
    "live = length (filter (\<lambda>m. \<not> cm_Deleting m) machines)"
    "known = length (filter (\<lambda>m. \<not> cm_Deleting m \<and> site m \<noteq> None) machines)" by auto
  have "drain j (sort_sites X) [] = []" if "known = 0" for j
    using length_drain [OF sort_sites_keys [OF site(2)], of j] site(4) that sort_sites_total [of X] by simp
  then have "vs = drain (nat (victim_count (mset_Replicas ms) live known (siteExcess (sort_sites X)))) (sort_sites X) []"
    using vs by (auto simp: Let_def)
  with site show ?thesis by blast
qed

lemma excess_nonneg: "distinct (map fst X) \<Longrightarrow> 0 \<le> siteExcess X"
proof -
  have c: "mn \<le> mx \<Longrightarrow> 0 \<le> mx \<Longrightarrow> (case count_range Y mn mx of (a, b) \<Rightarrow> a \<le> b)" for Y mn mx
    by (induction Y mn mx rule: count_range.induct) (auto simp: Let_def)
  show "0 \<le> siteExcess X" using c [of "-1" 0 X] by (auto simp: siteExcess_def split: prod.splits)
qed

section \<open>Properties of the victims\<close>

text \<open>C23 The choice of the victims refines the abstract drain, which takes one machine at a time
  from a fullest site: with respect to the sites the API server answered, the number of machines
  each site keeps is the result of as many abstract steps as there are victims; only live
  machines of a known site are victims; and of each site the youngest ones.\<close>

theorem selectVictims_refines_drain:
  assumes "selectVictims env ms machines (s :: balancer_state) = (Inr vs, s')" "distinct (map cm_Name machines)"
  shows "\<exists>site. (\<forall>m\<in>set machines. \<not> cm_Deleting m \<longrightarrow> answers env m (site m)) \<and>
    drains (\<lambda>t. length (live_at site machines t)) (length vs) (\<lambda>t. length (left_at site vs machines t)) \<and>
    set vs \<subseteq> cm_Name ` {m \<in> set machines. \<not> cm_Deleting m \<and> site m \<noteq> None} \<and>
    (\<forall>t. \<forall>v\<in>set (live_at site machines t). \<forall>m\<in>set (left_at site vs machines t).
       cm_Name v \<in> set vs \<longrightarrow> \<not> machine_newer m v)"
proof -
  from selectVictims_run [OF assms] obtain site X k where
    "\<forall>m\<in>set machines. \<not> cm_Deleting m \<longrightarrow> answers env m (site m)" and
    X: "distinct (map fst X)" "\<And>t. machines_at X t = live_at site machines t" "vs = drain k (sort_sites X) []" by auto
  with drain_leaves [OF assms(2) X] show ?thesis by (intro exI [of _ site]) auto
qed

text \<open>The number of victims: the pending scale-down when the replicas are below the live
  machines, and otherwise the difference between the fullest and the emptiest site; never more
  than the machines of a known site, whatever 32-bit number of replicas is asked for.\<close>

theorem selectVictims_count:
  assumes "selectVictims env ms machines (s :: balancer_state) = (Inr vs, s')" "distinct (map cm_Name machines)"
  shows "\<exists>site excess. (\<forall>m\<in>set machines. \<not> cm_Deleting m \<longrightarrow> answers env m (site m)) \<and> 0 \<le> excess \<and>
    (let live = int (length (filter (\<lambda>m. \<not> cm_Deleting m) machines));
         known = int (length (filter (\<lambda>m. \<not> cm_Deleting m \<and> site m \<noteq> None) machines)) in
     int (length vs) = min known (case mset_Replicas ms of
         Some n \<Rightarrow> if sint n < live then live - sint n else excess | None \<Rightarrow> excess))"
proof -
  from selectVictims_run [OF assms] obtain site X live known where site:
    "\<forall>m\<in>set machines. \<not> cm_Deleting m \<longrightarrow> answers env m (site m)"
    and X: "distinct (map fst X)" "length (concat (map snd X)) = known"
    and n: "live = length (filter (\<lambda>m. \<not> cm_Deleting m) machines)"
      "known = length (filter (\<lambda>m. \<not> cm_Deleting m \<and> site m \<noteq> None) machines)"
    and vs: "vs = drain (nat (victim_count (mset_Replicas ms) live known (siteExcess (sort_sites X)))) (sort_sites X) []" by auto
  have e: "0 \<le> siteExcess (sort_sites X)" by (rule excess_nonneg [OF sort_sites_keys [OF X(1)]])
  have "length vs = min (nat (victim_count (mset_Replicas ms) live known (siteExcess (sort_sites X)))) known"
    using length_drain [OF sort_sites_keys [OF X(1)]] vs X(2) by (simp only: sort_sites_total)
  with e have "int (length vs) = min (int known) (case mset_Replicas ms of
      Some n \<Rightarrow> if sint n < int live then int live - sint n else siteExcess (sort_sites X) | None \<Rightarrow> siteExcess (sort_sites X))"
    by (auto simp: victim_count_def Let_def min_def split: option.split)
  with e site show ?thesis unfolding n Let_def by blast
qed

lemma drains_total:
  assumes "drains c k c'" "a \<noteq> b" "\<forall>t. t \<noteq> a \<and> t \<noteq> b \<longrightarrow> c t = 0"
  shows "c' a + c' b + k = c a + c b"
  using assms
proof (induction rule: drains.induct)
  case (drains_Suc c p k c')
  then have "p = a \<or> p = b" by auto
  with drains_Suc show ?case by auto
qed simp

lemma two_sites_excess:
  assumes "distinct (map fst X)" "\<forall>p\<in>set X. snd p \<noteq> []" "a \<noteq> b" "\<forall>t. machines_at X t \<noteq> [] \<longleftrightarrow> t = a \<or> t = b"
  shows "siteExcess (sort_sites X) = \<bar>int (length (machines_at X a)) - int (length (machines_at X b))\<bar>"
proof -
  let ?Y = "sort_sites X"
  have l: "length (machines_at ?Y t) = length (machines_at X t)" for t
    unfolding machines_at_sort [OF assms(1)] sortMachinesNewestFirst_def
    by (metis newest_machine.sort_mset size_mset)
  have "fst ` set ?Y = fst ` set X" by (force simp: sort_sites_def site_order.sort_set)
  also have "\<dots> = {a, b}"
  proof -
    have "t \<in> fst ` set X \<longleftrightarrow> machines_at X t \<noteq> []" for t
      using assms(1,2) machines_at_other [of t X] by (force simp: machines_at_def)
    with assms(4) show ?thesis by auto
  qed
  finally have k: "fst ` set ?Y = {a, b}" .
  have d: "distinct (map fst ?Y)" by (rule sort_sites_keys [OF assms(1)])
  then have "length ?Y = 2" using k assms(3) by (metis card_2_iff distinct_card length_map list.set_map)
  then obtain p q where Y: "?Y = [p, q]" by (auto simp: length_Suc_conv numeral_2_eq_2)
  with k d assms(3) have pq: "fst p = a \<and> fst q = b \<or> fst p = b \<and> fst q = a" by auto
  then show ?thesis using l [of a] l [of b] Y assms(3)
    by (cases p; cases q) (auto simp: siteExcess_def Let_def)
qed

lemma filter_le: "(\<And>x. P x \<Longrightarrow> Q x) \<Longrightarrow> length (filter P xs) \<le> length (filter Q xs)"
  by (induction xs) (auto intro: le_SucI)

lemma balanced_pair:
  fixes ca cb la lb k :: int
  assumes "la + lb + k = ca + cb" "la \<le> ca" "lb \<le> cb" "la < ca \<Longrightarrow> lb \<le> la + 1" "lb < cb \<Longrightarrow> la \<le> lb + 1"
    and "\<bar>ca - cb\<bar> \<le> k"
  shows "\<bar>la - lb\<bar> \<le> 1"
  using assms by (cases "la < ca"; cases "lb < cb") linarith+

text \<open>C19 With both sites represented, the victims restore the balance: when their number is not
  cut below the imbalance by a smaller pending scale-down, the two sites keep machine counts
  that differ by at most one.\<close>

theorem victims_balance_two_sites:
  assumes run: "selectVictims env ms machines (s :: balancer_state) = (Inr vs, s')" and d: "distinct (map cm_Name machines)"
  shows "\<exists>site. (\<forall>m\<in>set machines. \<not> cm_Deleting m \<longrightarrow> answers env m (site m)) \<and>
    (\<forall>a b. a \<noteq> b \<and> {t. live_at site machines t \<noteq> []} = {a, b} \<longrightarrow>
      (let live = (\<lambda>t. int (length (live_at site machines t))); left = (\<lambda>t. int (length (left_at site vs machines t)));
           pending = (case mset_Replicas ms of None \<Rightarrow> 0
              | Some n \<Rightarrow> int (length (filter (\<lambda>m. \<not> cm_Deleting m) machines)) - sint n) in
       (pending \<le> 0 \<or> \<bar>live a - live b\<bar> \<le> pending) \<longrightarrow> \<bar>left a - left b\<bar> \<le> 1))"
proof -
  from selectVictims_run [OF run d] obtain site X live known where site:
    "\<forall>m\<in>set machines. \<not> cm_Deleting m \<longrightarrow> answers env m (site m)"
    and X: "distinct (map fst X)" "\<And>t. machines_at X t = live_at site machines t" "\<forall>p\<in>set X. snd p \<noteq> []"
      "length (concat (map snd X)) = known" "live = length (filter (\<lambda>m. \<not> cm_Deleting m) machines)"
      "known = length (filter (\<lambda>m. \<not> cm_Deleting m \<and> site m \<noteq> None) machines)"
    and vs: "vs = drain (nat (victim_count (mset_Replicas ms) live known (siteExcess (sort_sites X)))) (sort_sites X) []" by blast
  note dr = drain_leaves(1) [OF d X(1,2) vs]
  let ?c = "\<lambda>t. length (live_at site machines t)"
  let ?l = "\<lambda>t. length (left_at site vs machines t)"
  have known: "?c t \<le> known" for t unfolding X(6) live_at_def by (rule filter_le) simp
  have len: "length vs = min (nat (victim_count (mset_Replicas ms) live known (siteExcess (sort_sites X)))) known"
    using length_drain [OF sort_sites_keys [OF X(1)]] vs X(4) by (simp only: sort_sites_total)
  have "\<bar>int (?l a) - int (?l b)\<bar> \<le> 1" if ab: "a \<noteq> b" "{t. live_at site machines t \<noteq> []} = {a, b}"
    and p: "(case mset_Replicas ms of None \<Rightarrow> 0 | Some n \<Rightarrow> int live - sint n) \<le> 0 \<or>
      \<bar>int (?c a) - int (?c b)\<bar> \<le> (case mset_Replicas ms of None \<Rightarrow> 0 | Some n \<Rightarrow> int live - sint n)" for a b
  proof -
    have e: "siteExcess (sort_sites X) = \<bar>int (?c a) - int (?c b)\<bar>"
      using two_sites_excess [OF X(1,3) ab(1)] ab(2) X(2) by auto
    have "\<bar>int (?c a) - int (?c b)\<bar> \<le> int known" using known [of a] known [of b] by linarith
    with p have k: "\<bar>int (?c a) - int (?c b)\<bar> \<le> int (length vs)"
      unfolding len e by (auto simp: victim_count_def Let_def split: option.splits)
    have "live_at site machines t = []" if "t \<noteq> a" "t \<noteq> b" for t using ab(2) that by blast
    then have tot: "?l a + ?l b + length vs = ?c a + ?c b" using drains_total [OF dr ab(1)] by auto
    show ?thesis
      by (rule balanced_pair [OF _ _ _ _ _ k])
        (use tot drains_le [OF dr, of a] drains_le [OF dr, of b] drains_balanced [OF dr, of a b]
          drains_balanced [OF dr, of b a] in linarith)+
  qed
  with site show ?thesis unfolding Let_def X(5) by blast
qed

section \<open>The annotations of a pool\<close>

text \<open>The machines a run patches, and how.\<close>

definition wanted_patches :: "string list \<Rightarrow> capi_Machine list \<Rightarrow> capi_Machine list" where
  "wanted_patches victims machines =
     concat (map (\<lambda>m. if cm_Deleting m then []
        else if cm_Name m \<in> set victims then (if has_annotation m DeleteMachineAnnotation then [] else [annotate True m])
        else if has_annotation m managedDeleteMachineAnnotation then [annotate False m] else []) machines)"

lemma patch_run:
  "patchMachineAnnotations env m mark s = (r, s') \<Longrightarrow>
   (r = Inr () \<and> Patched s' = Patched s @ [annotate mark m]) \<or> (\<exists>e. r = Inl e \<and> Patched s' = Patched s)"
  by (cases "New_Helper env m"; cases "Patch_Machine env (trace s) (annotate mark m)")
    (auto simp: patchMachineAnnotations_def go_eval, metis+)

text \<open>Whatever fails, the patches made are a prefix of those wanted.\<close>

lemma applyDeleteAnnotations_run:
  "applyDeleteAnnotations env machines victims s = (r, s') \<Longrightarrow>
   \<exists>ps qs. Patched s' = Patched s @ ps \<and> wanted_patches victims machines = ps @ qs \<and> (r = Inr () \<longrightarrow> qs = [])"
proof (induction machines arbitrary: s)
  case Nil
  then show ?case by (simp add: applyDeleteAnnotations_def wanted_patches_def ret_apply)
next
  case (Cons m ms)
  obtain r1 s1 where 1: "apply_annotation env victims m s = (r1, s1)" by force
  with Cons.prems have 2: "(case r1 of Inl e \<Rightarrow> (Inl e, s1) | Inr x \<Rightarrow> applyDeleteAnnotations env ms victims s1) = (r, s')"
    unfolding applyDeleteAnnotations_def by (simp add: thn_apply)
  from 1 obtain ps where ps: "Patched s1 = Patched s @ ps" "r1 = Inr () \<Longrightarrow> wanted_patches victims [m] = ps"
    "r1 \<noteq> Inr () \<Longrightarrow> ps = []"
    by (auto simp: apply_annotation_def Let_def wanted_patches_def ret_apply List.member_iff split: if_split_asm
        dest!: patch_run)
  have w: "wanted_patches victims (m # ms) = wanted_patches victims [m] @ wanted_patches victims ms"
    by (simp add: wanted_patches_def)
  show ?case
  proof (cases r1)
    case (Inl e)
    with 2 ps show ?thesis by auto
  next
    case (Inr u)
    with 2 have "applyDeleteAnnotations env ms victims s1 = (r, s')" by simp
    from Cons.IH [OF this] ps Inr w show ?thesis by auto
  qed
qed

lemma only_patched: "moves (only_calls A) m \<Longrightarrow> m s = (r, s') \<Longrightarrow> Patched s' = Patched s"
  using movesD by (fastforce simp: only_calls_def)

text \<open>A reconcile patches what is wanted for some victims among the machines the API listed, or
  nothing.\<close>

lemma balancer_patches:
  assumes run: "balancer_Reconcile env ns name s = (r, s')" and l: "\<forall>h ns l. List_Machines env h ns l = Inr machines"
  shows "\<exists>victims ps qs. Patched s' = Patched s @ ps \<and> wanted_patches victims machines = ps @ qs"
proof -
  have none: ?thesis if "Patched s' = Patched s" using that by (intro exI [of _ "[]"] exI [of _ "wanted_patches [] machines"]) simp
  have bal: "\<exists>victims ps qs. Patched t' = Patched t @ ps \<and> wanted_patches victims machines = ps @ qs"
    if b: "balance_machine_set env ms t = (q, t')" for ms q t t'
  proof -
    obtain v t1 where v: "selectVictims env ms machines (t\<lparr>trace := trace t @ [KList KMachine (om_Namespace (mset_Meta ms))
        [(MachineSetNameLabel, om_Name (mset_Meta ms))]]\<rparr>) = (v, t1)" by force
    have p: "Patched t1 = Patched t" using only_patched [OF selectVictims_only v] by simp
    show ?thesis
    proof (cases v)
      case (Inl e)
      with b v l p have "Patched t' = Patched t"
        by (simp add: balance_machine_set_def listMachineSetMachines_def Let_def bnd_apply ext_apply)
      then show ?thesis by (intro exI [of _ "[]"] exI [of _ "wanted_patches [] machines"]) simp
    next
      case (Inr vs)
      with b v l have "applyDeleteAnnotations env machines vs t1 = (q, t')"
        by (simp add: balance_machine_set_def listMachineSetMachines_def Let_def bnd_apply ext_apply)
      from applyDeleteAnnotations_run [OF this] p show ?thesis by auto
    qed
  qed
  from run none bal show ?thesis
    by (auto simp: balancer_Reconcile_def go_eval split: sum.split_asm if_split_asm prod.split_asm)
      (fastforce dest: bal)+
qed

section \<open>The pool as a transition system\<close>

text \<open>The machines of a MachineSet and the names that were ever used.  Besides reconciles, which
  may fail half way, a machine is created under a fresh name, starts to be deleted, goes, or an
  operator sets the delete annotation on it.\<close>

record pool =
  pool_machines :: "capi_Machine list"
  pool_used :: "string set"

definition store :: "capi_Machine list \<Rightarrow> capi_Machine \<Rightarrow> capi_Machine list" where
  "store ms p = map (\<lambda>m. if cm_Name m = cm_Name p then p else m) ms"

definition operator_mark :: "capi_Machine \<Rightarrow> capi_Machine" where
  "operator_mark m = m\<lparr>cm_Meta := (cm_Meta m)\<lparr>om_Annotations :=
     (om_Annotations (cm_Meta m))(DeleteMachineAnnotation \<mapsto> [])\<rparr>\<rparr>"

definition start_deletion :: "capi_Machine \<Rightarrow> capi_Machine" where
  "start_deletion m = m\<lparr>cm_Meta := (cm_Meta m)\<lparr>om_Deleting := True\<rparr>\<rparr>"

inductive pool_step :: "pool \<Rightarrow> pool \<Rightarrow> bool" where
  reconcile: "\<forall>h ns l. List_Machines env h ns l = Inr (pool_machines p) \<Longrightarrow>
    balancer_Reconcile env ns name \<lparr>trace = tr, Patched = []\<rparr> = (r, s') \<Longrightarrow>
    pool_step p (p\<lparr>pool_machines := foldl store (pool_machines p) (Patched s')\<rparr>)"
| create: "cm_Name m \<notin> pool_used p \<Longrightarrow> \<not> has_annotation m managedDeleteMachineAnnotation \<Longrightarrow>
    pool_step p \<lparr>pool_machines = pool_machines p @ [m], pool_used = insert (cm_Name m) (pool_used p)\<rparr>"
| deletion: "pool_step p (p\<lparr>pool_machines := map (\<lambda>m. if cm_Name m = n then start_deletion m else m) (pool_machines p)\<rparr>)"
| gone: "pool_step p (p\<lparr>pool_machines := filter (\<lambda>m. cm_Name m \<noteq> n) (pool_machines p)\<rparr>)"
| operator: "pool_step p (p\<lparr>pool_machines := map (\<lambda>m. if cm_Name m = n then operator_mark m else m) (pool_machines p)\<rparr>)"

definition operator_marked :: "capi_Machine \<Rightarrow> bool" where
  "operator_marked m \<longleftrightarrow> has_annotation m DeleteMachineAnnotation \<and> \<not> has_annotation m managedDeleteMachineAnnotation"

text \<open>Names are distinct and used, and a managed machine carries the delete annotation.\<close>

definition pool_inv :: "pool \<Rightarrow> bool" where
  "pool_inv p \<longleftrightarrow> distinct (map cm_Name (pool_machines p)) \<and> cm_Name ` set (pool_machines p) \<subseteq> pool_used p \<and>
     (\<forall>m\<in>set (pool_machines p). has_annotation m managedDeleteMachineAnnotation \<longrightarrow> has_annotation m DeleteMachineAnnotation)"

text \<open>The name is used, and a machine with it is marked by an operator.\<close>

definition protected :: "string \<Rightarrow> pool \<Rightarrow> bool" where
  "protected n p \<longleftrightarrow> n \<in> pool_used p \<and> (\<forall>m\<in>set (pool_machines p). cm_Name m = n \<longrightarrow> operator_marked m)"

lemma annotate_name [simp]: "cm_Name (annotate b m) = cm_Name m" by (simp add: annotate_def)

lemma operator_mark_name [simp]: "cm_Name (if b then operator_mark m else m) = cm_Name m"
  by (simp add: operator_mark_def)

lemma start_deletion_name [simp]: "cm_Name (if b then start_deletion m else m) = cm_Name m"
  by (simp add: start_deletion_def)

lemma annotations_distinct: "DeleteMachineAnnotation \<noteq> managedDeleteMachineAnnotation" by code_simp

lemma store_names: "map cm_Name (foldl store ms ps) = map cm_Name ms"
  by (induction ps arbitrary: ms) (auto simp: store_def)

lemma store_members: "m \<in> set (foldl store ms ps) \<Longrightarrow> m \<in> set ms \<and> cm_Name m \<notin> cm_Name ` set ps \<or> m \<in> set ps"
  by (induction ps arbitrary: ms) (force simp: store_def split: if_splits)+

text \<open>A patch marks a machine without the delete annotation or clears a managed one.\<close>

lemma wanted_patches_elem:
  "p \<in> set (wanted_patches victims ms) \<Longrightarrow> \<exists>m\<in>set ms. \<exists>mark. p = annotate mark m \<and> \<not> operator_marked m \<and>
     (if mark then \<not> has_annotation m DeleteMachineAnnotation else has_annotation m managedDeleteMachineAnnotation)"
  by (auto simp: wanted_patches_def operator_marked_def split: if_split_asm)

lemma annotate_managed: "has_annotation (annotate mark m) managedDeleteMachineAnnotation \<Longrightarrow>
  has_annotation (annotate mark m) DeleteMachineAnnotation"
  using annotations_distinct by (auto simp: annotate_def has_annotation_def split: if_split_asm)

lemma reconcile_patches:
  assumes "\<forall>h ns l. List_Machines env h ns l = Inr (pool_machines p)"
    and "balancer_Reconcile env ns name \<lparr>trace = tr, Patched = []\<rparr> = (r, s')"
  shows "\<forall>q\<in>set (Patched s'). \<exists>m\<in>set (pool_machines p). \<exists>mark. q = annotate mark m \<and> \<not> operator_marked m"
proof -
  from balancer_patches [OF assms(2,1)] obtain victims qs where
    "wanted_patches victims (pool_machines p) = Patched s' @ qs" by auto
  then have "set (Patched s') \<subseteq> set (wanted_patches victims (pool_machines p))" by simp
  then show ?thesis by (meson subsetD wanted_patches_elem)
qed

lemma pool_inv_map:
  assumes "pool_inv p" "\<And>m. cm_Name (f m) = cm_Name m"
    and "\<And>m. m \<in> set (pool_machines p) \<Longrightarrow>
      has_annotation (f m) managedDeleteMachineAnnotation \<longrightarrow> has_annotation (f m) DeleteMachineAnnotation"
  shows "pool_inv (p\<lparr>pool_machines := map f (pool_machines p)\<rparr>)"
  using assms by (auto simp: pool_inv_def comp_def)

lemma pool_step_inv:
  assumes "pool_step p p'" "pool_inv p"
  shows "pool_inv p' \<and> pool_used p \<subseteq> pool_used p'"
  using assms
proof (induction rule: pool_step.induct)
  case (reconcile env p ns name tr r s')
  let ?ms = "foldl store (pool_machines p) (Patched s')"
  note q = reconcile_patches [OF reconcile(1,2)]
  have "has_annotation m managedDeleteMachineAnnotation \<longrightarrow> has_annotation m DeleteMachineAnnotation" if "m \<in> set ?ms" for m
    using store_members [OF that] reconcile(3) q annotate_managed by (fastforce simp: pool_inv_def)
  moreover have "cm_Name ` set ?ms = cm_Name ` set (pool_machines p)" by (metis store_names list.set_map)
  ultimately show ?case using reconcile(3) store_names [of "pool_machines p" "Patched s'"] by (simp add: pool_inv_def)
next
  case (operator p n)
  have "pool_inv (p\<lparr>pool_machines := map (\<lambda>m. if cm_Name m = n then operator_mark m else m) (pool_machines p)\<rparr>)"
    by (rule pool_inv_map [OF operator]) (use operator in \<open>auto simp: pool_inv_def operator_mark_def has_annotation_def\<close>)
  then show ?case by simp
next
  case (deletion p n)
  have "pool_inv (p\<lparr>pool_machines := map (\<lambda>m. if cm_Name m = n then start_deletion m else m) (pool_machines p)\<rparr>)"
    by (rule pool_inv_map [OF deletion]) (use deletion in \<open>auto simp: pool_inv_def start_deletion_def has_annotation_def\<close>)
  then show ?case by simp
qed (auto simp: pool_inv_def intro: distinct_map_filter)

lemma pool_step_protected:
  assumes "pool_step p p'" "pool_inv p" "protected n p"
  shows "protected n p'"
  using assms
proof (induction rule: pool_step.induct)
  case (reconcile env p ns name tr r s')
  note q = reconcile_patches [OF reconcile(1,2)]
  have "operator_marked m" if m: "m \<in> set (foldl store (pool_machines p) (Patched s'))" "cm_Name m = n" for m
    using store_members [OF m(1)]
  proof
    assume "m \<in> set (Patched s')"
    with q m(2) obtain m' where "m' \<in> set (pool_machines p)" "cm_Name m' = n" "\<not> operator_marked m'" by fastforce
    with reconcile(4) show ?thesis by (auto simp: protected_def)
  qed (use reconcile(4) m(2) in \<open>auto simp: protected_def\<close>)
  with reconcile(4) show ?case by (simp add: protected_def)
qed (use annotations_distinct in \<open>auto simp: protected_def operator_mark_def start_deletion_def operator_marked_def has_annotation_def\<close>)


section \<open>A sample pool\<close>

text \<open>A machine with its creation time, and an API server with the given machines of a
  MachineSet; the NutanixMachines of the names in as are on the site a, the others on b.\<close>

definition pool_machine :: "string \<Rightarrow> int \<Rightarrow> capi_Machine" where
  "pool_machine n t = (worker n)\<lparr>cm_Meta := (sample_meta n)\<lparr>om_CreationTimestamp := t\<rparr>\<rparr>"

definition pool_set :: "32 word option \<Rightarrow> machine_set" where
  "pool_set replicas = \<lparr>mset_Meta = sample_meta ''md-1'', mset_FailureDomain = ''NutanixMetro/metro'', mset_Replicas = replicas\<rparr>"

definition pool_env :: "32 word option \<Rightarrow> string list \<Rightarrow> capi_Machine list \<Rightarrow> balancer_env" where
  "pool_env replicas as ms = \<lparr>be_IsNotFound = (\<lambda>e. False), Get_MachineSet = (\<lambda>h n ns. Inr (pool_set replicas)),
     GetClusterFromMetadata = (\<lambda>h m. Inr sample_Cluster), IsPaused = (\<lambda>c m. False), List_Machines = (\<lambda>h ns l. Inr ms),
     List_MachineSets = (\<lambda>h ns l. no_service),
     Get_NutanixMachine = (\<lambda>h n ns. Inr ((sample_NM n)\<lparr>nm_Meta := (sample_meta n)\<lparr>om_Labels :=
       [metroNativeFailureDomainLabelKey \<mapsto> (if List.member as n then ''a'' else ''b'')]\<rparr>\<rparr>)),
     New_Helper = (\<lambda>m. Inr ()), Patch_Machine = (\<lambda>h m. Inr ())\<rparr>"

definition pool_start :: balancer_state where "pool_start = \<lparr>trace = [], Patched = []\<rparr>"

definition five :: "capi_Machine list" where
  "five = [pool_machine ''m1'' 1, pool_machine ''m2'' 2, pool_machine ''m3'' 3, pool_machine ''m4'' 4, pool_machine ''m5'' 5]"

definition five_env :: balancer_env where "five_env = pool_env None [''m1'', ''m2'', ''m3'', ''m4''] five"

lemma five_run: "fst (selectVictims five_env (pool_set None) five pool_start) = Inr [''m4'', ''m3'', ''m2'']"
  by code_simp

lemma five_selects:
  "selectVictims five_env (pool_set None) five pool_start =
     (Inr [''m4'', ''m3'', ''m2''], snd (selectVictims five_env (pool_set None) five pool_start))"
  using five_run by (simp add: prod_eq_iff)

lemma five_distinct: "distinct (map cm_Name five)" by code_simp

lemma five_site:
  assumes "\<forall>m\<in>set five. \<not> cm_Deleting m \<longrightarrow> answers five_env m (site m)"
  shows "site (pool_machine ''m1'' 1) = Some ''a''" "site (pool_machine ''m5'' 5) = Some ''b''"
proof -
  have a: "answers five_env (pool_machine n t) v \<Longrightarrow> n \<noteq> [] \<Longrightarrow>
      v = Some (if List.member [''m1'', ''m2'', ''m3'', ''m4''] n then ''a'' else ''b'')" for n t v
    by (cases "List.member [''m1'', ''m2'', ''m3'', ''m4''] n")
      (auto simp: answers_def machineSite_def Let_def go_eval five_env_def pool_env_def pool_machine_def worker_def
        sample_Machine_def map_get_def)
  have "\<not> cm_Deleting (pool_machine n t)" for n t by (simp add: pool_machine_def sample_meta_def)
  with assms have "answers five_env (pool_machine ''m1'' 1) (site (pool_machine ''m1'' 1))"
    "answers five_env (pool_machine ''m5'' 5) (site (pool_machine ''m5'' 5))" by (auto simp: five_def)
  from a [OF this(1)] a [OF this(2)] show "site (pool_machine ''m1'' 1) = Some ''a''" "site (pool_machine ''m5'' 5) = Some ''b''"
    by (simp_all add: List.member_iff)
qed

lemma selectVictims_refines_drain_witness:
  "\<exists>site. site (pool_machine ''m1'' 1) = Some ''a'' \<and> site (pool_machine ''m5'' 5) = Some ''b'' \<and>
     drains (\<lambda>t. length (live_at site five t)) 3 (\<lambda>t. length (left_at site [''m4'', ''m3'', ''m2''] five t))"
proof -
  obtain site where s: "\<forall>m\<in>set five. \<not> cm_Deleting m \<longrightarrow> answers five_env m (site m)"
    "drains (\<lambda>t. length (live_at site five t)) (length [''m4'', ''m3'', ''m2'']) (\<lambda>t. length (left_at site [''m4'', ''m3'', ''m2''] five t))"
    using selectVictims_refines_drain [OF five_selects five_distinct] by blast
  show ?thesis using five_site [OF s(1)] s(2) by (intro exI [of _ site]) (simp add: numeral_3_eq_3)
qed

lemma selectVictims_count_witness:
  "\<exists>site excess. site (pool_machine ''m1'' 1) = Some ''a'' \<and>
     (3 :: int) = min (int (length (filter (\<lambda>m. \<not> cm_Deleting m \<and> site m \<noteq> None) five))) excess"
proof -
  obtain site excess where s: "\<forall>m\<in>set five. \<not> cm_Deleting m \<longrightarrow> answers five_env m (site m)"
    "int (length [''m4'', ''m3'', ''m2'']) = min (int (length (filter (\<lambda>m. \<not> cm_Deleting m \<and> site m \<noteq> None) five))) excess"
    using selectVictims_count [OF five_selects five_distinct] unfolding Let_def pool_set_def by auto
  show ?thesis using five_site(1) [OF s(1)] s(2) by (intro exI [of _ site] exI [of _ excess]) simp
qed

lemma victims_balance_two_sites_witness:
  "\<exists>site. site (pool_machine ''m1'' 1) = Some ''a'' \<and>
    (\<forall>a b. a \<noteq> b \<and> {t. live_at site five t \<noteq> []} = {a, b} \<longrightarrow>
       \<bar>int (length (left_at site [''m4'', ''m3'', ''m2''] five a)) - int (length (left_at site [''m4'', ''m3'', ''m2''] five b))\<bar> \<le> 1)"
proof -
  obtain site where s: "\<forall>m\<in>set five. \<not> cm_Deleting m \<longrightarrow> answers five_env m (site m)"
    "\<forall>a b. a \<noteq> b \<and> {t. live_at site five t \<noteq> []} = {a, b} \<longrightarrow>
       \<bar>int (length (left_at site [''m4'', ''m3'', ''m2''] five a)) - int (length (left_at site [''m4'', ''m3'', ''m2''] five b))\<bar> \<le> 1"
    using victims_balance_two_sites [OF five_selects five_distinct] unfolding Let_def pool_set_def by auto
  show ?thesis using five_site(1) [OF s(1)] s(2) by blast
qed

text \<open>The first machine of the pool is marked by an operator.\<close>

definition marked_pool :: pool where
  "marked_pool = \<lparr>pool_machines = operator_mark (pool_machine ''m1'' 1) # tl five, pool_used = {''m1'', ''m2'', ''m3'', ''m4'', ''m5''}\<rparr>"


section \<open>What the operator's mark does not do\<close>

text \<open>The mark of an operator is not counted: with three machines on a, two on b, the oldest
  of b marked by an operator and one deletion pending, the balancer marks a machine of a as well,
  and Cluster API has two machines to choose from.  And it can be cleared: when the operator
  marks a machine that the balancer manages, the annotation goes once the sites are balanced.\<close>

theorem operator_mark_not_counted:
  "(let ms = [pool_machine ''m1'' 1, pool_machine ''m2'' 2, pool_machine ''m3'' 3,
              operator_mark (pool_machine ''m4'' 4), pool_machine ''m5'' 5];
        s' = snd (balancer_Reconcile (pool_env (Some 4) [''m1'', ''m2'', ''m3''] ms) ''ns'' ''md-1'' pool_start) in
    map cm_Name (filter (\<lambda>m. has_annotation m DeleteMachineAnnotation) (foldl store ms (Patched s'))) = [''m3'', ''m4'']) \<and>
   (let m2 = operator_mark (annotate True (pool_machine ''m2'' 2));
        ms = [pool_machine ''m1'' 1, m2, pool_machine ''m3'' 3, pool_machine ''m4'' 4];
        s' = snd (balancer_Reconcile (pool_env None [''m1'', ''m2''] ms) ''ns'' ''md-1'' pool_start) in
    filter (\<lambda>m. has_annotation m DeleteMachineAnnotation) (foldl store ms (Patched s')) = [])"
  by code_simp

end
