(* ===== verification/Guards.thy ===== *)
theory Guards
  imports Machine_Delete VHA_Lookup Scale_Down
begin

text \<open>
  The controllers of NutanixFailureDomain, NutanixMetro and NutanixMetroSite
  (controllers/nutanixfailuredomain_controller.go, nutanixmetro_controller.go and
  nutanixmetrosite_controller.go): each keeps a finalizer on its object until no other object
  of the namespace refers to it.

  The three reconcilers share their frame: fetch the object, add the finalizer, reconcile a
  deletion or the object itself, and in every case patch the object.  The frame is the
  definition guarded_Reconcile; what differs is its arguments.  A map function returns the
  requests as pairs of namespace and name.
\<close>

record machine_deployment =
  md_Meta :: obj_meta
  md_ClusterName :: string
  md_FailureDomain :: string

text \<open>The objects of a namespace that can refer to a guarded object.\<close>

record referrers =
  rf_Machines :: "capi_Machine list"
  rf_NutanixClusters :: "NutanixCluster list"
  rf_Metros :: "NutanixMetro list"
  rf_MetroSites :: "NutanixMetroSite list"
  rf_MachineDeployments :: "machine_deployment list"

record guard_lists =
  gl_Machines :: "call list \<Rightarrow> string \<Rightarrow> go_error + capi_Machine list"
  gl_NutanixClusters :: "call list \<Rightarrow> string \<Rightarrow> go_error + NutanixCluster list"
  gl_Metros :: "call list \<Rightarrow> string \<Rightarrow> go_error + NutanixMetro list"
  gl_MetroSites :: "call list \<Rightarrow> string \<Rightarrow> go_error + NutanixMetroSite list"
  gl_MachineDeployments :: "call list \<Rightarrow> string \<Rightarrow> (string \<times> string) list \<Rightarrow> go_error + machine_deployment list"

record 'o guard_client =
  gc_Get :: "call list \<Rightarrow> string \<Rightarrow> string \<Rightarrow> go_error + 'o"
  gc_IsNotFound :: "go_error \<Rightarrow> bool"
  gc_HasPaused :: "'o \<Rightarrow> bool"
  gc_NewHelper :: "'o \<Rightarrow> go_error + unit"
  gc_Patch :: "call list \<Rightarrow> 'o \<Rightarrow> go_error + unit"
  gc_NewAggregate :: "go_error list \<Rightarrow> go_error"

record 'o guard_state = world +
  Obj :: "'o"

section \<open>The frame\<close>

text \<open>The deferred patch: the object as the body leaves it is patched, and an error of the
  patch is joined to the one of the body.\<close>

definition deferred_patch ::
  "'o guard_client \<Rightarrow> kube_kind \<Rightarrow> ('o \<Rightarrow> obj_meta) \<Rightarrow> ('o guard_state, result) go \<Rightarrow> ('o guard_state, result) go" where
  "deferred_patch gc kind meta body =
     bnd (attempt body) (\<lambda>r.
     bnd (gets Obj) (\<lambda>obj.
     bnd (attempt (ext (KWrite kind (om_Name (meta obj)) (om_Namespace (meta obj)) ''patch'') (\<lambda>h. gc_Patch gc h obj))) (\<lambda>p.
     case p of
       Inl err \<Rightarrow> raise (gc_NewAggregate gc (case r of Inl reterr \<Rightarrow> [reterr, err] | Inr _ \<Rightarrow> [err]))
     | Inr _ \<Rightarrow> of_result r)))"

definition update_obj :: "('o \<Rightarrow> 'o) \<Rightarrow> ('o guard_state, unit) go" where
  "update_obj f = modify (\<lambda>s. s\<lparr>Obj := f (Obj s)\<rparr>)"

text \<open>The arguments: the update of the metadata, whether a paused object is left alone, what a
  failure to make the patch helper returns, the finalizer, and the two reconciles.\<close>

definition guarded_Reconcile ::
  "libs \<Rightarrow> 'o guard_client \<Rightarrow> kube_kind \<Rightarrow> ('o \<Rightarrow> obj_meta) \<Rightarrow> ((obj_meta \<Rightarrow> obj_meta) \<Rightarrow> 'o \<Rightarrow> 'o) \<Rightarrow> bool \<Rightarrow>
   (go_error \<Rightarrow> go_error + result) \<Rightarrow> string \<Rightarrow> ('o guard_state, unit) go \<Rightarrow> ('o guard_state, unit) go \<Rightarrow>
   string \<Rightarrow> string \<Rightarrow> ('o guard_state, result) go" where
  "guarded_Reconcile L gc kind meta update checkPaused helper_failed finalizer on_delete on_normal ns name =
     bnd (attempt (ext (KGet kind name ns) (\<lambda>h. gc_Get gc h name ns))) (\<lambda>r.
     case r of
       Inl err \<Rightarrow> if gc_IsNotFound gc err then ret done_result else raise err
     | Inr obj \<Rightarrow>
         thn (modify (\<lambda>s. s\<lparr>Obj := obj\<rparr>))
         (if checkPaused \<and> gc_HasPaused gc obj then ret done_result
          else case gc_NewHelper gc obj of
            Inl err \<Rightarrow> of_result (helper_failed err)
          | Inr _ \<Rightarrow>
              deferred_patch gc kind meta
                (let fs = om_Finalizers (meta obj) in
                 if \<not> ContainsFinalizer L fs finalizer \<and> AddFinalizer L fs finalizer \<noteq> fs then
                   thn (update_obj (update (\<lambda>m. m\<lparr>om_Finalizers := AddFinalizer L fs finalizer\<rparr>))) (ret done_result)
                 else if om_Deleting (meta obj) then thn on_delete (ret done_result)
                 else thn on_normal (ret done_result))))"

definition requeue_result :: "go_error \<Rightarrow> go_error + result" where
  "requeue_result err = Inr \<lparr>RequeueAfter = 0, Requeue = True\<rparr>"

text \<open>The end of the three deletions.\<close>

definition finish_deletion ::
  "libs \<Rightarrow> ((obj_meta \<Rightarrow> obj_meta) \<Rightarrow> 'o \<Rightarrow> 'o) \<Rightarrow> (condition_op list \<Rightarrow> 'o \<Rightarrow> 'o) \<Rightarrow> string \<Rightarrow>
   condition_op list \<Rightarrow> condition_op list \<Rightarrow> go_error \<Rightarrow> string list \<Rightarrow> ('o guard_state, unit) go" where
  "finish_deletion L update add_conditions finalizer safe unsafe err usedItems =
     (if usedItems = [] then
        thn (update_obj (add_conditions safe))
          (update_obj (update (\<lambda>m. m\<lparr>om_Finalizers := RemoveFinalizer L (om_Finalizers m) finalizer\<rparr>)))
      else thn (update_obj (add_conditions unsafe)) (raise err))"

section \<open>NutanixFailureDomain\<close>

definition NutanixFailureDomainFinalizer :: string where
  "NutanixFailureDomainFinalizer = ''infrastructure.cluster.x-k8s.io/nutanixfailuredomain''"
definition FailureDomainSafeForDeletionCondition :: string where
  "FailureDomainSafeForDeletionCondition = ''FailureDomainSafeForDeletion''"
definition FailureDomainInUseReason :: string where "FailureDomainInUseReason = ''FailureDomainInUse''"

definition fd_update_meta :: "(obj_meta \<Rightarrow> obj_meta) \<Rightarrow> NutanixFailureDomain \<Rightarrow> NutanixFailureDomain" where
  "fd_update_meta f o1 = o1\<lparr>nfd_Meta := f (nfd_Meta o1)\<rparr>"
definition fd_add_conditions :: "condition_op list \<Rightarrow> NutanixFailureDomain \<Rightarrow> NutanixFailureDomain" where
  "fd_add_conditions cs o1 = o1\<lparr>nfd_Conditions := nfd_Conditions o1 @ cs\<rparr>"

definition mapMachineToNutanixFailureDomain :: "capi_Machine option \<Rightarrow> (string \<times> string) list" where
  "mapMachineToNutanixFailureDomain o1 =
     (case o1 of
        None \<Rightarrow> []
      | Some m \<Rightarrow>
          (let fdName = cm_FailureDomain m in
           if fdName = [] then []
           else if isNutanixMetroFailureDomain fdName \<or> isNutanixMetroSiteFailureDomain fdName then []
           else [(om_Namespace (cm_Meta m), fdName)]))"

definition mapNutanixMetroToNutanixFailureDomain :: "NutanixMetro option \<Rightarrow> (string \<times> string) list" where
  "mapNutanixMetroToNutanixFailureDomain o1 =
     (case o1 of None \<Rightarrow> [] | Some m \<Rightarrow> map (Pair (om_Namespace (nmt_Meta m))) (nmt_FailureDomains m))"

definition mapNutanixMetroSiteToNutanixFailureDomain :: "NutanixMetroSite option \<Rightarrow> (string \<times> string) list" where
  "mapNutanixMetroSiteToNutanixFailureDomain o1 =
     (case o1 of None \<Rightarrow> [] | Some s \<Rightarrow> [(om_Namespace (nms_Meta s), nms_PreferredFailureDomain s)])"

definition fd_usedItems :: "string \<Rightarrow> referrers \<Rightarrow> string list" where
  "fd_usedItems name rf =
     map (\<lambda>m. ''machine:'' @ cm_Name m @ '',cluster:'' @ cm_ClusterName m)
       (filter (\<lambda>m. \<not> cm_Deleting m \<and> cm_FailureDomain m = name) (rf_Machines rf)) @
     map (\<lambda>m. ''nutanixMetro:'' @ om_Name (nmt_Meta m))
       (filter (\<lambda>m. \<not> om_Deleting (nmt_Meta m) \<and> List.member (nmt_FailureDomains m) name) (rf_Metros rf)) @
     map (\<lambda>s. ''nutanixMetroSite:'' @ om_Name (nms_Meta s))
       (filter (\<lambda>s. \<not> om_Deleting (nms_Meta s) \<and> nms_PreferredFailureDomain s = name) (rf_MetroSites rf))"

definition fd_reconcileDelete :: "libs \<Rightarrow> referrers \<Rightarrow> (NutanixFailureDomain guard_state, unit) go" where
  "fd_reconcileDelete L rf =
     bnd (gets (\<lambda>s. om_Name (nfd_Meta (Obj s)))) (\<lambda>name.
     let usedItems = fd_usedItems name rf;
         errMsg = ''The failure domain is used by other resources in the same namespace: '' @ print_list usedItems in
     finish_deletion L fd_update_meta fd_add_conditions NutanixFailureDomainFinalizer
       [MarkTrue FailureDomainSafeForDeletionCondition, SetTrue FailureDomainSafeForDeletionCondition ''Ready'' []]
       [MarkFalse FailureDomainSafeForDeletionCondition FailureDomainInUseReason SeverityError errMsg,
        SetFalse FailureDomainSafeForDeletionCondition FailureDomainInUseReason errMsg]
       (Leaf (''the failure domain '' @ dquote name @ '' is not safe for deletion since it is in use''))
       usedItems)"

definition fd_reconcileNormal :: "(NutanixFailureDomain guard_state, unit) go" where
  "fd_reconcileNormal =
     update_obj (fd_add_conditions [DeleteV1Beta1 FailureDomainSafeForDeletionCondition,
       DeleteV1Beta2 FailureDomainSafeForDeletionCondition])"

definition list_ns ::
  "kube_kind \<Rightarrow> (call list \<Rightarrow> string \<Rightarrow> go_error + 'a list) \<Rightarrow> string \<Rightarrow> ('z world_scheme, 'a list) go" where
  "list_ns kind f ns = ext (KList kind ns []) (\<lambda>h. f h ns)"

definition no_referrers :: referrers where
  "no_referrers = \<lparr>rf_Machines = [], rf_NutanixClusters = [], rf_Metros = [], rf_MetroSites = [], rf_MachineDeployments = []\<rparr>"

definition fd_referrers :: "guard_lists \<Rightarrow> string \<Rightarrow> ('z world_scheme, referrers) go" where
  "fd_referrers gl ns =
     bnd (list_ns KMachine (gl_Machines gl) ns) (\<lambda>machines.
     bnd (list_ns KMetro (gl_Metros gl) ns) (\<lambda>metros.
     bnd (list_ns KMetroSite (gl_MetroSites gl) ns) (\<lambda>sites.
     ret (no_referrers\<lparr>rf_Machines := machines, rf_Metros := metros, rf_MetroSites := sites\<rparr>))))"

definition fd_Reconcile ::
  "libs \<Rightarrow> NutanixFailureDomain guard_client \<Rightarrow> guard_lists \<Rightarrow> string \<Rightarrow> string \<Rightarrow> (NutanixFailureDomain guard_state, result) go" where
  "fd_Reconcile L gc gl =
     guarded_Reconcile L gc KFailureDomain nfd_Meta fd_update_meta False requeue_result NutanixFailureDomainFinalizer
       (bnd (gets (\<lambda>s. om_Namespace (nfd_Meta (Obj s)))) (\<lambda>ns. bnd (fd_referrers gl ns) (fd_reconcileDelete L)))
       fd_reconcileNormal"

section \<open>NutanixMetro\<close>

definition NutanixMetroFinalizer :: string where
  "NutanixMetroFinalizer = ''infrastructure.cluster.x-k8s.io/nutanixmetro''"
definition MetroSafeForDeletionCondition :: string where "MetroSafeForDeletionCondition = ''metroSafeForDeletion''"
definition MetroInUseReason :: string where "MetroInUseReason = ''metroInUse''"
definition MetroNotInUseReason :: string where "MetroNotInUseReason = ''metroNotInUse''"
definition MetroValidatedCondition :: string where "MetroValidatedCondition = ''metroValidated''"
definition MetroMisconfiguredReason :: string where "MetroMisconfiguredReason = ''metroMisconfigured''"
definition MetroSpecValidReason :: string where "MetroSpecValidReason = ''metroSpecValid''"

definition metro_update_meta :: "(obj_meta \<Rightarrow> obj_meta) \<Rightarrow> NutanixMetro \<Rightarrow> NutanixMetro" where
  "metro_update_meta f o1 = o1\<lparr>nmt_Meta := f (nmt_Meta o1)\<rparr>"
definition metro_add_conditions :: "condition_op list \<Rightarrow> NutanixMetro \<Rightarrow> NutanixMetro" where
  "metro_add_conditions cs o1 = o1\<lparr>nmt_Conditions := nmt_Conditions o1 @ cs\<rparr>"

definition failureDomainReferencesMetro :: "string \<Rightarrow> string \<Rightarrow> NutanixMetroSite list \<Rightarrow> bool" where
  "failureDomainReferencesMetro fdStr metroName metroSites =
     (if isNutanixMetroFailureDomain fdStr then drop (length metroFailureDomainPrefix) fdStr = metroName
      else if isNutanixMetroSiteFailureDomain fdStr then
        (let siteName = drop (length metroSiteFailureDomainPrefix) fdStr in
         list_ex (\<lambda>site. om_Name (nms_Meta site) = siteName \<and> nms_MetroRef site = metroName) metroSites)
      else False)"

text \<open>The source repeats the two cases in the loop over the references of the cluster.\<close>

definition nutanixClusterReferencesMetro :: "NutanixCluster \<Rightarrow> string \<Rightarrow> NutanixMetroSite list \<Rightarrow> bool" where
  "nutanixClusterReferencesMetro ncl metroName metroSites =
     list_ex (\<lambda>fdRef.
       if isNutanixMetroFailureDomain fdRef then drop (length metroFailureDomainPrefix) fdRef = metroName
       else if isNutanixMetroSiteFailureDomain fdRef then
         (let siteName = drop (length metroSiteFailureDomainPrefix) fdRef in
          list_ex (\<lambda>site. om_Name (nms_Meta site) = siteName \<and> nms_MetroRef site = metroName) metroSites)
       else False) (ncl_ControlPlaneFailureDomains ncl)"

definition metro_usedItems :: "string \<Rightarrow> referrers \<Rightarrow> string list" where
  "metro_usedItems name rf =
     map (\<lambda>c. ''nutanixCluster:'' @ om_Name (ncl_Meta c))
       (filter (\<lambda>c. \<not> om_Deleting (ncl_Meta c) \<and> nutanixClusterReferencesMetro c name (rf_MetroSites rf)) (rf_NutanixClusters rf)) @
     map (\<lambda>s. ''metroSite:'' @ om_Name (nms_Meta s))
       (filter (\<lambda>s. \<not> om_Deleting (nms_Meta s) \<and> nms_MetroRef s = name) (rf_MetroSites rf)) @
     map (\<lambda>m. ''machine:'' @ cm_Name m @ '',cluster:'' @ cm_ClusterName m)
       (filter (\<lambda>m. \<not> cm_Deleting m \<and> failureDomainReferencesMetro (cm_FailureDomain m) name (rf_MetroSites rf)) (rf_Machines rf)) @
     map (\<lambda>d. ''machineDeployment:'' @ om_Name (md_Meta d) @ '',cluster:'' @ md_ClusterName d)
       (filter (\<lambda>d. \<not> om_Deleting (md_Meta d) \<and> failureDomainReferencesMetro (md_FailureDomain d) name (rf_MetroSites rf))
         (rf_MachineDeployments rf))"

definition metro_reconcileDelete :: "libs \<Rightarrow> referrers \<Rightarrow> (NutanixMetro guard_state, unit) go" where
  "metro_reconcileDelete L rf =
     bnd (gets (\<lambda>s. om_Name (nmt_Meta (Obj s)))) (\<lambda>name.
     let usedItems = metro_usedItems name rf;
         errMsg = ''The NutanixMetro object is referenced by other resources in the same namespace: '' @ print_list usedItems in
     finish_deletion L metro_update_meta metro_add_conditions NutanixMetroFinalizer
       [SetTrue MetroSafeForDeletionCondition MetroNotInUseReason []]
       [SetFalse MetroSafeForDeletionCondition MetroInUseReason errMsg]
       (Leaf (''the NutanixMetro '' @ name @ '' is not safe for deletion since it is in use''))
       usedItems)"

text \<open>The errors of the failure domains that cannot be fetched.\<close>

fun failure_domain_errors :: "kube_client \<Rightarrow> string \<Rightarrow> string list \<Rightarrow> ('z world_scheme, go_error list) go" where
  "failure_domain_errors k ns [] = ret []"
| "failure_domain_errors k ns (fdRef # refs) =
     bnd (attempt (getNutanixFailureDomainObject k fdRef ns)) (\<lambda>r.
     bnd (failure_domain_errors k ns refs) (\<lambda>errs.
     ret (case r of Inl err \<Rightarrow> err # errs | Inr _ \<Rightarrow> errs)))"

definition metro_reconcileNormal ::
  "NutanixMetro guard_client \<Rightarrow> kube_client \<Rightarrow> (NutanixMetro guard_state, unit) go" where
  "metro_reconcileNormal gc k =
     bnd (gets Obj) (\<lambda>metro.
     bnd (failure_domain_errors k (om_Namespace (nmt_Meta metro)) (nmt_FailureDomains metro)) (\<lambda>errs.
     if errs \<noteq> [] then
       (let err = gc_NewAggregate gc errs in
        thn (update_obj (metro_add_conditions [SetFalse MetroValidatedCondition MetroMisconfiguredReason (Error_text err)]))
          (raise err))
     else update_obj (metro_add_conditions [SetTrue MetroValidatedCondition MetroSpecValidReason []])))"

definition metro_referrers :: "guard_lists \<Rightarrow> string \<Rightarrow> ('z world_scheme, referrers) go" where
  "metro_referrers gl ns =
     bnd (list_ns KMachine (gl_Machines gl) ns) (\<lambda>machines.
     bnd (list_ns KNutanixCluster (gl_NutanixClusters gl) ns) (\<lambda>clusters.
     bnd (list_ns KMetroSite (gl_MetroSites gl) ns) (\<lambda>sites.
     bnd (list_ns KMachineDeployment (\<lambda>h n. gl_MachineDeployments gl h n []) ns) (\<lambda>mds.
     ret (no_referrers\<lparr>rf_Machines := machines, rf_NutanixClusters := clusters, rf_MetroSites := sites,
       rf_MachineDeployments := mds\<rparr>)))))"

definition metro_Reconcile ::
  "libs \<Rightarrow> NutanixMetro guard_client \<Rightarrow> kube_client \<Rightarrow> guard_lists \<Rightarrow> string \<Rightarrow> string \<Rightarrow> (NutanixMetro guard_state, result) go" where
  "metro_Reconcile L gc k gl =
     guarded_Reconcile L gc KMetro nmt_Meta metro_update_meta True Inl NutanixMetroFinalizer
       (bnd (gets (\<lambda>s. om_Namespace (nmt_Meta (Obj s)))) (\<lambda>ns. bnd (metro_referrers gl ns) (metro_reconcileDelete L)))
       (metro_reconcileNormal gc k)"

text \<open>The metro a failure domain names, directly or through a site, which is fetched.\<close>

definition metro_request ::
  "(call list \<Rightarrow> string \<Rightarrow> string \<Rightarrow> go_error + NutanixMetroSite) \<Rightarrow> string \<Rightarrow> string \<Rightarrow> ('z world_scheme, string list) go" where
  "metro_request get ns fdStr =
     (if isNutanixMetroFailureDomain fdStr then ret [drop (length metroFailureDomainPrefix) fdStr]
      else if isNutanixMetroSiteFailureDomain fdStr then
        (let siteName = drop (length metroSiteFailureDomainPrefix) fdStr in
         bnd (attempt (ext (KGet KMetroSite siteName ns) (\<lambda>h. get h siteName ns))) (\<lambda>r.
         ret (case r of Inl err \<Rightarrow> [] | Inr site \<Rightarrow> [nms_MetroRef site])))
      else ret [])"

definition mapMachineToNutanixMetro ::
  "kube_client \<Rightarrow> capi_Machine option \<Rightarrow> ('z world_scheme, (string \<times> string) list) go" where
  "mapMachineToNutanixMetro k o1 =
     (case o1 of
        None \<Rightarrow> ret []
      | Some m \<Rightarrow>
          (let ns = om_Namespace (cm_Meta m) in
           bnd (metro_request (Kube_GetMetroSite k) ns (cm_FailureDomain m)) (\<lambda>names. ret (map (Pair ns) names))))"

definition mapMachineDeploymentToNutanixMetro ::
  "kube_client \<Rightarrow> machine_deployment option \<Rightarrow> ('z world_scheme, (string \<times> string) list) go" where
  "mapMachineDeploymentToNutanixMetro k o1 =
     (case o1 of
        None \<Rightarrow> ret []
      | Some d \<Rightarrow>
          (let ns = om_Namespace (md_Meta d) in
           if md_FailureDomain d = [] then ret []
           else bnd (metro_request (Kube_GetMetroSite k) ns (md_FailureDomain d)) (\<lambda>names. ret (map (Pair ns) names))))"

definition mapNutanixMetroSiteToNutanixMetro :: "NutanixMetroSite option \<Rightarrow> (string \<times> string) list" where
  "mapNutanixMetroSiteToNutanixMetro o1 =
     (case o1 of None \<Rightarrow> [] | Some s \<Rightarrow> [(om_Namespace (nms_Meta s), nms_MetroRef s)])"

text \<open>The references of the control plane and then of the MachineDeployments; the requests of
  the source are in the order of a Go map, here in the order in which they are found.\<close>

definition mapNutanixClusterToNutanixMetro ::
  "kube_client \<Rightarrow> guard_lists \<Rightarrow> NutanixCluster option \<Rightarrow> ('z world_scheme, (string \<times> string) list) go" where
  "mapNutanixClusterToNutanixMetro k gl o1 =
     (case o1 of
        None \<Rightarrow> ret []
      | Some ncl \<Rightarrow>
          (let ns = om_Namespace (ncl_Meta ncl); l = [(ClusterNameLabel, om_Name (ncl_Meta ncl))] in
           bnd (map_go (metro_request (Kube_GetMetroSite k) ns) (ncl_ControlPlaneFailureDomains ncl)) (\<lambda>cp.
           bnd (attempt (ext (KList KMachineDeployment ns l) (\<lambda>h. gl_MachineDeployments gl h ns l))) (\<lambda>r.
           bnd (case r of
                  Inl err \<Rightarrow> ret []
                | Inr mds \<Rightarrow> map_go (\<lambda>d. metro_request (Kube_GetMetroSite k) ns (md_FailureDomain d)) mds) (\<lambda>workers.
           ret (map (Pair ns) (remdups (concat cp @ concat workers))))))))"

section \<open>NutanixMetroSite\<close>

definition NutanixMetroSiteFinalizer :: string where
  "NutanixMetroSiteFinalizer = ''infrastructure.cluster.x-k8s.io/nutanixmetrosite''"
definition MetroSiteSafeForDeletionCondition :: string where
  "MetroSiteSafeForDeletionCondition = ''metroSiteSafeForDeletion''"
definition MetroSiteInUseReason :: string where "MetroSiteInUseReason = ''metroSiteInUse''"
definition MetroSiteNotInUseReason :: string where "MetroSiteNotInUseReason = ''metroSiteNotInUse''"
definition MetroSiteValidatedCondition :: string where "MetroSiteValidatedCondition = ''metroSiteValidated''"
definition MetroSiteMisconfiguredReason :: string where "MetroSiteMisconfiguredReason = ''metroSiteMisconfigured''"
definition MetroSiteSpecValidReason :: string where "MetroSiteSpecValidReason = ''metroSiteSpecValid''"

definition site_update_meta :: "(obj_meta \<Rightarrow> obj_meta) \<Rightarrow> NutanixMetroSite \<Rightarrow> NutanixMetroSite" where
  "site_update_meta f o1 = o1\<lparr>nms_Meta := f (nms_Meta o1)\<rparr>"
definition site_add_conditions :: "condition_op list \<Rightarrow> NutanixMetroSite \<Rightarrow> NutanixMetroSite" where
  "site_add_conditions cs o1 = o1\<lparr>nms_Conditions := nms_Conditions o1 @ cs\<rparr>"

text \<open>The failure domain names this site.\<close>

definition names_site :: "string \<Rightarrow> string \<Rightarrow> bool" where
  "names_site name fdStr =
     (isNutanixMetroSiteFailureDomain fdStr \<and> drop (length metroSiteFailureDomainPrefix) fdStr = name)"

definition site_usedItems :: "string \<Rightarrow> referrers \<Rightarrow> string list" where
  "site_usedItems name rf =
     map (\<lambda>m. ''machine:'' @ cm_Name m @ '',cluster:'' @ cm_ClusterName m)
       (filter (\<lambda>m. \<not> cm_Deleting m \<and> names_site name (cm_FailureDomain m)) (rf_Machines rf)) @
     map (\<lambda>d. ''machineDeployment:'' @ om_Name (md_Meta d) @ '',cluster:'' @ md_ClusterName d)
       (filter (\<lambda>d. \<not> om_Deleting (md_Meta d) \<and> names_site name (md_FailureDomain d)) (rf_MachineDeployments rf)) @
     map (\<lambda>c. ''nutanixCluster:'' @ om_Name (ncl_Meta c))
       (filter (\<lambda>c. \<not> om_Deleting (ncl_Meta c) \<and> list_ex (names_site name) (ncl_ControlPlaneFailureDomains c))
         (rf_NutanixClusters rf))"

definition site_reconcileDelete :: "libs \<Rightarrow> referrers \<Rightarrow> (NutanixMetroSite guard_state, unit) go" where
  "site_reconcileDelete L rf =
     bnd (gets (\<lambda>s. om_Name (nms_Meta (Obj s)))) (\<lambda>name.
     let usedItems = site_usedItems name rf;
         errMsg = ''The NutanixMetroSite object is referenced by Machines in the same namespace: '' @ print_list usedItems in
     finish_deletion L site_update_meta site_add_conditions NutanixMetroSiteFinalizer
       [SetTrue MetroSiteSafeForDeletionCondition MetroSiteNotInUseReason []]
       [SetFalse MetroSiteSafeForDeletionCondition MetroSiteInUseReason errMsg]
       (Leaf (''the NutanixMetroSite '' @ name @ '' is not safe for deletion since it is in use''))
       usedItems)"

text \<open>The checks of reconcileNormal, and the condition its deferred function sets.\<close>

definition check_site :: "kube_client \<Rightarrow> NutanixMetroSite \<Rightarrow> ('z world_scheme, unit) go" where
  "check_site k site =
     (let ns = om_Namespace (nms_Meta site); preferred = nms_PreferredFailureDomain site in
      bnd (getNutanixMetroObject k (nms_MetroRef site) ns) (\<lambda>metroObj.
      thn (getNutanixFailureDomainObject k preferred ns)
        (if List.member (nmt_FailureDomains metroObj) preferred then ret ()
         else raise (Leaf (''metroSite spec.preferredFailureDomain '' @ preferred @
                '' is not in the referred NutanixMetro's failureDomains: '' @
                print_list (map (\<lambda>n. ''{Name:'' @ n @ ''}'') (nmt_FailureDomains metroObj)))))))"

definition site_reconcileNormal :: "kube_client \<Rightarrow> (NutanixMetroSite guard_state, unit) go" where
  "site_reconcileNormal k =
     bnd (gets Obj) (\<lambda>site.
     bnd (attempt (check_site k site)) (\<lambda>r.
     case r of
       Inl reterr \<Rightarrow>
         thn (update_obj (site_add_conditions [SetFalse MetroSiteValidatedCondition MetroSiteMisconfiguredReason (Error_text reterr)]))
           (raise reterr)
     | Inr _ \<Rightarrow> update_obj (site_add_conditions [SetTrue MetroSiteValidatedCondition MetroSiteSpecValidReason []])))"

definition site_referrers :: "guard_lists \<Rightarrow> string \<Rightarrow> ('z world_scheme, referrers) go" where
  "site_referrers gl ns =
     bnd (list_ns KMachine (gl_Machines gl) ns) (\<lambda>machines.
     bnd (list_ns KMachineDeployment (\<lambda>h n. gl_MachineDeployments gl h n []) ns) (\<lambda>mds.
     bnd (list_ns KNutanixCluster (gl_NutanixClusters gl) ns) (\<lambda>clusters.
     ret (no_referrers\<lparr>rf_Machines := machines, rf_MachineDeployments := mds, rf_NutanixClusters := clusters\<rparr>))))"

definition site_Reconcile ::
  "libs \<Rightarrow> NutanixMetroSite guard_client \<Rightarrow> kube_client \<Rightarrow> guard_lists \<Rightarrow> string \<Rightarrow> string \<Rightarrow> (NutanixMetroSite guard_state, result) go" where
  "site_Reconcile L gc k gl =
     guarded_Reconcile L gc KMetroSite nms_Meta site_update_meta True requeue_result NutanixMetroSiteFinalizer
       (bnd (gets (\<lambda>s. om_Namespace (nms_Meta (Obj s)))) (\<lambda>ns. bnd (site_referrers gl ns) (site_reconcileDelete L)))
       (site_reconcileNormal k)"

definition site_request :: "string \<Rightarrow> string \<Rightarrow> (string \<times> string) list" where
  "site_request ns fdStr =
     (if \<not> isNutanixMetroSiteFailureDomain fdStr then [] else [(ns, drop (length metroSiteFailureDomainPrefix) fdStr)])"

definition mapMachineToNutanixMetroSite :: "capi_Machine option \<Rightarrow> (string \<times> string) list" where
  "mapMachineToNutanixMetroSite o1 =
     (case o1 of None \<Rightarrow> [] | Some m \<Rightarrow> site_request (om_Namespace (cm_Meta m)) (cm_FailureDomain m))"

definition mapMachineDeploymentToNutanixMetroSite :: "machine_deployment option \<Rightarrow> (string \<times> string) list" where
  "mapMachineDeploymentToNutanixMetroSite o1 =
     (case o1 of None \<Rightarrow> [] | Some d \<Rightarrow> site_request (om_Namespace (md_Meta d)) (md_FailureDomain d))"

definition mapNutanixClusterToNutanixMetroSite ::
  "guard_lists \<Rightarrow> NutanixCluster option \<Rightarrow> ('z world_scheme, (string \<times> string) list) go" where
  "mapNutanixClusterToNutanixMetroSite gl o1 =
     (case o1 of
        None \<Rightarrow> ret []
      | Some ncl \<Rightarrow>
          (let ns = om_Namespace (ncl_Meta ncl); l = [(ClusterNameLabel, om_Name (ncl_Meta ncl))] in
           bnd (attempt (ext (KList KMachineDeployment ns l) (\<lambda>h. gl_MachineDeployments gl h ns l))) (\<lambda>r.
           ret (remdups (concat (map (site_request ns) (ncl_ControlPlaneFailureDomains ncl)) @
             (case r of Inl err \<Rightarrow> [] | Inr mds \<Rightarrow> concat (map (\<lambda>d. site_request ns (md_FailureDomain d)) mds)))))))"

section \<open>The contract of a guarded deletion\<close>

text \<open>A deletion makes no request; without referrers it removes the finalizer and succeeds, with
  referrers it fails and keeps the finalizers.  The name stays.\<close>

locale guarded_deletion =
  fixes meta :: "'o \<Rightarrow> obj_meta"
    and reconcile_delete :: "libs \<Rightarrow> referrers \<Rightarrow> ('o guard_state, unit) go"
    and used :: "string \<Rightarrow> referrers \<Rightarrow> string list"
    and finalizer :: string
  assumes deletion: "reconcile_delete L rf s = (r, s') \<Longrightarrow>
    trace s' = trace s \<and> om_Name (meta (Obj s')) = om_Name (meta (Obj s)) \<and>
    (if used (om_Name (meta (Obj s))) rf = []
     then r = Inr () \<and> om_Finalizers (meta (Obj s')) = RemoveFinalizer L (om_Finalizers (meta (Obj s))) finalizer
     else (\<exists>e. r = Inl e) \<and> om_Finalizers (meta (Obj s')) = om_Finalizers (meta (Obj s)))"
begin

lemma removed_only_unused:
  assumes "reconcile_delete L rf s = (r, s')"
    and "om_Finalizers (meta (Obj s')) \<noteq> om_Finalizers (meta (Obj s))"
  shows "used (om_Name (meta (Obj s))) rf = [] \<and> r = Inr ()"
  using deletion [OF assms(1)] assms(2) by (auto split: if_splits)

lemma kept_when_used:
  assumes "used (om_Name (meta (Obj s))) rf \<noteq> []"
  shows "\<exists>e s'. reconcile_delete L rf s = (Inl e, s') \<and> om_Finalizers (meta (Obj s')) = om_Finalizers (meta (Obj s))"
proof -
  obtain r s' where "reconcile_delete L rf s = (r, s')" by force
  with deletion [OF this] assms show ?thesis by auto
qed

lemma removed_when_unused:
  assumes "used (om_Name (meta (Obj s))) rf = []" "finalizer_laws L"
  shows "\<exists>s'. reconcile_delete L rf s = (Inr (), s') \<and> finalizer \<notin> set (om_Finalizers (meta (Obj s')))"
proof -
  obtain r s' where "reconcile_delete L rf s = (r, s')" by force
  with deletion [OF this] assms show ?thesis by (auto simp: finalizer_laws_def)
qed

text \<open>The same for the frame: when a reconcile removes the finalizer of the object it fetched,
  the object was being deleted and the lists it read hold no referrer.\<close>

lemma frame_guard:
  assumes run: "guarded_Reconcile L gc kind meta update cp hf finalizer
      (bnd (gets (\<lambda>s. om_Namespace (meta (Obj s)))) (\<lambda>ns. bnd (referrers_of ns) (reconcile_delete L))) on_normal ns name s = (r, s')"
    and get: "gc_Get gc (trace s) name ns = Inr o1"
    and fin: "finalizer \<in> set (om_Finalizers (meta o1))" "finalizer \<notin> set (om_Finalizers (meta (Obj s')))"
    and laws: "finalizer_laws L"
    and normal: "\<And>t q t'. on_normal t = (q, t') \<Longrightarrow> om_Finalizers (meta (Obj t')) = om_Finalizers (meta (Obj t))"
    and lists: "\<And>n t q t'. referrers_of n t = (q, t') \<Longrightarrow> Obj t' = Obj t"
  shows "om_Deleting (meta o1) \<and> (\<exists>rf t t'. referrers_of (om_Namespace (meta o1)) t = (Inr rf, t') \<and> used (om_Name (meta o1)) rf = [])"
proof -
  let ?t = "s\<lparr>trace := trace s @ [KGet kind name ns], Obj := o1\<rparr>"
  let ?del = "bnd (gets (\<lambda>s. om_Namespace (meta (Obj s)))) (\<lambda>ns. bnd (referrers_of ns) (reconcile_delete L))"
  have c: "ContainsFinalizer L (om_Finalizers (meta o1)) finalizer" using fin(1) laws by (auto simp: finalizer_laws_def)
  have final: "Obj s' = Obj (snd ((if om_Deleting (meta o1) then thn ?del (ret done_result) else thn on_normal (ret done_result)) ?t)) \<or> Obj s' = o1"
    using run get c
    by (auto simp: guarded_Reconcile_def deferred_patch_def go_eval split: if_split_asm sum.split_asm prod.split_asm)
  show ?thesis
  proof (cases "om_Deleting (meta o1)")
    case False
    obtain q t' where n: "on_normal ?t = (q, t')" by force
    with final False have "Obj s' = Obj t' \<or> Obj s' = o1" by (auto simp: thn_apply ret_apply split: sum.splits)
    with normal [OF n] fin show ?thesis by auto
  next
    case True
    obtain q t1 where l: "referrers_of (om_Namespace (meta o1)) ?t = (q, t1)" by force
    have o1: "Obj t1 = o1" using lists [OF l] by simp
    show ?thesis
    proof (cases q)
      case (Inl e)
      with final True l o1 have "Obj s' = o1" by (auto simp: thn_apply bnd_apply gets_apply)
      with fin show ?thesis by simp
    next
      case (Inr rf)
      obtain q2 t2 where d: "reconcile_delete L rf t1 = (q2, t2)" by force
      with final True l Inr have "Obj s' = Obj t2 \<or> Obj s' = o1"
        by (auto simp: thn_apply bnd_apply gets_apply ret_apply split: sum.splits)
      with fin o1 have "om_Finalizers (meta (Obj t2)) \<noteq> om_Finalizers (meta (Obj t1))" by auto
      with removed_only_unused [OF d] o1 l Inr True show ?thesis by auto
    qed
  qed
qed

end

lemmas finish_eval = finish_deletion_def update_obj_def Let_def go_eval

interpretation fd_guard: guarded_deletion nfd_Meta fd_reconcileDelete fd_usedItems NutanixFailureDomainFinalizer
  by unfold_locales (auto simp: fd_reconcileDelete_def finish_eval fd_update_meta_def fd_add_conditions_def split: if_split_asm)

interpretation metro_guard: guarded_deletion nmt_Meta metro_reconcileDelete metro_usedItems NutanixMetroFinalizer
  by unfold_locales (auto simp: metro_reconcileDelete_def finish_eval metro_update_meta_def metro_add_conditions_def split: if_split_asm)

interpretation site_guard: guarded_deletion nms_Meta site_reconcileDelete site_usedItems NutanixMetroSiteFinalizer
  by unfold_locales (auto simp: site_reconcileDelete_def finish_eval site_update_meta_def site_add_conditions_def split: if_split_asm)

section \<open>Properties\<close>

lemma only_Obj: "moves (only_calls A) m \<Longrightarrow> m s = (r, s') \<Longrightarrow> Obj s' = Obj s"
  using movesD by (fastforce simp: only_calls_def)

lemma fd_referrers_only: "moves (only_calls is_read) (fd_referrers gl ns)"
  unfolding fd_referrers_def list_ns_def by (intro only_rules; simp)

lemma metro_referrers_only: "moves (only_calls is_read) (metro_referrers gl ns)"
  unfolding metro_referrers_def list_ns_def by (intro only_rules; simp)

lemma site_referrers_only: "moves (only_calls is_read) (site_referrers gl ns)"
  unfolding site_referrers_def list_ns_def by (intro only_rules; simp)

lemma failure_domain_errors_only: "moves (only_calls is_read) (failure_domain_errors k ns refs)"
  by (induction refs) (auto intro!: only_rules getObject_only split: sum.split)

lemma metro_normal_keeps:
  assumes "metro_reconcileNormal gc k t = (q, t')"
  shows "om_Finalizers (nmt_Meta (Obj t')) = om_Finalizers (nmt_Meta (Obj t))"
proof -
  obtain r t1 where e: "failure_domain_errors k (om_Namespace (nmt_Meta (Obj t))) (nmt_FailureDomains (Obj t)) t = (r, t1)" by force
  have "Obj t1 = Obj t" by (rule only_Obj [OF failure_domain_errors_only e])
  with assms e show ?thesis
    by (auto simp: metro_reconcileNormal_def go_eval Let_def update_obj_def metro_add_conditions_def
        split: if_split_asm sum.split_asm)
qed

text \<open>C12 A metro is guarded: when a reconcile removes the finalizer of the metro it fetched, the
  metro was being deleted and, in the lists the reconcile read, no NutanixCluster, MetroSite,
  Machine or MachineDeployment that is not being deleted itself refers to it.\<close>

theorem metro_finalizer_guard:
  assumes run: "metro_Reconcile L gc k gl ns name s = (r, s')" and get: "gc_Get gc (trace s) name ns = Inr o1"
    and laws: "finalizer_laws L"
    and fin: "NutanixMetroFinalizer \<in> set (om_Finalizers (nmt_Meta o1))"
      "NutanixMetroFinalizer \<notin> set (om_Finalizers (nmt_Meta (Obj s')))"
  shows "om_Deleting (nmt_Meta o1) \<and> (\<exists>rf t t'. metro_referrers gl (om_Namespace (nmt_Meta o1)) (t :: NutanixMetro guard_state) = (Inr rf, t') \<and>
    (let n = om_Name (nmt_Meta o1); sites = rf_MetroSites rf in
     (\<forall>c\<in>set (rf_NutanixClusters rf). \<not> om_Deleting (ncl_Meta c) \<longrightarrow> \<not> nutanixClusterReferencesMetro c n sites) \<and>
     (\<forall>x\<in>set sites. \<not> om_Deleting (nms_Meta x) \<longrightarrow> nms_MetroRef x \<noteq> n) \<and>
     (\<forall>m\<in>set (rf_Machines rf). \<not> cm_Deleting m \<longrightarrow> \<not> failureDomainReferencesMetro (cm_FailureDomain m) n sites) \<and>
     (\<forall>d\<in>set (rf_MachineDeployments rf). \<not> om_Deleting (md_Meta d) \<longrightarrow> \<not> failureDomainReferencesMetro (md_FailureDomain d) n sites)))"
proof -
  have "om_Deleting (nmt_Meta o1) \<and> (\<exists>rf t t'. metro_referrers gl (om_Namespace (nmt_Meta o1)) (t :: NutanixMetro guard_state) = (Inr rf, t') \<and>
      metro_usedItems (om_Name (nmt_Meta o1)) rf = [])"
    by (rule metro_guard.frame_guard [OF run [unfolded metro_Reconcile_def] get fin laws])
      (erule metro_normal_keeps, erule only_Obj [OF metro_referrers_only])
  then obtain rf and t t' :: "NutanixMetro guard_state" where "om_Deleting (nmt_Meta o1)" and l: "metro_referrers gl (om_Namespace (nmt_Meta o1)) t = (Inr rf, t')"
    and u: "metro_usedItems (om_Name (nmt_Meta o1)) rf = []" by blast
  then show ?thesis
    by (intro conjI exI [of _ rf] exI [of _ t] exI [of _ t']) (auto simp: metro_usedItems_def Let_def filter_empty_conv)
qed

text \<open>A metro that is being deleted, and the rest of its namespace.\<close>

definition old_metro :: NutanixMetro where
  "old_metro = \<lparr>nmt_Meta = (sample_meta ''metro'')\<lparr>om_Finalizers := [NutanixMetroFinalizer], om_Deleting := True\<rparr>,
     nmt_FailureDomains = [''a'', ''b''], nmt_Conditions = []\<rparr>"

definition metro_gc :: "NutanixMetro guard_client" where
  "metro_gc = \<lparr>gc_Get = (\<lambda>h n ns. Inr old_metro), gc_IsNotFound = (\<lambda>e. False), gc_HasPaused = (\<lambda>o1. False),
     gc_NewHelper = (\<lambda>o1. Inr ()), gc_Patch = (\<lambda>h o1. Inr ()), gc_NewAggregate = Join_err\<rparr>"

definition lists_of :: "capi_Machine list \<Rightarrow> guard_lists" where
  "lists_of ms = \<lparr>gl_Machines = (\<lambda>h ns. Inr ms), gl_NutanixClusters = (\<lambda>h ns. Inr [sample_NutanixCluster]),
     gl_Metros = (\<lambda>h ns. Inr [old_metro]), gl_MetroSites = (\<lambda>h ns. Inr []), gl_MachineDeployments = (\<lambda>h ns l. Inr [])\<rparr>"

definition metro_start :: "NutanixMetro guard_state" where "metro_start = \<lparr>trace = [], Obj = old_metro\<rparr>"

lemma metro_guard_sample:
  "NutanixMetroFinalizer \<notin> set (om_Finalizers (nmt_Meta (Obj (snd (metro_Reconcile demo_libs metro_gc base_kube_client
     (lists_of [sample_Machine ''m'' ''NutanixMetro/other'']) ''ns'' ''metro'' metro_start)))))"
  by code_simp

lemma metro_finalizer_guard_witness:
  "\<exists>rf t t'. metro_referrers (lists_of [sample_Machine ''m'' ''NutanixMetro/other'']) ''ns'' (t :: NutanixMetro guard_state) = (Inr rf, t') \<and>
     (\<forall>m\<in>set (rf_Machines rf). \<not> cm_Deleting m \<longrightarrow>
        \<not> failureDomainReferencesMetro (cm_FailureDomain m) ''metro'' (rf_MetroSites rf))"
proof -
  obtain r s' where run: "metro_Reconcile demo_libs metro_gc base_kube_client (lists_of [sample_Machine ''m'' ''NutanixMetro/other''])
    ''ns'' ''metro'' metro_start = (r, s')" by force
  have "gc_Get metro_gc (trace metro_start) ''metro'' ''ns'' = Inr old_metro" by (simp add: metro_gc_def)
  from metro_finalizer_guard [OF run this demo_finalizer_laws] metro_guard_sample run
  show ?thesis by (auto simp: old_metro_def sample_meta_def Let_def)
qed


definition live_site :: NutanixMetroSite where
  "live_site = \<lparr>nms_Meta = sample_meta ''site'', nms_PreferredFailureDomain = ''a'', nms_MetroRef = ''metro'',
     nms_GroupNameLabel = None, nms_Conditions = []\<rparr>"

definition live_metro :: NutanixMetro where
  "live_metro = \<lparr>nmt_Meta = (sample_meta ''metro'')\<lparr>om_Finalizers := [NutanixMetroFinalizer]\<rparr>,
     nmt_FailureDomains = [''a'', ''b''], nmt_Conditions = []\<rparr>"


text \<open>C39 A metro that is being deleted does not protect its failure domains: while a machine
  still uses the metro, the metro stays, held by its finalizer, but the deletion of its failure
  domains is not refused any more, and their finalizers are removed.\<close>

theorem deleting_metro_exposes_failure_domains:
  assumes m: "m \<in> set (rf_Machines rf)" "\<not> cm_Deleting m" "cm_FailureDomain m = metroFailureDomainPrefix @ om_Name (nmt_Meta metro)"
    and metro: "om_Deleting (nmt_Meta metro)" "om_Name (nfd_Meta fd) \<in> set (nmt_FailureDomains metro)"
    and others: "\<forall>x\<in>set (rf_Machines rf). cm_FailureDomain x \<noteq> om_Name (nfd_Meta fd)"
      "\<forall>x\<in>set (rf_Metros rf). x = metro \<or> om_Name (nfd_Meta fd) \<notin> set (nmt_FailureDomains x)"
      "\<forall>x\<in>set (rf_MetroSites rf). nms_PreferredFailureDomain x \<noteq> om_Name (nfd_Meta fd)"
    and laws: "finalizer_laws L"
  shows "\<exists>e s1 s2. metro_reconcileDelete L rf \<lparr>trace = tr, Obj = metro\<rparr> = (Inl e, s1) \<and>
    om_Finalizers (nmt_Meta (Obj s1)) = om_Finalizers (nmt_Meta metro) \<and>
    fd_reconcileDelete L rf \<lparr>trace = tr, Obj = fd\<rparr> = (Inr (), s2) \<and>
    NutanixFailureDomainFinalizer \<notin> set (om_Finalizers (nfd_Meta (Obj s2)))"
proof -
  have "failureDomainReferencesMetro (cm_FailureDomain m) (om_Name (nmt_Meta metro)) (rf_MetroSites rf)"
    unfolding m(3) by (simp add: failureDomainReferencesMetro_def isNutanixMetroFailureDomain_def)
  with m have u: "metro_usedItems (om_Name (nmt_Meta metro)) rf \<noteq> []"
    by (auto simp: metro_usedItems_def filter_empty_conv)
  have f: "fd_usedItems (om_Name (nfd_Meta fd)) rf = []"
    using metro others by (auto simp: fd_usedItems_def filter_empty_conv List.member_iff)
  from metro_guard.kept_when_used [of "\<lparr>trace = tr, Obj = metro\<rparr>" rf L] u
    fd_guard.removed_when_unused [of "\<lparr>trace = tr, Obj = fd\<rparr>" rf L] f laws
  show ?thesis by simp
qed

lemma deleting_metro_exposes_failure_domains_witness:
  "\<exists>e s1 s2. metro_reconcileDelete demo_libs (no_referrers\<lparr>rf_Machines := [sample_Machine ''m'' ''NutanixMetro/metro''],
       rf_Metros := [old_metro]\<rparr>) \<lparr>trace = [], Obj = old_metro\<rparr> = (Inl e, s1) \<and>
     fd_reconcileDelete demo_libs (no_referrers\<lparr>rf_Machines := [sample_Machine ''m'' ''NutanixMetro/metro''],
       rf_Metros := [old_metro]\<rparr>) \<lparr>trace = [], Obj = sample_fd ''a''\<rparr> = (Inr (), s2)"
proof -
  let ?rf = "no_referrers\<lparr>rf_Machines := [sample_Machine ''m'' ''NutanixMetro/metro''], rf_Metros := [old_metro]\<rparr>"
  have "cm_FailureDomain (sample_Machine ''m'' ''NutanixMetro/metro'') = metroFailureDomainPrefix @ om_Name (nmt_Meta old_metro)"
    by code_simp
  from deleting_metro_exposes_failure_domains [of "sample_Machine ''m'' ''NutanixMetro/metro''" ?rf old_metro "sample_fd ''a''" demo_libs "[]",
      OF _ _ this _ _ _ _ _ demo_finalizer_laws]
  show ?thesis by (simp add: no_referrers_def old_metro_def sample_Machine_def sample_fd_def sample_meta_def) blast
qed

end
