(* ===== verification/Client.thy ===== *)
theory Client
  imports Task_Errors Machine_Context
begin

text \<open>
  The package pkg/client: waiting for a task of Prism Central (status.go) and the management
  endpoint of a cluster (client.go, cache.go), with the two functions of controllers/helpers.go
  that make the clients of a NutanixCluster from it.

  The record client_env holds what the package takes from outside: the file of the manager, its
  JSON decoder, the environment variable POD_NAMESPACE, the environment library and the caches
  of clients.  The functions of the source write into the NutanixCluster they get (namespaces
  and conditions); here they return the cluster after them.
\<close>

section \<open>Tasks\<close>

definition GetTaskStatus :: "v3_client \<Rightarrow> string \<Rightarrow> ('z world_scheme, string) go" where
  "GetTaskStatus client uuid =
     bnd (ext (PGet RTask uuid) (\<lambda>h. V3_GetTask client h uuid)) (\<lambda>v.
     case tv_Status v of
       None \<Rightarrow> raise (Leaf (''task with UUID '' @ uuid @ '' returned a nil status''))
     | Some status \<Rightarrow>
         if status = ''INVALID_UUID'' \<or> status = ''FAILED'' then
           raise (Leaf (''error_detail: '' @ Deref (tv_ErrorDetail v) [] @ '', progress_message: '' @
             Deref (tv_ProgressMessage v) []))
         else ret status)"

definition statusSucceeded :: string where "statusSucceeded = ''SUCCEEDED''"

text \<open>wait.PollUntilContextCancel, immediately and then every two seconds: polls is the number of
  times the condition is evaluated before the context is cancelled.\<close>

fun WaitForTaskToSucceed :: "nat \<Rightarrow> v3_client \<Rightarrow> string \<Rightarrow> ('z world_scheme, unit) go" where
  "WaitForTaskToSucceed 0 client uuid = raise (Lib_error ''context canceled'' False)"
| "WaitForTaskToSucceed (Suc polls) client uuid =
     bnd (GetTaskStatus client uuid) (\<lambda>status.
     if status = statusSucceeded then ret () else WaitForTaskToSucceed polls client uuid)"

section \<open>The management endpoint\<close>

datatype management_endpoint = ManagementEndpoint NutanixPrismEndpoint

record client_env =
  env_ReadFile :: "string \<Rightarrow> go_error + string"
  env_Unmarshal :: "string \<Rightarrow> go_error + NutanixPrismEndpoint"
  env_Getenv :: "string \<Rightarrow> string"
  env_GetManagementEndpoint :: "NutanixPrismEndpoint list \<Rightarrow> go_error + management_endpoint"
  env_V3Cache :: "string \<Rightarrow> management_endpoint \<Rightarrow> go_error + v3_client"
  env_ConvergedCache :: "string \<Rightarrow> management_endpoint \<Rightarrow> go_error + v4_client"

definition capxNamespaceKey :: string where "capxNamespaceKey = ''POD_NAMESPACE''"
definition configPath :: string where "configPath = ''/etc/nutanix/config/prismCentral''"
definition ErrPrismAddressNotSet :: go_error where
  "ErrPrismAddressNotSet = Leaf ''cannot get credentials if Prism Address is not set''"
definition ErrPrismPortNotSet :: go_error where
  "ErrPrismPortNotSet = Leaf ''cannot get credentials if Prism Port is not set''"
definition ErrCredentialRefNotSet :: go_error where
  "ErrCredentialRefNotSet = Leaf ''credentialRef must be set on CAPX manager''"

definition readManagerNutanixPrismEndpointFromFile :: "client_env \<Rightarrow> string \<Rightarrow> go_error + NutanixPrismEndpoint" where
  "readManagerNutanixPrismEndpointFromFile env configFile =
     (case env_ReadFile env configFile of
        Inl err \<Rightarrow> Inl (Wrap ''failed to read prism config in manager: '' err [])
      | Inr config \<Rightarrow>
          (case env_Unmarshal env config of
             Inl err \<Rightarrow> Inl (Wrap ''failed to unmarshal config: '' err [])
           | Inr npe \<Rightarrow> if pe_CredentialRef npe = None then Inl ErrCredentialRefNotSet else Inr npe))"

definition readManagerNutanixPrismEndpointFromDefaultFile :: "client_env \<Rightarrow> go_error + NutanixPrismEndpoint" where
  "readManagerNutanixPrismEndpointFromDefaultFile env = readManagerNutanixPrismEndpointFromFile env configPath"

text \<open>The namespace of the manager, asked for when a namespace is empty.\<close>

definition capx_namespace :: "client_env \<Rightarrow> string \<Rightarrow> go_error + string" where
  "capx_namespace env ns =
     (if ns \<noteq> [] then Inr ns
      else if env_Getenv env capxNamespaceKey = []
      then Inl (Leaf (''failed to retrieve capx-namespace. Make sure '' @ capxNamespaceKey @ '' env variable is set''))
      else Inr (env_Getenv env capxNamespaceKey))"

definition buildProviderFromFile :: "client_env \<Rightarrow> go_error + NutanixPrismEndpoint" where
  "buildProviderFromFile env =
     (case readManagerNutanixPrismEndpointFromDefaultFile env of
        Inl err \<Rightarrow> Inl (Wrap ''failed to create prism endpoint: '' err [])
      | Inr npe \<Rightarrow>
          rbnd (rderef (pe_CredentialRef npe)) (\<lambda>ref.
          rbnd (capx_namespace env (cr_Namespace ref)) (\<lambda>ns.
          let npe = npe\<lparr>pe_CredentialRef := Some (ref\<lparr>cr_Namespace := ns\<rparr>)\<rparr> in
          case pe_AdditionalTrustBundle npe of
            None \<Rightarrow> Inr npe
          | Some tb \<Rightarrow>
              rbnd (capx_namespace env (tb_Namespace tb)) (\<lambda>ns.
              Inr (npe\<lparr>pe_AdditionalTrustBundle := Some (tb\<lparr>tb_Namespace := ns\<rparr>)\<rparr>)))))"

text \<open>Empty namespaces are the one of the cluster.\<close>

definition fill_namespace :: "NutanixCluster \<Rightarrow> string \<Rightarrow> string" where
  "fill_namespace ncl ns = (if ns = [] then om_Namespace (ncl_Meta ncl) else ns)"

definition filled_endpoint ::
  "NutanixCluster \<Rightarrow> NutanixPrismEndpoint \<Rightarrow> NutanixCredentialReference \<Rightarrow> NutanixPrismEndpoint" where
  "filled_endpoint ncl info ref =
     info\<lparr>pe_CredentialRef := Some (ref\<lparr>cr_Namespace := fill_namespace ncl (cr_Namespace ref)\<rparr>),
          pe_AdditionalTrustBundle := map_option (\<lambda>tb. if tb_Kind tb = TrustBundleConfigMap
            then tb\<lparr>tb_Namespace := fill_namespace ncl (tb_Namespace tb)\<rparr> else tb) (pe_AdditionalTrustBundle info)\<rparr>"

text \<open>The provider of a NutanixCluster (None if it has no prismCentral) and the cluster with the
  namespaces filled in.\<close>

definition buildProviderFromNutanixCluster ::
  "NutanixCluster \<Rightarrow> (go_error + NutanixPrismEndpoint option) \<times> NutanixCluster" where
  "buildProviderFromNutanixCluster ncl =
     (case ncl_PrismCentral ncl of
        None \<Rightarrow> (Inr None, ncl)
      | Some info \<Rightarrow>
          if pe_Address info = [] then (Inl ErrPrismAddressNotSet, ncl)
          else if pe_Port info = 0 then (Inl ErrPrismPortNotSet, ncl)
          else (case rbnd (GetPrismCentralCredentialRef ncl) rderef of
                  Inl err \<Rightarrow> (Inl err, ncl)
                | Inr ref \<Rightarrow>
                    (let info = filled_endpoint ncl info ref in (Inr (Some info), ncl\<lparr>ncl_PrismCentral := Some info\<rparr>))))"

definition BuildManagementEndpoint ::
  "client_env \<Rightarrow> NutanixCluster \<Rightarrow> (go_error + management_endpoint) \<times> NutanixCluster" where
  "BuildManagementEndpoint env ncl =
     (case buildProviderFromNutanixCluster ncl of
        (Inl err, ncl) \<Rightarrow>
          (Inl (if err = NilDeref then NilDeref
                else Wrap ''error building an environment provider from NutanixCluster: '' err []), ncl)
      | (Inr p, ncl) \<Rightarrow>
          (rbnd (case p of
                   Some provider \<Rightarrow> Inr [provider]
                 | None \<Rightarrow>
                     (case buildProviderFromFile env of
                        Inl err \<Rightarrow> Inl (Wrap ''error building an environment provider from file: '' err [])
                      | Inr provider \<Rightarrow> Inr [provider]))
             (\<lambda>providers. case env_GetManagementEndpoint env providers of
                Inl err \<Rightarrow> Inl (Wrap ''failed to get management endpoint object: '' err [])
              | Inr me \<Rightarrow> Inr me), ncl))"

section \<open>The clients of a cluster\<close>

definition PrismCentralClientCondition :: string where "PrismCentralClientCondition = ''PrismClientInit''"
definition PrismCentralConvergedV4ClientCondition :: string where
  "PrismCentralConvergedV4ClientCondition = ''PrismClientConvergedV4Init''"
definition PrismCentralClientInitializationFailed :: string where
  "PrismCentralClientInitializationFailed = ''PrismClientInitFailed''"
definition PrismCentralConvergedV4ClientInitializationFailed :: string where
  "PrismCentralConvergedV4ClientInitializationFailed = ''PrismClientConvergedV4InitFailed''"

definition cluster_conditions :: "condition_op list \<Rightarrow> NutanixCluster \<Rightarrow> NutanixCluster" where
  "cluster_conditions ops ncl = ncl\<lparr>ncl_Conditions := ncl_Conditions ncl @ ops\<rparr>"

definition client_failed :: "string \<Rightarrow> string \<Rightarrow> go_error \<Rightarrow> NutanixCluster \<Rightarrow> NutanixCluster" where
  "client_failed cond reason err =
     cluster_conditions [MarkFalse cond reason SeverityError (Error_text err), SetFalse cond reason (Error_text err)]"

text \<open>The source repeats this for the two kinds of client.  A panic is not a condition.\<close>

definition client_for_cluster ::
  "string \<Rightarrow> string \<Rightarrow> string \<Rightarrow> (string \<Rightarrow> management_endpoint \<Rightarrow> go_error + 'c) \<Rightarrow> client_env \<Rightarrow> NutanixCluster \<Rightarrow>
   (go_error + 'c) \<times> NutanixCluster" where
  "client_for_cluster cond reason msg cache env ncl =
     (case BuildManagementEndpoint env ncl of
        (Inl err, ncl) \<Rightarrow> (Inl err, if err = NilDeref then ncl else client_failed cond reason err ncl)
      | (Inr me, ncl) \<Rightarrow>
          (case cache (GetNamespacedName ncl) me of
             Inl err \<Rightarrow> (Inl (Wrap msg err []), client_failed cond reason err ncl)
           | Inr c \<Rightarrow> (Inr c, cluster_conditions [MarkTrue cond, SetTrue cond Succeeded []] ncl)))"

definition getPrismCentralClientForCluster ::
  "client_env \<Rightarrow> NutanixCluster \<Rightarrow> (go_error + v3_client) \<times> NutanixCluster" where
  "getPrismCentralClientForCluster env =
     client_for_cluster PrismCentralClientCondition PrismCentralClientInitializationFailed
       ''nutanix prism v3 Client error: '' (env_V3Cache env) env"

definition getPrismCentralConvergedV4ClientForCluster ::
  "client_env \<Rightarrow> NutanixCluster \<Rightarrow> (go_error + v4_client) \<times> NutanixCluster" where
  "getPrismCentralConvergedV4ClientForCluster env =
     client_for_cluster PrismCentralConvergedV4ClientCondition PrismCentralConvergedV4ClientInitializationFailed
       ''nutanix prism converged v4 client error: '' (env_ConvergedCache env) env"

section \<open>Lemmas\<close>

lemma GetTaskStatus_only: "moves (only_calls is_read) (GetTaskStatus client u)"
  unfolding GetTaskStatus_def by (intro only_rules) simp

lemma Wait_only: "moves (only_calls is_read) (WaitForTaskToSucceed n client u)"
  by (induction n) (auto intro!: only_rules GetTaskStatus_only)

lemma Wait_succeeds: "WaitForTaskToSucceed n client u s = (Inr (), s') \<Longrightarrow>
  \<exists>h v. V3_GetTask client h u = Inr v \<and> tv_Status v = Some statusSucceeded"
proof (induction n arbitrary: s)
  case (Suc n)
  then obtain status s1 where g: "GetTaskStatus client u s = (Inr status, s1)"
    and k: "(if status = statusSucceeded then ret () else WaitForTaskToSucceed n client u) s1 = (Inr (), s')"
    by (auto simp: go_inv)
  show ?case
  proof (cases "status = statusSucceeded")
    case True
    with g show ?thesis by (auto simp: GetTaskStatus_def go_inv go_cases)
  next
    case False
    with k Suc.IH show ?thesis by simp
  qed
qed (simp add: raise_Inr)

text \<open>A wait asks for its task only, at most as often as the context allows.\<close>

lemma Wait_trace: "WaitForTaskToSucceed n client u s = (r, s') \<Longrightarrow>
  \<exists>k\<le>n. s' = s\<lparr>trace := trace s @ replicate k (PGet RTask u)\<rparr>"
proof (induction n arbitrary: s)
  case 0
  then show ?case by (intro exI [of _ 0]) (simp add: raise_apply)
next
  case (Suc n)
  let ?s = "s\<lparr>trace := trace s @ [PGet RTask u]\<rparr>"
  have "snd (GetTaskStatus client u s) = ?s"
    by (auto simp: GetTaskStatus_def go_eval split: sum.split option.split)
  then obtain q where g: "GetTaskStatus client u s = (q, ?s)" by (metis prod.collapse)
  consider "s' = ?s" | "WaitForTaskToSucceed n client u ?s = (r, s')"
    using Suc.prems g by (cases q) (auto simp: bnd_apply ret_apply split: if_splits)
  then show ?case
  proof cases
    case 1
    then show ?thesis by (intro exI [of _ 1]) simp
  next
    case 2
    from Suc.IH [OF this] obtain k where "k \<le> n" "s' = ?s\<lparr>trace := trace ?s @ replicate k (PGet RTask u)\<rparr>" by blast
    then show ?thesis by (intro exI [of _ "Suc k"]) (simp add: replicate_append_same [symmetric])
  qed
qed

lemma provider_Some:
  "buildProviderFromNutanixCluster ncl = (Inr (Some p), ncl') \<longleftrightarrow>
     (\<exists>info ref. ncl_PrismCentral ncl = Some info \<and> pe_Address info \<noteq> [] \<and> pe_Port info \<noteq> 0 \<and>
        pe_CredentialRef info = Some ref \<and> cr_Kind ref = SecretKind \<and> p = filled_endpoint ncl info ref \<and>
        ncl' = ncl\<lparr>ncl_PrismCentral := Some p\<rparr>)"
proof (cases "ncl_PrismCentral ncl")
  case None
  then show ?thesis by (simp add: buildProviderFromNutanixCluster_def)
next
  case (Some info)
  then show ?thesis
    by (cases "pe_CredentialRef info")
      (auto simp: buildProviderFromNutanixCluster_def GetPrismCentralCredentialRef_def Let_def)
qed

lemma filled_again: "filled_endpoint (ncl\<lparr>ncl_PrismCentral := Some q\<rparr>) (filled_endpoint ncl info ref)
    (ref\<lparr>cr_Namespace := fill_namespace ncl (cr_Namespace ref)\<rparr>) = filled_endpoint ncl info ref"
  by (cases "pe_AdditionalTrustBundle info") (simp_all add: filled_endpoint_def fill_namespace_def)

lemma provider_fills_namespaces:
  assumes "buildProviderFromNutanixCluster ncl = (Inr (Some p), ncl')" "om_Namespace (ncl_Meta ncl) \<noteq> []"
  shows "ncl' = ncl\<lparr>ncl_PrismCentral := Some p\<rparr> \<and>
    (\<exists>ref. pe_CredentialRef p = Some ref \<and> cr_Kind ref = SecretKind \<and> cr_Namespace ref \<noteq> []) \<and>
    buildProviderFromNutanixCluster ncl' = (Inr (Some p), ncl')"
proof -
  from assms(1) obtain info ref where i: "pe_Address info \<noteq> []" "pe_Port info \<noteq> 0" "cr_Kind ref = SecretKind"
    and p: "p = filled_endpoint ncl info ref" and n: "ncl' = ncl\<lparr>ncl_PrismCentral := Some p\<rparr>"
    unfolding provider_Some by blast
  let ?ref = "ref\<lparr>cr_Namespace := fill_namespace ncl (cr_Namespace ref)\<rparr>"
  have p': "pe_Address p \<noteq> []" "pe_Port p \<noteq> 0" "pe_CredentialRef p = Some ?ref" "cr_Kind ?ref = SecretKind"
    "cr_Namespace ?ref \<noteq> []"
    using i assms(2) by (simp_all add: p filled_endpoint_def fill_namespace_def)
  have "buildProviderFromNutanixCluster ncl' = (Inr (Some p), ncl')"
    unfolding provider_Some
    using p' filled_again [where ncl = ncl and q = p and info = info and ref = ref] by (intro exI [of _ p] exI [of _ ?ref]) (simp add: n p [symmetric])
  with n p' show ?thesis by blast
qed

lemma provider_none: "buildProviderFromNutanixCluster ncl = (Inr None, ncl') \<longleftrightarrow> ncl_PrismCentral ncl = None \<and> ncl' = ncl"
  by (auto simp: buildProviderFromNutanixCluster_def Let_def split: option.splits if_splits sum.splits)

lemma endpoint_provider:
  assumes "BuildManagementEndpoint env ncl = (Inr me, ncl')"
  shows "\<exists>p. env_GetManagementEndpoint env [p] = Inr me \<and>
    (buildProviderFromNutanixCluster ncl = (Inr (Some p), ncl') \<or>
     ncl_PrismCentral ncl = None \<and> ncl' = ncl \<and> buildProviderFromFile env = Inr p)"
proof -
  obtain q n where b: "buildProviderFromNutanixCluster ncl = (q, n)" by force
  show ?thesis
  proof (cases q)
    case (Inl e)
    with assms b show ?thesis by (simp add: BuildManagementEndpoint_def)
  next
    case (Inr p)
    with assms b provider_none [of ncl n] show ?thesis
      by (cases p) (auto simp: BuildManagementEndpoint_def rbnd_def split: sum.splits)
  qed
qed

end
