(* ===== verification/VHA_Domain.thy ===== *)
theory VHA_Domain
  imports Guards Client
begin

text \<open>
  The controller of NutanixVirtualHADomain (controllers/nutanixvirtualhadomain_controller.go):
  it makes the categories, the protection policy and the recovery plans of a metro in Prism
  Central, keeps their UUIDs in the spec, validates them while the domain is ready, and deletes
  them with the cluster.

  The state is the one of the guarded controllers, the calls and the object, here the
  NutanixVirtualHADomain; the record vha_ctx is VHADomainContext with the client of the
  reconciler and the bounds of the waits.
\<close>

type_synonym vha_state = "NutanixVirtualHADomain guard_state"

record vha_ctx =
  vx_libs :: libs
  vx_kube :: kube_client
  vx_Cluster :: "capi_Cluster option"
  vx_NutanixCluster :: "NutanixCluster option"
  vx_V3 :: v3_client
  vx_V4 :: v4_client
  vx_polls :: nat
  vx_fuel :: nat
  vx_key_order :: "string list \<Rightarrow> string list"

definition vhaDefaultMovementGroup :: string where "vhaDefaultMovementGroup = ''default''"
definition prismNameMaxLen :: nat where "prismNameMaxLen = 64"
definition vhaResyncInterval :: nat where "vhaResyncInterval = 300"
definition NutanixVirtualHADomainFinalizer :: string where
  "NutanixVirtualHADomainFinalizer = ''infrastructure.cluster.x-k8s.io/nutanixvirtualhadomain''"
definition VHADomainPCResourcesValidatedCondition :: string where
  "VHADomainPCResourcesValidatedCondition = ''VHADomainPCResourcesValidated''"
definition VHADomainPCResourcesValidReason :: string where
  "VHADomainPCResourcesValidReason = ''VHADomainPCResourcesValid''"
definition VHADomainPCResourcesValidationFailedReason :: string where
  "VHADomainPCResourcesValidationFailedReason = ''VHADomainPCResourcesValidationFailed''"
definition VHADomainSafeForDeletionCondition :: string where
  "VHADomainSafeForDeletionCondition = ''VHADomainSafeForDeletion''"
definition VHADomainOwnerNotInDeletion :: string where "VHADomainOwnerNotInDeletion = ''VHADomainOwnerNotInDeletion''"
definition VHADomainFailedCleanup :: string where "VHADomainFailedCleanup = ''VHADomainFailedCleanup''"
definition VHADomainCleanupSucceeded :: string where "VHADomainCleanupSucceeded = ''VHADomainCleanupSucceeded''"

definition vha_add_conditions :: "condition_op list \<Rightarrow> NutanixVirtualHADomain \<Rightarrow> NutanixVirtualHADomain" where
  "vha_add_conditions cs d = d\<lparr>vha_Conditions := vha_Conditions d @ cs\<rparr>"

section \<open>Names\<close>

definition vha_prefix :: string where "vha_prefix = ''k8s-vha-capx-''"

definition vhaRecoveryPlanName :: "string \<Rightarrow> string \<Rightarrow> nat \<Rightarrow> string" where
  "vhaRecoveryPlanName domainName grp idx = vha_prefix @ domainName @ ''-'' @ grp @ ''-'' @ show_nat idx"

definition vhaCategoryValue :: "string \<Rightarrow> string \<Rightarrow> nat \<Rightarrow> go_error + string" where
  "vhaCategoryValue domainName grp idx =
     (let v = vha_prefix @ domainName @ ''-'' @ grp @ ''-'' @ show_nat idx in
      if length v > prismNameMaxLen then
        Inl (Leaf (''generated category value '' @ dquote v @ '' is '' @ show_nat (length v) @
          '' characters; Prism Central limits category values to '' @ show_nat prismNameMaxLen))
      else Inr v)"

definition vhaProtectionPolicyName :: "string \<Rightarrow> string" where
  "vhaProtectionPolicyName domainName = vha_prefix @ domainName"

section \<open>Lookups\<close>

definition getDomainManagerExtId :: "vha_ctx \<Rightarrow> ('z world_scheme, string) go" where
  "getDomainManagerExtId vx =
     bnd (wrapping (\<lambda>e. Wrap ''failed to list domain managers: '' e [])
           (ext (PList RDomainManager []) (\<lambda>h. DomainManagers_List (vx_V4 vx) h))) (\<lambda>dms.
     case dms of
       [] \<Rightarrow> raise (Leaf ''no domain managers found'')
     | dm # _ \<Rightarrow> (case dm of None \<Rightarrow> raise (Leaf ''domain manager has no ExtId'') | Some u \<Rightarrow> ret u))"

definition findProtectionPolicyByName ::
  "vha_ctx \<Rightarrow> string \<Rightarrow> ('z world_scheme, protection_policy option) go" where
  "findProtectionPolicyByName vx name =
     bnd (wrapping (\<lambda>e. Wrap ''failed to list protection policies: '' e [])
           (ext (PList RProtectionPolicy (name_filter name))
             (\<lambda>h. ProtectionPolicies_List (vx_V4 vx) h (name_filter name)))) (\<lambda>policies.
     ret (find (\<lambda>p. pp_Name p = Some name) policies))"

text \<open>A nil entity before the one of the name is dereferenced.\<close>

fun find_plan :: "string \<Rightarrow> plan_entity option list \<Rightarrow> go_error + plan_entity option" where
  "find_plan name [] = Inr None"
| "find_plan name (rp # rps) =
     rbnd (rderef rp) (\<lambda>p. if pln_Name p = Some name then Inr (Some p) else find_plan name rps)"

definition findRecoveryPlanByName :: "vha_ctx \<Rightarrow> string \<Rightarrow> ('z world_scheme, plan_entity option) go" where
  "findRecoveryPlanByName vx name =
     (let filter = ''name=='' @ name in
      bnd (wrapping (\<lambda>e. Wrap ''failed to list recovery plans: '' e [])
            (ext (PList RRecoveryPlan filter) (\<lambda>h. V3_ListAllRecoveryPlans (vx_V3 vx) h filter))) (\<lambda>resp.
      bnd (deref resp) (\<lambda>entities. of_result (find_plan name entities))))"

section \<open>The subnets of the two failure domains\<close>

text \<open>Each key of the first list, from position i on, takes the first equal key of the second
  list that is not used yet.\<close>

primrec pair_keys :: "nat \<Rightarrow> string list \<Rightarrow> string list \<Rightarrow> nat list \<Rightarrow> (nat \<times> nat) list" where
  "pair_keys i [] keys1 used = []"
| "pair_keys i (k0 # ks) keys1 used =
     (case find (\<lambda>j. \<not> List.member used j \<and> k0 = keys1 ! j) [0..<length keys1] of
        None \<Rightarrow> pair_keys (Suc i) ks keys1 used
      | Some j \<Rightarrow> (i, j) # pair_keys (Suc i) ks keys1 (j # used))"

definition domain_keys :: "vha_ctx \<Rightarrow> NutanixFailureDomain \<Rightarrow> ('z world_scheme, string list) go" where
  "domain_keys vx fd =
     wrapping (\<lambda>e. Wrap (''failed to resolve subnet network keys for failure domain '' @ om_Name (nfd_Meta fd) @ '': '') e [])
       (subnetNetworkKeys (Some (vx_V4 vx)) (fd_Subnets (nfd_Spec fd)) (fd_PrismElementCluster (nfd_Spec fd)))"

definition two_domains :: "NutanixFailureDomain list \<Rightarrow> go_error + NutanixFailureDomain \<times> NutanixFailureDomain" where
  "two_domains fds =
     (case fds of
        [fd0, fd1] \<Rightarrow> Inr (fd0, fd1)
      | _ \<Rightarrow> Inl (Leaf (''vHA domain requires a metro with exactly 2 failure domains, got '' @ show_nat (length fds))))"

definition pairVHADomainSubnetsByL2 ::
  "vha_ctx \<Rightarrow> NutanixFailureDomain list \<Rightarrow> ('z world_scheme, string list list) go" where
  "pairVHADomainSubnetsByL2 vx fds =
     bnd (of_result (two_domains fds)) (\<lambda>(fd0, fd1).
     bnd (domain_keys vx fd0) (\<lambda>keys0.
     bnd (domain_keys vx fd1) (\<lambda>keys1.
     let pairs = pair_keys 0 keys0 keys1 [];
         names0 = map (\<lambda>p. id_String (fd_Subnets (nfd_Spec fd0) ! fst p)) pairs;
         names1 = map (\<lambda>p. id_String (fd_Subnets (nfd_Spec fd1) ! snd p)) pairs in
     if names0 = [] then
       raise (Leaf (''vHA recovery plan requires the two failure domains to share at least one L2 network (layer, VLAN ID/VNI, CIDR): '' @
         om_Name (nfd_Meta fd0) @ '' has '' @ print_list keys0 @ '', '' @
         om_Name (nfd_Meta fd1) @ '' has '' @ print_list keys1))
     else ret [names0, names1])))"

section \<open>Making the resources\<close>

definition vha_category :: "string \<Rightarrow> string \<Rightarrow> nat \<Rightarrow> go_error + NutanixCategoryIdentifier" where
  "vha_category name grp i =
     map_sum id (\<lambda>v. \<lparr>cat_Key = VHADomainDefaultCategoryKey, cat_Value = v\<rparr>) (vhaCategoryValue name grp i)"

definition getOrCreateVHADomainGroupCategories ::
  "vha_ctx \<Rightarrow> string \<Rightarrow> NutanixFailureDomain list \<Rightarrow> (vha_state, NutanixCategoryIdentifier list) go" where
  "getOrCreateVHADomainGroupCategories vx grp fds =
     map_go (\<lambda>i.
       bnd (gets (\<lambda>s. om_Name (vha_Meta (Obj s)))) (\<lambda>name.
       bnd (wrapping (\<lambda>e. Wrap (''movementGroup '' @ grp @ '': '') e []) (of_result (vha_category name grp i))) (\<lambda>ci.
       thn (wrapping (\<lambda>e. Wrap (''movementGroup '' @ grp @ '': failed to get or create category '' @
              cat_Key ci @ ''/'' @ cat_Value ci @ '': '') e []) (getOrCreateCategory (vx_V4 vx) (Some ci)))
         (ret ci)))) [0..<length fds]"

definition category_ext_id :: "vha_ctx \<Rightarrow> NutanixCategoryIdentifier \<Rightarrow> ('z world_scheme, string) go" where
  "category_ext_id vx c =
     bnd (wrapping (\<lambda>e. Wrap (''failed to get category ExtId for '' @ cat_Key c @ ''/'' @ cat_Value c @ '': '') e [])
           (getOrCreateCategory (vx_V4 vx) (Some c))) (\<lambda>cat_p.
     bnd (deref cat_p) (\<lambda>cat.
     case ct_ExtId cat of
       None \<Rightarrow> raise (Leaf (''category '' @ cat_Key c @ ''/'' @ cat_Value c @ '' has no ExtId''))
     | Some u \<Rightarrow> ret u))"

text \<open>The policy: the two locations, the first one the primary, and a synchronous schedule in
  either direction.\<close>

definition policy_input :: "string \<Rightarrow> string list \<Rightarrow> string \<Rightarrow> string \<Rightarrow> string \<Rightarrow> protection_policy" where
  "policy_input name categoryExtIds pcExtId pe0 pe1 =
     (let location = (\<lambda>l prim pe. \<lparr>rl_Label = l, rl_DomainManagerExtId = pcExtId, rl_IsPrimary = prim, rl_ClusterExtIds = [pe]\<rparr>);
          config = (\<lambda>a b. \<lparr>rcf_Source = a, rcf_Remote = b, rcf_RPOSeconds = 0, rcf_RecoveryPointType = ''CRASH_CONSISTENT''\<rparr>) in
      \<lparr>pp_ExtId = None, pp_Name = Some (vhaProtectionPolicyName name),
       pp_Description = Some (''CAPX vHA domain protection policy for '' @ name),
       pp_CategoryIds = categoryExtIds,
       pp_ReplicationLocations = [location ''loc-0'' (Some True) pe0, location ''loc-1'' None pe1],
       pp_ReplicationConfigurations = [config ''loc-0'' ''loc-1'', config ''loc-1'' ''loc-0'']\<rparr>)"

definition getOrCreateVHADomainProtectionPolicy ::
  "vha_ctx \<Rightarrow> NutanixCategoryIdentifier list \<Rightarrow> string list \<Rightarrow> (vha_state, NutanixResourceIdentifier) go" where
  "getOrCreateVHADomainProtectionPolicy vx categories peUUIDs =
     bnd (gets (\<lambda>s. om_Name (vha_Meta (Obj s)))) (\<lambda>name.
     let ppName = vhaProtectionPolicyName name in
     bnd (findProtectionPolicyByName vx ppName) (\<lambda>existing.
     case (case existing of None \<Rightarrow> None | Some p \<Rightarrow> pp_ExtId p) of
       Some u \<Rightarrow> ret (uuid_id u)
     | None \<Rightarrow>
         (case peUUIDs of
            [pe0, pe1] \<Rightarrow>
              bnd (wrapping (\<lambda>e. Wrap ''failed to get Prism Central ExtId: '' e []) (getDomainManagerExtId vx)) (\<lambda>pcExtId.
              bnd (map_go (category_ext_id vx) categories) (\<lambda>categoryExtIds.
              let ppInput = policy_input name categoryExtIds pcExtId pe0 pe1 in
              bnd (wrapping (\<lambda>e. Wrap (''failed to create protection policy '' @ ppName @ '': '') e [])
                    (ext (PCreate_policy ppInput) (\<lambda>h. ProtectionPolicies_Create (vx_V4 vx) h ppInput))) (\<lambda>resp.
              case (case resp of None \<Rightarrow> None | Some p \<Rightarrow> pp_ExtId p) of
                None \<Rightarrow> raise (Leaf (''protection policy '' @ ppName @ '' created but response missing ExtId''))
              | Some u \<Rightarrow> ret (uuid_id u))))
          | _ \<Rightarrow> raise (Leaf (''expected exactly 2 prism elements for the metro to create protection policy, got '' @
                   show_nat (length peUUIDs))))))"

text \<open>One mapping for each subnet of the longest list, and at least one; a Prism Element without
  that many subnets has the empty name.\<close>

definition vhaRecoveryPlanNetworkMappings ::
  "string list \<Rightarrow> string list \<Rightarrow> string list list \<Rightarrow> string \<Rightarrow> az_network list list" where
  "vhaRecoveryPlanNetworkMappings peUUIDs peNames subnetNames azURL =
     (let mappingCount = foldl (\<lambda>n names. if length names > n then length names else n) 1 subnetNames in
      map (\<lambda>subnetIdx. map (\<lambda>i.
             \<lparr>azn_URL = azURL, azn_ClusterName = peNames ! i, azn_ClusterUUID = peUUIDs ! i,
              azn_NetworkName = (if i < length subnetNames \<and> subnetIdx < length (subnetNames ! i)
                                 then subnetNames ! i ! subnetIdx else [])\<rparr>) [0..<length peUUIDs])
        [0..<mappingCount])"

definition plan_input ::
  "string \<Rightarrow> string \<Rightarrow> string list \<Rightarrow> string list \<Rightarrow> string list list \<Rightarrow> nat \<Rightarrow> string \<Rightarrow> string \<Rightarrow> recovery_plan" where
  "plan_input name grp peUUIDs peNames subnetNames primaryIndex azURL categoryVal =
     \<lparr>rp_Name = vhaRecoveryPlanName name grp primaryIndex,
      rp_Description = ''CAPX vHA domain recovery plan for '' @ name @ '' movement group '' @ dquote grp @
        '' (primary: index '' @ show_nat primaryIndex @ '')'',
      rp_StageCategories = [(VHADomainDefaultCategoryKey, categoryVal)],
      rp_VolumeGroupFilter = [(VHADomainDefaultCategoryKey, [categoryVal])],
      rp_PrimaryLocationIndex = int primaryIndex,
      rp_NetworkMappings = vhaRecoveryPlanNetworkMappings peUUIDs peNames subnetNames azURL,
      rp_Witnesses = [(azURL, 30)],
      rp_AvailabilityZones = [(azURL, peNames ! 0, peUUIDs ! 0), (azURL, peNames ! 1, peUUIDs ! 1)]\<rparr>"

text \<open>The wait for the creation task; its error is enriched with the failed subtasks (with too
  little fuel for the collection it is kept as it is).\<close>

definition wait_for_plan_task ::
  "vha_ctx \<Rightarrow> string \<Rightarrow> string \<Rightarrow> ('z world_scheme, unit) go" where
  "wait_for_plan_task vx rpName taskUUID =
     handle (WaitForTaskToSucceed (vx_polls vx) (vx_V3 vx) taskUUID) (\<lambda>err.
       bnd (enrichTaskErrorWithFailedSubtasks (vx_fuel vx) (Some (vx_V4 vx)) taskUUID err) (\<lambda>e.
       raise (Wrap (''recovery plan '' @ rpName @ '' creation task failed: '') (Deref e err) [])))"

definition await_created_plan ::
  "vha_ctx \<Rightarrow> string \<Rightarrow> plan_answer option \<Rightarrow> ('z world_scheme, NutanixResourceIdentifier) go" where
  "await_created_plan vx rpName resp =
     (case resp of
        None \<Rightarrow> raise (Leaf (''recovery plan '' @ rpName @ '' created but response missing UUID''))
      | Some r \<Rightarrow>
          (let rpUUID = Deref (pla_UUID r) [] in
           if rpUUID = [] then raise (Leaf (''recovery plan '' @ rpName @ '' created but response missing UUID''))
           else (case pla_TaskUUID r of
                   None \<Rightarrow> raise (Leaf (''recovery plan '' @ rpName @ '' created but response missing task UUID''))
                 | Some None \<Rightarrow> raise (Leaf (''recovery plan '' @ rpName @ '': task UUID is not a string''))
                 | Some (Some taskUUID) \<Rightarrow>
                     thn (wait_for_plan_task vx rpName taskUUID) (ret (uuid_id rpUUID)))))"

definition getOrCreateVHADomainRecoveryPlan ::
  "vha_ctx \<Rightarrow> string \<Rightarrow> string list \<Rightarrow> string list \<Rightarrow> string list list \<Rightarrow> nat \<Rightarrow> string \<Rightarrow>
   (vha_state, NutanixResourceIdentifier) go" where
  "getOrCreateVHADomainRecoveryPlan vx grp peUUIDs peNames subnetNames primaryIndex azURL =
     (if length peUUIDs \<noteq> 2 \<or> length peNames \<noteq> 2 then
        raise (Leaf (''expected exactly 2 prism elements for the metro to create recovery plan, got '' @
          show_nat (length peUUIDs)))
      else
        bnd (gets (\<lambda>s. om_Name (vha_Meta (Obj s)))) (\<lambda>name.
        let rpName = vhaRecoveryPlanName name grp primaryIndex in
        bnd (findRecoveryPlanByName vx rpName) (\<lambda>existing.
        let existingUUID = (case existing of None \<Rightarrow> [] | Some p \<Rightarrow> Deref (pln_UUID p) []) in
        if existingUUID \<noteq> [] then ret (uuid_id existingUUID)
        else
          bnd (of_result (vhaCategoryValue name grp primaryIndex)) (\<lambda>categoryVal.
          let rpInput = plan_input name grp peUUIDs peNames subnetNames primaryIndex azURL categoryVal in
          bnd (wrapping (\<lambda>e. Wrap (''failed to create recovery plan '' @ rpName @ '': '') e [])
                (ext (PCreate_plan rpInput) (\<lambda>h. V3_CreateRecoveryPlan (vx_V3 vx) h rpInput)))
            (await_created_plan vx rpName)))))"

section \<open>Validation\<close>

text \<open>The error of a check, which is collected; a panic is not.\<close>

definition check_error :: "('s, unit) go \<Rightarrow> ('s, go_error list) go" where
  "check_error m = bnd (attempt m) (\<lambda>r. ret (case r of Inl e \<Rightarrow> [e] | Inr _ \<Rightarrow> []))"

definition check_errors :: "('a \<Rightarrow> ('s, unit) go) \<Rightarrow> 'a list \<Rightarrow> ('s, go_error list) go" where
  "check_errors f xs = bnd (map_go (\<lambda>x. check_error (f x)) xs) (\<lambda>es. ret (concat es))"

definition category_name :: "NutanixCategoryIdentifier \<Rightarrow> string" where
  "category_name c = cat_Key c @ ''/'' @ cat_Value c"

fun unseen_categories :: "string list \<Rightarrow> NutanixCategoryIdentifier list \<Rightarrow> NutanixCategoryIdentifier list" where
  "unseen_categories seen [] = []"
| "unseen_categories seen (c # cs) =
     (if List.member seen (category_name c) then unseen_categories seen cs
      else c # unseen_categories (category_name c # seen) cs)"

definition domain_categories :: "NutanixVirtualHADomain \<Rightarrow> NutanixCategoryIdentifier list" where
  "domain_categories d = unseen_categories [] (map crp_Category (domain_plans d))"

definition validateCategoryExists :: "vha_ctx \<Rightarrow> NutanixCategoryIdentifier \<Rightarrow> ('z world_scheme, unit) go" where
  "validateCategoryExists vx c =
     bnd (wrapping (\<lambda>e. Wrap (''failed to validate category '' @ category_name c @ '': '') e [])
           (getCategory (vx_V4 vx) (cat_Key c) (cat_Value c))) (\<lambda>found.
     if found = None then raise (Leaf (''category '' @ category_name c @ '' no longer exists in Prism Central''))
     else ret ())"

definition validateProtectionPolicyExists :: "vha_ctx \<Rightarrow> NutanixResourceIdentifier \<Rightarrow> ('z world_scheme, unit) go" where
  "validateProtectionPolicyExists vx pp =
     (let display = id_DisplayString pp;
          gone = Leaf (''protection policy '' @ display @ '' no longer exists in Prism Central'');
          failed = (\<lambda>err. Wrap (''failed to validate protection policy '' @ display @ '': '') err []) in
      if IsUUID pp then
        (let u = the (id_UUID pp) in
         bnd (attempt (ext (PGet RProtectionPolicy u) (\<lambda>h. ProtectionPolicies_Get (vx_V4 vx) h u))) (\<lambda>r.
         case r of
           Inr _ \<Rightarrow> ret ()
         | Inl err \<Rightarrow> raise (if IsNotFound (vx_V4 vx) err then gone else failed err)))
      else if IsName pp then
        bnd (wrapping failed (findProtectionPolicyByName vx (the (id_Name pp)))) (\<lambda>found.
        if found = None then raise gone else ret ())
      else ret ())"

definition validateRecoveryPlanExists ::
  "vha_ctx \<Rightarrow> NutanixResourceIdentifier \<Rightarrow> string \<Rightarrow> nat \<Rightarrow> (vha_state, unit) go" where
  "validateRecoveryPlanExists vx rp grp idx =
     (let display = id_DisplayString rp;
          gone = Leaf (''recovery plan '' @ display @ '' no longer exists in Prism Central'');
          failed = (\<lambda>err. Wrap (''failed to validate recovery plan '' @ display @ '': '') err []) in
      if IsUUID rp then
        (let u = the (id_UUID rp) in
         bnd (attempt (ext (PGet RRecoveryPlan u) (\<lambda>h. V3_GetRecoveryPlan (vx_V3 vx) h u))) (\<lambda>r.
         case r of
           Inr _ \<Rightarrow> ret ()
         | Inl err \<Rightarrow> raise (if Contains (Error_text err) ''ENTITY_NOT_FOUND'' then gone else failed err)))
      else
        bnd (gets (\<lambda>s. om_Name (vha_Meta (Obj s)))) (\<lambda>name.
        bnd (wrapping failed (findRecoveryPlanByName vx (vhaRecoveryPlanName name grp idx))) (\<lambda>found.
        if found = None then raise gone else ret ())))"

text \<open>The plans with the name of their group, and the index of a failure domain in the metro (the
  last one of its name).\<close>

definition group_plans :: "NutanixVirtualHADomain \<Rightarrow> (string \<times> NutanixCategoryRecoveryPlan) list" where
  "group_plans d = concat (map (\<lambda>g. map (Pair (mg_Name g)) (mg_CategoryRecoveryPlans g)) (vha_MovementGroups d))"

definition fd_index_of :: "NutanixFailureDomain list \<Rightarrow> string \<Rightarrow> nat option" where
  "fd_index_of fds name = map_of (rev (zip (map (\<lambda>fd. om_Name (nfd_Meta fd)) fds) [0..<length fds])) name"

definition validate_plan ::
  "vha_ctx \<Rightarrow> NutanixFailureDomain list \<Rightarrow> string \<times> NutanixCategoryRecoveryPlan \<Rightarrow> (vha_state, unit) go" where
  "validate_plan vx fds p =
     (let crp = snd p in
      case fd_index_of fds (crp_FailureDomainRef crp) of
        None \<Rightarrow>
          bnd (gets (\<lambda>s. vha_MetroRef (Obj s))) (\<lambda>metro.
          raise (Leaf (''movementGroup '' @ fst p @ '': failureDomainRef '' @ dquote (crp_FailureDomainRef crp) @
            '' is not part of metro '' @ dquote metro)))
      | Some idx \<Rightarrow> validateRecoveryPlanExists vx (crp_RecoveryPlan crp) (fst p) idx)"

definition validateVHADomainPCResources ::
  "vha_ctx \<Rightarrow> NutanixFailureDomain list \<Rightarrow> (vha_state, unit) go" where
  "validateVHADomainPCResources vx fds =
     bnd (gets Obj) (\<lambda>d.
     bnd (check_errors (validateCategoryExists vx) (domain_categories d)) (\<lambda>errs1.
     bnd (check_errors (validateProtectionPolicyExists vx)
           (case vha_ProtectionPolicy d of None \<Rightarrow> [] | Some pp \<Rightarrow> [pp])) (\<lambda>errs2.
     bnd (check_errors (validate_plan vx fds) (group_plans d)) (\<lambda>errs3.
     let validationErrors = errs1 @ errs2 @ errs3 in
     if validationErrors \<noteq> [] then
       (let joinedErr = Join_err validationErrors in
        thn (update_obj (\<lambda>d. vha_add_conditions [SetFalse VHADomainPCResourcesValidatedCondition
               VHADomainPCResourcesValidationFailedReason (Error_text joinedErr)] (d\<lparr>vha_Ready := False\<rparr>)))
          (raise joinedErr))
     else update_obj (vha_add_conditions [SetTrue VHADomainPCResourcesValidatedCondition
            VHADomainPCResourcesValidReason []])))))"

section \<open>Ensuring the resources\<close>

definition pe_uuid_of :: "vha_ctx \<Rightarrow> NutanixFailureDomain \<Rightarrow> ('z world_scheme, string) go" where
  "pe_uuid_of vx fd =
     (let pe = fd_PrismElementCluster (nfd_Spec fd) in
      wrapping (\<lambda>e. Wrap (''failed to get PE UUID for failure domain '' @ om_Name (nfd_Meta fd) @ '': '') e [])
        (GetPEUUID (Some (vx_V4 vx)) None (id_Name pe) (id_UUID pe)))"

definition group_names :: "NutanixVirtualHADomain \<Rightarrow> string list" where
  "group_names d =
     (let names = map mg_Name (vha_MovementGroups d) in
      sort_slice str_less (if names = [] then [vhaDefaultMovementGroup] else names))"

text \<open>The plans of one group: for each failure domain its category and the plan that recovers from
  it.\<close>

definition plans_of_group ::
  "vha_ctx \<Rightarrow> NutanixFailureDomain list \<Rightarrow> string list \<Rightarrow> string list \<Rightarrow> string list list \<Rightarrow> string \<Rightarrow>
   string \<times> NutanixCategoryIdentifier list \<Rightarrow> (vha_state, NutanixMovementGroup) go" where
  "plans_of_group vx fds peUUIDs peNames subnetNames azURL gc =
     bnd (map_go (\<lambda>i.
            bnd (getOrCreateVHADomainRecoveryPlan vx (fst gc) peUUIDs peNames subnetNames i azURL) (\<lambda>rp.
            ret \<lparr>crp_Category = snd gc ! i, crp_RecoveryPlan = rp,
                 crp_FailureDomainRef = om_Name (nfd_Meta (fds ! i))\<rparr>)) [0..<length fds]) (\<lambda>plans.
     ret \<lparr>mg_Name = fst gc, mg_CategoryRecoveryPlans = plans\<rparr>)"

definition create_resources ::
  "vha_ctx \<Rightarrow> NutanixFailureDomain list \<Rightarrow> string list list \<Rightarrow> (vha_state, unit) go" where
  "create_resources vx fds subnetNames =
     bnd (map_go (pe_uuid_of vx) fds) (\<lambda>peUUIDs.
     let peNames = map (\<lambda>fd. id_String (fd_PrismElementCluster (nfd_Spec fd))) fds in
     bnd (wrapping (\<lambda>e. Wrap ''failed to get local availability zone URL: '' e []) (getDomainManagerExtId vx)) (\<lambda>azURL.
     bnd (gets (\<lambda>s. group_names (Obj s))) (\<lambda>groupNames.
     bnd (map_go (\<lambda>grp.
            bnd (getOrCreateVHADomainGroupCategories vx grp fds) (\<lambda>cs. ret (grp, cs))) groupNames) (\<lambda>groups.
     bnd (getOrCreateVHADomainProtectionPolicy vx (concat (map snd groups)) peUUIDs) (\<lambda>protectionPolicy.
     bnd (map_go (plans_of_group vx fds peUUIDs peNames subnetNames azURL) groups) (\<lambda>movementGroups.
     update_obj (\<lambda>d. vha_add_conditions [SetTrue VHADomainPCResourcesValidatedCondition VHADomainPCResourcesValidReason []]
       (d\<lparr>vha_MovementGroups := movementGroups, vha_ProtectionPolicy := Some protectionPolicy\<rparr>))))))))"

definition ensureVHADomainPCResources :: "vha_ctx \<Rightarrow> NutanixFailureDomain list \<Rightarrow> (vha_state, unit) go" where
  "ensureVHADomainPCResources vx fds =
     (if length fds \<noteq> 2 then
        raise (Leaf (''vHA domain requires a metro with exactly 2 failure domains, got '' @ show_nat (length fds)))
      else
        bnd (pairVHADomainSubnetsByL2 vx fds) (\<lambda>subnetNames.
        bnd (gets (\<lambda>s. vha_Ready (Obj s))) (\<lambda>ready.
        if ready then validateVHADomainPCResources vx fds
        else create_resources vx fds subnetNames)))"

section \<open>The two reconciles\<close>

definition group_ready :: "NutanixMovementGroup \<Rightarrow> bool" where
  "group_ready g \<longleftrightarrow> mg_CategoryRecoveryPlans g \<noteq> [] \<and>
     list_all (\<lambda>crp. id_String (crp_RecoveryPlan crp) \<noteq> []) (mg_CategoryRecoveryPlans g)"

definition domain_ready :: "NutanixVirtualHADomain \<Rightarrow> bool" where
  "domain_ready d \<longleftrightarrow>
     (case vha_ProtectionPolicy d of None \<Rightarrow> False | Some pp \<Rightarrow> id_String pp \<noteq> []) \<and>
     vha_MovementGroups d \<noteq> [] \<and> list_all group_ready (vha_MovementGroups d)"

definition reconcile_resources :: "vha_ctx \<Rightarrow> (vha_state, unit) go" where
  "reconcile_resources vx =
     bnd (gets Obj) (\<lambda>d.
     let namespace = om_Namespace (vha_Meta d) in
     bnd (getNutanixMetroObject (vx_kube vx) (vha_MetroRef d) namespace) (\<lambda>metroObj.
     bnd (map_go (\<lambda>fdRef. getNutanixFailureDomainObject (vx_kube vx) fdRef namespace) (nmt_FailureDomains metroObj))
       (\<lambda>fds.
     thn (ensureVHADomainPCResources vx fds)
       (update_obj (\<lambda>d. d\<lparr>vha_Ready := domain_ready d\<rparr>)))))"

definition vha_reconcileNormal :: "vha_ctx \<Rightarrow> (vha_state, unit) go" where
  "vha_reconcileNormal vx =
     handle
       (bnd (gets (\<lambda>s. om_Finalizers (vha_Meta (Obj s)))) (\<lambda>fs.
        let L = vx_libs vx; f = NutanixVirtualHADomainFinalizer in
        if \<not> ContainsFinalizer L fs f \<and> AddFinalizer L fs f \<noteq> fs then
          update_obj (\<lambda>d. d\<lparr>vha_Meta := (vha_Meta d)\<lparr>om_Finalizers := AddFinalizer L fs f\<rparr>\<rparr>)
        else reconcile_resources vx))
       (\<lambda>reterr. thn (update_obj (\<lambda>d. d\<lparr>vha_Ready := False\<rparr>)) (raise reterr))"

definition delete_plan :: "vha_ctx \<Rightarrow> NutanixResourceIdentifier \<Rightarrow> ('z world_scheme, unit) go" where
  "delete_plan vx rp =
     (let rpUUID = id_String rp in
      if rpUUID = [] then ret ()
      else
        bnd (attempt (ext (PDelete RRecoveryPlan rpUUID) (\<lambda>h. V3_DeleteRecoveryPlan (vx_V3 vx) h rpUUID))) (\<lambda>r.
        case r of
          Inl err \<Rightarrow>
            if Contains (Error_text err) ''ENTITY_NOT_FOUND'' then ret ()
            else raise (Wrap (''failed to delete recovery plan '' @ id_DisplayString rp @ '': '') err [])
        | Inr resp \<Rightarrow>
            (case (case resp of None \<Rightarrow> None | Some a \<Rightarrow> pla_TaskUUID a) of
               Some (Some taskUUID) \<Rightarrow>
                 if taskUUID = [] then ret ()
                 else wrapping (\<lambda>e. Wrap (''recovery plan '' @ id_DisplayString rp @ '' deletion task failed: '') e [])
                        (WaitForTaskToSucceed (vx_polls vx) (vx_V3 vx) taskUUID)
             | _ \<Rightarrow> ret ())))"

definition deleteVHADomainRecoveryPlans :: "vha_ctx \<Rightarrow> (vha_state, unit) go" where
  "deleteVHADomainRecoveryPlans vx =
     bnd (gets (\<lambda>s. map crp_RecoveryPlan (domain_plans (Obj s)))) (iter_go (delete_plan vx))"

definition deleteVHADomainProtectionPolicy :: "vha_ctx \<Rightarrow> (vha_state, unit) go" where
  "deleteVHADomainProtectionPolicy vx =
     bnd (gets (\<lambda>s. vha_ProtectionPolicy (Obj s))) (\<lambda>pp_p.
     case pp_p of
       None \<Rightarrow> ret ()
     | Some pp \<Rightarrow>
         (let ppUUID = id_String pp in
          if ppUUID = [] then ret ()
          else
            handle (ext (PDelete RProtectionPolicy ppUUID) (\<lambda>h. ProtectionPolicies_Delete (vx_V4 vx) h ppUUID)) (\<lambda>err.
            if IsNotFound (vx_V4 vx) err then ret ()
            else raise (Wrap (''failed to delete protection policy '' @ id_DisplayString pp @ '': '') err []))))"

definition deleteVHADomainCategories :: "vha_ctx \<Rightarrow> (vha_state, unit) go" where
  "deleteVHADomainCategories vx =
     bnd (gets (\<lambda>s. domain_categories (Obj s))) (\<lambda>cs.
     when_go (cs \<noteq> [])
       (wrapping (\<lambda>e. Wrap ''failed to delete vHA domain categories: '' e [])
         (deleteCategoryKeyValues (vx_key_order vx) (vx_V4 vx) (map Some cs))))"

definition deleteVHADomainPCResources :: "vha_ctx \<Rightarrow> (vha_state, unit) go" where
  "deleteVHADomainPCResources vx =
     thn (deleteVHADomainRecoveryPlans vx)
     (thn (deleteVHADomainProtectionPolicy vx)
     (deleteVHADomainCategories vx))"

definition blocking_errors :: "vha_ctx \<Rightarrow> go_error list" where
  "blocking_errors vx =
     (case vx_Cluster vx of
        Some c \<Rightarrow> if om_Deleting (cc_Meta c) then [] else [Leaf (''cluster '' @ om_Name (cc_Meta c) @ '' is not in deletion'')]
      | None \<Rightarrow> []) @
     (case vx_NutanixCluster vx of
        Some c \<Rightarrow> if om_Deleting (ncl_Meta c) then []
                 else [Leaf (''NutanixCluster '' @ om_Name (ncl_Meta c) @ '' is not in deletion'')]
      | None \<Rightarrow> [])"

definition unsafe_deletion :: "string \<Rightarrow> go_error \<Rightarrow> (vha_state, unit) go" where
  "unsafe_deletion reason err =
     thn (update_obj (vha_add_conditions [SetFalse VHADomainSafeForDeletionCondition reason (Error_text err)])) (raise err)"

definition vha_reconcileDelete :: "vha_ctx \<Rightarrow> (vha_state, unit) go" where
  "vha_reconcileDelete vx =
     (if blocking_errors vx \<noteq> [] then unsafe_deletion VHADomainOwnerNotInDeletion (Join_err (blocking_errors vx))
      else
        thn (handle (deleteVHADomainPCResources vx) (\<lambda>err.
              unsafe_deletion VHADomainFailedCleanup (Wrap ''failed to clean up vHADomain PC resources: '' err [])))
          (update_obj (\<lambda>d. vha_add_conditions [SetTrue VHADomainSafeForDeletionCondition VHADomainCleanupSucceeded []]
             (d\<lparr>vha_Meta := (vha_Meta d)\<lparr>om_Finalizers :=
                RemoveFinalizer (vx_libs vx) (om_Finalizers (vha_Meta d)) NutanixVirtualHADomainFinalizer\<rparr>\<rparr>))))"

section \<open>Reconcile\<close>

text \<open>What Reconcile takes from Cluster API, controller-runtime and the API server besides the
  client of the guarded controllers.\<close>

record vha_env =
  ve_client_env :: client_env
  ve_GetClusterFromMetadata :: "call list \<Rightarrow> obj_meta \<Rightarrow> go_error + capi_Cluster"
  ve_GetNutanixCluster :: "call list \<Rightarrow> string \<Rightarrow> string \<Rightarrow> go_error + NutanixCluster"
  ve_HasOwnerReference :: "owner_ref list \<Rightarrow> NutanixCluster \<Rightarrow> go_error + bool"
  ve_SetControllerReference :: "NutanixCluster \<Rightarrow> obj_meta \<Rightarrow> go_error + owner_ref list"

definition own_domain :: "vha_env \<Rightarrow> NutanixCluster \<Rightarrow> (vha_state, unit) go" where
  "own_domain env ncl =
     bnd (gets (\<lambda>s. vha_Meta (Obj s))) (\<lambda>m.
     bnd (of_result (ve_HasOwnerReference env (om_OwnerReferences m) ncl)) (\<lambda>hasOwner.
     if hasOwner then ret ()
     else bnd (of_result (ve_SetControllerReference env ncl m)) (\<lambda>refs.
       update_obj (\<lambda>d. d\<lparr>vha_Meta := (vha_Meta d)\<lparr>om_OwnerReferences := refs\<rparr>\<rparr>))))"

text \<open>The context of the reconcile: vx gives the library, the client of the reconciler and the
  bounds.\<close>

definition vha_context :: "vha_env \<Rightarrow> vha_ctx \<Rightarrow> (vha_state, vha_ctx) go" where
  "vha_context env vx =
     bnd (gets (\<lambda>s. vha_Meta (Obj s))) (\<lambda>m.
     bnd (ext (KGet KCluster (map_get (om_Labels m) ClusterNameLabel) (om_Namespace m)) (\<lambda>h. ve_GetClusterFromMetadata env h m)) (\<lambda>cluster.
     let n = cc_InfrastructureRefName cluster; ns = om_Namespace (cc_Meta cluster) in
     bnd (ext (KGet KNutanixCluster n ns) (\<lambda>h. ve_GetNutanixCluster env h n ns)) (\<lambda>ncl.
     thn (own_domain env ncl)
     (case getPrismCentralClientForCluster (ve_client_env env) ncl of
        (r3, ncl3) \<Rightarrow>
          bnd (of_result r3) (\<lambda>v3Client.
          case getPrismCentralConvergedV4ClientForCluster (ve_client_env env) ncl3 of
            (r4, ncl4) \<Rightarrow>
              bnd (of_result r4) (\<lambda>convergedClient.
              ret (vx\<lparr>vx_Cluster := Some cluster, vx_NutanixCluster := Some ncl4, vx_V3 := v3Client,
                      vx_V4 := convergedClient\<rparr>)))))))"

definition restore_spec :: "NutanixVirtualHADomain \<Rightarrow> NutanixVirtualHADomain \<Rightarrow> NutanixVirtualHADomain" where
  "restore_spec orig d = d\<lparr>vha_MetroRef := vha_MetroRef orig, vha_ProtectionPolicy := vha_ProtectionPolicy orig,
     vha_MovementGroups := vha_MovementGroups orig\<rparr>"

definition vha_Reconcile_body ::
  "vha_env \<Rightarrow> NutanixVirtualHADomain guard_client \<Rightarrow> vha_ctx \<Rightarrow> NutanixVirtualHADomain \<Rightarrow> (vha_state, result) go" where
  "vha_Reconcile_body env gc vx orig =
     (if gc_HasPaused gc orig then ret done_result
      else
        bnd (vha_context env vx) (\<lambda>rctx.
        if om_Deleting (vha_Meta orig) then thn (vha_reconcileDelete rctx) (ret done_result)
        else
          thn (handle (vha_reconcileNormal rctx) (\<lambda>err. thn (update_obj (restore_spec orig)) (raise err)))
            (ret (requeue_after vhaResyncInterval))))"

definition getNutanixVHADomainObject ::
  "NutanixVirtualHADomain guard_client \<Rightarrow> string \<Rightarrow> string \<Rightarrow> (vha_state, NutanixVirtualHADomain) go" where
  "getNutanixVHADomainObject gc objectName ns =
     wrapping (\<lambda>e. Wrap (''failed to fetch NutanixVirtualHADomain object by name '' @ dquote objectName @ '': '') e [])
       (ext (KGet KVHADomain objectName ns) (\<lambda>h. gc_Get gc h objectName ns))"

definition vha_Reconcile ::
  "vha_env \<Rightarrow> NutanixVirtualHADomain guard_client \<Rightarrow> vha_ctx \<Rightarrow> string \<Rightarrow> string \<Rightarrow> (vha_state, result) go" where
  "vha_Reconcile env gc vx ns name =
     bnd (attempt (getNutanixVHADomainObject gc name ns)) (\<lambda>r.
     case r of
       Inl err \<Rightarrow> if gc_IsNotFound gc err then ret done_result else raise err
     | Inr obj \<Rightarrow>
         thn (modify (\<lambda>s. s\<lparr>Obj := obj\<rparr>))
         (case gc_NewHelper gc obj of
            Inl err \<Rightarrow> of_result (requeue_result err)
          | Inr _ \<Rightarrow> deferred_patch gc KVHADomain vha_Meta (vha_Reconcile_body env gc vx obj)))"

end
