(* ===== verification/VHA_Spec.thy ===== *)
theory VHA_Spec
  imports VHA_Domain
begin

text \<open>
  What the controller of NutanixVirtualHADomain promises: the pairs of subnets are a greatest
  matching by network, a reconcile makes one category and one recovery plan for each group and
  failure domain, a ready domain is only read, and the deletion removes the plans, the policy and
  the categories in this order before the finalizer.
\<close>

section \<open>Pairing\<close>

text \<open>The networks of the second failure domain that are still free.\<close>

definition free_keys :: "string list \<Rightarrow> nat list \<Rightarrow> string multiset" where
  "free_keys keys1 used = image_mset ((!) keys1) (mset_set ({..<length keys1} - set used))"

lemma free_keys_all: "free_keys keys1 [] = mset keys1"
  by (metis Diff_empty atLeast_upt free_keys_def list.set(1) map_nth mset_map mset_set_set distinct_upt)

lemma free_keys_member: "k \<in># free_keys keys1 used \<longleftrightarrow> (\<exists>j<length keys1. j \<notin> set used \<and> keys1 ! j = k)"
  by (auto simp: free_keys_def)

lemma free_keys_use:
  assumes "j < length keys1" "j \<notin> set used"
  shows "free_keys keys1 used = add_mset (keys1 ! j) (free_keys keys1 (j # used))"
proof -
  let ?B = "{..<length keys1} - set (j # used)"
  have A: "{..<length keys1} - set used = insert j ?B" using assms by auto
  have "mset_set (insert j ?B) = add_mset j (mset_set ?B)" by (rule mset_set.insert) simp_all
  then show ?thesis unfolding free_keys_def A by simp
qed

lemma find_free_None:
  assumes "find (\<lambda>j. \<not> List.member used j \<and> k = keys1 ! j) [0..<length keys1] = None"
  shows "k \<notin># free_keys keys1 used"
proof
  assume "k \<in># free_keys keys1 used"
  then obtain j where "j < length keys1" "j \<notin> set used" "k = keys1 ! j" by (auto simp: free_keys_member)
  then have "j \<in> set [0..<length keys1] \<and> \<not> List.member used j \<and> k = keys1 ! j" by (simp add: List.member_iff)
  with assms show False by (simp only: find_None_iff) blast
qed

lemma find_free_Some:
  assumes "find (\<lambda>j. \<not> List.member used j \<and> k = keys1 ! j) [0..<length keys1] = Some j"
  shows "j < length keys1 \<and> j \<notin> set used \<and> keys1 ! j = k"
  using find_SomeD [OF assms] by (simp add: List.member_iff)

text \<open>A pair of positions, the first counted from i, with equal keys.\<close>

definition matched :: "nat \<Rightarrow> string list \<Rightarrow> string list \<Rightarrow> nat list \<Rightarrow> nat \<times> nat \<Rightarrow> bool" where
  "matched i ks keys1 used p \<longleftrightarrow> i \<le> fst p \<and> fst p < i + length ks \<and> snd p < length keys1 \<and>
     snd p \<notin> set used \<and> ks ! (fst p - i) = keys1 ! snd p"

lemma matched_shift:
  assumes "matched (Suc i) ks keys1 used p"
  shows "matched i (k # ks) keys1 used p \<and> i < fst p"
proof -
  from assms have "Suc i \<le> fst p" by (simp add: matched_def)
  then have "fst p - i = Suc (fst p - Suc i)" by simp
  with assms show ?thesis by (simp add: matched_def)
qed

lemma matched_fewer: "matched i ks keys1 (j # used) p \<Longrightarrow> matched i ks keys1 used p \<and> snd p \<noteq> j"
  by (simp add: matched_def)

lemma pair_keys_matching:
  "(\<forall>p\<in>set (pair_keys i ks keys1 used). matched i ks keys1 used p) \<and>
   distinct (map fst (pair_keys i ks keys1 used)) \<and> distinct (map snd (pair_keys i ks keys1 used)) \<and>
   image_mset (\<lambda>p. keys1 ! snd p) (mset (pair_keys i ks keys1 used)) = mset ks \<inter># free_keys keys1 used"
proof (induction ks arbitrary: i used)
  case (Cons k ks)
  let ?r = "find (\<lambda>j. \<not> List.member used j \<and> k = keys1 ! j) [0..<length keys1]"
  show ?case
  proof (cases ?r)
    case None
    have "k \<notin># free_keys keys1 used" by (rule find_free_None [OF None])
    with None Cons.IH [of "Suc i" used] show ?thesis
      by (simp add: inter_add_left1) (blast dest: matched_shift)
  next
    case (Some j)
    have j: "j < length keys1" "j \<notin> set used" "keys1 ! j = k" using find_free_Some [OF Some] by auto
    let ?ps = "pair_keys (Suc i) ks keys1 (j # used)"
    have IH: "\<forall>p\<in>set ?ps. matched (Suc i) ks keys1 (j # used) p" "distinct (map fst ?ps)" "distinct (map snd ?ps)"
      "image_mset (\<lambda>p. keys1 ! snd p) (mset ?ps) = mset ks \<inter># free_keys keys1 (j # used)"
      using Cons.IH [of "Suc i" "j # used"] by blast+
    have ps: "matched i (k # ks) keys1 used p \<and> i \<noteq> fst p \<and> j \<noteq> snd p" if "p \<in> set ?ps" for p
      using IH(1) that by (blast dest: matched_shift matched_fewer)
    have "matched i (k # ks) keys1 used (i, j)" using j by (simp add: matched_def)
    moreover have "i \<notin> fst ` set ?ps" "j \<notin> snd ` set ?ps" using ps by blast+
    moreover have "add_mset k (mset ks \<inter># free_keys keys1 (j # used)) = mset (k # ks) \<inter># free_keys keys1 used"
      using free_keys_use [OF j(1,2)] j(3) by simp
    ultimately show ?thesis using Some IH(2-4) ps j(3) by simp
  qed
qed simp

section \<open>The network mappings\<close>

definition mapped_networks ::
  "string \<Rightarrow> string \<times> string \<Rightarrow> string \<times> string \<Rightarrow> ('a \<Rightarrow> string) \<Rightarrow> ('a \<Rightarrow> string) \<Rightarrow> 'a list \<Rightarrow> az_network list list" where
  "mapped_networks az pe0 pe1 f g ps =
     map (\<lambda>p. [\<lparr>azn_URL = az, azn_ClusterName = snd pe0, azn_ClusterUUID = fst pe0, azn_NetworkName = f p\<rparr>,
              \<lparr>azn_URL = az, azn_ClusterName = snd pe1, azn_ClusterUUID = fst pe1, azn_NetworkName = g p\<rparr>]) ps"

lemma network_mappings_of_pairs:
  assumes "ps \<noteq> []"
  shows "vhaRecoveryPlanNetworkMappings [u0, u1] [n0, n1] [map f ps, map g ps] az =
    mapped_networks az (u0, n0) (u1, n1) f g ps"
proof -
  have c: "foldl (\<lambda>n names. if length names > n then length names else n) 1 [map f ps, map g ps] = length ps"
    using assms by (cases ps) auto
  have two: "[0..<length [x, y]] = [0, 1]" for x y :: string by simp
  show ?thesis
    unfolding vhaRecoveryPlanNetworkMappings_def Let_def c two mapped_networks_def
    by (rule nth_equalityI) simp_all
qed

section \<open>The requests\<close>

fun vha_create :: "call \<Rightarrow> bool" where
  "vha_create (PCreate_category c) = True"
| "vha_create (PCreate_policy p) = True"
| "vha_create (PCreate_plan p) = True"
| "vha_create c = is_read c"

lemma read_is_create: "is_read c \<Longrightarrow> vha_create c"
  by (cases c) auto

lemma prism_read_is_create: "is_prism_read c \<Longrightarrow> vha_create c"
  by (blast intro: prism_read_is_read read_is_create)

lemma collect_only: "moves (only_calls is_read) (collectFailedSubtaskErrors client fuel u v)"
proof (induction fuel arbitrary: u v)
  case 0
  then show ?case by (auto intro: only_rules)
next
  case (Suc fuel)
  then show ?case
    unfolding collectFailedSubtaskErrors.simps collect_child_def failedSubtasksFromParentGet_def get_child_def get_task_def
      listFailedChildTasks_def Let_def
    by (intro only_rules Suc) simp_all
qed

lemma enrich_only: "moves (only_calls is_read) (enrichTaskErrorWithFailedSubtasks fuel c u e)"
  unfolding enrichTaskErrorWithFailedSubtasks_def by (intro only_rules collect_only)

lemma domain_keys_only: "moves (only_calls is_read) (domain_keys vx fd)"
  unfolding domain_keys_def by (intro only_rules only_mono [OF subnetNetworkKeys_reads prism_read_is_read])

lemma pairs_only: "moves (only_calls is_read) (pairVHADomainSubnetsByL2 vx fds)"
  unfolding pairVHADomainSubnetsByL2_def Let_def by (intro only_rules domain_keys_only)

lemma domain_manager_only: "moves (only_calls is_read) (getDomainManagerExtId vx)"
  unfolding getDomainManagerExtId_def by (intro only_rules) simp

lemma find_policy_only: "moves (only_calls is_read) (findProtectionPolicyByName vx n)"
  unfolding findProtectionPolicyByName_def by (intro only_rules) simp

lemma find_plan_only: "moves (only_calls is_read) (findRecoveryPlanByName vx n)"
  unfolding findRecoveryPlanByName_def Let_def by (intro only_rules) simp

lemma getOrCreateCategory_only: "moves (only_calls vha_create) (getOrCreateCategory client ci)"
  unfolding getOrCreateCategory_def getOrCreateCategoryForProject_def create_category_def Let_def
  by (intro only_rules only_mono [OF getCategories_reads prism_read_is_create]) simp_all

lemma group_categories_only: "moves (only_calls vha_create) (getOrCreateVHADomainGroupCategories vx g fds)"
  unfolding getOrCreateVHADomainGroupCategories_def by (intro only_rules getOrCreateCategory_only)

lemma policy_only: "moves (only_calls vha_create) (getOrCreateVHADomainProtectionPolicy vx cs pes)"
  unfolding getOrCreateVHADomainProtectionPolicy_def category_ext_id_def Let_def
  by (intro only_rules only_mono [OF find_policy_only read_is_create] only_mono [OF domain_manager_only read_is_create]
      getOrCreateCategory_only) simp_all

lemma wait_plan_only: "moves (only_calls is_read) (wait_for_plan_task vx n t)"
  unfolding wait_for_plan_task_def by (intro only_rules Wait_only enrich_only)

lemma await_only: "moves (only_calls is_read) (await_created_plan vx n r)"
  unfolding await_created_plan_def Let_def by (intro only_rules wait_plan_only)

lemma plan_only: "moves (only_calls vha_create) (getOrCreateVHADomainRecoveryPlan vx g u n sn i az)"
  unfolding getOrCreateVHADomainRecoveryPlan_def Let_def
  by (intro only_rules only_mono [OF find_plan_only read_is_create] only_mono [OF await_only read_is_create]) simp_all

lemma plans_of_group_only: "moves (only_calls vha_create) (plans_of_group vx fds u n sn az gc)"
  unfolding plans_of_group_def by (intro only_rules plan_only)

lemma pe_uuid_only: "moves (only_calls is_read) (pe_uuid_of vx fd)"
  unfolding pe_uuid_of_def Let_def by (intro only_rules only_mono [OF GetPEUUID_reads prism_read_is_read])

lemma category_exists_only: "moves (only_calls is_read) (validateCategoryExists vx c)"
  unfolding validateCategoryExists_def by (intro only_rules getCategory_only_reads)

lemma policy_exists_only: "moves (only_calls is_read) (validateProtectionPolicyExists vx p)"
  unfolding validateProtectionPolicyExists_def Let_def by (intro only_rules find_policy_only) simp

lemma plan_exists_only: "moves (only_calls is_read) (validateRecoveryPlanExists vx p g i)"
  unfolding validateRecoveryPlanExists_def Let_def by (intro only_rules find_plan_only) simp

lemma validate_plan_only: "moves (only_calls is_read) (validate_plan vx fds p)"
  unfolding validate_plan_def Let_def by (intro only_rules plan_exists_only)

lemma check_errors_only: "(\<And>x. moves (only_calls A) (f x)) \<Longrightarrow> moves (only_calls A) (check_errors f xs)"
  unfolding check_errors_def check_error_def by (intro only_rules)

section \<open>The subnets\<close>

lemma map_go_length: "map_go f xs s = (Inr ys, s') \<Longrightarrow> length ys = length xs"
  by (induction xs arbitrary: ys s) (auto simp: go_inv)

lemma domain_keys_length: "domain_keys vx fd s = (Inr ks, s') \<Longrightarrow> length ks = length (fd_Subnets (nfd_Spec fd))"
  by (auto simp: domain_keys_def subnetNetworkKeys_def go_inv dest: map_go_length)

text \<open>C17 The subnets of a recovery plan: the pairs that pairVHADomainSubnetsByL2 forms join
  subnets of the same layer-2 network, use each subnet at most once, and are as many as possible
  (the networks of the pairs are the intersection of the two multisets of networks); without a
  pair it fails; and the recovery plan maps exactly the pairs.\<close>

theorem vha_subnet_pairs:
  assumes "domain_keys vx fd0 s = (Inr k0, s1)" "domain_keys vx fd1 s1 = (Inr k1, s2)"
  shows "\<exists>ps. (\<forall>p\<in>set ps. fst p < length k0 \<and> snd p < length k1 \<and> k0 ! fst p = k1 ! snd p) \<and>
    distinct (map fst ps) \<and> distinct (map snd ps) \<and> image_mset (\<lambda>p. k1 ! snd p) (mset ps) = mset k0 \<inter># mset k1 \<and>
    (let name0 = \<lambda>p. id_String (fd_Subnets (nfd_Spec fd0) ! fst p);
         name1 = \<lambda>p. id_String (fd_Subnets (nfd_Spec fd1) ! snd p) in
     \<exists>e. pairVHADomainSubnetsByL2 vx [fd0, fd1] s =
         (if ps = [] then Inl e else Inr [map name0 ps, map name1 ps], s2) \<and>
       (ps \<noteq> [] \<longrightarrow> vhaRecoveryPlanNetworkMappings [u0, u1] [n0, n1] [map name0 ps, map name1 ps] az =
         mapped_networks az (u0, n0) (u1, n1) name0 name1 ps))"
proof (intro exI conjI)
  let ?ps = "pair_keys 0 k0 k1 []"
  note P = pair_keys_matching [of 0 k0 k1 "[]"]
  show "\<forall>p\<in>set ?ps. fst p < length k0 \<and> snd p < length k1 \<and> k0 ! fst p = k1 ! snd p"
    using P by (auto simp: matched_def)
  show "distinct (map fst ?ps)" "distinct (map snd ?ps)"
    "image_mset (\<lambda>p. k1 ! snd p) (mset ?ps) = mset k0 \<inter># mset k1" using P by (simp_all add: free_keys_all)
  show "let name0 = \<lambda>p. id_String (fd_Subnets (nfd_Spec fd0) ! fst p);
         name1 = \<lambda>p. id_String (fd_Subnets (nfd_Spec fd1) ! snd p) in
     \<exists>e. pairVHADomainSubnetsByL2 vx [fd0, fd1] s =
         (if ?ps = [] then Inl e else Inr [map name0 ?ps, map name1 ?ps], s2) \<and>
       (?ps \<noteq> [] \<longrightarrow> vhaRecoveryPlanNetworkMappings [u0, u1] [n0, n1] [map name0 ?ps, map name1 ?ps] az =
         mapped_networks az (u0, n0) (u1, n1) name0 name1 ?ps)"
    unfolding Let_def using assms
    by (auto simp: pairVHADomainSubnetsByL2_def two_domains_def Let_def bnd_apply of_result_apply raise_apply ret_apply
        network_mappings_of_pairs)
qed

section \<open>The resources of a domain\<close>

text \<open>A group as a reconcile makes it: for each failure domain, in the order of the metro, the
  category of the group and of its index, and a recovery plan with a UUID.\<close>

definition complete_group :: "string \<Rightarrow> NutanixFailureDomain list \<Rightarrow> NutanixMovementGroup \<Rightarrow> bool" where
  "complete_group name fds g \<longleftrightarrow>
     map crp_FailureDomainRef (mg_CategoryRecoveryPlans g) = map (\<lambda>fd. om_Name (nfd_Meta fd)) fds \<and>
     (\<forall>i<length fds. let crp = mg_CategoryRecoveryPlans g ! i in
        vha_category name (mg_Name g) i = Inr (crp_Category crp) \<and> IsUUID (crp_RecoveryPlan crp) \<and>
        id_String (crp_RecoveryPlan crp) \<noteq> [])"

lemma keeps_Obj: "moves (only_calls A) m \<Longrightarrow> m t = (r, t') \<Longrightarrow> Obj t = d \<Longrightarrow> Obj t' = d"
  using only_Obj by metis

lemma plan_has_uuid:
  assumes "getOrCreateVHADomainRecoveryPlan vx g u n sn i az s = (Inr rp, s')"
  shows "IsUUID rp \<and> id_String rp \<noteq> []"
proof -
  have "await_created_plan vx m r t = (Inr rp, t') \<Longrightarrow> IsUUID rp \<and> id_String rp \<noteq> []" for m r t t'
    by (auto simp: await_created_plan_def Let_def go_inv go_cases)
  with assms show ?thesis
    by (auto simp: getOrCreateVHADomainRecoveryPlan_def Let_def go_inv go_cases)
qed

lemma group_categories_made:
  assumes "getOrCreateVHADomainGroupCategories vx g fds s = (Inr cs, s')"
  shows "length cs = length fds \<and> (\<forall>i<length fds. vha_category (om_Name (vha_Meta (Obj s))) g i = Inr (cs ! i))"
proof -
  let ?f = "\<lambda>i. bnd (gets (\<lambda>s. om_Name (vha_Meta (Obj (s :: vha_state))))) (\<lambda>name.
       bnd (wrapping (\<lambda>e. Wrap (''movementGroup '' @ g @ '': '') e []) (of_result (vha_category name g i))) (\<lambda>ci.
       thn (wrapping (\<lambda>e. Wrap (''movementGroup '' @ g @ '': failed to get or create category '' @
              cat_Key ci @ ''/'' @ cat_Value ci @ '': '') e []) (getOrCreateCategory (vx_V4 vx) (Some ci)))
         (ret ci)))"
  have m: "moves (only_calls vha_create) (?f i)" for i by (intro only_rules getOrCreateCategory_only)
  have I: "Obj t' = Obj s" if "?f i t = (r, t')" "Obj t = Obj s" for i t r t' by (rule keeps_Obj [OF m that])
  have "list_all2 (\<lambda>i c. \<exists>t t'. Obj t = Obj s \<and> ?f i t = (Inr c, t')) [0..<length fds] cs"
    using map_go_run [where I = "\<lambda>t. Obj t = Obj s", OF I assms [unfolded getOrCreateVHADomainGroupCategories_def] refl] by (rule conjunct2)
  then have "list_all2 (\<lambda>i c. vha_category (om_Name (vha_Meta (Obj s))) g i = Inr c) [0..<length fds] cs"
    by (rule list_all2_mono) (auto simp: go_inv)
  then show ?thesis by (auto simp: list_all2_conv_all_nth)
qed

lemma plans_of_group_made:
  assumes "plans_of_group vx fds u n sn az (g, cs) s = (Inr mg, s')"
    and "\<forall>i<length fds. vha_category name g i = Inr (cs ! i)"
  shows "mg_Name mg = g \<and> complete_group name fds mg"
proof -
  from assms(1) obtain ps where mg: "mg = \<lparr>mg_Name = g, mg_CategoryRecoveryPlans = ps\<rparr>"
    and run: "map_go (\<lambda>i. bnd (getOrCreateVHADomainRecoveryPlan vx g u n sn i az) (\<lambda>rp.
        ret \<lparr>crp_Category = cs ! i, crp_RecoveryPlan = rp, crp_FailureDomainRef = om_Name (nfd_Meta (fds ! i))\<rparr>))
        [0..<length fds] s = (Inr ps, s')"
    by (auto simp: plans_of_group_def go_inv)
  have "list_all2 (\<lambda>i p. \<exists>rp. IsUUID rp \<and> id_String rp \<noteq> [] \<and>
      p = \<lparr>crp_Category = cs ! i, crp_RecoveryPlan = rp, crp_FailureDomainRef = om_Name (nfd_Meta (fds ! i))\<rparr>)
    [0..<length fds] ps"
    using map_go_run [where I = "\<lambda>_. True", OF _ run]
    by (auto simp: go_inv elim!: list_all2_mono dest: plan_has_uuid)
  then have "length ps = length fds \<and> (\<forall>i<length fds. IsUUID (crp_RecoveryPlan (ps ! i)) \<and>
      id_String (crp_RecoveryPlan (ps ! i)) \<noteq> [] \<and> crp_Category (ps ! i) = cs ! i \<and>
      crp_FailureDomainRef (ps ! i) = om_Name (nfd_Meta (fds ! i)))"
    by (fastforce simp: list_all2_conv_all_nth)
  with assms(2) show ?thesis by (auto simp: mg complete_group_def Let_def intro!: nth_equalityI)
qed

lemma policy_has_uuid: "getOrCreateVHADomainProtectionPolicy vx cs pes s = (Inr pp, s') \<Longrightarrow> IsUUID pp"
  by (auto simp: getOrCreateVHADomainProtectionPolicy_def Let_def go_inv go_cases)

text \<open>The groups with their categories, and then with their plans.\<close>

lemma groups_made:
  assumes "map_go (\<lambda>g. bnd (getOrCreateVHADomainGroupCategories vx g fds) (\<lambda>cs. ret (g, cs))) gs s = (Inr gcs, s')"
  shows "Obj s' = Obj s \<and> list_all2 (\<lambda>g gc. fst gc = g \<and>
    (\<forall>i<length fds. vha_category (om_Name (vha_Meta (Obj s))) g i = Inr (snd gc ! i))) gs gcs"
proof -
  let ?f = "\<lambda>g. bnd (getOrCreateVHADomainGroupCategories vx g fds) (\<lambda>cs. ret (g, cs))"
  have m: "moves (only_calls vha_create) (?f g)" for g by (intro only_rules group_categories_only)
  have I: "Obj t' = Obj s" if "?f g t = (r, t')" "Obj t = Obj s" for g t r t' by (rule keeps_Obj [OF m that])
  have "Obj s' = Obj s \<and> list_all2 (\<lambda>g gc. \<exists>t t'. Obj t = Obj s \<and> ?f g t = (Inr gc, t')) gs gcs"
    by (rule map_go_run [where I = "\<lambda>t. Obj t = Obj s", OF I assms refl])
  then show ?thesis by (auto simp: go_inv elim!: list_all2_mono dest!: group_categories_made)
qed

lemma plans_made:
  assumes "map_go (plans_of_group vx fds u n sn az) gcs s = (Inr mgs, s')"
    and "list_all2 (\<lambda>g gc. fst gc = g \<and> (\<forall>i<length fds. vha_category name g i = Inr (snd gc ! i))) gs gcs"
  shows "Obj s' = Obj s \<and> map mg_Name mgs = gs \<and> list_all (complete_group name fds) mgs"
proof -
  have I: "Obj t' = Obj s" if "plans_of_group vx fds u n sn az gc t = (r, t')" "Obj t = Obj s" for gc t r t'
    by (rule keeps_Obj [OF plans_of_group_only that])
  have "Obj s' = Obj s \<and> list_all2 (\<lambda>gc mg. \<exists>t t'. Obj t = Obj s \<and> plans_of_group vx fds u n sn az gc t = (Inr mg, t')) gcs mgs"
    by (rule map_go_run [where I = "\<lambda>t. Obj t = Obj s", OF I assms(1) refl])
  then have o1: "Obj s' = Obj s" and l: "list_all2 (\<lambda>gc mg. \<exists>t t'. plans_of_group vx fds u n sn az gc t = (Inr mg, t')) gcs mgs"
    by (auto elim!: list_all2_mono)
  have "list_all2 (\<lambda>g mg. mg_Name mg = g \<and> complete_group name fds mg) gs mgs"
  proof (rule list_all2_trans [OF _ assms(2) l])
    fix g gc mg
    assume c: "fst gc = g \<and> (\<forall>i<length fds. vha_category name g i = Inr (snd gc ! i))"
      and "\<exists>t t'. plans_of_group vx fds u n sn az gc t = (Inr mg, t')"
    moreover have "gc = (g, snd gc)" using c by (cases gc) simp
    ultimately obtain t t' where "plans_of_group vx fds u n sn az (g, snd gc) t = (Inr mg, t')" by metis
    from plans_of_group_made [OF this conjunct2 [OF c]] show "mg_Name mg = g \<and> complete_group name fds mg" .
  qed
  with o1 show ?thesis by (auto simp: list_all2_conv_all_nth list_all_length intro!: nth_equalityI)
qed

definition with_resources ::
  "NutanixVirtualHADomain \<Rightarrow> NutanixMovementGroup list \<Rightarrow> NutanixResourceIdentifier \<Rightarrow> NutanixVirtualHADomain" where
  "with_resources d mgs pp =
     vha_add_conditions [SetTrue VHADomainPCResourcesValidatedCondition VHADomainPCResourcesValidReason []]
       (d\<lparr>vha_MovementGroups := mgs, vha_ProtectionPolicy := Some pp\<rparr>)"

lemma create_resources_made:
  assumes "create_resources vx fds sn s = (Inr (), s')"
  shows "\<exists>mgs pp. Obj s' = with_resources (Obj s) mgs pp \<and> IsUUID pp \<and> map mg_Name mgs = group_names (Obj s) \<and>
    list_all (complete_group (om_Name (vha_Meta (Obj s))) fds) mgs"
proof -
  from assms obtain u s1 az s2 gcs s3 pp s4 mgs s5 where
    r: "map_go (pe_uuid_of vx) fds s = (Inr u, s1)"
    "wrapping (\<lambda>e. Wrap ''failed to get local availability zone URL: '' e []) (getDomainManagerExtId vx) s1 = (Inr az, s2)"
    and g: "map_go (\<lambda>g. bnd (getOrCreateVHADomainGroupCategories vx g fds) (\<lambda>cs. ret (g, cs))) (group_names (Obj s2)) s2 = (Inr gcs, s3)"
    and pp: "getOrCreateVHADomainProtectionPolicy vx (concat (map snd gcs)) u s3 = (Inr pp, s4)"
    and p: "map_go (plans_of_group vx fds u (map (\<lambda>fd. id_String (fd_PrismElementCluster (nfd_Spec fd))) fds) sn az) gcs s4 = (Inr mgs, s5)"
    and s': "Obj s' = with_resources (Obj s5) mgs pp"
    unfolding create_resources_def Let_def by (auto simp: bnd_Inr gets_Inr update_obj_def modify_Inr with_resources_def)
  have m1: "moves (only_calls is_read) (map_go (pe_uuid_of vx) fds)" by (intro only_rules pe_uuid_only)
  have m2: "moves (only_calls is_read) (wrapping (\<lambda>e. Wrap ''failed to get local availability zone URL: '' e [])
    (getDomainManagerExtId vx))" by (intro only_rules domain_manager_only)
  have o1: "Obj s2 = Obj s" by (rule keeps_Obj [OF m2 r(2) keeps_Obj [OF m1 r(1) refl]])
  note gs = groups_made [OF g]
  have o2: "Obj s4 = Obj s" using keeps_Obj [OF policy_only pp] gs o1 by simp
  have "Obj s5 = Obj s4 \<and> map mg_Name mgs = group_names (Obj s2) \<and> list_all (complete_group (om_Name (vha_Meta (Obj s2))) fds) mgs"
    by (rule plans_made [OF p conjunct2 [OF gs]])
  then show ?thesis using s' o1 o2 policy_has_uuid [OF pp] by auto
qed

lemma group_names_nonempty: "group_names d \<noteq> []"
  by (simp add: group_names_def Let_def go_string.sort_Nil_iff)

lemma complete_is_ready: "complete_group name fds g \<Longrightarrow> length fds = 2 \<Longrightarrow> group_ready g"
  by (cases "mg_CategoryRecoveryPlans g")
    (auto simp: complete_group_def group_ready_def list_all_length Let_def dest: arg_cong [where f = length])

lemma resources_ready:
  assumes "map mg_Name mgs = group_names d" "list_all (complete_group name fds) mgs" "length fds = 2"
  shows "domain_ready (with_resources e mgs pp) \<longleftrightarrow> id_String pp \<noteq> []"
proof -
  have "mgs \<noteq> []" using assms(1) group_names_nonempty [of d] by auto
  moreover have "list_all group_ready mgs" using assms(2,3) by (auto simp: list_all_iff dest: complete_is_ready)
  ultimately show ?thesis by (simp add: domain_ready_def with_resources_def vha_add_conditions_def)
qed

text \<open>The objects a reconcile starts from.\<close>

definition metro_domains :: "vha_ctx \<Rightarrow> NutanixVirtualHADomain \<Rightarrow> NutanixFailureDomain list \<Rightarrow> bool" where
  "metro_domains vx d fds \<longleftrightarrow>
     (\<exists>h metro. Kube_GetMetro (vx_kube vx) h (vha_MetroRef d) (om_Namespace (vha_Meta d)) = Inr metro \<and>
        list_all2 (\<lambda>ref fd. \<exists>h. Kube_GetFailureDomain (vx_kube vx) h ref (om_Namespace (vha_Meta d)) = Inr fd)
          (nmt_FailureDomains metro) fds)"

lemma reconcile_resources_Inr:
  assumes "reconcile_resources vx s = (Inr (), s')"
  shows "\<exists>fds t t'. metro_domains vx (Obj s) fds \<and> Obj t = Obj s \<and> ensureVHADomainPCResources vx fds t = (Inr (), t') \<and>
    Obj s' = (Obj t')\<lparr>vha_Ready := domain_ready (Obj t')\<rparr>"
proof -
  let ?ns = "om_Namespace (vha_Meta (Obj s))"
  let ?get = "\<lambda>fdRef. getNutanixFailureDomainObject (vx_kube vx) fdRef ?ns"
  from assms obtain metro s1 fds s2 t' where
    m: "getNutanixMetroObject (vx_kube vx) (vha_MetroRef (Obj s)) ?ns s = (Inr metro, s1)"
    and f: "map_go ?get (nmt_FailureDomains metro) s1 = (Inr fds, s2)"
    and e: "ensureVHADomainPCResources vx fds s2 = (Inr (), t')" and s': "Obj s' = (Obj t')\<lparr>vha_Ready := domain_ready (Obj t')\<rparr>"
    by (auto simp: reconcile_resources_def Let_def bnd_Inr thn_Inr gets_Inr update_obj_def modify_Inr)
  have "\<exists>h. Kube_GetMetro (vx_kube vx) h (vha_MetroRef (Obj s)) ?ns = Inr metro"
    using m by (auto simp: getNutanixMetroObject_def go_inv)
  moreover have "list_all2 (\<lambda>ref fd. \<exists>h. Kube_GetFailureDomain (vx_kube vx) h ref ?ns = Inr fd) (nmt_FailureDomains metro) fds"
    using map_go_run [where I = "\<lambda>_. True", OF _ f]
    by (auto simp: getNutanixFailureDomainObject_def go_inv elim!: list_all2_mono)
  ultimately have "metro_domains vx (Obj s) fds" by (auto simp: metro_domains_def)
  moreover have g: "moves (only_calls is_read) (map_go ?get (nmt_FailureDomains metro))" by (intro only_rules getObject_only)
  have "Obj s2 = Obj s" by (rule keeps_Obj [OF g f keeps_Obj [OF getObject_only(2) m refl]])
  ultimately show ?thesis using e s' by blast
qed

lemma ensure_not_ready:
  assumes "ensureVHADomainPCResources vx fds t = (Inr (), t')" "\<not> vha_Ready (Obj t)"
  shows "length fds = 2 \<and> (\<exists>mgs pp. Obj t' = with_resources (Obj t) mgs pp \<and> IsUUID pp \<and>
    map mg_Name mgs = group_names (Obj t) \<and> list_all (complete_group (om_Name (vha_Meta (Obj t))) fds) mgs)"
proof -
  have l: "length fds = 2" using assms(1) by (cases "length fds = 2") (simp_all add: ensureVHADomainPCResources_def raise_Inr)
  with assms obtain sn t1 where p: "pairVHADomainSubnetsByL2 vx fds t = (Inr sn, t1)"
    and c: "(if vha_Ready (Obj t1) then validateVHADomainPCResources vx fds else create_resources vx fds sn) t1 = (Inr (), t')"
    by (auto simp: ensureVHADomainPCResources_def bnd_Inr gets_Inr)
  have o1: "Obj t1 = Obj t" by (rule keeps_Obj [OF pairs_only p refl])
  with c assms(2) have "create_resources vx fds sn t1 = (Inr (), t')" by simp
  from create_resources_made [OF this] l o1 show ?thesis by simp
qed


section \<open>A sample domain\<close>

text \<open>A Prism Central with the subnets net-a and net-b of one VLAN on the Prism Elements pe-a and
  pe-b, that makes what it is asked for; and a metro of the two failure domains.\<close>

definition vha_fd :: "string \<Rightarrow> NutanixFailureDomain" where
  "vha_fd n = (sample_fd n)\<lparr>nfd_Spec := \<lparr>fd_PrismElementCluster = uuid_id (''pe-'' @ n), fd_Subnets = [uuid_id (''net-'' @ n)]\<rparr>\<rparr>"

definition vha_v4 :: v4_client where
  "vha_v4 = base_v4_client\<lparr>
     Clusters_Get := (\<lambda>h u. Inr (Some \<lparr>pcl_ExtId = Some u, pcl_Name = Some u, pcl_Config = None\<rparr>)),
     Subnets_Get := (\<lambda>h u. Inr (Some \<lparr>sn_ExtId = Some u, sn_Name = Some u, sn_SubnetType = Some ''VLAN'',
       sn_ClusterReference = None, sn_ClusterReferenceList = [], sn_ProjectExtId = None, sn_SharedWithProjects = [],
       sn_NetworkId = Some 10, sn_IpPrefix = None\<rparr>)),
     Categories_List := (\<lambda>h f. Inr []),
     Categories_Create := (\<lambda>h c. (None, Some (c\<lparr>ct_ExtId := ct_Value c\<rparr>))),
     Categories_Delete := (\<lambda>h u. Inr ()),
     ProtectionPolicies_List := (\<lambda>h f. Inr []),
     ProtectionPolicies_Create := (\<lambda>h p. Inr (Some (p\<lparr>pp_ExtId := Some ''pp-1''\<rparr>))),
     ProtectionPolicies_Delete := (\<lambda>h u. Inr ()),
     DomainManagers_List := (\<lambda>h. Inr [Some ''pc-1''])\<rparr>"

definition vha_v3 :: v3_client where
  "vha_v3 = base_v3_client\<lparr>
     V3_ListAllRecoveryPlans := (\<lambda>h f. Inr (Some [])),
     V3_CreateRecoveryPlan := (\<lambda>h p. Inr (Some \<lparr>pla_UUID = Some (rp_Name p), pla_TaskUUID = Some (Some ''task'')\<rparr>)),
     V3_DeleteRecoveryPlan := (\<lambda>h u. Inr None),
     V3_GetTask := (\<lambda>h u. Inr \<lparr>tv_Status = Some statusSucceeded, tv_ErrorDetail = None, tv_ProgressMessage = None\<rparr>)\<rparr>"

definition vha_kube :: kube_client where
  "vha_kube = base_kube_client\<lparr>
     Kube_GetMetro := (\<lambda>h n ns. Inr \<lparr>nmt_Meta = sample_meta ''m'', nmt_FailureDomains = [''a'', ''b''], nmt_Conditions = []\<rparr>),
     Kube_GetFailureDomain := (\<lambda>h n ns. Inr (vha_fd n))\<rparr>"

definition vha_sample_ctx :: vha_ctx where
  "vha_sample_ctx = \<lparr>vx_libs = demo_libs, vx_kube = vha_kube, vx_Cluster = Some sample_Cluster,
     vx_NutanixCluster = Some sample_NutanixCluster, vx_V3 = vha_v3, vx_V4 = vha_v4, vx_polls = 3, vx_fuel = 3,
     vx_key_order = (\<lambda>ks. ks)\<rparr>"

definition vha_object :: NutanixVirtualHADomain where
  "vha_object = \<lparr>vha_Meta = (sample_meta ''c-m'')\<lparr>om_Finalizers := [NutanixVirtualHADomainFinalizer]\<rparr>,
     vha_MetroRef = ''m'', vha_ProtectionPolicy = None, vha_MovementGroups = [], vha_Ready = False, vha_Conditions = []\<rparr>"

definition vha_start :: vha_state where "vha_start = \<lparr>trace = [], Obj = vha_object\<rparr>"

definition vha_after :: vha_state where "vha_after = snd (vha_reconcileNormal vha_sample_ctx vha_start)"

lemma run_of_fst: "fst x = r \<Longrightarrow> x = (r, snd x)"
  by (cases x) simp

lemma sample_keys:
  "fst (domain_keys vha_sample_ctx (vha_fd ''a'') vha_start) = Inr [''VLAN|10|'']"
  "fst (domain_keys vha_sample_ctx (vha_fd ''b'') (snd (domain_keys vha_sample_ctx (vha_fd ''a'') vha_start))) = Inr [''VLAN|10|'']"
  by code_simp+

lemma vha_subnet_pairs_witness:
  "\<exists>n0 n1 s2. pairVHADomainSubnetsByL2 vha_sample_ctx [vha_fd ''a'', vha_fd ''b''] vha_start = (Inr [n0, n1], s2) \<and> length n0 = 1"
proof -
  let ?k = "[''VLAN|10|'']" and ?s1 = "snd (domain_keys vha_sample_ctx (vha_fd ''a'') vha_start)"
  let ?s2 = "snd (domain_keys vha_sample_ctx (vha_fd ''b'') ?s1)"
  let ?n = "\<lambda>fd i. id_String (fd_Subnets (nfd_Spec (vha_fd fd)) ! i)"
  from vha_subnet_pairs [OF run_of_fst [OF sample_keys(1)] run_of_fst [OF sample_keys(2)]] obtain ps
    where ps: "image_mset (\<lambda>p. ?k ! snd p) (mset ps) = mset ?k \<inter># mset ?k"
    and run: "\<exists>e. pairVHADomainSubnetsByL2 vha_sample_ctx [vha_fd ''a'', vha_fd ''b''] vha_start =
      (if ps = [] then Inl e else Inr [map (\<lambda>p. ?n ''a'' (fst p)) ps, map (\<lambda>p. ?n ''b'' (snd p)) ps], ?s2)"
    unfolding Let_def by blast
  have "size (image_mset (\<lambda>p. ?k ! snd p) (mset ps)) = 1" unfolding ps by simp
  then have "length ps = 1" by simp
  with run show ?thesis by (auto split: if_splits)
qed

lemma vha_sample_run: "fst (vha_reconcileNormal vha_sample_ctx vha_start) = Inr ()"
  by code_simp


section \<open>Deletion\<close>

text \<open>Prism has confirmed that a plan or a policy is gone.\<close>

definition plan_gone :: "vha_ctx \<Rightarrow> string \<Rightarrow> bool" where
  "plan_gone vx u \<longleftrightarrow>
     (\<exists>h. case V3_DeleteRecoveryPlan (vx_V3 vx) h u of
        Inl e \<Rightarrow> Contains (Error_text e) ''ENTITY_NOT_FOUND''
      | Inr a \<Rightarrow> (\<forall>t. (case a of None \<Rightarrow> None | Some a \<Rightarrow> pla_TaskUUID a) = Some (Some t) \<longrightarrow> t \<noteq> [] \<longrightarrow>
          (\<exists>h v. V3_GetTask (vx_V3 vx) h t = Inr v \<and> tv_Status v = Some statusSucceeded)))"

definition policy_gone :: "vha_ctx \<Rightarrow> string \<Rightarrow> bool" where
  "policy_gone vx u \<longleftrightarrow>
     (\<exists>h. case ProtectionPolicies_Delete (vx_V4 vx) h u of Inl e \<Rightarrow> IsNotFound (vx_V4 vx) e | Inr _ \<Rightarrow> True)"

definition plans_gone :: "vha_ctx \<Rightarrow> NutanixVirtualHADomain \<Rightarrow> bool" where
  "plans_gone vx d \<longleftrightarrow> (\<forall>crp\<in>set (domain_plans d). id_String (crp_RecoveryPlan crp) \<noteq> [] \<longrightarrow>
     plan_gone vx (id_String (crp_RecoveryPlan crp)))"

definition the_policy_gone :: "vha_ctx \<Rightarrow> NutanixVirtualHADomain \<Rightarrow> bool" where
  "the_policy_gone vx d \<longleftrightarrow> (\<forall>pp. vha_ProtectionPolicy d = Some pp \<longrightarrow> id_String pp \<noteq> [] \<longrightarrow> policy_gone vx (id_String pp))"

fun plan_call :: "call \<Rightarrow> bool" where
  "plan_call (PDelete RRecoveryPlan u) = True"
| "plan_call (PGet RTask u) = True"
| "plan_call _ = False"

fun policy_call :: "call \<Rightarrow> bool" where
  "policy_call (PDelete RProtectionPolicy u) = True"
| "policy_call _ = False"

fun category_call :: "call \<Rightarrow> bool" where
  "category_call (PList RCategory f) = True"
| "category_call (PDelete RCategory u) = True"
| "category_call _ = False"

lemma Wait_plan_calls: "moves (only_calls plan_call) (WaitForTaskToSucceed n client u)"
  by (induction n) (auto simp: GetTaskStatus_def intro!: only_rules)

lemma delete_plan_calls: "moves (only_calls plan_call) (delete_plan vx rp)"
  unfolding delete_plan_def Let_def by (intro only_rules Wait_plan_calls) simp

lemma delete_plans_calls: "moves (only_calls plan_call) (deleteVHADomainRecoveryPlans vx)"
  unfolding deleteVHADomainRecoveryPlans_def by (intro only_rules delete_plan_calls)

lemma delete_policy_calls: "moves (only_calls policy_call) (deleteVHADomainProtectionPolicy vx)"
  unfolding deleteVHADomainProtectionPolicy_def Let_def by (intro only_rules) simp

lemma delete_pairs_calls: "moves (only_calls category_call) (delete_pairs client p kvs)"
  by (induction kvs) (auto simp: getCategories_def Let_def intro!: only_rules)

lemma delete_categories_calls: "moves (only_calls category_call) (deleteVHADomainCategories vx)"
  unfolding deleteVHADomainCategories_def deleteCategoryKeyValues_def deleteCategoryKeyValuesForProject_def
  by (intro only_rules delete_pairs_calls)

lemma delete_plan_gone:
  assumes "delete_plan vx rp s = (Inr (), s')" "id_String rp \<noteq> []"
  shows "plan_gone vx (id_String rp)"
proof (cases "V3_DeleteRecoveryPlan (vx_V3 vx) (trace s) (id_String rp)")
  case (Inl e)
  with assms show ?thesis
    by (auto simp: delete_plan_def Let_def plan_gone_def bnd_Inr attempt_apply ext_apply raise_Inr
        split: if_splits intro!: exI [of _ "trace s"])
next
  case (Inr a)
  have "\<exists>h v. V3_GetTask (vx_V3 vx) h t = Inr v \<and> tv_Status v = Some statusSucceeded"
    if "(case a of None \<Rightarrow> None | Some a \<Rightarrow> pla_TaskUUID a) = Some (Some t)" "t \<noteq> []" for t
    using assms Inr that
    by (auto simp: delete_plan_def Let_def bnd_Inr attempt_apply ext_apply wrapping_Inr dest!: Wait_succeeds)
  with Inr show ?thesis unfolding plan_gone_def by (intro exI [of _ "trace s"]) simp
qed

lemma delete_plans_gone: "deleteVHADomainRecoveryPlans vx s = (Inr (), s') \<Longrightarrow> plans_gone vx (Obj s)"
  by (auto simp: deleteVHADomainRecoveryPlans_def plans_gone_def bnd_Inr gets_Inr dest!: iter_go_all dest: delete_plan_gone)

lemma delete_policy_gone: "deleteVHADomainProtectionPolicy vx s = (Inr (), s') \<Longrightarrow> the_policy_gone vx (Obj s)"
  by (auto simp: deleteVHADomainProtectionPolicy_def the_policy_gone_def policy_gone_def Let_def go_inv go_cases
      intro!: exI [of _ "trace s"])

text \<open>The three phases of the clean-up.\<close>

lemma cleanup_phases:
  assumes "deleteVHADomainPCResources vx s = (r, s')"
  shows "\<exists>t1 t2 t3. s' = s\<lparr>trace := trace s @ t1 @ t2 @ t3\<rparr> \<and> list_all plan_call t1 \<and> list_all policy_call t2 \<and>
    list_all category_call t3 \<and> (t2 \<noteq> [] \<or> t3 \<noteq> [] \<or> r = Inr () \<longrightarrow> plans_gone vx (Obj s)) \<and>
    (t3 \<noteq> [] \<or> r = Inr () \<longrightarrow> the_policy_gone vx (Obj s))"
proof -
  obtain q1 s1 where 1: "deleteVHADomainRecoveryPlans vx s = (q1, s1)" by force
  then obtain t1 where t1: "s1 = s\<lparr>trace := trace s @ t1\<rparr>" "list_all plan_call t1"
    using movesD [OF delete_plans_calls] by (fastforce simp: only_calls_def)
  obtain q2 s2 where 2: "deleteVHADomainProtectionPolicy vx s1 = (q2, s2)" by force
  then obtain t2 where t2: "s2 = s1\<lparr>trace := trace s1 @ t2\<rparr>" "list_all policy_call t2"
    using movesD [OF delete_policy_calls] by (fastforce simp: only_calls_def)
  obtain q3 s3 where 3: "deleteVHADomainCategories vx s2 = (q3, s3)" by force
  then obtain t3 where t3: "s3 = s2\<lparr>trace := trace s2 @ t3\<rparr>" "list_all category_call t3"
    using movesD [OF delete_categories_calls] by (fastforce simp: only_calls_def)
  have run: "deleteVHADomainPCResources vx s =
    (case q1 of Inl e \<Rightarrow> (Inl e, s1) | Inr _ \<Rightarrow> (case q2 of Inl e \<Rightarrow> (Inl e, s2) | Inr _ \<Rightarrow> (q3, s3)))"
    using 1 2 3 by (cases q1; cases q2) (simp_all add: deleteVHADomainPCResources_def thn_apply)
  show ?thesis
  proof (cases q1)
    case (Inl e)
    with run assms t1 show ?thesis by (intro exI [of _ t1] exI [of _ "[]"]) simp
  next
    case (Inr u)
    with 1 have p: "plans_gone vx (Obj s)" by (simp add: delete_plans_gone)
    show ?thesis
    proof (cases q2)
      case (Inl e)
      with Inr p run assms t1 t2 show ?thesis
        by (intro exI [of _ t1] exI [of _ t2] exI [of _ "[]"]) simp
    next
      case (Inr w)
      with 2 t1 have "the_policy_gone vx (Obj s)" using delete_policy_gone [of vx s1 s2] by simp
      with \<open>q1 = Inr u\<close> Inr p run assms t1 t2 t3 show ?thesis
        by (intro exI [of _ t1] exI [of _ t2] exI [of _ t3]) simp
    qed
  qed
qed

lemma removes_only_after_cleanup:
  assumes "vha_reconcileDelete vx s = (r, s')"
    and "om_Finalizers (vha_Meta (Obj s')) \<noteq> om_Finalizers (vha_Meta (Obj s))"
  shows "r = Inr () \<and> blocking_errors vx = [] \<and> (\<exists>s1. deleteVHADomainPCResources vx s = (Inr (), s1))"
proof -
  obtain q s1 where d: "deleteVHADomainPCResources vx s = (q, s1)" by force
  have "Obj s1 = Obj s" using cleanup_phases [OF d] by auto
  with assms d show ?thesis
    by (cases q) (auto simp: vha_reconcileDelete_def unsafe_deletion_def update_obj_def go_eval vha_add_conditions_def
        split: if_split_asm)
qed


text \<open>A domain with a policy and a plan, and its clusters in deletion.\<close>

definition vha_made :: vha_state where
  "vha_made = \<lparr>trace = [], Obj = vha_object\<lparr>vha_ProtectionPolicy := Some (uuid_id ''pp-1''),
     vha_MovementGroups := [\<lparr>mg_Name = ''default'', mg_CategoryRecoveryPlans =
       [\<lparr>crp_Category = \<lparr>cat_Key = ''k'', cat_Value = ''v''\<rparr>, crp_RecoveryPlan = uuid_id ''rp-1'', crp_FailureDomainRef = ''a''\<rparr>]\<rparr>]\<rparr>\<rparr>"

definition vha_deleting_ctx :: vha_ctx where
  "vha_deleting_ctx = vha_sample_ctx\<lparr>vx_Cluster := Some (sample_Cluster\<lparr>cc_Meta := (sample_meta ''c'')\<lparr>om_Deleting := True\<rparr>\<rparr>),
     vx_NutanixCluster := Some (sample_NutanixCluster\<lparr>ncl_Meta := (sample_meta ''c'')\<lparr>om_Deleting := True\<rparr>\<rparr>)\<rparr>"

lemma vha_made_deleted:
  "om_Finalizers (vha_Meta (Obj (snd (vha_reconcileDelete vha_deleting_ctx vha_made)))) = [] \<and>
   trace (snd (vha_reconcileDelete vha_deleting_ctx vha_made)) =
     [PDelete RRecoveryPlan ''rp-1'', PDelete RProtectionPolicy ''pp-1'', PList RCategory (category_filter ''k'' ''v'')]"
  by code_simp


section \<open>A second reconcile\<close>

text \<open>Prism lists the categories, the policy and the plans of the domain.\<close>

definition all_present :: "vha_ctx \<Rightarrow> NutanixVirtualHADomain \<Rightarrow> bool" where
  "all_present vx d \<longleftrightarrow>
     (\<forall>h f. \<exists>c cs. Categories_List (vx_V4 vx) h f = Inr (c # cs)) \<and>
     (\<forall>h f. \<exists>ps p u. ProtectionPolicies_List (vx_V4 vx) h f = Inr ps \<and>
        find (\<lambda>p. pp_Name p = Some (vhaProtectionPolicyName (om_Name (vha_Meta d)))) ps = Some p \<and> pp_ExtId p = Some u) \<and>
     (\<forall>h g i. \<exists>es p u. V3_ListAllRecoveryPlans (vx_V3 vx) h (''name=='' @ vhaRecoveryPlanName (om_Name (vha_Meta d)) g i) = Inr (Some es) \<and>
        find_plan (vhaRecoveryPlanName (om_Name (vha_Meta d)) g i) es = Inr (Some p) \<and> pln_UUID p = Some u \<and> u \<noteq> [])"

text \<open>Steps that only read as long as the object is d.\<close>

definition reads_at :: "NutanixVirtualHADomain \<Rightarrow> vha_state \<Rightarrow> vha_state \<Rightarrow> bool" where
  "reads_at d s s' \<longleftrightarrow> (Obj s = d \<longrightarrow> only_calls is_read s s')"

lemma only_calls_Obj: "only_calls A s s' \<Longrightarrow> Obj s' = Obj s"
  by (auto simp: only_calls_def)

interpretation at: state_order "reads_at d" for d
proof
  show "reads_at d s s" for s by (simp add: reads_at_def only.stay)
  show "reads_at d s u" if "reads_at d s t" "reads_at d t u" for s t u
    using that only_calls_Obj [of is_read s t] by (auto simp: reads_at_def intro: only.step)
qed

lemma reads_atI: "moves (only_calls is_read) m \<Longrightarrow> moves (reads_at d) m"
  by (simp add: reads_at_def moves_def)

lemma reads_at_name: "moves (reads_at d) (f (om_Name (vha_Meta d))) \<Longrightarrow>
  moves (reads_at d) (bnd (gets (\<lambda>s. om_Name (vha_Meta (Obj s)))) f)"
  by (simp add: moves_def reads_at_def go_eval)

lemma one_read: "is_read c \<Longrightarrow> only_calls is_read s (s\<lparr>trace := trace s @ [c]\<rparr>)"
  by (auto simp: only_calls_def)

lemma category_present: "all_present vx d \<Longrightarrow> moves (reads_at d) (getOrCreateCategory (vx_V4 vx) (Some ci))"
proof (rule reads_atI, unfold moves_def, rule allI)
  fix s :: vha_state
  assume "all_present vx d"
  then obtain c cs where "Categories_List (vx_V4 vx) (trace s) (category_filter (cat_Key ci) (cat_Value ci)) = Inr (c # cs)"
    unfolding all_present_def by metis
  then show "only_calls is_read s (snd (getOrCreateCategory (vx_V4 vx) (Some ci) s))"
    by (simp add: getOrCreateCategory_def getOrCreateCategoryForProject_def getCategories_def getCategoryForProject_def
        go_eval only.stay one_read)
qed

lemma policy_present:
  assumes "all_present vx d"
  shows "moves (reads_at d) (getOrCreateVHADomainProtectionPolicy vx cs pes)"
  unfolding moves_def reads_at_def
proof (intro allI impI)
  fix s :: vha_state assume s: "Obj s = d"
  let ?n = "vhaProtectionPolicyName (om_Name (vha_Meta d))"
  from assms obtain ps p u where "ProtectionPolicies_List (vx_V4 vx) (trace s) (name_filter ?n) = Inr ps"
    "find (\<lambda>p. pp_Name p = Some ?n) ps = Some p" "pp_ExtId p = Some u" unfolding all_present_def by metis
  then show "only_calls is_read s (snd (getOrCreateVHADomainProtectionPolicy vx cs pes s))"
    by (simp add: getOrCreateVHADomainProtectionPolicy_def findProtectionPolicyByName_def Let_def go_eval s one_read)
qed

lemma plan_present:
  assumes "all_present vx d"
  shows "moves (reads_at d) (getOrCreateVHADomainRecoveryPlan vx g u n sn i az)"
  unfolding moves_def reads_at_def
proof (intro allI impI)
  fix s :: vha_state assume s: "Obj s = d"
  let ?n = "vhaRecoveryPlanName (om_Name (vha_Meta d)) g i"
  from assms obtain es p u' where "V3_ListAllRecoveryPlans (vx_V3 vx) (trace s) (''name=='' @ ?n) = Inr (Some es)"
    "find_plan ?n es = Inr (Some p)" "pln_UUID p = Some u'" "u' \<noteq> []" unfolding all_present_def by metis
  then show "only_calls is_read s (snd (getOrCreateVHADomainRecoveryPlan vx g u n sn i az s))"
    by (simp add: getOrCreateVHADomainRecoveryPlan_def findRecoveryPlanByName_def Let_def go_eval s one_read only.stay)
qed

text \<open>Computations that only read from a state with the object d on, though they may update the
  object at their end.\<close>

definition reads_then :: "NutanixVirtualHADomain \<Rightarrow> (vha_state, 'a) go \<Rightarrow> bool" where
  "reads_then d m \<longleftrightarrow> (\<forall>s. Obj s = d \<longrightarrow> adds_calls is_read s (snd (m s)))"

lemma reads_thenI: "moves (adds_calls is_read) m \<Longrightarrow> reads_then d m"
  by (simp add: reads_then_def moves_def)

lemma reads_then_at: "moves (reads_at d) m \<Longrightarrow> reads_then d m"
  by (auto simp: reads_then_def moves_def reads_at_def intro: only_calls_adds)

lemma reads_then_bnd:
  assumes "moves (reads_at d) m" "\<And>x. reads_then d (k x)"
  shows "reads_then d (bnd m k)"
  unfolding reads_then_def
proof (intro allI impI)
  fix s :: vha_state assume s: "Obj s = d"
  obtain r s1 where m: "m s = (r, s1)" by force
  with assms(1) s have o1: "only_calls is_read s s1" by (auto simp: moves_def reads_at_def dest!: spec [of _ s])
  then have "Obj s1 = d" using s only_calls_Obj by metis
  then show "adds_calls is_read s (snd (bnd m k s))"
    using m o1 assms(2) only_calls_adds [OF o1]
    by (cases r) (auto simp: bnd_apply reads_then_def intro: adds.step)
qed

lemma reads_then_thn:
  assumes "reads_then d m" "moves (adds_calls is_read) k"
  shows "reads_then d (thn m k)"
  unfolding reads_then_def
proof (intro allI impI)
  fix s :: vha_state assume s: "Obj s = d"
  obtain r s1 where m: "m s = (r, s1)" by force
  with assms(1) s have o1: "adds_calls is_read s s1" by (auto simp: reads_then_def dest!: spec [of _ s])
  then show "adds_calls is_read s (snd (thn m k s))"
    using m assms(2) by (cases r) (auto simp: thn_apply moves_def intro: adds.step)
qed

lemma reads_then_handle:
  assumes "reads_then d m" "\<And>e. moves (adds_calls is_read) (h e)"
  shows "reads_then d (handle m h)"
  unfolding reads_then_def
proof (intro allI impI)
  fix s :: vha_state assume s: "Obj s = d"
  obtain r s1 where m: "m s = (r, s1)" by force
  with assms(1) s have o1: "adds_calls is_read s s1" by (auto simp: reads_then_def dest!: spec [of _ s])
  then show "adds_calls is_read s (snd (handle m h s))"
    using m assms(2) by (cases r) (auto simp: handle_apply moves_def intro: adds.step)
qed

lemma update_obj_adds: "moves (adds_calls A) (update_obj f)"
  by (simp add: moves_def update_obj_def go_eval adds_calls_def)

lemma groups_at:
  assumes "all_present vx d"
  shows "moves (reads_at d) (getOrCreateVHADomainGroupCategories vx g fds)"
  unfolding getOrCreateVHADomainGroupCategories_def
  by (intro at.moves_rules category_present [OF assms] reads_at_name)

lemma create_reads:
  assumes "all_present vx d"
  shows "reads_then d (create_resources vx fds sn)"
  unfolding create_resources_def Let_def plans_of_group_def
  by (intro reads_then_bnd at.moves_rules reads_thenI [OF update_obj_adds] groups_at [OF assms] policy_present [OF assms]
      plan_present [OF assms] reads_atI [OF domain_manager_only] reads_atI [OF pe_uuid_only])

lemma validate_reads: "reads_then d (validateVHADomainPCResources vx fds)"
  unfolding validateVHADomainPCResources_def Let_def
  by (intro reads_then_bnd at.moves_rules reads_thenI adds.moves_rules update_obj_adds
      reads_atI [OF check_errors_only] category_exists_only policy_exists_only validate_plan_only)


text \<open>A Prism Central that has them.\<close>

definition vha_present_ctx :: vha_ctx where
  "vha_present_ctx = vha_sample_ctx\<lparr>
     vx_V4 := vha_v4\<lparr>Categories_List := (\<lambda>h f. Inr [new_category \<lparr>cat_Key = ''k'', cat_Value = ''v''\<rparr> None]),
       ProtectionPolicies_List := (\<lambda>h f. Inr [(policy_input ''c-m'' [] [] [] [])\<lparr>pp_ExtId := Some ''pp-1''\<rparr>])\<rparr>,
     vx_V3 := vha_v3\<lparr>V3_ListAllRecoveryPlans := (\<lambda>h f. Inr (Some [Some \<lparr>pln_UUID = Some ''rp'', pln_Name = Some (drop 6 f)\<rparr>]))\<rparr>\<rparr>"

lemma vha_all_present: "all_present vha_present_ctx (Obj vha_start)"
  by (simp add: all_present_def vha_present_ctx_def vha_sample_ctx_def vha_start_def vha_object_def sample_meta_def
      policy_input_def Let_def)


section \<open>Names\<close>

lemma show_nat_no_dash: "CHR ''-'' \<notin> set (show_nat n)"
  using show_nat_digits [of n] by (auto simp: list_all_iff is_digit_def Let_def)

text \<open>The part after the last dash.\<close>

lemma dash_split:
  assumes "CHR ''-'' \<notin> set b" "CHR ''-'' \<notin> set d"
  shows "a @ CHR ''-'' # b = c @ CHR ''-'' # d \<longleftrightarrow> a = c \<and> b = d"
proof
  assume e: "a @ CHR ''-'' # b = c @ CHR ''-'' # d"
  have last: "takeWhile (\<lambda>x. x \<noteq> CHR ''-'') (rev (p @ CHR ''-'' # q)) = rev q" if "CHR ''-'' \<notin> set q" for p q :: string
    using that by (subst rev_append, subst rev.simps, subst append_assoc, subst takeWhile_append2) auto
  have "rev b = rev d" using last [OF assms(1), of a] last [OF assms(2), of c] e by argo
  with e show "a = c \<and> b = d" by simp
qed simp

text \<open>C31 The names of the resources of one domain: a category value has at most 64 characters and is
  also the name of the recovery plan; groups and indices give different names; and the name of
  the policy is the common prefix of all.  Two domains can have a name in common.\<close>

theorem vha_names:
  "(\<forall>v. vhaCategoryValue d g i = Inr v \<longrightarrow> length v \<le> 64 \<and> v = vhaRecoveryPlanName d g i) \<and>
   (\<forall>e. vhaCategoryValue d g i = Inl e \<longrightarrow> length (vhaRecoveryPlanName d g i) > 64) \<and>
   (vhaRecoveryPlanName d g i = vhaRecoveryPlanName d h j \<longleftrightarrow> g = h \<and> i = j) \<and>
   (\<exists>r. vhaRecoveryPlanName d g i = vhaProtectionPolicyName d @ r) \<and>
   vhaRecoveryPlanName (vHADomainName ''prod'' ''m'') ''eu-default'' 0 = vhaRecoveryPlanName (vHADomainName ''prod'' ''m-eu'') ''default'' 0"
proof (intro conjI)
  show "vhaRecoveryPlanName d g i = vhaRecoveryPlanName d h j \<longleftrightarrow> g = h \<and> i = j"
    using dash_split [OF show_nat_no_dash [of i] show_nat_no_dash [of j], of g h]
    by (auto simp: vhaRecoveryPlanName_def show_nat_inj)
qed (auto simp: vhaCategoryValue_def vhaRecoveryPlanName_def vhaProtectionPolicyName_def prismNameMaxLen_def Let_def
    vHADomainName_def)

lemma vha_names_witness: "length (vhaRecoveryPlanName ''c-m'' ''default'' 0) \<le> 64 \<and> prismNameMaxLen = 64"
proof -
  have "vhaCategoryValue ''c-m'' ''default'' 0 = Inr (vhaRecoveryPlanName ''c-m'' ''default'' 0)" by code_simp
  with vha_names [where d = "''c-m''" and g = "''default''" and i = 0] show ?thesis by (simp add: prismNameMaxLen_def)
qed

section \<open>A reconcile that fails half-way\<close>

definition spec_kept :: "vha_state \<Rightarrow> vha_state \<Rightarrow> bool" where
  "spec_kept s s' \<longleftrightarrow> vha_ProtectionPolicy (Obj s') = vha_ProtectionPolicy (Obj s) \<and>
     vha_MovementGroups (Obj s') = vha_MovementGroups (Obj s)"

interpretation kept: state_order spec_kept
  by unfold_locales (auto simp: spec_kept_def)

lemma ext_kept: "moves spec_kept (ext c f)"
  by (simp add: moves_def spec_kept_def ext_apply)

lemma own_domain_kept: "moves spec_kept (own_domain env ncl)"
  by (auto simp: own_domain_def update_obj_def intro!: kept.moves_rules moves_modify) (simp add: spec_kept_def)

lemma vha_context_kept: "moves spec_kept (vha_context env vx)"
  unfolding vha_context_def Let_def by (intro kept.moves_rules ext_kept own_domain_kept)

lemma failed_body_keeps_spec:
  assumes "vha_Reconcile_body env gc vx d s = (Inl e, s')" "Obj s = d" "e \<noteq> NilDeref" "\<not> om_Deleting (vha_Meta d)"
  shows "vha_ProtectionPolicy (Obj s') = vha_ProtectionPolicy d \<and> vha_MovementGroups (Obj s') = vha_MovementGroups d"
proof -
  obtain q s1 where c: "vha_context env vx s = (q, s1)" by force
  have k: "spec_kept s s1" by (rule movesD [OF vha_context_kept c])
  show ?thesis
  proof (cases q)
    case (Inl e1)
    with assms c k show ?thesis
      by (auto simp: vha_Reconcile_body_def ret_apply bnd_apply spec_kept_def split: if_split_asm)
  next
    case (Inr rctx)
    obtain q2 s2 where n: "vha_reconcileNormal rctx s1 = (q2, s2)" by force
    with assms c Inr have "Obj s' = restore_spec d (Obj s2)"
      by (cases q2) (auto simp: vha_Reconcile_body_def go_eval update_obj_def split: if_split_asm)
    then show ?thesis by (simp add: restore_spec_def)
  qed
qed

text \<open>C38 What a failed reconcile has made is forgotten: when the reconcile of a new domain fails, at
  whatever point, its spec is the one of before, without a plan or a policy; so the deletion of the
  domain makes no request and removes the finalizer, and what the failed reconcile created in
  Prism Central stays there.\<close>

theorem failed_reconcile_leaks:
  assumes "vha_Reconcile_body env gc vx d s = (Inl e, s')" "Obj s = d" "e \<noteq> NilDeref" "\<not> om_Deleting (vha_Meta d)"
    and "vha_MovementGroups d = []" "vha_ProtectionPolicy d = None" "blocking_errors vx' = []"
  shows "\<exists>s''. vha_reconcileDelete vx' \<lparr>trace = t, Obj = Obj s'\<rparr> = (Inr (), s'') \<and> trace s'' = t \<and>
    om_Finalizers (vha_Meta (Obj s'')) =
      RemoveFinalizer (vx_libs vx') (om_Finalizers (vha_Meta (Obj s'))) NutanixVirtualHADomainFinalizer"
  using failed_body_keeps_spec [OF assms(1-4)] assms(5-7)
  by (simp add: vha_reconcileDelete_def deleteVHADomainPCResources_def deleteVHADomainRecoveryPlans_def
      deleteVHADomainProtectionPolicy_def deleteVHADomainCategories_def domain_plans_def domain_categories_def
      update_obj_def vha_add_conditions_def go_eval)

text \<open>A Prism Central that refuses to make a recovery plan.\<close>

definition refusing_v3 :: v3_client where
  "refusing_v3 = vha_v3\<lparr>V3_CreateRecoveryPlan := (\<lambda>h p. no_service)\<rparr>"

definition refusing_env :: vha_env where
  "refusing_env = \<lparr>ve_client_env = \<lparr>env_ReadFile = (\<lambda>f. Inr []),
       env_Unmarshal = (\<lambda>c. Inr \<lparr>pe_Address = ''pc'', pe_Port = 9440, pe_CredentialRef = Some \<lparr>cr_Kind = SecretKind,
         cr_Name = ''s'', cr_Namespace = ''ns''\<rparr>, pe_AdditionalTrustBundle = None\<rparr>),
       env_Getenv = (\<lambda>v. []), env_GetManagementEndpoint = (\<lambda>ps. Inr (ManagementEndpoint (hd ps))),
       env_V3Cache = (\<lambda>k e. Inr refusing_v3), env_ConvergedCache = (\<lambda>k e. Inr vha_v4)\<rparr>,
     ve_GetClusterFromMetadata = (\<lambda>h m. Inr sample_Cluster), ve_GetNutanixCluster = (\<lambda>h n ns. Inr sample_NutanixCluster),
     ve_HasOwnerReference = (\<lambda>refs c. Inr True), ve_SetControllerReference = (\<lambda>c m. Inr [])\<rparr>"

definition vha_gc :: "NutanixVirtualHADomain guard_client" where
  "vha_gc = \<lparr>gc_Get = (\<lambda>h n ns. Inr vha_object), gc_IsNotFound = (\<lambda>e. False), gc_HasPaused = (\<lambda>o1. False),
     gc_NewHelper = (\<lambda>o1. Inr ()), gc_Patch = (\<lambda>h o1. Inr ()), gc_NewAggregate = Join_err\<rparr>"

definition is_policy_creation :: "call \<Rightarrow> bool" where
  "is_policy_creation c = (case c of PCreate_policy p \<Rightarrow> True | _ \<Rightarrow> False)"

lemma refused_run:
  "(case vha_Reconcile_body refusing_env vha_gc vha_sample_ctx vha_object vha_start of
      (r, s') \<Rightarrow> (case r of Inl e \<Rightarrow> e \<noteq> NilDeref | Inr _ \<Rightarrow> False) \<and> list_ex is_policy_creation (trace s'))"
  by code_simp

lemma failed_reconcile_leaks_witness:
  "\<exists>e s1 s2. vha_Reconcile_body refusing_env vha_gc vha_sample_ctx vha_object vha_start = (Inl e, s1) \<and>
     list_ex is_policy_creation (trace s1) \<and>
     vha_reconcileDelete vha_deleting_ctx \<lparr>trace = trace s1, Obj = Obj s1\<rparr> = (Inr (), s2) \<and> trace s2 = trace s1"
proof -
  obtain r s1 where run: "vha_Reconcile_body refusing_env vha_gc vha_sample_ctx vha_object vha_start = (r, s1)" by force
  with refused_run obtain e where e: "r = Inl e" "e \<noteq> NilDeref" "list_ex is_policy_creation (trace s1)"
    by (cases r) auto
  have "Obj vha_start = vha_object" "\<not> om_Deleting (vha_Meta vha_object)" "vha_MovementGroups vha_object = []"
    "vha_ProtectionPolicy vha_object = None" by (simp_all add: vha_start_def vha_object_def sample_meta_def)
  moreover have "blocking_errors vha_deleting_ctx = []" by code_simp
  ultimately show ?thesis
    using failed_reconcile_leaks [OF run [unfolded e(1)] _ e(2), of vha_deleting_ctx "trace s1"] run e by blast
qed

section \<open>What an adopted policy protects\<close>

text \<open>A policy of the right name is adopted whatever its categories are: nothing is written, not
  even when categories of the domain are missing in it.\<close>

lemma adopted_policy_not_updated:
  assumes "ProtectionPolicies_List (vx_V4 vx) (trace s) (name_filter n) = Inr ps"
    and "find (\<lambda>p. pp_Name p = Some n) ps = Some p" "pp_ExtId p = Some u" "n = vhaProtectionPolicyName (om_Name (vha_Meta (Obj s)))"
  shows "getOrCreateVHADomainProtectionPolicy vx categories pes s =
    (Inr (uuid_id u), s\<lparr>trace := trace s @ [PList RProtectionPolicy (name_filter n)]\<rparr>)"
  using assms by (simp add: getOrCreateVHADomainProtectionPolicy_def findProtectionPolicyByName_def Let_def go_eval)

end
