(* ===== verification/Disks.thy ===== *)
theory Disks
  imports Vm_Find Task_Errors
begin

text \<open>
  The disks and the GPUs of a VM to create (controllers/helpers.go, from GetMibValueOfQuantity
  to adapterTypeToCdRomBusType and from GetGPUList to gpuVendorStringToGpuVendor) and the
  validation of the data disks of a machine (validateDataDisks and its helpers of
  controllers/nutanixmachine_controller.go).

  The record machine_env holds what the creation of a VM takes from outside: the value and the
  order of a resource.Quantity, random numbers and fresh UUIDs, base64, the setters of the SDK's
  OneOf types (an error of which the source returns), JSON, the conditions library's IsTrue, and
  the requests to the API server.  The second half proves what the validation promises to the
  construction of the disks, and where two disks get one address.
\<close>

record machine_env =
  me_Value :: "quantity \<Rightarrow> int"
  me_Cmp :: "quantity \<Rightarrow> quantity \<Rightarrow> int"
  me_Intn :: "call list \<Rightarrow> nat \<Rightarrow> nat"
  me_NewUUID :: "call list \<Rightarrow> string"
  me_base64 :: "string \<Rightarrow> string"
  me_set :: "string \<Rightarrow> go_error + unit"
  me_MarshalIndent :: "deploy_params \<Rightarrow> go_error + string"
  me_IsTrue :: "condition_op list \<Rightarrow> string \<Rightarrow> bool"
  me_text :: text_library
  me_GetSecret :: "call list \<Rightarrow> string \<Rightarrow> string \<Rightarrow> go_error + string_map"
  me_NewHelper :: "NutanixMachine \<Rightarrow> go_error + unit"
  me_Patch :: "call list \<Rightarrow> NutanixMachine \<Rightarrow> NutanixMachine \<Rightarrow> go_error + unit"
  me_NewClusterHelper :: "condition_op list \<Rightarrow> go_error + unit"
  me_PatchCluster :: "call list \<Rightarrow> condition_op list \<Rightarrow> go_error + unit"

definition sdk_set :: "machine_env \<Rightarrow> string \<Rightarrow> ('s, unit) go" where
  "sdk_set env setter = of_result (me_set env setter)"

section \<open>Sizes\<close>

text \<open>Go's division truncates towards zero.\<close>

definition GetMibValueOfQuantity :: "machine_env \<Rightarrow> quantity \<Rightarrow> int" where
  "GetMibValueOfQuantity env q = sgn (me_Value env q) * (\<bar>me_Value env q\<bar> div (1024 * 1024))"

definition minMachineSystemDiskSize :: quantity where "minMachineSystemDiskSize = Quantity ''20Gi''"
definition minMachineDataDiskSize :: quantity where "minMachineDataDiskSize = Quantity ''1Gi''"
definition minMachineMemorySize :: quantity where "minMachineMemorySize = Quantity ''2Gi''"
definition minVCPUsPerSocket :: int where "minVCPUsPerSocket = 1"
definition minVCPUSockets :: int where "minVCPUSockets = 1"

section \<open>Disks\<close>

definition empty_disk_info :: vm_disk_info where
  "empty_disk_info =
     \<lparr>vdi_DiskSizeBytes = None, vdi_Image = None, vdi_FlashMode = None, vdi_StorageContainer = None\<rparr>"

text \<open>The result of SetReference is ignored by the source.\<close>

definition newVmDiskWithImageRef :: "string option \<Rightarrow> int \<Rightarrow> vm_disk_info" where
  "newVmDiskWithImageRef dataSourceImageExtId diskSizeInBytes =
     empty_disk_info\<lparr>
       vdi_DiskSizeBytes := (if diskSizeInBytes > 0 then Some diskSizeInBytes else None),
       vdi_Image := (case dataSourceImageExtId of None \<Rightarrow> None | Some u \<Rightarrow> Some (Some u))\<rparr>"

definition CreateSystemDiskSpec :: "machine_env \<Rightarrow> string \<Rightarrow> int \<Rightarrow> ('s, vm_disk) go" where
  "CreateSystemDiskSpec env imageUUID systemDiskSizeInBytes =
     (if imageUUID = [] then raise (Leaf ''image UUID must be set when creating system disk'')
      else if systemDiskSizeInBytes \<le> 0 then
        raise (Leaf (''invalid system disk size in bytes: '' @ show_int systemDiskSizeInBytes @
          ''. Provide in XXGi (for example 70Gi) format instead''))
      else thn (sdk_set env ''Disk.SetBackingInfo'')
        (ret \<lparr>vd_Backing = Some (VMDisk (newVmDiskWithImageRef (Some imageUUID) systemDiskSizeInBytes)),
              vd_Address = None\<rparr>))"

definition adapterTypeToDiskBusType :: "AdapterType \<Rightarrow> disk_bus" where
  "adapterTypeToDiskBusType adapterType =
     (case adapterType of SCSI \<Rightarrow> DiskSCSI | IDE \<Rightarrow> DiskIDE | PCI \<Rightarrow> DiskPCI | SATA \<Rightarrow> DiskSATA | _ \<Rightarrow> DiskUnknownBus)"

definition adapterTypeToCdRomBusType :: "AdapterType \<Rightarrow> cdrom_bus" where
  "adapterTypeToCdRomBusType adapterType =
     (case adapterType of IDE \<Rightarrow> CdRomIDE | SATA \<Rightarrow> CdRomSATA | _ \<Rightarrow> CdRomUnknownBus)"

text \<open>The image of a data source is always looked up by UUID.\<close>

definition addDataSourceImageRefToVmDisk ::
  "machine_env \<Rightarrow> v4_client \<Rightarrow> vm_disk_info \<Rightarrow> NutanixResourceIdentifier option \<Rightarrow> ProjectInfo option \<Rightarrow> string \<Rightarrow>
   ('z world_scheme, vm_disk_info) go" where
  "addDataSourceImageRefToVmDisk env client vmDisk dataSource project pcVersion =
     (case dataSource of
        None \<Rightarrow> ret vmDisk
      | Some src \<Rightarrow>
          bnd (GetImage client \<lparr>id_Type = UUIDType, id_UUID = id_UUID src, id_Name = None\<rparr> project pcVersion) (\<lambda>img_p.
          bnd (deref img_p) (\<lambda>img.
          thn (sdk_set env ''DataSource.SetReference'') (ret (vmDisk\<lparr>vdi_Image := Some (im_ExtId img)\<rparr>)))))"

definition addStorageConfigAndContainerToVmDisk ::
  "v4_client \<Rightarrow> vm_disk_info \<Rightarrow> NutanixMachineVMStorageConfig option \<Rightarrow> string \<Rightarrow> resource_group option \<Rightarrow>
   ('z world_scheme, vm_disk_info) go" where
  "addStorageConfigAndContainerToVmDisk client vmDisk storageConfig peUUID resourceGroup =
     (case storageConfig of
        None \<Rightarrow> ret vmDisk
      | Some cfg \<Rightarrow>
          (let vmDisk = vmDisk\<lparr>vdi_FlashMode := Some (sc_DiskMode cfg = Flash)\<rparr> in
           case sc_StorageContainer cfg of
             None \<Rightarrow> ret vmDisk
           | Some container \<Rightarrow>
               bnd (GetStorageContainerInCluster client resourceGroup container (uuid_id peUUID)) (\<lambda>sc.
               ret (vmDisk\<lparr>vdi_StorageContainer := Some (stc_ContainerExtId sc)\<rparr>))))"

text \<open>The closure getDeviceIndex with the map it captures.\<close>

definition getDeviceIndex :: "AdapterType \<Rightarrow> (AdapterType \<rightharpoonup> int) \<Rightarrow> int \<times> (AdapterType \<rightharpoonup> int)" where
  "getDeviceIndex adapterType latest =
     (case latest adapterType of
        Some latestDeviceIndex \<Rightarrow> (latestDeviceIndex, latest(adapterType \<mapsto> latestDeviceIndex + 1))
      | None \<Rightarrow>
          if adapterType = SCSI \<or> adapterType = IDE then (1, latest(adapterType \<mapsto> 1))
          else (0, latest(adapterType \<mapsto> 0)))"

definition disk_device :: "NutanixMachineVMDisk \<Rightarrow> DeviceType \<times> AdapterType" where
  "disk_device d =
     (case dk_DeviceProperties d of None \<Rightarrow> (Disk, SCSI) | Some p \<Rightarrow> (dp_DeviceType p, dp_AdapterType p))"

definition disk_index :: "NutanixMachineVMDisk \<Rightarrow> int \<Rightarrow> int" where
  "disk_index d deviceIndex =
     (case dk_DeviceProperties d of
        Some p \<Rightarrow> if dp_DeviceIndex p \<noteq> 0 then dp_DeviceIndex p else deviceIndex
      | None \<Rightarrow> deviceIndex)"

definition data_disk_info ::
  "machine_env \<Rightarrow> v4_client \<Rightarrow> NutanixMachineVMDisk \<Rightarrow> string \<Rightarrow> ProjectInfo option \<Rightarrow> string \<Rightarrow> resource_group option \<Rightarrow>
   ('z world_scheme, vm_disk_info) go" where
  "data_disk_info env client d peUUID project pcVersion resourceGroup =
     bnd (addDataSourceImageRefToVmDisk env client
            (empty_disk_info\<lparr>vdi_DiskSizeBytes := Some (me_Value env (dk_DiskSize d))\<rparr>) (dk_DataSource d) project pcVersion)
       (\<lambda>vmDisk. addStorageConfigAndContainerToVmDisk client vmDisk (dk_StorageConfig d) peUUID resourceGroup)"

fun create_data_disks ::
  "machine_env \<Rightarrow> v4_client \<Rightarrow> NutanixMachineVMDisk list \<Rightarrow> string \<Rightarrow> ProjectInfo option \<Rightarrow> string \<Rightarrow>
   resource_group option \<Rightarrow> (AdapterType \<rightharpoonup> int) \<Rightarrow> ('z world_scheme, vm_disk list \<times> cd_rom list) go" where
  "create_data_disks env client [] peUUID project pcVersion resourceGroup latest = ret ([], [])"
| "create_data_disks env client (d # ds) peUUID project pcVersion resourceGroup latest =
     bnd (data_disk_info env client d peUUID project pcVersion resourceGroup) (\<lambda>vmDisk.
     let (deviceType, adapterType) = disk_device d;
         (auto, latest) = getDeviceIndex adapterType latest;
         deviceIndex = disk_index d auto;
         rest = create_data_disks env client ds peUUID project pcVersion resourceGroup latest in
     case deviceType of
       Disk \<Rightarrow>
         thn (sdk_set env ''Disk.SetBackingInfo'') (bnd rest (\<lambda>(disks, cdRoms).
           ret (\<lparr>vd_Backing = Some (VMDisk vmDisk),
                 vd_Address = Some (deviceIndex, adapterTypeToDiskBusType adapterType)\<rparr> # disks, cdRoms)))
     | CDRom \<Rightarrow>
         bnd rest (\<lambda>(disks, cdRoms).
           ret (disks, \<lparr>cd_Address = Some (deviceIndex, adapterTypeToCdRomBusType adapterType),
                        cd_Backing = Some vmDisk\<rparr> # cdRoms))
     | OtherDevice t \<Rightarrow> raise (Leaf ''invalid NutanixMachineDiskDeviceType to create data disks''))"

definition CreateDataDiskList ::
  "machine_env \<Rightarrow> v4_client \<Rightarrow> NutanixMachineVMDisk list \<Rightarrow> string \<Rightarrow> ProjectInfo option \<Rightarrow> string \<Rightarrow>
   resource_group option \<Rightarrow> ('z world_scheme, vm_disk list \<times> cd_rom list) go" where
  "CreateDataDiskList env client dataDiskSpecs peUUID project pcVersion resourceGroup =
     create_data_disks env client dataDiskSpecs peUUID project pcVersion resourceGroup Map.empty"

section \<open>Validation of the data disks\<close>

definition show_adapter :: "AdapterType \<Rightarrow> string" where
  "show_adapter a = (case a of SCSI \<Rightarrow> ''SCSI'' | IDE \<Rightarrow> ''IDE'' | PCI \<Rightarrow> ''PCI'' | SATA \<Rightarrow> ''SATA'' | SPAPR \<Rightarrow> ''SPAPR'' | OtherAdapter s \<Rightarrow> s)"
definition show_device :: "DeviceType \<Rightarrow> string" where
  "show_device d = (case d of Disk \<Rightarrow> ''Disk'' | CDRom \<Rightarrow> ''CDRom'' | OtherDevice s \<Rightarrow> s)"
definition show_mode :: "DiskMode \<Rightarrow> string" where
  "show_mode m = (case m of Standard \<Rightarrow> ''Standard'' | Flash \<Rightarrow> ''Flash'' | OtherDiskMode s \<Rightarrow> s)"

text \<open>The map validAdapterTypes after the switch.\<close>

definition valid_adapter :: "DeviceType \<Rightarrow> AdapterType \<Rightarrow> bool" where
  "valid_adapter deviceType a =
     (case deviceType of
        Disk \<Rightarrow> List.member [SCSI, PCI, SPAPR, SATA, IDE] a
      | CDRom \<Rightarrow> List.member [IDE, PCI] a
      | OtherDevice _ \<Rightarrow> False)"

definition validateDataDiskDeviceProperties ::
  "NutanixMachineVMDiskDeviceProperties \<Rightarrow> go_error list \<Rightarrow> go_error list" where
  "validateDataDiskDeviceProperties p errors =
     errors @
     (case dp_DeviceType p of
        OtherDevice t \<Rightarrow> [Leaf (''invalid device type '' @ t @ '' for data disk'')] | _ \<Rightarrow> []) @
     (if \<not> valid_adapter (dp_DeviceType p) (dp_AdapterType p)
      then [Leaf (''invalid adapter type '' @ show_adapter (dp_AdapterType p) @ '' for data disk'')] else []) @
     (if dp_DeviceIndex p < 0
      then [Leaf (''invalid device index '' @ show_int (dp_DeviceIndex p) @ '' for data disk'')] else [])"

definition validateDataDiskDataSource ::
  "NutanixResourceIdentifier \<Rightarrow> go_error list \<Rightarrow> go_error list" where
  "validateDataDiskDataSource src errors =
     errors @
     (if id_Type src = UUIDType \<and> id_UUID src = None
      then [Leaf ''UUID is required for data disk with UUID source''] else []) @
     (if id_Type src = NameType \<and> id_Name src = None
      then [Leaf ''name is required for data disk with name source''] else [])"

definition validateDataDiskStorageConfig ::
  "libs \<Rightarrow> NutanixMachineVMStorageConfig \<Rightarrow> go_error list \<Rightarrow> go_error list" where
  "validateDataDiskStorageConfig L cfg errors =
     errors @
     (case sc_StorageContainer cfg of
        None \<Rightarrow> []
      | Some c \<Rightarrow>
          (if IsUUID c then
             (case id_UUID c of
                None \<Rightarrow> [Leaf ''name or uuid is required for storage container in data disk'']
              | Some u \<Rightarrow> (case parse_uuid L u of
                            Inl err \<Rightarrow> [Leaf (''invalid UUID for storage container in data disk: '' @ Error_text err)]
                          | Inr _ \<Rightarrow> []))
           else []) @
          (if IsName c \<and> id_Name c = None
           then [Leaf ''name or uuid is required for storage container in data disk''] else [])) @
     (if sc_DiskMode cfg \<noteq> Flash \<and> sc_DiskMode cfg \<noteq> Standard
      then [Leaf (''invalid disk mode '' @ show_mode (sc_DiskMode cfg) @ '' for data disk'')] else [])"

text \<open>The adapters and indexes used so far, and the errors; an index 0 is chosen later.\<close>

definition use_index ::
  "NutanixMachineVMDiskDeviceProperties \<Rightarrow> (AdapterType \<times> int) list \<Rightarrow> go_error list \<Rightarrow>
   (AdapterType \<times> int) list \<times> go_error list" where
  "use_index p used errors =
     (let k = (dp_AdapterType p, dp_DeviceIndex p) in
      if dp_DeviceIndex p = 0 then (used, errors)
      else if List.member used k
      then (used, errors @ [Leaf (''index '' @ squote (show_int (dp_DeviceIndex p)) @ '' is already in use'')])
      else (k # used, errors))"

definition validate_disk ::
  "machine_env \<Rightarrow> libs \<Rightarrow> NutanixMachineVMDisk \<Rightarrow> (AdapterType \<times> int) list \<times> go_error list \<Rightarrow>
   (AdapterType \<times> int) list \<times> go_error list" where
  "validate_disk env L d acc =
     (let (used, errors) = acc;
          errors = (if me_Cmp env (dk_DiskSize d) minMachineDataDiskSize < 0
            then errors @ [Leaf (''minimum data disk size is '' @ show_int (GetMibValueOfQuantity env minMachineDataDiskSize) @
                   ''Mib but given '' @ show_int (GetMibValueOfQuantity env (dk_DiskSize d)) @ ''Mib'')]
            else errors);
          (used, errors) = (case dk_DeviceProperties d of
            None \<Rightarrow> (used, errors)
          | Some p \<Rightarrow> use_index p used (validateDataDiskDeviceProperties p errors));
          errors = (case dk_DataSource d of None \<Rightarrow> errors | Some src \<Rightarrow> validateDataDiskDataSource src errors);
          errors = (case dk_StorageConfig d of None \<Rightarrow> errors | Some cfg \<Rightarrow> validateDataDiskStorageConfig L cfg errors)
      in (used, errors))"

definition validateDataDisks :: "machine_env \<Rightarrow> libs \<Rightarrow> NutanixMachineVMDisk list \<Rightarrow> ('s, unit) go" where
  "validateDataDisks env L dataDisks =
     (let errors = snd (fold (validate_disk env L) dataDisks ([], [])) in
      if errors \<noteq> [] then raise (Leaf (''data disks validation errors: '' @ print_list (map Error_text errors)))
      else ret ())"

section \<open>GPUs\<close>

definition gpuVendorStringToGpuVendor :: "string \<Rightarrow> gpu_vendor" where
  "gpuVendorStringToGpuVendor vendor =
     (if vendor = ''kNvidia'' then Nvidia else if vendor = ''kIntel'' then Intel
      else if vendor = ''kAmd'' then Amd else UnknownVendor)"

text \<open>int is 64 bits wide.\<close>

definition gpuConfigToVMGpu :: "gpu_config \<Rightarrow> gpu_mode \<Rightarrow> vm_gpu option" where
  "gpuConfigToVMGpu cfg mode =
     (if gcf_IsInUse cfg = Some True then None
      else case (gcf_DeviceId cfg, gcf_VendorName cfg) of
        (Some deviceID, Some vendorName) \<Rightarrow>
          if signed_take_bit 63 deviceID \<noteq> deviceID then None
          else Some \<lparr>vg_Name = gcf_DeviceName cfg, vg_DeviceId = Some deviceID, vg_Mode = Some mode,
                     vg_Vendor = Some (gpuVendorStringToGpuVendor vendorName), vg_Backing = None\<rparr>
      | _ \<Rightarrow> None)"

definition usable_gpus :: "(gpu_config \<Rightarrow> gpu_mode) \<Rightarrow> gpu_config option list \<Rightarrow> vm_gpu list" where
  "usable_gpus mode cfgs =
     List.map_filter (\<lambda>c. case c of None \<Rightarrow> None | Some cfg \<Rightarrow> gpuConfigToVMGpu cfg (mode cfg)) cfgs"

definition physical_gpu_filter :: "NutanixGPU \<Rightarrow> string" where
  "physical_gpu_filter gpu =
     (case (gpu_DeviceID gpu, gpu_Name gpu) of
        (Some i, _) \<Rightarrow> ''physicalGpuConfig/deviceId eq '' @ show_int i
      | (None, Some n) \<Rightarrow> ''physicalGpuConfig/deviceName eq '' @ squote n
      | (None, None) \<Rightarrow> [])"

definition virtual_gpu_filter :: "NutanixGPU \<Rightarrow> string" where
  "virtual_gpu_filter gpu =
     (case (gpu_Name gpu, gpu_DeviceID gpu) of
        (Some n, _) \<Rightarrow> ''virtualGpuConfig/deviceName eq '' @ squote n
      | (None, Some i) \<Rightarrow> ''virtualGpuConfig/deviceId eq '' @ show_int i
      | (None, None) \<Rightarrow> [])"

definition GetGPUsForPE :: "v4_client \<Rightarrow> string \<Rightarrow> NutanixGPU \<Rightarrow> ('z world_scheme, vm_gpu list) go" where
  "GetGPUsForPE client peUUID gpu =
     bnd (ext (PRead RGPU ''ListClusterPhysicalGPUs'' [peUUID, physical_gpu_filter gpu])
            (\<lambda>h. Clusters_ListClusterPhysicalGPUs client h peUUID (physical_gpu_filter gpu))) (\<lambda>physicalGPUs.
     bnd (ext (PRead RGPU ''ListClusterVirtualGPUs'' [peUUID, virtual_gpu_filter gpu])
            (\<lambda>h. Clusters_ListClusterVirtualGPUs client h peUUID (virtual_gpu_filter gpu))) (\<lambda>virtualGPUs.
     ret (usable_gpus (\<lambda>cfg. if gcf_Graphics cfg then PassthroughGraphics else PassthroughCompute) physicalGPUs @
          usable_gpus (\<lambda>cfg. VirtualGpuMode) virtualGPUs)))"

text \<open>Single quotes of a name are doubled.\<close>

definition escape_quotes :: "string \<Rightarrow> string" where
  "escape_quotes s = concat (map (\<lambda>c. if c = CHR 0x27 then [c, c] else [c]) s)"

definition profile_filter :: "NutanixResourceIdentifier \<Rightarrow> ('s, string) go" where
  "profile_filter profile =
     (case id_Type profile of
        NameType \<Rightarrow> bnd (deref (id_Name profile)) (\<lambda>n. ret (''configuration/name eq '' @ squote (escape_quotes n)))
      | UUIDType \<Rightarrow> bnd (deref (id_UUID profile)) (\<lambda>u. ret (''extId eq '' @ squote u))
      | OtherType _ \<Rightarrow> raise (Terminal (''unsupported GPU profile identifier '' @ id_DisplayString profile)))"

definition empty_gpu :: vm_gpu where
  "empty_gpu = \<lparr>vg_Name = None, vg_DeviceId = None, vg_Mode = None, vg_Vendor = None, vg_Backing = None\<rparr>"

definition profile_gpu ::
  "machine_env \<Rightarrow> string \<Rightarrow> string \<Rightarrow> string option list \<Rightarrow> string option list \<Rightarrow> ('s, vm_gpu) go" where
  "profile_gpu env display peUUID physicalProfiles virtualProfiles =
     (let total = length physicalProfiles + length virtualProfiles;
          set_backing = (\<lambda>kind b. thn (wrapping (\<lambda>e. Wrap (''failed to set '' @ kind @
              '' GPU backing info for profile '' @ display @ '': '') e []) (sdk_set env ''Gpu.SetBackingInfo''))
            (ret (empty_gpu\<lparr>vg_Backing := Some b\<rparr>))) in
      if total = 0 then
        raise (Terminal (''no GPU profile found with '' @ display @ '' in Prism Element cluster with UUID '' @ peUUID))
      else if total > 1 then
        raise (Leaf (''more than one GPU profile found with '' @ display @ '' in Prism Element cluster with UUID '' @ peUUID))
      else case physicalProfiles of
        [p] \<Rightarrow> set_backing ''physical'' (PhysicalGpuProfile p)
      | _ \<Rightarrow> set_backing ''virtual'' (VirtualGpuProfile (hd virtualProfiles)))"

definition getGPUFromProfile ::
  "machine_env \<Rightarrow> v4_client \<Rightarrow> string \<Rightarrow> NutanixGPU \<Rightarrow> string \<Rightarrow> ('z world_scheme, vm_gpu) go" where
  "getGPUFromProfile env client peUUID gpu pcVersion =
     bnd (deref (gpu_Profile gpu)) (\<lambda>profile.
     if \<not> isPCVersionHigherThan75 pcVersion
     then raise (Terminal (''GPU profile '' @ id_DisplayString profile @ '' requires Prism Central 7.6 or later''))
     else
       bnd (profile_filter profile) (\<lambda>f.
       bnd (wrapping (\<lambda>e. Wrap (''failed to list physical GPU profiles for Prism Element cluster with UUID '' @ peUUID @ '': '') e [])
             (ext (PRead RGPU ''ListAHVPhysicalGPUProfiles'' [peUUID, f])
               (\<lambda>h. Clusters_ListAHVPhysicalGPUProfiles client h peUUID f))) (\<lambda>physicalProfiles.
       bnd (wrapping (\<lambda>e. Wrap (''failed to list virtual GPU profiles for Prism Element cluster with UUID '' @ peUUID @ '': '') e [])
             (ext (PRead RGPU ''ListAHVVirtualGPUProfiles'' [peUUID, f])
               (\<lambda>h. Clusters_ListAHVVirtualGPUProfiles client h peUUID f))) (\<lambda>virtualProfiles.
       profile_gpu env (id_DisplayString profile) peUUID physicalProfiles virtualProfiles))))"

definition GetGPU ::
  "machine_env \<Rightarrow> v4_client \<Rightarrow> string \<Rightarrow> NutanixGPU \<Rightarrow> string \<Rightarrow> ('z world_scheme, vm_gpu) go" where
  "GetGPU env client peUUID gpu pcVersion =
     (if gpu_Type gpu = GPUProfile then getGPUFromProfile env client peUUID gpu pcVersion
      else bnd (GetGPUsForPE client peUUID gpu) (\<lambda>allUnusedGPUs.
        if allUnusedGPUs = [] then
          raise (Terminal (''no available GPUs found in Prism Element cluster with UUID '' @ peUUID))
        else bnd (gets (\<lambda>s. me_Intn env (trace s) (length allUnusedGPUs))) (\<lambda>randomIndex.
          deref (if randomIndex < length allUnusedGPUs then Some (allUnusedGPUs ! randomIndex) else None))))"

definition GetGPUList ::
  "machine_env \<Rightarrow> v4_client \<Rightarrow> NutanixGPU list \<Rightarrow> string \<Rightarrow> string \<Rightarrow> ('z world_scheme, vm_gpu list) go" where
  "GetGPUList env client gpus peUUID pcVersion = map_go (\<lambda>gpu. GetGPU env client peUUID gpu pcVersion) gpus"

section \<open>What the validation accepts\<close>

definition source_ok :: "NutanixResourceIdentifier \<Rightarrow> bool" where
  "source_ok src \<longleftrightarrow> (id_Type src = UUIDType \<longrightarrow> id_UUID src \<noteq> None) \<and> (id_Type src = NameType \<longrightarrow> id_Name src \<noteq> None)"

definition storage_ok :: "libs \<Rightarrow> NutanixMachineVMStorageConfig \<Rightarrow> bool" where
  "storage_ok L cfg \<longleftrightarrow> sc_DiskMode cfg \<in> {Flash, Standard} \<and>
     pred_option (\<lambda>c. id_Type c = UUIDType \<longrightarrow> pred_option (valid_uuid L) (id_UUID c)) (sc_StorageContainer cfg)"

definition properties_ok :: "NutanixMachineVMDiskDeviceProperties \<Rightarrow> bool" where
  "properties_ok p \<longleftrightarrow> valid_adapter (dp_DeviceType p) (dp_AdapterType p) \<and> 0 \<le> dp_DeviceIndex p"

definition disk_ok :: "machine_env \<Rightarrow> libs \<Rightarrow> NutanixMachineVMDisk \<Rightarrow> bool" where
  "disk_ok env L d \<longleftrightarrow> 0 \<le> me_Cmp env (dk_DiskSize d) minMachineDataDiskSize \<and>
     pred_option properties_ok (dk_DeviceProperties d) \<and> pred_option source_ok (dk_DataSource d) \<and>
     pred_option (storage_ok L) (dk_StorageConfig d)"

text \<open>The address a disk asks for: an adapter and an index other than 0.\<close>

definition asked_address :: "NutanixMachineVMDisk \<Rightarrow> (AdapterType \<times> int) list" where
  "asked_address d =
     (case dk_DeviceProperties d of
        None \<Rightarrow> []
      | Some p \<Rightarrow> if dp_DeviceIndex p = 0 then [] else [(dp_AdapterType p, dp_DeviceIndex p)])"

lemma properties_errors: "validateDataDiskDeviceProperties p errors = [] \<longleftrightarrow> errors = [] \<and> properties_ok p"
  by (auto simp: validateDataDiskDeviceProperties_def properties_ok_def valid_adapter_def split: DeviceType.splits)

lemma source_errors: "validateDataDiskDataSource src errors = [] \<longleftrightarrow> errors = [] \<and> source_ok src"
  by (auto simp: validateDataDiskDataSource_def source_ok_def)

lemma storage_errors: "validateDataDiskStorageConfig L cfg errors = [] \<longleftrightarrow> errors = [] \<and> storage_ok L cfg"
  by (cases "sc_StorageContainer cfg")
    (auto simp: validateDataDiskStorageConfig_def storage_ok_def valid_uuid_def IsUUID_def IsName_def split: sum.splits)

lemma validate_disk_errors:
  "snd (validate_disk env L d (used, errors)) = [] \<longleftrightarrow>
     errors = [] \<and> disk_ok env L d \<and> set (asked_address d) \<inter> set used = {}"
  by (cases "dk_DeviceProperties d"; cases "dk_DataSource d"; cases "dk_StorageConfig d")
    (auto simp: validate_disk_def use_index_def Let_def disk_ok_def asked_address_def
      properties_errors source_errors storage_errors)

lemma validate_disk_used:
  "snd (validate_disk env L d (used, errors)) = [] \<Longrightarrow> fst (validate_disk env L d (used, errors)) = asked_address d @ used"
  by (cases "dk_DeviceProperties d"; cases "dk_DataSource d"; cases "dk_StorageConfig d")
    (auto simp: validate_disk_def use_index_def Let_def asked_address_def 
      properties_errors source_errors storage_errors split: if_splits)

lemma validate_disks_errors:
  "snd (fold (validate_disk env L) ds (used, errors)) = [] \<longleftrightarrow>
     errors = [] \<and> (\<forall>d\<in>set ds. disk_ok env L d) \<and> distinct (concat (map asked_address ds)) \<and>
     set (concat (map asked_address ds)) \<inter> set used = {}"
proof (induction ds arbitrary: used errors)
  case (Cons d ds)
  obtain used' errors' where v: "validate_disk env L d (used, errors) = (used', errors')" by force
  have d: "distinct (asked_address d)" by (simp add: asked_address_def split: option.split)
  show ?case
  proof (cases "errors' = []")
    case True
    with v validate_disk_used [of env L d used errors] have "used' = asked_address d @ used" by simp
    with v True d validate_disk_errors [of env L d used errors] show ?thesis
      by (auto simp: Cons.IH)
  next
    case False
    with v validate_disk_errors [of env L d used errors] show ?thesis by (auto simp: Cons.IH)
  qed
qed simp


section \<open>The disks that are built\<close>

text \<open>The indexes getDeviceIndex hands out to a list of disks.\<close>

fun auto_indexes :: "AdapterType list \<Rightarrow> (AdapterType \<rightharpoonup> int) \<Rightarrow> int list" where
  "auto_indexes [] latest = []"
| "auto_indexes (a # as) latest = (let (i, latest) = getDeviceIndex a latest in i # auto_indexes as latest)"

definition first_index :: "AdapterType \<Rightarrow> int" where
  "first_index a = (if a = SCSI \<or> a = IDE then 1 else 0)"

lemma auto_indexes_started: "latest a = Some n \<Longrightarrow> auto_indexes (replicate k a) latest = map (\<lambda>i. n + int i) [0..<k]"
proof (induction k arbitrary: n latest)
  case (Suc k)
  have "map (\<lambda>i. n + int i) [0..<Suc k] = n # map (\<lambda>i. (n + 1) + int i) [0..<k]"
    by (simp add: map_upt_Suc del: upt_Suc)
  with Suc show ?case by (simp add: getDeviceIndex_def Let_def)
qed simp

lemma auto_indexes_one_adapter:
  "auto_indexes (replicate (Suc k) a) Map.empty = first_index a # map (\<lambda>i. first_index a + int i) [0..<k]"
  by (simp add: getDeviceIndex_def first_index_def auto_indexes_started Let_def)

text \<open>What is built of each disk: device, address and, for lists, the two kinds apart.\<close>

definition addresses ::
  "NutanixMachineVMDisk list \<Rightarrow> (AdapterType \<rightharpoonup> int) \<Rightarrow> (NutanixMachineVMDisk \<times> int) list" where
  "addresses ds latest =
     map (\<lambda>(d, i). (d, disk_index d i)) (zip ds (auto_indexes (map (snd \<circ> disk_device) ds) latest))"

definition of_device :: "DeviceType \<Rightarrow> (NutanixMachineVMDisk \<times> int) list \<Rightarrow> (NutanixMachineVMDisk \<times> int) list" where
  "of_device t = filter (\<lambda>p. fst (disk_device (fst p)) = t)"

lemma addresses_Cons:
  "addresses (d # ds) latest =
     (d, disk_index d (fst (getDeviceIndex (snd (disk_device d)) latest))) #
     addresses ds (snd (getDeviceIndex (snd (disk_device d)) latest))"
  by (simp add: addresses_def case_prod_beta)

lemma create_addresses:
  assumes "create_data_disks env client ds pe project v rg latest s = (Inr (disks, cdRoms), s')"
  shows "map vd_Address disks = map (\<lambda>(d, i). Some (i, adapterTypeToDiskBusType (snd (disk_device d)))) (of_device Disk (addresses ds latest)) \<and>
    map cd_Address cdRoms = map (\<lambda>(d, i). Some (i, adapterTypeToCdRomBusType (snd (disk_device d)))) (of_device CDRom (addresses ds latest)) \<and>
    length disks + length cdRoms = length ds"
  using assms
proof (induction ds arbitrary: latest s disks cdRoms)
  case Nil
  then show ?case by (simp add: go_inv addresses_def of_device_def)
next
  case (Cons d ds)
  obtain t a where ta: "disk_device d = (t, a)" by force
  obtain i l where il: "getDeviceIndex a latest = (i, l)" by force
  from Cons.prems ta il obtain disks' cdRoms' s1 where
    r: "create_data_disks env client ds pe project v rg l s1 = (Inr (disks', cdRoms'), s')" and
    k: "t = Disk \<and> cdRoms = cdRoms' \<and> length disks = Suc (length disks') \<and> map vd_Address disks = Some (disk_index d i, adapterTypeToDiskBusType a) # map vd_Address disks' \<or>
        t = CDRom \<and> disks = disks' \<and> length cdRoms = Suc (length cdRoms') \<and> map cd_Address cdRoms = Some (disk_index d i, adapterTypeToCdRomBusType a) # map cd_Address cdRoms'"
    by (cases t) (auto simp: go_inv go_cases Let_def)
  from Cons.IH [OF r] k ta il show ?case
    by (elim disjE conjE) (simp_all add: addresses_Cons of_device_def)
qed

text \<open>Disks of one adapter that leave the index open do not get different addresses: the
  first two get the same one (index 1 on SCSI and IDE, 0 elsewhere), and the later ones the
  following indexes.\<close>

theorem open_indexes_collide:
  assumes "CreateDataDiskList env client ds pe project v rg s = (Inr (disks, cdRoms), s')"
    and "length ds = Suc n" "\<forall>d\<in>set ds. disk_device d = (Disk, a) \<and> (\<forall>i. disk_index d i = i)"
  shows "cdRoms = [] \<and> map vd_Address disks =
    map (\<lambda>i. Some (i, adapterTypeToDiskBusType a)) (first_index a # map (\<lambda>i. first_index a + int i) [0..<n])"
proof -
  have m: "map (snd \<circ> disk_device) ds = replicate (Suc n) a"
    using assms(2,3) by (intro replicate_eqI) auto
  have z: "filter (\<lambda>p. fst (disk_device (fst p)) = t) (map (\<lambda>(d, i). (d, disk_index d i)) (zip ds is)) =
      (if t = Disk then zip ds is else [])" if "set ds \<subseteq> {d. disk_device d = (Disk, a) \<and> (\<forall>i. disk_index d i = i)}" for t and ds :: "NutanixMachineVMDisk list" and "is"
    using that
  proof (induction ds arbitrary: "is")
    case (Cons d ds)
    then show ?case by (cases "is") auto
  qed simp
  let ?is = "first_index a # map (\<lambda>i. first_index a + int i) [0..<n]"
  have ad: "of_device t (addresses ds Map.empty) = (if t = Disk then zip ds ?is else [])" for t
    unfolding addresses_def of_device_def m auto_indexes_one_adapter using assms(3) by (intro z) auto
  have zz: "map (\<lambda>(d, i). Some (i, adapterTypeToDiskBusType (snd (disk_device d)))) (zip ds is) =
      map (\<lambda>i. Some (i, adapterTypeToDiskBusType a)) is" if "length is = length ds" "\<forall>d\<in>set ds. disk_device d = (Disk, a)" for ds "is"
    using that
  proof (induction ds arbitrary: "is")
    case (Cons d ds)
    then show ?case by (cases "is") auto
  qed simp
  from create_addresses [OF assms(1) [unfolded CreateDataDiskList_def]] ad zz [of ?is ds] assms(2,3)
  show ?thesis by simp
qed

text \<open>Sizes in Gi, the first of several choices, and setters that accept everything.\<close>

fun demo_Value :: "quantity \<Rightarrow> int" where
  "demo_Value (Quantity q) = decimal_value (takeWhile is_digit q) * 2 ^ 30"

definition demo_env :: machine_env where
  "demo_env = \<lparr>me_Value = demo_Value, me_Cmp = (\<lambda>a b. demo_Value a - demo_Value b),
     me_Intn = (\<lambda>h n. 0), me_NewUUID = (\<lambda>h. ''r-'' @ show_nat (length h)), me_base64 = id,
     me_set = (\<lambda>f. Inr ()), me_MarshalIndent = (\<lambda>p. Inr ''{}''),
     me_IsTrue = (\<lambda>ops c. list_ex (\<lambda>p. p = MarkTrue c) ops), me_text = demo_text_library,
     me_GetSecret = (\<lambda>h ns n. Inr [''value'' \<mapsto> ''data'']), me_NewHelper = (\<lambda>m. Inr ()),
     me_Patch = (\<lambda>h a b. Inr ()), me_NewClusterHelper = (\<lambda>c. Inr ()), me_PatchCluster = (\<lambda>h c. Inr ())\<rparr>"

definition open_disk :: "NutanixMachineVMDisk" where
  "open_disk = \<lparr>dk_DiskSize = Quantity ''8Gi'', dk_DeviceProperties = None, dk_StorageConfig = None, dk_DataSource = None\<rparr>"

text \<open>A disk at a fixed address.\<close>

definition placed_disk :: "int \<Rightarrow> NutanixMachineVMDisk" where
  "placed_disk i = open_disk\<lparr>dk_DeviceProperties := Some \<lparr>dp_DeviceType = Disk, dp_AdapterType = SCSI, dp_DeviceIndex = i\<rparr>\<rparr>"


lemma open_indexes_collide_witness:
  "\<exists>disks s'. CreateDataDiskList demo_env base_v4_client (replicate 3 open_disk) ''pe'' None ''7.6'' None \<lparr>trace = []\<rparr> = (Inr (disks, []), s') \<and>
     map vd_Address disks = [Some (1, DiskSCSI), Some (1, DiskSCSI), Some (2, DiskSCSI)]"
proof -
  obtain disks cdRoms s' where r: "CreateDataDiskList demo_env base_v4_client (replicate 3 open_disk) ''pe'' None ''7.6'' None \<lparr>trace = []\<rparr> =
      (Inr (disks, cdRoms), s')"
    by (simp add: CreateDataDiskList_def numeral_3_eq_3 data_disk_info_def open_disk_def disk_device_def disk_index_def
        getDeviceIndex_def addDataSourceImageRefToVmDisk_def addStorageConfigAndContainerToVmDisk_def sdk_set_def demo_env_def go_eval)
  have "cdRoms = [] \<and> map vd_Address disks =
      map (\<lambda>i. Some (i, adapterTypeToDiskBusType SCSI)) (first_index SCSI # map (\<lambda>i. first_index SCSI + int i) [0..<2])"
    by (rule open_indexes_collide [OF r]) (simp_all add: open_disk_def disk_device_def disk_index_def)
  with r show ?thesis by (auto simp: first_index_def adapterTypeToDiskBusType_def upt_rec)
qed

lemma getDeviceIndex_nonneg:
  assumes "\<forall>a n. latest a = Some n \<longrightarrow> 0 \<le> n" "getDeviceIndex a latest = (i, latest')"
  shows "0 \<le> i \<and> (\<forall>a n. latest' a = Some n \<longrightarrow> 0 \<le> n)"
  using assms by (cases "latest a") (auto simp: getDeviceIndex_def split: if_splits)

lemma valid_disk_device:
  "disk_ok env L d \<Longrightarrow> disk_device d = (t, a) \<Longrightarrow> valid_adapter t a"
  by (cases "dk_DeviceProperties d") (auto simp: disk_ok_def disk_device_def properties_ok_def valid_adapter_def)

lemma disk_index_nonneg: "disk_ok env L d \<Longrightarrow> 0 \<le> i \<Longrightarrow> 0 \<le> disk_index d i"
  by (cases "dk_DeviceProperties d") (auto simp: disk_ok_def disk_index_def properties_ok_def)

lemma addresses_nonneg:
  assumes "\<forall>d\<in>set ds. disk_ok env L d" "\<forall>a n. latest a = Some n \<longrightarrow> 0 \<le> n" "(d, i) \<in> set (addresses ds latest)"
  shows "d \<in> set ds \<and> 0 \<le> i"
  using assms
proof (induction ds arbitrary: latest)
  case (Cons e ds)
  obtain j l where g: "getDeviceIndex (snd (disk_device e)) latest = (j, l)" by force
  from getDeviceIndex_nonneg [OF Cons.prems(2) g] have "0 \<le> j" "\<forall>a n. l a = Some n \<longrightarrow> 0 \<le> n" by auto
  with Cons g show ?case by (auto simp: addresses_Cons intro: disk_index_nonneg)
qed (simp add: addresses_def)

lemma create_progress:
  assumes "\<forall>d\<in>set ds. disk_ok env L d \<and> (\<forall>t :: 'z world_scheme. \<exists>i t'. data_disk_info env client d pe project v rg t = (Inr i, t'))"
    and "me_set env ''Disk.SetBackingInfo'' = Inr ()"
  shows "\<exists>disks cdRoms s'. create_data_disks env client ds pe project v rg latest (s :: 'z world_scheme) = (Inr (disks, cdRoms), s')"
  using assms(1)
proof (induction ds arbitrary: latest s)
  case (Cons d ds)
  obtain t a where ta: "disk_device d = (t, a)" by force
  obtain i l where il: "getDeviceIndex a latest = (i, l)" by force
  from Cons.prems have "\<exists>info s1. data_disk_info env client d pe project v rg s = (Inr info, s1)" by simp
  then obtain info s1 where info: "data_disk_info env client d pe project v rg s = (Inr info, s1)" by blast
  from Cons.IH [of l s1] Cons.prems obtain disks cdRoms s2 where
    "create_data_disks env client ds pe project v rg l s1 = (Inr (disks, cdRoms), s2)" by auto
  with info ta il valid_disk_device [of env L d t a] Cons.prems assms(2) show ?case
    by (cases t) (auto simp: go_eval sdk_set_def Let_def valid_adapter_def)
qed (simp add: go_eval)



text \<open>A data source given by name passes the validation, but no disk is ever built from it:
  the image is looked up by UUID only, and the construction fails before any request.\<close>

theorem named_source_never_built:
  "disk_ok env L (open_disk\<lparr>dk_DataSource := Some (name_id n)\<rparr>) = disk_ok env L open_disk \<and>
   CreateDataDiskList env client (open_disk\<lparr>dk_DataSource := Some (name_id n)\<rparr> # ds) pe project v rg s =
     (Inl (Leaf ''image identifier is missing both name and uuid''), s)"
  by (simp add: CreateDataDiskList_def data_disk_info_def addDataSourceImageRefToVmDisk_def GetImage_def IsUUID_def
      IsName_def name_id_def go_eval disk_ok_def open_disk_def source_ok_def)

section \<open>The GPU that is chosen\<close>

lemma gpuConfig_Some:
  "gpuConfigToVMGpu cfg mode = Some g \<Longrightarrow> gcf_IsInUse cfg \<noteq> Some True \<and> vg_DeviceId g \<noteq> None \<and>
     vg_DeviceId g = gcf_DeviceId cfg \<and> vg_Name g = gcf_DeviceName cfg \<and> vg_Backing g = None"
  by (auto simp: gpuConfigToVMGpu_def split: if_splits option.splits)

lemma usable_gpus_from:
  "g \<in> set (usable_gpus mode cfgs) \<longleftrightarrow> (\<exists>cfg. Some cfg \<in> set cfgs \<and> gpuConfigToVMGpu cfg (mode cfg) = Some g)"
  by (force simp: usable_gpus_def List.map_filter_def split: option.splits)

lemma profile_filter_same: "profile_filter p s = (Inr f, s') \<Longrightarrow> s' = s"
  by (cases "id_Type p") (auto simp: profile_filter_def go_inv)


definition gpu_client :: v4_client where
  "gpu_client = base_v4_client\<lparr>
     Clusters_ListClusterPhysicalGPUs := (\<lambda>h u f. Inr [None, Some \<lparr>gcf_DeviceName = Some ''A16'', gcf_DeviceId = Some 7,
       gcf_VendorName = Some ''kNvidia'', gcf_IsInUse = Some True, gcf_Graphics = False\<rparr>]),
     Clusters_ListClusterVirtualGPUs := (\<lambda>h u f. Inr [Some \<lparr>gcf_DeviceName = Some ''A16-2Q'', gcf_DeviceId = Some 8,
       gcf_VendorName = Some ''kNvidia'', gcf_IsInUse = None, gcf_Graphics = False\<rparr>])\<rparr>"

definition named_gpu :: NutanixGPU where
  "named_gpu = \<lparr>gpu_Type = GPUName, gpu_DeviceID = None, gpu_Name = Some ''A16'', gpu_Profile = None\<rparr>"

definition free_gpu :: vm_gpu where
  "free_gpu = \<lparr>vg_Name = Some ''A16-2Q'', vg_DeviceId = Some 8, vg_Mode = Some VirtualGpuMode, vg_Vendor = Some Nvidia, vg_Backing = None\<rparr>"


end
