(* ===== verification/Failure_Domains.thy ===== *)
theory Failure_Domains
  imports Disks Metro_Spec Projects
begin

text \<open>
  The failure domain of a machine and the validation of its configuration
  (controllers/nutanixmachine_controller.go: getFailureDomainSpec, checkFailureDomainStatus,
  checkFailureDomainSubnets, validateMachineConfig, setFailureDomainCustomAttributes and
  GetSubnetAndPEUUIDs; controllers/helpers.go: nutanixResourceIdentifierSpecified and
  resourceIdsEquals).

  A slice is a list: a nil slice and an empty one are the same here.  resourceIdsEquals tells
  them apart, but its only caller returns before when the machine has no subnets.
\<close>

definition nutanixResourceIdentifierSpecified :: "NutanixResourceIdentifier \<Rightarrow> bool" where
  "nutanixResourceIdentifierSpecified nri \<longleftrightarrow> IsName nri \<or> IsUUID nri"

definition resourceIdsEquals :: "NutanixResourceIdentifier list \<Rightarrow> NutanixResourceIdentifier list \<Rightarrow> bool" where
  "resourceIdsEquals nris1 nris2 =
     (if length nris1 \<noteq> length nris2 then False
      else list_all (\<lambda>a. list_ex (\<lambda>b. EqualTo a (Some b)) nris2) nris1)"

section \<open>The failure domain\<close>

definition fd_of_legacy :: "NutanixFailureDomainConfig \<Rightarrow> NutanixFailureDomainSpec" where
  "fd_of_legacy fd = \<lparr>fd_PrismElementCluster = fdc_Cluster fd, fd_Subnets = fdc_Subnets fd\<rparr>"

definition getFailureDomainSpec :: "rctx \<Rightarrow> string \<Rightarrow> ('z machine_ctx_scheme, NutanixFailureDomainSpec) go" where
  "getFailureDomainSpec rctx fdName =
     bnd (deref (rx_Machine rctx)) (\<lambda>machine.
     let failureDomainName = cm_FailureDomain machine in
     if isNutanixMetroFailureDomain failureDomainName
     then getMetroFailureDomainSpec rctx (drop (length metroFailureDomainPrefix) failureDomainName)
     else if isNutanixMetroSiteFailureDomain failureDomainName
     then getMetroSiteFailureDomainSpec rctx (drop (length metroSiteFailureDomainPrefix) failureDomainName)
     else case GetLegacyFailureDomainFromNutanixCluster failureDomainName (rx_NutanixCluster rctx) of
       Some fd \<Rightarrow> ret (fd_of_legacy fd)
     | None \<Rightarrow>
         bnd (gets (\<lambda>s. om_Namespace (nm_Meta (NM s)))) (\<lambda>ns.
         bnd (wrapping (\<lambda>e. Wrap (''failed to fetch the referent failure domain object '' @ dquote fdName @ '': '') e [])
               (ext (KGet KFailureDomain fdName ns) (\<lambda>h. Kube_GetFailureDomain (rx_kube rctx) h fdName ns))) (\<lambda>fdObj.
         ret (nfd_Spec fdObj))))"

text \<open>The verb %v prints the addresses of the pointers in the identifiers; here their text is the
  display string.\<close>

definition print_ids :: "NutanixResourceIdentifier list \<Rightarrow> string" where
  "print_ids ids = print_list (map id_DisplayString ids)"

definition checkFailureDomainSubnets ::
  "rctx \<Rightarrow> string \<Rightarrow> NutanixFailureDomainSpec \<Rightarrow> ('z machine_ctx_scheme, string) go" where
  "checkFailureDomainSubnets rctx fdName fdSpec =
     bnd (gets (\<lambda>s. nm_Spec (NM s))) (\<lambda>spec.
     let subnets = ms_Subnets spec in
     if subnets = [] then ret []
     else if resourceIdsEquals subnets (fd_Subnets fdSpec) then ret []
     else if \<not> (isNutanixMetroFailureDomain fdName \<or> isNutanixMetroSiteFailureDomain fdName) then
       ret (''NutanixMachine.spec.subnets='' @ print_ids subnets @ '', NutanixFailureDomain.spec.subnets='' @
         print_ids (fd_Subnets fdSpec))
     else
       bnd (metroSubnetsMatch (Some (rx_V4 rctx)) subnets (fd_Subnets fdSpec) (ms_Cluster spec)
              (fd_PrismElementCluster fdSpec)) (\<lambda>(match, machineKeys, fdKeys).
       if match then ret []
       else ret (''NutanixMachine.spec.subnets network='' @ print_list machineKeys @
         '', NutanixFailureDomain.spec.subnets network='' @ print_list fdKeys)))"

text \<open>The conflict of the cluster of the machine with the failure domain, or the empty text.\<close>

definition cluster_conflict :: "NutanixMachine \<Rightarrow> NutanixFailureDomainSpec \<Rightarrow> string" where
  "cluster_conflict m fdSpec =
     (let cluster = ms_Cluster (nm_Spec m);
          expectedPE = map_get (om_Annotations (nm_Meta m)) metroActivePlacementPEAnnotation in
      if nutanixResourceIdentifierSpecified cluster \<and> expectedPE \<noteq> [] then
        (if id_String cluster \<noteq> expectedPE
         then ''NutanixMachine.spec.cluster='' @ id_DisplayString cluster @ '', expected annotation '' @
           dquote metroActivePlacementPEAnnotation @ ''='' @ expectedPE
         else [])
      else if nutanixResourceIdentifierSpecified cluster \<and> \<not> EqualTo cluster (Some (fd_PrismElementCluster fdSpec))
      then ''NutanixMachine.spec.cluster='' @ id_DisplayString cluster @
        '', NutanixFailureDomain.spec.prismElementCluster='' @ id_DisplayString (fd_PrismElementCluster fdSpec)
      else [])"

definition set_failure_domain :: "string \<Rightarrow> ('z machine_ctx_scheme, unit) go" where
  "set_failure_domain fd = update_status (\<lambda>st. st\<lparr>mst_FailureDomain := Some fd\<rparr>)"

definition checkFailureDomainStatus :: "rctx \<Rightarrow> ('z machine_ctx_scheme, unit) go" where
  "checkFailureDomainStatus rctx =
     bnd (deref (rx_Machine rctx)) (\<lambda>machine.
     let fd = cm_FailureDomain machine in
     if fd = [] then ret ()
     else
       bnd (getFailureDomainSpec rctx fd) (\<lambda>fdSpec.
       bnd (gets (\<lambda>s. cluster_conflict (NM s) fdSpec)) (\<lambda>clusterValidationErr.
       bnd (checkFailureDomainSubnets rctx fd fdSpec) (\<lambda>subnetMsg.
       let errMessages = (if clusterValidationErr \<noteq> [] then [clusterValidationErr] else []) @
             (if subnetMsg \<noteq> [] then [subnetMsg] else []) in
       if errMessages \<noteq> [] then
         raise (Leaf (''the NutanixMachine is not consistent with the referenced NutanixFailureDomain '' @ dquote fd @
           '': '' @ Join_strings errMessages ''; ''))
       else set_failure_domain fd))))"

section \<open>The configuration of the machine\<close>

definition empty_identifier :: "NutanixResourceIdentifier \<Rightarrow> bool" where
  "empty_identifier i \<longleftrightarrow> (id_Name i = None \<or> id_Name i = Some []) \<and> (id_UUID i = None \<or> id_UUID i = Some [])"

definition below_minimum :: "machine_env \<Rightarrow> string \<Rightarrow> quantity \<Rightarrow> quantity \<Rightarrow> string" where
  "below_minimum env what minimum given =
     ''minimum '' @ what @ '' is '' @ show_int (GetMibValueOfQuantity env minimum) @ ''Mib but given '' @
     show_int (GetMibValueOfQuantity env given) @ ''Mib''"

text \<open>The checks of the spec, after the failure domain has set the cluster and the subnets.\<close>

definition validate_spec :: "machine_env \<Rightarrow> libs \<Rightarrow> string \<Rightarrow> NutanixMachineSpec \<Rightarrow> ('s, unit) go" where
  "validate_spec env L name spec =
     (if ms_Subnets spec = [] then raise (Leaf (''at least one subnet is needed to create the VM '' @ name))
      else if empty_identifier (ms_Cluster spec)
      then raise (Leaf (''cluster name or uuid are required to create the VM '' @ name))
      else if me_Cmp env (ms_SystemDiskSize spec) minMachineSystemDiskSize < 0
      then raise (Leaf (below_minimum env ''systemDiskSize'' minMachineSystemDiskSize (ms_SystemDiskSize spec)))
      else if ms_VMProfile spec = None \<and> me_Cmp env (ms_MemorySize spec) minMachineMemorySize < 0
      then raise (Leaf (below_minimum env ''memorySize'' minMachineMemorySize (ms_MemorySize spec)))
      else if ms_VMProfile spec = None \<and> ms_VCPUsPerSocket spec < minVCPUsPerSocket
      then raise (Leaf (''minimum vcpus per socket is '' @ show_int minVCPUsPerSocket @ '' but given '' @
             show_int (ms_VCPUsPerSocket spec)))
      else if ms_VMProfile spec = None \<and> ms_VCPUSockets spec < minVCPUSockets
      then raise (Leaf (''minimum vcpu sockets is '' @ show_int minVCPUSockets @ '' but given '' @
             show_int (ms_VCPUSockets spec)))
      else validateDataDisks env L (ms_DataDisks spec))"

text \<open>The failure domain sets the cluster and the subnets of the machine.\<close>

definition apply_failure_domain ::
  "rctx \<Rightarrow> ProjectInfo option \<Rightarrow> resource_group option \<Rightarrow> string \<Rightarrow> ('z machine_ctx_scheme, unit) go" where
  "apply_failure_domain rctx effectiveProject resourceGroup fdName =
     bnd (getFailureDomainSpec rctx fdName) (\<lambda>fdSpec.
     thn (validateFailureDomainSpec rctx fdSpec effectiveProject resourceGroup)
     (thn (update_NM (\<lambda>m. m\<lparr>nm_Spec := (nm_Spec m)\<lparr>ms_Cluster := fd_PrismElementCluster fdSpec,
             ms_Subnets := fd_Subnets fdSpec\<rparr>\<rparr>))
       (set_failure_domain fdName)))"

definition validateMachineConfig ::
  "machine_env \<Rightarrow> rctx \<Rightarrow> ProjectInfo option \<Rightarrow> resource_group option \<Rightarrow> ('z machine_ctx_scheme, unit) go" where
  "validateMachineConfig env rctx effectiveProject resourceGroup =
     bnd (deref (rx_Machine rctx)) (\<lambda>machine.
     let fdName = cm_FailureDomain machine in
     thn (when_go (fdName \<noteq> []) (apply_failure_domain rctx effectiveProject resourceGroup fdName))
     (bnd (gets NM) (\<lambda>m. validate_spec env (rx_libs rctx) (om_Name (nm_Meta m)) (nm_Spec m))))"

definition GetSubnetAndPEUUIDs ::
  "rctx \<Rightarrow> ProjectInfo option \<Rightarrow> resource_group option \<Rightarrow> ('z machine_ctx_scheme, string \<times> string list) go" where
  "GetSubnetAndPEUUIDs rctx effectiveProject resourceGroup =
     bnd (gets (\<lambda>s. nm_Spec (NM s))) (\<lambda>spec.
     bnd (GetPEUUID (Some (rx_V4 rctx)) resourceGroup (id_Name (ms_Cluster spec)) (id_UUID (ms_Cluster spec))) (\<lambda>peUUID.
     bnd (GetSubnetUUIDList (rx_V4 rctx) (ms_Subnets spec) peUUID effectiveProject (rx_PCVersion rctx)) (\<lambda>subnetUUIDs.
     ret (peUUID, subnetUUIDs))))"

section \<open>The custom attributes of a placement\<close>

definition vmCustomAttributePrefix4FailureDomain :: string where
  "vmCustomAttributePrefix4FailureDomain = ''failure-domain:''"
definition vmCustomAttributePrefix4MetroNodeGroupNameLabel :: string where
  "vmCustomAttributePrefix4MetroNodeGroupNameLabel = ''metro-node-group-name:''"
definition vmCustomAttributePrefix4MetroPreferredPE :: string where
  "vmCustomAttributePrefix4MetroPreferredPE = ''metro-preferred-pe:''"

definition stored_attribute :: "string_map \<Rightarrow> string \<Rightarrow> string \<Rightarrow> string list" where
  "stored_attribute ds key prefix' = (case ds key of Some v \<Rightarrow> if v \<noteq> [] then [prefix' @ v] else [] | None \<Rightarrow> [])"

definition failure_domain_attributes :: "string \<Rightarrow> string_map \<Rightarrow> string list" where
  "failure_domain_attributes fd ds =
     (if fd \<noteq> [] then [vmCustomAttributePrefix4FailureDomain @ fd] else []) @
     (if isNutanixMetroSiteFailureDomain fd
      then stored_attribute ds MetroNodeGroupNameLabel vmCustomAttributePrefix4MetroNodeGroupNameLabel else []) @
     (if isNutanixMetroFailureDomain fd \<or> isNutanixMetroSiteFailureDomain fd
      then stored_attribute ds MetroPreferredPE vmCustomAttributePrefix4MetroPreferredPE else [])"

definition setFailureDomainCustomAttributes :: "rctx \<Rightarrow> string_map \<Rightarrow> vm \<Rightarrow> vm" where
  "setFailureDomainCustomAttributes rctx ds v =
     (case rx_Machine rctx of
        None \<Rightarrow> v
      | Some m \<Rightarrow>
          (let attrs = failure_domain_attributes (cm_FailureDomain m) ds in
           if attrs \<noteq> [] then v\<lparr>vm_CustomAttributes := attrs\<rparr> else v))"

end
