(* ===== verification/Machine_Create.thy ===== *)
theory Machine_Create
  imports Failure_Domains Machine_Delete
begin

text \<open>
  The creation of the VM of a machine (controllers/nutanixmachine_controller.go, from
  getOrMintVMCreationRequestID to getDataDisks, with the guest customization, the boot type and
  the category conditions on the NutanixCluster).

  A reconcile that creates a VM has, beside the machine, the conditions of the NutanixCluster in
  memory and the address of the VM.  The payload of the two requests that make a VM, the identifier of the request and
  every patch of the machine are in the trace.
\<close>

record create_ctx = machine_ctx +
  NC_Conditions :: "condition_op list"
  IP :: string

definition createErrorFailureReason :: string where "createErrorFailureReason = ''CreateError''"
definition VMCreationRequestIDAnnotation :: string where
  "VMCreationRequestIDAnnotation = ''capx.nutanix.com/vm-creation-request-id''"
definition VMBootTypeInvalid :: string where "VMBootTypeInvalid = ''VMBootTypeInvalid''"
definition ClusterCategoryCreatedCondition :: string where
  "ClusterCategoryCreatedCondition = ''ClusterCategoryCreated''"
definition ClusterCategoryCreationFailed :: string where
  "ClusterCategoryCreationFailed = ''ClusterCategoryCreationFailed''"
definition NutanixMachineBootstrapRefKindSecret :: string where
  "NutanixMachineBootstrapRefKindSecret = ''Secret''"
definition NutanixMachineBootstrapRefKindImage :: string where
  "NutanixMachineBootstrapRefKindImage = ''Image''"

section \<open>Failures\<close>

text \<open>An error that fails the machine for good unless the error err can be retried, and one that
  always does.\<close>

definition fail_machine :: "string \<Rightarrow> rctx \<Rightarrow> go_error \<Rightarrow> go_error \<Rightarrow> ('z machine_ctx_scheme, 'a) go" where
  "fail_machine reason rctx err errorMsg =
     thn (when_go (\<not> isRetryableAPIError (rx_V4 rctx) err) (SetFailureStatus reason errorMsg)) (raise errorMsg)"

abbreviation fail_create :: "rctx \<Rightarrow> go_error \<Rightarrow> go_error \<Rightarrow> ('z machine_ctx_scheme, 'a) go" where
  "fail_create \<equiv> fail_machine createErrorFailureReason"

definition fail_for_good :: "go_error \<Rightarrow> ('z machine_ctx_scheme, 'a) go" where
  "fail_for_good errorMsg = thn (SetFailureStatus createErrorFailureReason errorMsg) (raise errorMsg)"

definition or_fail ::
  "rctx \<Rightarrow> (go_error \<Rightarrow> go_error) \<Rightarrow> ('z machine_ctx_scheme, 'a) go \<Rightarrow> ('z machine_ctx_scheme, 'a) go" where
  "or_fail rctx f m = handle m (\<lambda>err. fail_create rctx err (f err))"

section \<open>Patches\<close>

definition view_machine :: "NutanixMachine \<Rightarrow> machine_view" where
  "view_machine m = \<lparr>mv_RequestID = map_get (om_Annotations (nm_Meta m)) VMCreationRequestIDAnnotation,
     mv_Finalizers = om_Finalizers (nm_Meta m), mv_Spec = nm_Spec m, mv_Status = nm_Status m\<rparr>"

definition patch_call :: "machine_env \<Rightarrow> NutanixMachine \<Rightarrow> NutanixMachine \<Rightarrow> ('z world_scheme, unit) go" where
  "patch_call env before after =
     ext (KPatch_machine (view_machine before) (view_machine after)) (\<lambda>h. me_Patch env h before after)"

definition patchMachine :: "machine_env \<Rightarrow> NutanixMachine \<Rightarrow> ('z machine_ctx_scheme, unit) go" where
  "patchMachine env before =
     bnd (gets NM) (\<lambda>m.
     case me_NewHelper env before of
       Inl err \<Rightarrow> raise (Wrap (''failed to create patch helper to patch machine '' @ om_Name (nm_Meta m) @ '': '') err [])
     | Inr _ \<Rightarrow>
         wrapping (\<lambda>e. Wrap (''failed to patch machine '' @ om_Name (nm_Meta m) @ '': '') e []) (patch_call env before m))"

definition with_request_id :: "string \<Rightarrow> NutanixMachine \<Rightarrow> NutanixMachine" where
  "with_request_id r m =
     m\<lparr>nm_Meta := (nm_Meta m)\<lparr>om_Annotations := (om_Annotations (nm_Meta m))(VMCreationRequestIDAnnotation \<mapsto> r)\<rparr>\<rparr>"

text \<open>The copy is patched, then the object in memory gets the annotation.\<close>

definition getOrMintVMCreationRequestID :: "machine_env \<Rightarrow> ('z machine_ctx_scheme, string) go" where
  "getOrMintVMCreationRequestID env =
     bnd (gets NM) (\<lambda>m.
     let requestID = nutanixMachineAnnotation (Some m) VMCreationRequestIDAnnotation in
     if requestID \<noteq> [] then ret requestID
     else
       bnd (gets (\<lambda>s. me_NewUUID env (trace s))) (\<lambda>requestID.
       thn (wrapping (\<lambda>e. Wrap ''failed to persist vm creation request id: '' e [])
             (patch_call env m (with_request_id requestID m)))
       (thn (setNutanixMachineAnnotation VMCreationRequestIDAnnotation requestID) (ret requestID))))"

section \<open>Conditions\<close>

definition ProvisionedV1Beta2Reason :: string where "ProvisionedV1Beta2Reason = ''Provisioned''"

definition markVMProvisioned :: "('z machine_ctx_scheme, unit) go" where
  "markVMProvisioned =
     conditions [MarkTrue VMProvisionedCondition, SetTrue VMProvisionedCondition ProvisionedV1Beta2Reason []]"

text \<open>The source repeats this for the success and for the failure of the creation.\<close>

definition mark_cluster_category ::
  "machine_env \<Rightarrow> rctx \<Rightarrow> condition_op list \<Rightarrow> ('z create_ctx_scheme, unit) go" where
  "mark_cluster_category env rctx ops =
     (let n = om_Name (ncl_Meta (rx_NutanixCluster rctx)); ns = om_Namespace (ncl_Meta (rx_NutanixCluster rctx)) in
      bnd (gets NC_Conditions) (\<lambda>conds.
      if me_IsTrue env conds ClusterCategoryCreatedCondition then ret ()
      else case me_NewClusterHelper env conds of
        Inl err \<Rightarrow> raise (Wrap (''failed to init patch helper for NutanixCluster '' @ ns @ ''/'' @ n @ '': '') err [])
      | Inr _ \<Rightarrow>
          thn (modify (\<lambda>s. s\<lparr>NC_Conditions := conds @ ops\<rparr>))
            (wrapping (\<lambda>e. Wrap (''failed to patch ClusterCategoryCreatedCondition on NutanixCluster '' @ ns @ ''/'' @ n @ '': '') e [])
              (ext (KWrite KNutanixCluster n ns ''patch'') (\<lambda>h. me_PatchCluster env h (conds @ ops))))))"

definition markClusterCategoryCreated :: "machine_env \<Rightarrow> rctx \<Rightarrow> ('z create_ctx_scheme, unit) go" where
  "markClusterCategoryCreated env rctx =
     mark_cluster_category env rctx [MarkTrue ClusterCategoryCreatedCondition,
       SetTrue ClusterCategoryCreatedCondition Succeeded []]"

definition markClusterCategoryCreationFailed ::
  "machine_env \<Rightarrow> rctx \<Rightarrow> go_error \<Rightarrow> ('z create_ctx_scheme, unit) go" where
  "markClusterCategoryCreationFailed env rctx cause =
     mark_cluster_category env rctx
       [MarkFalse ClusterCategoryCreatedCondition ClusterCategoryCreationFailed SeverityError (Error_text cause),
        SetFalse ClusterCategoryCreatedCondition ClusterCategoryCreationFailed (Error_text cause)]"

section \<open>Categories\<close>

definition getMachineCategoryIdentifiers ::
  "rctx \<Rightarrow> ('z machine_ctx_scheme, NutanixCategoryIdentifier option list) go" where
  "getMachineCategoryIdentifiers rctx =
     bnd (gets (\<lambda>s. ms_AdditionalCategories (nm_Spec (NM s)))) (\<lambda>additionalCategories.
     let ids = GetDefaultCAPICategoryIdentifiers (om_Name (cc_Meta (rx_Cluster rctx))) @ map Some additionalCategories in
     bnd (deref (rx_Machine rctx)) (\<lambda>machine.
     if isNutanixMetroFailureDomain (cm_FailureDomain machine) \<or> isNutanixMetroSiteFailureDomain (cm_FailureDomain machine)
     then bnd (getVHADomainCategory rctx) (\<lambda>vhaCategory. ret (ids @ [Some vhaCategory]))
     else ret ids))"

definition category_project :: "rctx \<Rightarrow> string option \<Rightarrow> string option" where
  "category_project rctx projectExtID = (if isPCVersionHigherThan75 (rx_PCVersion rctx) then projectExtID else None)"

text \<open>The default categories of the cluster; a failure to record the outcome on the NutanixCluster
  is only logged.  Both ways to create a VM have this sequence.\<close>

definition ensure_default_categories ::
  "machine_env \<Rightarrow> rctx \<Rightarrow> string \<Rightarrow> string option \<Rightarrow> ('z create_ctx_scheme, unit) go" where
  "ensure_default_categories env rctx vmName categoryProjectExtID =
     bnd (attempt (GetOrCreateCategoriesForProject (rx_V4 rctx)
            (GetDefaultCAPICategoryIdentifiers (om_Name (cc_Meta (rx_Cluster rctx)))) categoryProjectExtID)) (\<lambda>r.
     case r of
       Inl err \<Rightarrow>
         (let errorMsg = Wrap (''error occurred while creating category spec for vm '' @ vmName @ '': '') err [] in
          thn (when_go (\<not> isRetryableAPIError (rx_V4 rctx) err) (SetFailureStatus createErrorFailureReason errorMsg))
          (thn (attempt (markClusterCategoryCreationFailed env rctx errorMsg)) (raise errorMsg)))
     | Inr _ \<Rightarrow> thn (attempt (markClusterCategoryCreated env rctx)) (ret ()))"

definition machine_categories ::
  "rctx \<Rightarrow> string \<Rightarrow> string option \<Rightarrow> ('z machine_ctx_scheme, string option list) go" where
  "machine_categories rctx vmName categoryProjectExtID =
     bnd (or_fail rctx (\<lambda>e. Wrap (''error occurred while getting category identifiers for vm '' @ vmName @ '': '') e [])
           (getMachineCategoryIdentifiers rctx)) (\<lambda>ids.
     or_fail rctx (\<lambda>e. Wrap (''error occurred while creating category spec for vm '' @ vmName @ '': '') e [])
       (GetPrismReferencesOfCategoryIdentifiersForProject (rx_V4 rctx) ids categoryProjectExtID))"

section \<open>The disks of the machine\<close>

text \<open>The image of the node, None when the spec has neither an image nor a lookup.\<close>

definition node_image ::
  "machine_env \<Rightarrow> rctx \<Rightarrow> ProjectInfo option \<Rightarrow> ('z machine_ctx_scheme, prism_image option) go" where
  "node_image env rctx effectiveProject =
     bnd (gets (\<lambda>s. nm_Spec (NM s))) (\<lambda>spec.
     case ms_Image spec of
       Some i \<Rightarrow> GetImage (rx_V4 rctx) i effectiveProject (rx_PCVersion rctx)
     | None \<Rightarrow>
         (case ms_ImageLookup spec of
            Some l \<Rightarrow>
              bnd (deref (rx_Machine rctx)) (\<lambda>machine.
              bnd (GetImageByLookup (me_text env) (rx_V4 rctx) (il_Format l) (Some (il_BaseOS l)) (Some (cm_Version machine))
                     effectiveProject (rx_PCVersion rctx)) (\<lambda>img. ret (Some img)))
          | None \<Rightarrow> ret None))"

text \<open>The verb %q on the image reference prints the addresses of its pointers; the text is left out.\<close>

definition system_image_error :: "go_error \<Rightarrow> go_error" where
  "system_image_error err = Wrap ''failed to get system disk image: '' err []"

definition refuse_deleted_image ::
  "rctx \<Rightarrow> string \<Rightarrow> prism_image option \<Rightarrow> ('z machine_ctx_scheme, prism_image) go" where
  "refuse_deleted_image rctx what img_p =
     bnd (deref img_p) (\<lambda>img.
     bnd (ImageMarkedForDeletion (rx_V4 rctx) img) (\<lambda>markedForDeletion.
     if markedForDeletion
     then bnd (deref (im_ExtId img)) (\<lambda>u. fail_for_good (Leaf (what @ '' disk image '' @ u @ '' is being deleted'')))
     else ret img))"

definition getSystemDisk :: "machine_env \<Rightarrow> rctx \<Rightarrow> ProjectInfo option \<Rightarrow> ('z machine_ctx_scheme, vm_disk) go" where
  "getSystemDisk env rctx effectiveProject =
     bnd (or_fail rctx system_image_error (node_image env rctx effectiveProject)) (\<lambda>img_p.
     bnd (refuse_deleted_image rctx ''system'' img_p) (\<lambda>img.
     bnd (gets (\<lambda>s. me_Value env (ms_SystemDiskSize (nm_Spec (NM s))))) (\<lambda>size.
     bnd (deref (im_ExtId img)) (\<lambda>u.
     handle (CreateSystemDiskSpec env u size)
       (\<lambda>err. fail_for_good (Wrap ''error occurred while creating system disk spec: '' err []))))))"

definition getBootstrapDisk :: "rctx \<Rightarrow> ProjectInfo option \<Rightarrow> ('z machine_ctx_scheme, cd_rom) go" where
  "getBootstrapDisk rctx effectiveProject =
     bnd (gets (\<lambda>s. ms_BootstrapRef (nm_Spec (NM s)))) (\<lambda>ref_p.
     bnd (deref ref_p) (\<lambda>ref.
     bnd (or_fail rctx (\<lambda>e. Wrap ''failed to get bootstrap disk image: '' e [])
           (GetImage (rx_V4 rctx) (name_id (ref_Name ref)) effectiveProject (rx_PCVersion rctx))) (\<lambda>img_p.
     bnd (refuse_deleted_image rctx ''bootstrap'' img_p) (\<lambda>img.
     ret \<lparr>cd_Address = Some (0, CdRomIDE), cd_Backing = Some (newVmDiskWithImageRef (im_ExtId img) 0)\<rparr>))))"

definition getDataDisks ::
  "machine_env \<Rightarrow> rctx \<Rightarrow> string \<Rightarrow> ProjectInfo option \<Rightarrow> resource_group option \<Rightarrow>
   ('z machine_ctx_scheme, vm_disk list \<times> cd_rom list) go" where
  "getDataDisks env rctx peUUID effectiveProject resourceGroup =
     bnd (gets (\<lambda>s. ms_DataDisks (nm_Spec (NM s)))) (\<lambda>dataDisks.
     or_fail rctx (\<lambda>e. Wrap ''error occurred while creating data disk spec: '' e [])
       (CreateDataDiskList env (rx_V4 rctx) dataDisks peUUID effectiveProject (rx_PCVersion rctx) resourceGroup))"

definition getDiskList ::
  "machine_env \<Rightarrow> rctx \<Rightarrow> string \<Rightarrow> ProjectInfo option \<Rightarrow> resource_group option \<Rightarrow>
   ('z machine_ctx_scheme, vm_disk list \<times> cd_rom list) go" where
  "getDiskList env rctx peUUID effectiveProject resourceGroup =
     bnd (getSystemDisk env rctx effectiveProject) (\<lambda>systemDisk.
     bnd (gets (\<lambda>s. ms_BootstrapRef (nm_Spec (NM s)))) (\<lambda>ref_p.
     bnd (case ref_p of
            None \<Rightarrow> ret []
          | Some ref \<Rightarrow>
              if ref_Kind ref = NutanixMachineBootstrapRefKindImage
              then bnd (getBootstrapDisk rctx effectiveProject) (\<lambda>d. ret [d]) else ret []) (\<lambda>bootstrapCdRoms.
     bnd (getDataDisks env rctx peUUID effectiveProject resourceGroup) (\<lambda>(dataDisks, dataCdRoms).
     ret (systemDisk # dataDisks, bootstrapCdRoms @ dataCdRoms)))))"

section \<open>Guest customization and boot\<close>

definition getBootstrapData :: "machine_env \<Rightarrow> ('z machine_ctx_scheme, string) go" where
  "getBootstrapData env =
     bnd (gets (\<lambda>s. ms_BootstrapRef (nm_Spec (NM s)))) (\<lambda>ref_p.
     case ref_p of
       None \<Rightarrow> raise (Leaf ''NutanixMachine spec.BootstrapRef is nil.'')
     | Some ref \<Rightarrow>
         bnd (wrapping (\<lambda>e. Wrap (''failed to retrieve bootstrap data secret '' @ ref_Name ref @ '': '') e [])
               (ext (KGet KSecret (ref_Name ref) (ref_Namespace ref))
                 (\<lambda>h. me_GetSecret env h (ref_Namespace ref) (ref_Name ref)))) (\<lambda>secret.
         case secret ''value'' of
           None \<Rightarrow> raise (Leaf ''error retrieving bootstrap data: secret value key is missing'')
         | Some v \<Rightarrow> ret v))"

definition cloud_init_metadata :: "string \<Rightarrow> string \<Rightarrow> string" where
  "cloud_init_metadata hostname u =
     ''{'' @ dquote ''hostname'' @ '': '' @ dquote hostname @ '', '' @ dquote ''uuid'' @ '': '' @ dquote u @ ''}''"

definition jinja_line :: string where "jinja_line = ''## template: jinja'' @ [CHR 0x0A]"

text \<open>The cloud-init data for a bootstrap secret; None for another kind of reference.  The source
  has this twice, for the VM and for the deployment from a profile.\<close>

definition guest_customization :: "machine_env \<Rightarrow> rctx \<Rightarrow> string \<Rightarrow> ('z machine_ctx_scheme, cloud_init option) go" where
  "guest_customization env rctx setter =
     bnd (gets (\<lambda>s. ms_BootstrapRef (nm_Spec (NM s)))) (\<lambda>ref_p.
     case ref_p of
       None \<Rightarrow> raise (Leaf ''NutanixMachine spec.BootstrapRef is nil.'')
     | Some ref \<Rightarrow>
         if ref_Kind ref \<noteq> NutanixMachineBootstrapRefKindSecret then ret None
         else
           bnd (getBootstrapData env) (\<lambda>bootstrapData.
           bnd (deref (rx_Machine rctx)) (\<lambda>machine.
           bnd (gets (\<lambda>s. me_NewUUID env (trace s))) (\<lambda>u.
           let hostname = om_Name (cm_Meta machine);
               script = ReplaceAll (TrimPrefix bootstrapData jinja_line) ''{{ ds.meta_data.hostname }}'' hostname in
           thn (sdk_set env ''CloudInit.SetCloudInitScript'')
           (thn (sdk_set env setter)
             (ret (Some \<lparr>ci_Metadata = me_base64 env (cloud_init_metadata hostname u), ci_UserData = me_base64 env script\<rparr>)))))))"

definition addGuestCustomizationToVM :: "machine_env \<Rightarrow> rctx \<Rightarrow> vm \<Rightarrow> ('z machine_ctx_scheme, vm) go" where
  "addGuestCustomizationToVM env rctx v =
     bnd (guest_customization env rctx ''GuestCustomization.SetConfig'') (\<lambda>g.
     ret (case g of None \<Rightarrow> v | Some ci \<Rightarrow> v\<lparr>vm_GuestCustomization := Some ci\<rparr>))"

definition addGuestCustomizationToDeployParams ::
  "machine_env \<Rightarrow> rctx \<Rightarrow> deploy_params \<Rightarrow> ('z machine_ctx_scheme, deploy_params) go" where
  "addGuestCustomizationToDeployParams env rctx params =
     bnd (guest_customization env rctx ''DeployVmGuestCustomization.SetConfig'') (\<lambda>g.
     ret (case g of None \<Rightarrow> params | Some ci \<Rightarrow> params\<lparr>dpl_GuestCustomization := Some ci\<rparr>))"

definition boot_order :: "boot_device list" where "boot_order = [BootCdRom, BootDisk, BootNetwork]"

definition addBootTypeToVM :: "machine_env \<Rightarrow> vm \<Rightarrow> ('z machine_ctx_scheme, vm) go" where
  "addBootTypeToVM env v =
     bnd (gets (\<lambda>s. ms_BootType (nm_Spec (NM s)))) (\<lambda>bootType.
     case bootType of
       OtherBoot t \<Rightarrow>
         if t = [] then ret v
         else
           (let errorMsg = Leaf (''boot type must be legacy or uefi but was '' @ t) in
            thn (mark_failed VMProvisionedCondition VMBootTypeInvalid SeverityError errorMsg) (raise errorMsg))
     | UEFI \<Rightarrow> thn (sdk_set env ''BootConfig.SetValue'') (ret (v\<lparr>vm_BootConfig := Some (UefiBoot boot_order)\<rparr>))
     | Legacy \<Rightarrow> thn (sdk_set env ''BootConfig.SetValue'') (ret (v\<lparr>vm_BootConfig := Some (LegacyBoot boot_order)\<rparr>)))"

section \<open>The VM\<close>

definition subnet_nic :: "string \<Rightarrow> vm_nic" where
  "subnet_nic u = \<lparr>nic_NicNetworkInfo = None,
     nic_NetworkInfo = Some \<lparr>ni_Subnet = Some u, ni_Ipv4Config = None, ni_Ipv4Info = None\<rparr>\<rparr>"

text \<open>The VM with what the spec says, the placement attributes, the cluster and the NICs.\<close>

definition base_vm ::
  "machine_env \<Rightarrow> rctx \<Rightarrow> string \<Rightarrow> NutanixMachineSpec \<Rightarrow> string_map \<Rightarrow> string \<Rightarrow> string list \<Rightarrow> vm" where
  "base_vm env rctx vmName spec ds peUUID subnetUUIDs =
     (setFailureDomainCustomAttributes rctx ds
        (empty_vm\<lparr>vm_Name := Some vmName, vm_MemorySizeBytes := Some (me_Value env (ms_MemorySize spec)),
           vm_NumCoresPerSocket := Some (ms_VCPUsPerSocket spec), vm_NumSockets := Some (ms_VCPUSockets spec),
           vm_HardwareClockTimezone := Some ''UTC''\<rparr>))
     \<lparr>vm_Cluster := Some peUUID, vm_Nics := map subnet_nic subnetUUIDs\<rparr>"

text \<open>From the categories to the boot type.\<close>

definition complete_vm ::
  "machine_env \<Rightarrow> rctx \<Rightarrow> string \<Rightarrow> string \<Rightarrow> ProjectInfo option \<Rightarrow> resource_group option \<Rightarrow> vm \<Rightarrow>
   ('z create_ctx_scheme, vm) go" where
  "complete_vm env rctx vmName peUUID effectiveProject resourceGroup v =
     (let projectExtID = project_ext_id effectiveProject; categoryProjectExtID = category_project rctx projectExtID in
      thn (ensure_default_categories env rctx vmName categoryProjectExtID)
      (bnd (machine_categories rctx vmName categoryProjectExtID) (\<lambda>categoryReferences.
       bnd (or_fail rctx (\<lambda>e. Wrap (''error occurred while trying to add VM '' @ vmName @ '' to project: '') e [])
             (addVMToProject rctx (Some (v\<lparr>vm_Categories := categoryReferences\<rparr>)) projectExtID)) (\<lambda>v_p.
       bnd (deref v_p) (\<lambda>v.
       bnd (gets (\<lambda>s. ms_GPUs (nm_Spec (NM s)))) (\<lambda>specGPUs.
       bnd (or_fail rctx (\<lambda>e. Wrap (''failed to get the GPU list to create the VM '' @ vmName @ '': '') e [])
             (GetGPUList env (rx_V4 rctx) specGPUs peUUID (rx_PCVersion rctx))) (\<lambda>gpus.
       bnd (or_fail rctx (\<lambda>e. Wrap (''failed to get the disk list to create the VM '' @ vmName @ '': '') e [])
             (getDiskList env rctx peUUID effectiveProject resourceGroup)) (\<lambda>(disks, cdRoms).
       bnd (handle (addGuestCustomizationToVM env rctx (v\<lparr>vm_Gpus := gpus, vm_Disks := disks, vm_CdRoms := cdRoms\<rparr>))
             (\<lambda>err. fail_for_good (Wrap ''error occurred while adding guest customization to vm spec: '' err []))) (\<lambda>v.
       handle (addBootTypeToVM env v)
         (\<lambda>err. fail_for_good (Wrap ''error occurred while adding boot type to vm spec: '' err [])))))))))))"

definition vmCreateFailure :: "rctx \<Rightarrow> string \<Rightarrow> go_error \<Rightarrow> ('z machine_ctx_scheme, 'a) go" where
  "vmCreateFailure rctx vmName err = fail_create rctx err (Wrap (''failed to create VM '' @ vmName @ '': '') err [])"

text \<open>The collection of the subtasks of a failed task has fuel; when it runs out the run has no
  result, which deref None stands for (collect_enough_fuel gives a bound).\<close>

definition createAndWaitForVM ::
  "nat \<Rightarrow> rctx \<Rightarrow> string \<Rightarrow> vm \<Rightarrow> string \<Rightarrow> ('z machine_ctx_scheme, vm) go" where
  "createAndWaitForVM fuel rctx requestID v vmName =
     bnd (handle (ext (PCreate_vm requestID v) (\<lambda>h. VMs_CreateAsync (rx_V4 rctx) h requestID v)) (vmCreateFailure rctx vmName)) (\<lambda>createOp.
     bnd (handle (waitForConvergedOperation fuel (Some (rx_V4 rctx)) createOp) (vmCreateFailure rctx vmName)) (\<lambda>r.
     bnd (deref r) (\<lambda>createdVMs.
     case createdVMs of
       [Some created] \<Rightarrow> ret created
     | _ \<Rightarrow> fail_for_good (Leaf (''failed to create VM '' @ vmName @
              '': operation completed but expected exactly 1 VM, got '' @ show_nat (length createdVMs))))))"

definition set_vm_uuid :: "string \<Rightarrow> ('z machine_ctx_scheme, unit) go" where
  "set_vm_uuid vmUuid =
     update_NM (\<lambda>m. m\<lparr>nm_Spec := (nm_Spec m)\<lparr>ms_ProviderID := GenerateProviderID vmUuid\<rparr>,
                       nm_Status := (nm_Status m)\<lparr>mst_VmUUID := vmUuid\<rparr>\<rparr>)"

definition create_vm ::
  "nat \<Rightarrow> machine_env \<Rightarrow> rctx \<Rightarrow> string \<Rightarrow> string \<Rightarrow> vm \<Rightarrow> ('z machine_ctx_scheme, vm) go" where
  "create_vm fuel env rctx vmName requestID v =
     bnd (createAndWaitForVM fuel rctx requestID v vmName) (\<lambda>created.
     case vm_ExtId created of
       None \<Rightarrow> raise (Leaf (''created VM '' @ vmName @ '' returned a nil VM or ExtId; will retry to adopt it''))
     | Some vmUuid \<Rightarrow>
         bnd (gets NM) (\<lambda>before.
         thn (set_vm_uuid vmUuid)
         (thn (patchMachine env before)
         (thn markVMProvisioned (ret created)))))"

section \<open>Deployment from a VM profile\<close>

definition getVMProfileForDeploy ::
  "rctx \<Rightarrow> string \<Rightarrow> ProjectInfo option \<Rightarrow> ('z machine_ctx_scheme, vm_profile \<times> string) go" where
  "getVMProfileForDeploy rctx vmName effectiveProject =
     bnd (gets (\<lambda>s. ms_VMProfile (nm_Spec (NM s)))) (\<lambda>i_p.
     bnd (deref i_p) (\<lambda>i.
     bnd (or_fail rctx (\<lambda>e. Wrap (''failed to validate VM profile for VM '' @ vmName @ '': '') e [])
           (GetVMProfile (rx_V4 rctx) i effectiveProject)) (\<lambda>p_p.
     bnd (deref p_p) (\<lambda>vmProfile.
     case vp_ExtId vmProfile of
       None \<Rightarrow> fail_for_good (Leaf ''VM profile has no UUID'')
     | Some u \<Rightarrow> ret (vmProfile, u)))))"

text \<open>The loop over the subnets: the position, the subnets and the NICs of the profile.\<close>

fun deploy_nics :: "nat \<Rightarrow> string list \<Rightarrow> string option list \<Rightarrow> ('z machine_ctx_scheme, (string \<times> string option) list) go" where
  "deploy_nics idx [] nics = ret []"
| "deploy_nics idx (u # us) [] = raise NilDeref"
| "deploy_nics idx (u # us) (n # ns) =
     (if n = None \<or> n = Some []
      then fail_for_good (Leaf (''vmProfile NIC extId missing for nic index '' @ show_nat idx))
      else bnd (deploy_nics (Suc idx) us ns) (\<lambda>rest. ret ((u, n) # rest)))"

definition buildDeployNicsFromProfile ::
  "string list \<Rightarrow> vm_profile \<Rightarrow> ('z machine_ctx_scheme, (string \<times> string option) list) go" where
  "buildDeployNicsFromProfile subnetUUIDs vmProfile =
     (let nics = (case vp_Nics vmProfile of None \<Rightarrow> [] | Some ns \<Rightarrow> ns) in
      if nics = [] then ret []
      else if length subnetUUIDs > length nics then
        fail_for_good (Leaf (''vmProfile has '' @ show_nat (length nics) @ '' NICs but '' @ show_nat (length subnetUUIDs) @
          '' subnets provided; cannot map vmProfileNicExtId''))
      else deploy_nics 0 subnetUUIDs nics)"

definition getVmProfileDeployDisks ::
  "machine_env \<Rightarrow> rctx \<Rightarrow> ProjectInfo option \<Rightarrow> ('z machine_ctx_scheme, (int \<times> string option) list) go" where
  "getVmProfileDeployDisks env rctx effectiveProject =
     bnd (gets (\<lambda>s. nm_Spec (NM s))) (\<lambda>spec.
     if ms_Image spec = None \<and> ms_ImageLookup spec = None
     then raise (Leaf ''image must be specified for VM profile deploy'')
     else
       bnd (wrapping system_image_error (node_image env rctx effectiveProject)) (\<lambda>img_p.
       bnd (deref img_p) (\<lambda>img.
       bnd (ImageMarkedForDeletion (rx_V4 rctx) img) (\<lambda>markedForDeletion.
       if markedForDeletion
       then bnd (deref (im_ExtId img)) (\<lambda>u. raise (Leaf (''system disk image '' @ u @ '' is being deleted'')))
       else
         thn (sdk_set env ''DeployVmDiskDataSource.SetReference'')
         (thn (sdk_set env ''DeployVmDisk.SetBackingInfo'')
           (ret [(me_Value env (ms_SystemDiskSize spec), im_ExtId img)]))))))"

text \<open>Two steps return the inner error and record the wrapped one.\<close>

definition buildDeployParamsFromProfile ::
  "machine_env \<Rightarrow> rctx \<Rightarrow> string \<Rightarrow> string \<Rightarrow> string list \<Rightarrow> vm_profile \<Rightarrow> ProjectInfo option \<Rightarrow>
   ('z create_ctx_scheme, deploy_params) go" where
  "buildDeployParamsFromProfile env rctx vmName peUUID subnetUUIDs vmProfile effectiveProject =
     (let projectExtID = project_ext_id effectiveProject;
          categoryProjectExtID = category_project rctx projectExtID;
          params = \<lparr>dpl_VmName = vmName, dpl_Cluster = peUUID, dpl_ProjectExtId = projectExtID, dpl_Nics = [],
                    dpl_Categories = [], dpl_Disks = [], dpl_GuestCustomization = None\<rparr> in
      thn (when_go (effectiveProject \<noteq> None) (mark_true ProjectAssignedCondition))
      (thn (ensure_default_categories env rctx vmName categoryProjectExtID)
      (bnd (buildDeployNicsFromProfile subnetUUIDs vmProfile) (\<lambda>nics.
       bnd (machine_categories rctx vmName categoryProjectExtID) (\<lambda>categoryReferences.
       bnd (handle (getVmProfileDeployDisks env rctx effectiveProject)
             (\<lambda>err. thn (when_go (\<not> isRetryableAPIError (rx_V4 rctx) err) (SetFailureStatus createErrorFailureReason
                  (Wrap (''failed to get the disk list to create the VM '' @ vmName @ '': '') err []))) (raise err))) (\<lambda>deployDisks.
       handle (addGuestCustomizationToDeployParams env rctx
                 (params\<lparr>dpl_Nics := nics, dpl_Categories := categoryReferences, dpl_Disks := deployDisks\<rparr>))
         (\<lambda>err. thn (SetFailureStatus createErrorFailureReason
            (Wrap ''error occurred while adding guest customization to vm spec: '' err [])) (raise err))))))))"

definition deployVMFromProfile ::
  "machine_env \<Rightarrow> rctx \<Rightarrow> string \<Rightarrow> string \<Rightarrow> string list \<Rightarrow> ProjectInfo option \<Rightarrow> ('z create_ctx_scheme, vm) go" where
  "deployVMFromProfile env rctx vmName peUUID subnetUUIDs effectiveProject =
     bnd (getVMProfileForDeploy rctx vmName effectiveProject) (\<lambda>(vmProfile, vmProfileUUID).
     bnd (buildDeployParamsFromProfile env rctx vmName peUUID subnetUUIDs vmProfile effectiveProject) (\<lambda>deployParams.
     bnd (handle (of_result (me_MarshalIndent env deployParams))
           (\<lambda>err. thn (SetFailureStatus createErrorFailureReason (Wrap ''failed to marshal deploy params: '' err [])) (raise err))) (\<lambda>json.
     bnd (or_fail rctx (\<lambda>e. Wrap (''failed to deploy VM '' @ vmName @ '' from profile '' @ vmProfileUUID @ ''. error: '') e [])
           (ext (PDeploy_vm vmProfileUUID deployParams)
             (\<lambda>h. VMProfiles_DeployVmWithVmProfile (rx_V4 rctx) h vmProfileUUID deployParams))) (\<lambda>vmOp.
     bnd (or_fail rctx (\<lambda>e. Wrap (''failed to wait for VM '' @ vmName @ '' deployment from profile '' @ vmProfileUUID @ ''. error: '') e [])
           (ext (PRead RTask ''Wait'' [op_UUID vmOp]) (op_Wait vmOp))) (\<lambda>vmCreatedList.
     if vmCreatedList = [] then
       fail_for_good (Leaf (''no VM returned from deployment operation for VM '' @ vmName @ '' from profile '' @ vmProfileUUID))
     else case hd vmCreatedList of
       Some (created :: vm) \<Rightarrow>
         (case vm_ExtId created of
            Some vmUuid \<Rightarrow> thn (set_vm_uuid vmUuid) (thn markVMProvisioned (ret created))
          | None \<Rightarrow> raise (Leaf (''VM '' @ vmName @ '' deployed from profile '' @ vmProfileUUID @
                      '' returned a nil VM or ExtId; will retry to adopt it'')))
     | None \<Rightarrow> raise (Leaf (''VM '' @ vmName @ '' deployed from profile '' @ vmProfileUUID @
                 '' returned a nil VM or ExtId; will retry to adopt it'')))))))"

section \<open>getOrCreateVM\<close>

text \<open>No VM exists: the request identifier is made durable before anything else.\<close>

definition create_missing_vm ::
  "nat \<Rightarrow> machine_env \<Rightarrow> rctx \<Rightarrow> string \<Rightarrow> ProjectInfo option \<Rightarrow> resource_group option \<Rightarrow> ('z create_ctx_scheme, vm) go" where
  "create_missing_vm fuel env rctx vmName effectiveProject resourceGroup =
     bnd (getOrMintVMCreationRequestID env) (\<lambda>requestID.
     thn (handle (validateMachineConfig env rctx effectiveProject resourceGroup) fail_for_good)
     (bnd (handle (GetSubnetAndPEUUIDs rctx effectiveProject resourceGroup) fail_for_good) (\<lambda>(peUUID, subnetUUIDs).
      bnd (gets (\<lambda>s. nm_Spec (NM s))) (\<lambda>spec.
      if ms_VMProfile spec \<noteq> None
      then deployVMFromProfile env rctx vmName peUUID subnetUUIDs effectiveProject
      else
        bnd (gets Datastore) (\<lambda>ds.
        bnd (complete_vm env rctx vmName peUUID effectiveProject resourceGroup
               (base_vm env rctx vmName spec ds peUUID subnetUUIDs)) (\<lambda>v.
        create_vm fuel env rctx vmName requestID v))))))"

definition getOrCreateVM ::
  "nat \<Rightarrow> machine_env \<Rightarrow> rctx \<Rightarrow> ProjectInfo option \<Rightarrow> resource_group option \<Rightarrow> ('z create_ctx_scheme, vm) go" where
  "getOrCreateVM fuel env rctx effectiveProject resourceGroup =
     bnd (deref (rx_Machine rctx)) (\<lambda>machine.
     let vmName = om_Name (cm_Meta machine) in
     bnd (gets NM) (\<lambda>nm.
     bnd (FindVM (rx_libs rctx) (rx_V4 rctx) (rx_Machine rctx) nm vmName (project_ext_id effectiveProject)
            (rx_PCVersion rctx) (rx_V3 rctx)) (\<lambda>vmFound.
     case vmFound of
       Some v \<Rightarrow> thn markVMProvisioned (ret v)
     | None \<Rightarrow> create_missing_vm fuel env rctx vmName effectiveProject resourceGroup)))"

end
