(* ===== verification/Machine_Reconcile.thy ===== *)
theory Machine_Reconcile
  imports Machine_Create Client
begin

text \<open>
  The reconcile of a NutanixMachine (controllers/nutanixmachine_controller.go: Reconcile,
  reconcileNormal, ensureBootstrapRef, syncVmUUID, addCustomAttributes, powerOnVM, the addresses
  of the VM, and the map from a NutanixCluster to its machines).

  reconcileNormal is split where the source returns: the state of the machine and of its owners
  (reconcileNormal), the project and the resource group (provision), and what follows the
  discovery or creation of the VM (finish_vm).
\<close>

definition powerOnErrorFailureReason :: string where "powerOnErrorFailureReason = ''PowerOnError''"
definition CAPXProjectPolicyAnnotation :: string where "CAPXProjectPolicyAnnotation = ''capx.nutanix.com/project-policy''"
definition vmCustomAttributePrefix4ProviderID :: string where "vmCustomAttributePrefix4ProviderID = ''providerid:''"
definition ClusterInfrastructureNotReady :: string where "ClusterInfrastructureNotReady = ''ClusterInfrastructureNotReady''"
definition BootstrapDataNotReady :: string where "BootstrapDataNotReady = ''BootstrapDataNotReady''"
definition ControlplaneNotInitialized :: string where "ControlplaneNotInitialized = ''ControlplaneNotInitialized''"
definition VMAddressesAssignedCondition :: string where "VMAddressesAssignedCondition = ''VMAddressesAssigned''"
definition VMAddressesFailed :: string where "VMAddressesFailed = ''VMAddressesFailed''"
definition MachineInternalIP :: string where "MachineInternalIP = ''InternalIP''"
definition MachineHostName :: string where "MachineHostName = ''Hostname''"

section \<open>The VM after its creation\<close>

definition addCustomAttributes :: "rctx \<Rightarrow> vm \<Rightarrow> ('z machine_ctx_scheme, unit) go" where
  "addCustomAttributes rctx v =
     (let machineName = (case rx_Machine rctx of None \<Rightarrow> [] | Some m \<Rightarrow> om_Name (cm_Meta m));
          vmName = Deref (vm_Name v) machineName in
      case vm_ExtId v of
        None \<Rightarrow> raise (Leaf (''cannot add custom attributes: VM '' @ vmName @ '' has a nil ExtId''))
      | Some vmUUID \<Rightarrow>
          if list_ex (\<lambda>attr. HasPrefix attr vmCustomAttributePrefix4ProviderID) (vm_CustomAttributes v) then ret ()
          else
            (let desiredAttr = vmCustomAttributePrefix4ProviderID @ vmUUID in
             or_fail rctx (\<lambda>e. Wrap (''failed to update custom attributes on VM '' @ vmName @ '' with UUID '' @ vmUUID @ '': '') e [])
               (ext (PWrite RVM ''AddVmCustomAttributes'' [vmUUID, desiredAttr])
                 (\<lambda>h. VMs_AddVmCustomAttributes (rx_V4 rctx) h vmUUID [desiredAttr]))))"

definition or_power_fail ::
  "rctx \<Rightarrow> (go_error \<Rightarrow> go_error) \<Rightarrow> ('z machine_ctx_scheme, 'a) go \<Rightarrow> ('z machine_ctx_scheme, 'a) go" where
  "or_power_fail rctx f m = handle m (\<lambda>err. fail_machine powerOnErrorFailureReason rctx err (f err))"

text \<open>The VM fetched after the power-on; None when it is gone.\<close>

definition powerOnVM ::
  "rctx \<Rightarrow> string \<Rightarrow> string \<Rightarrow> ProjectInfo option \<Rightarrow> ('z machine_ctx_scheme, vm option) go" where
  "powerOnVM rctx vmUUID vmName effectiveProject =
     bnd (or_power_fail rctx (\<lambda>e. Wrap (''error occured while powering on VM '' @ vmName @ '': '') e [])
           (ext (PWrite RVM ''PowerOnVM'' [vmUUID]) (\<lambda>h. VMs_PowerOnVM (rx_V4 rctx) h vmUUID))) (\<lambda>powerOnTask.
     thn (or_power_fail rctx (\<lambda>e. Wrap (''error occured while waiting for VM '' @ vmName @ '' to power on: '') e [])
           (ext (PRead RTask ''Wait'' [op_UUID powerOnTask]) (op_Wait powerOnTask)))
       (or_power_fail rctx (\<lambda>e. Wrap (''error occurred while getting VM '' @ vmName @ '' after power on: '') e [])
         (FindVMByUUID (rx_V4 rctx) vmUUID (project_ext_id effectiveProject) (rx_PCVersion rctx))))"

text \<open>The UUID the node reports, when it is one, else the UUID of the VM.\<close>

definition target_uuid :: "rctx \<Rightarrow> string \<Rightarrow> string" where
  "target_uuid rctx vmExtId =
     (case rx_Machine rctx of
        None \<Rightarrow> vmExtId
      | Some m \<Rightarrow>
          (case cm_NodeInfo_SystemUUID m of
             None \<Rightarrow> vmExtId
           | Some systemUUID \<Rightarrow>
               if systemUUID \<noteq> [] \<and> valid_uuid (rx_libs rctx) systemUUID then systemUUID else vmExtId))"

definition syncVmUUID :: "machine_env \<Rightarrow> rctx \<Rightarrow> string \<Rightarrow> ('z machine_ctx_scheme, unit) go" where
  "syncVmUUID env rctx vmExtId =
     bnd (deref (rx_Machine rctx)) (\<lambda>machine.
     bnd (gets NM) (\<lambda>before.
     let targetUUID = target_uuid rctx vmExtId in
     when_go (mst_VmUUID (nm_Status before) \<noteq> targetUUID)
       (thn (update_status (\<lambda>st. st\<lparr>mst_VmUUID := targetUUID\<rparr>))
         (wrapping (\<lambda>e. Wrap (''failed to patch NutanixMachine '' @ om_Name (nm_Meta before) @
              '' after setting VmUUID from '' @ targetUUID @ '': '') e []) (patchMachine env before)))))"

section \<open>Addresses\<close>

definition getIpsFromIpv4Info :: "ipv4_info option \<Rightarrow> (string \<times> string) list" where
  "getIpsFromIpv4Info config =
     (case config of
        None \<Rightarrow> []
      | Some i \<Rightarrow> List.map_filter (map_option (Pair MachineInternalIP)) (ii_LearnedIpAddresses i))"

definition nic_ipv4 :: "vm_nic \<Rightarrow> ipv4_config option \<times> ipv4_info option" where
  "nic_ipv4 nic =
     (let deprecated = (case nic_NetworkInfo nic of None \<Rightarrow> (None, None) | Some i \<Rightarrow> (ni_Ipv4Config i, ni_Ipv4Info i)) in
      case nic_NicNetworkInfo nic of
        Some (VirtualEthernet c i) \<Rightarrow> (c, i)
      | Some (DpOffload c i) \<Rightarrow> (c, i)
      | Some Sriov \<Rightarrow> deprecated
      | Some OtherNicInfo \<Rightarrow> (None, None)
      | None \<Rightarrow> deprecated)"

definition getAddressesFromNic :: "vm_nic \<Rightarrow> (string \<times> string) list" where
  "getAddressesFromNic nic =
     (case nic_ipv4 nic of (ipv4Config, ipv4Info) \<Rightarrow>
        (case ipv4Config of
           None \<Rightarrow> getIpsFromIpv4Info ipv4Info
         | Some c \<Rightarrow> (case ic_IpAddress c of
                       Some (Some ip) \<Rightarrow> [(MachineInternalIP, ip)] | _ \<Rightarrow> getIpsFromIpv4Info ipv4Info)))"

definition assignAddressesToMachine :: "rctx \<Rightarrow> vm \<Rightarrow> ('z create_ctx_scheme, unit) go" where
  "assignAddressesToMachine rctx v =
     (let addresses = concat (map getAddressesFromNic (vm_Nics v));
          machineName = (case rx_Machine rctx of None \<Rightarrow> [] | Some m \<Rightarrow> om_Name (cm_Meta m)) in
      if addresses = [] then
        raise (Leaf (''unable to determine network interfaces from VM: '' @ Deref (vm_Name v) machineName @ ''. Retrying''))
      else case vm_Name v of
        None \<Rightarrow> raise (Leaf (''unable to determine hostname from VM '' @ machineName @ '': nil Name. Retrying''))
      | Some n \<Rightarrow>
          thn (modify (\<lambda>s. s\<lparr>IP := snd (hd addresses)\<rparr>))
            (update_status (\<lambda>st. st\<lparr>mst_Addresses := addresses @ [(MachineHostName, n)]\<rparr>)))"

section \<open>reconcileNormal\<close>

text \<open>From the discovered or created VM to a ready machine.\<close>

definition finish_vm ::
  "machine_env \<Rightarrow> rctx \<Rightarrow> string \<Rightarrow> ProjectInfo option \<Rightarrow> vm \<Rightarrow> ('z create_ctx_scheme, result) go" where
  "finish_vm env rctx name effectiveProject v =
     (case vm_ExtId v of
        None \<Rightarrow> raise (Leaf (''VM '' @ name @ '' returned from getOrCreateVM has a nil ExtId''))
      | Some u \<Rightarrow>
          thn (addCustomAttributes rctx v)
          (bnd (if vm_PowerState v \<noteq> Some PoweredOn then powerOnVM rctx u name effectiveProject else ret (Some v)) (\<lambda>v_p.
           bnd (deref v_p) (\<lambda>v.
           bnd (deref (vm_ExtId v)) (\<lambda>u.
           thn (syncVmUUID env rctx u)
           (bnd (gets NM) (\<lambda>beforeCheck.
            thn (checkFailureDomainStatus rctx)
            (thn (checkVHADomainCategory rctx v)
            (thn (wrapping (\<lambda>e. Wrap (''failed to patch NutanixMachine '' @ om_Name (nm_Meta beforeCheck) @ '' after creation: '') e [])
                   (patchMachine env beforeCheck))
            (bnd (gets (\<lambda>s. mst_VmUUID (nm_Status (NM s)))) (\<lambda>vmUUID.
             thn (handle (assignAddressesToMachine rctx v)
                   (\<lambda>err. thn (mark_failed VMAddressesAssignedCondition VMAddressesFailed SeverityError err)
                      (raise (Wrap (''failed to assign addresses to VM '' @ name @ '' with UUID '' @ vmUUID @ '': '') err []))))
             (thn (mark_true VMAddressesAssignedCondition)
             (thn (update_status (\<lambda>st. st\<lparr>mst_Ready := True\<rparr>)) (ret done_result))))))))))))))"

definition project_policy :: "capi_Cluster \<Rightarrow> string" where
  "project_policy cluster =
     (case om_Annotations (cc_Meta cluster) CAPXProjectPolicyAnnotation of
        None \<Rightarrow> CAPXProjectPolicyUnrestricted | Some p \<Rightarrow> p)"

text \<open>The log lines dereference the identifiers of the project and of the resource group.\<close>

definition machine_resource_group ::
  "rctx \<Rightarrow> string \<Rightarrow> ProjectInfo option \<Rightarrow> ('z machine_ctx_scheme, resource_group option) go" where
  "machine_resource_group rctx name effectiveProject =
     (if isPCVersionHigherThan75 (rx_PCVersion rctx) \<and> project_ext_id effectiveProject \<noteq> None then
        bnd (or_fail rctx (\<lambda>e. Wrap (''failed to resolve resource group for VM '' @ name @ '': '') e [])
              (bnd (deref effectiveProject) (resolveResourceGroup (rx_V4 rctx) (rx_PCVersion rctx)))) (\<lambda>rg.
        case rg of None \<Rightarrow> ret None | Some g \<Rightarrow> bnd (deref (rg_ExtId g)) (\<lambda>_. ret (Some g)))
      else ret None)"

definition provision :: "nat \<Rightarrow> machine_env \<Rightarrow> rctx \<Rightarrow> string \<Rightarrow> ('z create_ctx_scheme, result) go" where
  "provision fuel env rctx name =
     bnd (wrapping (\<lambda>e. Wrap (''failed to get the PC version for cluster '' @ om_Name (ncl_Meta (rx_NutanixCluster rctx)) @ '': '') e [])
           (ext (PRead RDomainManager ''GetPrismCentralVersion'' [])
             (DomainManager_GetPrismCentralVersion (rx_V4 rctx)))) (\<lambda>pcVersion.
     let rctx = rctx\<lparr>rx_PCVersion := pcVersion, rx_ProjectPolicy := project_policy (rx_Cluster rctx)\<rparr> in
     bnd (or_fail rctx (\<lambda>e. Wrap (''error occurred while resolving project for VM '' @ name @ '': '') e [])
           (resolveEffectiveProject rctx)) (\<lambda>effectiveProject.
     thn (or_fail rctx (\<lambda>e. Wrap (''project policy validation failed for VM '' @ name @ '': '') e [])
           (validateProjectPolicy rctx effectiveProject))
     (thn (case effectiveProject of None \<Rightarrow> ret () | Some p \<Rightarrow> bnd (deref (pi_ExtID p)) (\<lambda>_. ret ()))
     (bnd (machine_resource_group rctx name effectiveProject) (\<lambda>resourceGroup.
      bnd (getOrCreateVM fuel env rctx effectiveProject resourceGroup) (\<lambda>v.
      finish_vm env rctx name effectiveProject v))))))"

definition not_provisioned :: "string \<Rightarrow> ('z machine_ctx_scheme, unit) go" where
  "not_provisioned reason =
     conditions [MarkFalse VMProvisionedCondition reason SeverityInfo [], SetFalse VMProvisionedCondition reason []]"

definition ensureBootstrapRef :: "rctx \<Rightarrow> ('z machine_ctx_scheme, bool) go" where
  "ensureBootstrapRef rctx =
     bnd (gets NM) (\<lambda>nm.
     if ms_BootstrapRef (nm_Spec nm) \<noteq> None then ret True
     else
       bnd (deref (rx_Machine rctx)) (\<lambda>machine.
       case cm_BootstrapDataSecretName machine of
         None \<Rightarrow>
           thn (not_provisioned
             (if \<not> IsControlPlaneMachine (Some nm) \<and> cc_ControlPlaneInitialized (rx_Cluster rctx) \<noteq> Some True
              then ControlplaneNotInitialized else BootstrapDataNotReady)) (ret False)
       | Some n \<Rightarrow>
           thn (update_NM (\<lambda>m. m\<lparr>nm_Spec := (nm_Spec m)\<lparr>ms_BootstrapRef :=
                  Some \<lparr>ref_Kind = ''Secret'', ref_Name = n, ref_Namespace = om_Namespace (cm_Meta machine)\<rparr>\<rparr>\<rparr>))
             (ret True)))"

definition add_machine_finalizer :: "libs \<Rightarrow> ('z machine_ctx_scheme, unit) go" where
  "add_machine_finalizer L =
     update_meta (\<lambda>m. m\<lparr>om_Finalizers :=
       RemoveFinalizer L
         (if ContainsFinalizer L (om_Finalizers m) NutanixMachineFinalizer then om_Finalizers m
          else AddFinalizer L (om_Finalizers m) NutanixMachineFinalizer)
         DeprecatedNutanixMachineFinalizer\<rparr>)"

definition reconcileNormal :: "nat \<Rightarrow> machine_env \<Rightarrow> rctx \<Rightarrow> ('z create_ctx_scheme, result) go" where
  "reconcileNormal fuel env rctx =
     bnd (gets (\<lambda>s. nm_Status (NM s))) (\<lambda>st.
     if mst_FailureReason st \<noteq> None \<or> mst_FailureMessage st \<noteq> None then ret done_result
     else
       thn (add_machine_finalizer (rx_libs rctx))
       (bnd (deref (rx_Machine rctx)) (\<lambda>machine.
        let infraReady = (cc_InfrastructureProvisioned (rx_Cluster rctx) = Some True) in
        if mst_Ready st then
          (if \<not> infraReady \<or> cm_ProviderID machine = [] then ret (requeue_after 5)
           else thn (syncVmUUID env rctx (mst_VmUUID st)) (ret done_result))
        else if \<not> infraReady then thn (not_provisioned ClusterInfrastructureNotReady) (ret done_result)
        else
          bnd (ensureBootstrapRef rctx) (\<lambda>ready.
          if \<not> ready then ret done_result else provision fuel env rctx (om_Name (cm_Meta machine))))))"

section \<open>Reconcile\<close>

text \<open>What the reconciler asks of the API server and of Cluster API's helpers.\<close>

record machine_reconciler =
  mr_libs :: libs
  mr_kube :: kube_client
  mr_client :: client_env
  mr_env :: machine_env
  mr_fuel :: nat
  mr_Get :: "call list \<Rightarrow> string \<Rightarrow> string \<Rightarrow> go_error + NutanixMachine"
  mr_IsNotFound :: "go_error \<Rightarrow> bool"
  mr_GetOwnerMachine :: "call list \<Rightarrow> obj_meta \<Rightarrow> go_error + capi_Machine option"
  mr_GetClusterFromMetadata :: "call list \<Rightarrow> obj_meta \<Rightarrow> go_error + capi_Cluster"
  mr_IsPaused :: "capi_Cluster \<Rightarrow> capi_Machine \<Rightarrow> bool"
  mr_GetNutanixCluster :: "call list \<Rightarrow> string \<Rightarrow> string \<Rightarrow> go_error + NutanixCluster"
  mr_GetOwnerCluster :: "call list \<Rightarrow> obj_meta \<Rightarrow> go_error + capi_Cluster option"
  mr_ListMachines :: "call list \<Rightarrow> string \<Rightarrow> (string \<times> string) list \<Rightarrow> go_error + capi_Machine list"
  mr_NewAggregate :: "go_error list \<Rightarrow> go_error"

text \<open>The deferred patch of the machine, whatever the reconcile returned.\<close>

definition patched_at_end ::
  "machine_reconciler \<Rightarrow> NutanixMachine \<Rightarrow> ('z machine_ctx_scheme, result) go \<Rightarrow> ('z machine_ctx_scheme, result) go" where
  "patched_at_end r before body =
     bnd (attempt body) (\<lambda>res.
     bnd (gets NM) (\<lambda>m.
     bnd (attempt (patch_call (mr_env r) before m)) (\<lambda>p.
     case p of
       Inl err \<Rightarrow> raise (mr_NewAggregate r (case res of Inl reterr \<Rightarrow> [reterr, err] | Inr _ \<Rightarrow> [err]))
     | Inr _ \<Rightarrow> of_result res)))"

text \<open>The reconcile of a fetched machine with its owners.\<close>

definition reconcile_owned ::
  "machine_reconciler \<Rightarrow> NutanixMachine \<Rightarrow> capi_Machine \<Rightarrow> capi_Cluster \<Rightarrow> NutanixCluster \<Rightarrow> ('z create_ctx_scheme, result) go" where
  "reconcile_owned r nm machine cluster ncl =
     (case me_NewHelper (mr_env r) nm of
        Inl err \<Rightarrow> ret \<lparr>RequeueAfter = 0, Requeue = True\<rparr>
      | Inr _ \<Rightarrow>
          (case getPrismCentralClientForCluster (mr_client r) ncl of (r3, ncl3) \<Rightarrow>
            bnd (of_result r3) (\<lambda>v3Client.
            case getPrismCentralConvergedV4ClientForCluster (mr_client r) ncl3 of (r4, ncl4) \<Rightarrow>
              bnd (of_result r4) (\<lambda>convergedClient.
              let rctx = \<lparr>rx_libs = mr_libs r, rx_Cluster = cluster, rx_Machine = Some machine, rx_NutanixCluster = ncl4,
                          rx_PCVersion = [], rx_ProjectPolicy = [], rx_V4 = convergedClient, rx_V3 = Some v3Client,
                          rx_kube = mr_kube r\<rparr> in
              thn (modify (\<lambda>s. s\<lparr>NM := nm, Datastore := Map.empty, NC_Conditions := ncl_Conditions ncl4, IP := []\<rparr>))
                (patched_at_end r nm
                  (if om_Deleting (nm_Meta nm) then reconcileDelete rctx
                   else reconcileNormal (mr_fuel r) (mr_env r) rctx))))))"

definition machine_Reconcile :: "machine_reconciler \<Rightarrow> string \<Rightarrow> string \<Rightarrow> ('z create_ctx_scheme, result) go" where
  "machine_Reconcile r ns name =
     bnd (attempt (ext (KGet KNutanixMachine name ns) (\<lambda>h. mr_Get r h name ns))) (\<lambda>q.
     case q of
       Inl err \<Rightarrow> if mr_IsNotFound r err then ret done_result else raise err
     | Inr nm \<Rightarrow>
         bnd (ext (KGet KMachine name ns) (\<lambda>h. mr_GetOwnerMachine r h (nm_Meta nm))) (\<lambda>machine_p.
         case machine_p of
           None \<Rightarrow> ret done_result
         | Some machine \<Rightarrow>
             bnd (attempt (ext (KGet KCluster (map_get (om_Labels (cm_Meta machine)) ClusterNameLabel) (om_Namespace (cm_Meta machine)))
                    (\<lambda>h. mr_GetClusterFromMetadata r h (cm_Meta machine)))) (\<lambda>q.
             case q of
               Inl err \<Rightarrow> ret done_result
             | Inr cluster \<Rightarrow>
                 if mr_IsPaused r cluster machine then ret done_result
                 else
                   (let n = cc_InfrastructureRefName cluster; cns = om_Namespace (cc_Meta cluster) in
                    bnd (attempt (ext (KGet KNutanixCluster n cns) (\<lambda>h. mr_GetNutanixCluster r h n cns))) (\<lambda>q.
                    case q of
                      Inl err \<Rightarrow> ret done_result
                    | Inr ncl \<Rightarrow> reconcile_owned r nm machine cluster ncl)))))"

text \<open>The requests for the machines of a cluster; None is an object of another type.\<close>

definition mapNutanixClusterToNutanixMachines ::
  "machine_reconciler \<Rightarrow> NutanixCluster option \<Rightarrow> ('z world_scheme, (string \<times> string) list) go" where
  "mapNutanixClusterToNutanixMachines r o1 =
     (case o1 of
        None \<Rightarrow> ret []
      | Some ncl \<Rightarrow>
          bnd (attempt (ext (KGet KCluster (om_Name (ncl_Meta ncl)) (om_Namespace (ncl_Meta ncl)))
                 (\<lambda>h. mr_GetOwnerCluster r h (ncl_Meta ncl)))) (\<lambda>q.
          case q of
            Inr (Some cluster) \<Rightarrow>
              (let ns = om_Namespace (cc_Meta cluster); l = [(ClusterNameLabel, om_Name (cc_Meta cluster))] in
               bnd (attempt (ext (KList KMachine ns l) (\<lambda>h. mr_ListMachines r h ns l))) (\<lambda>q.
               ret (case q of
                      Inl err \<Rightarrow> []
                    | Inr ms \<Rightarrow>
                        map (\<lambda>m. (om_Namespace (cm_Meta m), cm_InfrastructureRefName m))
                          (filter (\<lambda>m. cm_InfrastructureRefName m \<noteq> [] \<and> cm_InfrastructureRefKind m = ''NutanixMachine'') ms))))
          | _ \<Rightarrow> ret []))"

end
