(* ===== verification/Cluster_Controller.thy ===== *)
theory Cluster_Controller
  imports Guards Machine_Reconcile Projects
begin

text \<open>
  The controller of NutanixCluster (controllers/nutanixcluster_controller.go): it owns the Secret
  and the ConfigMap of the credentials, validates the failure domains, creates the virtual HA
  domains of the metros a cluster uses, and deletes all of this, with the default categories, in
  order when the cluster goes.

  The reconciled NutanixCluster is the object of the state (guard_state); a Secret or a ConfigMap
  is its metadata.  What Cluster API, controller-runtime and the API server answer is the record
  cluster_reconciler.  The order in which Go visits the keys of a map is its field kr_map_order.
  The kind of a fetched NutanixCluster is NutanixCluster: the cached client fills it in.
\<close>

record cluster_reconciler =
  kr_libs :: libs
  kr_kube :: kube_client
  kr_client :: client_env
  kr_guard :: "NutanixCluster guard_client"
  kr_IsPaused :: "capi_Cluster \<Rightarrow> NutanixCluster \<Rightarrow> bool"
  kr_GetOwnerCluster :: "call list \<Rightarrow> obj_meta \<Rightarrow> go_error + capi_Cluster option"
  kr_GetObject :: "call list \<Rightarrow> kube_kind \<Rightarrow> string \<Rightarrow> string \<Rightarrow> go_error + obj_meta"
  kr_Update :: "call list \<Rightarrow> kube_kind \<Rightarrow> obj_meta \<Rightarrow> go_error + obj_meta"
  kr_Delete :: "call list \<Rightarrow> kube_kind \<Rightarrow> string \<Rightarrow> string \<Rightarrow> go_error + unit"
  kr_CreateVHADomain :: "call list \<Rightarrow> NutanixVirtualHADomain \<Rightarrow> go_error + unit"
  kr_ListClusters :: "call list \<Rightarrow> string \<Rightarrow> go_error + NutanixCluster list"
  kr_ListMachineDeployments :: "call list \<Rightarrow> string \<Rightarrow> (string \<times> string) list \<Rightarrow> go_error + machine_deployment list"
  kr_IsOwnedByObject :: "owner_ref list \<Rightarrow> NutanixCluster \<Rightarrow> bool"
  kr_HasOwner :: "owner_ref list \<Rightarrow> string \<Rightarrow> string list \<Rightarrow> bool"
  kr_EnsureOwnerRef :: "owner_ref list \<Rightarrow> owner_ref \<Rightarrow> owner_ref list"
  kr_NewControllerRef :: "NutanixCluster \<Rightarrow> owner_ref"
  kr_IsTrue :: "condition_op list \<Rightarrow> string \<Rightarrow> bool"
  kr_GetReason :: "condition_op list \<Rightarrow> string \<Rightarrow> string"
  kr_map_order :: "string list \<Rightarrow> string list"

text \<open>The context of a reconcile (ClusterContext of pkg/context/context.go), without the
  NutanixCluster, which is the state.\<close>

record cluster_ctx =
  kx_Cluster :: "capi_Cluster option"
  kx_V4 :: v4_client

type_synonym cluster_state = "NutanixCluster guard_state"

definition NutanixClusterFinalizer :: string where
  "NutanixClusterFinalizer = ''infrastructure.cluster.x-k8s.io/nutanixcluster''"
definition DeprecatedNutanixClusterFinalizer :: string where
  "DeprecatedNutanixClusterFinalizer = ''nutanixcluster.infrastructure.cluster.x-k8s.io''"
definition NutanixClusterCredentialFinalizer :: string where
  "NutanixClusterCredentialFinalizer = ''infrastructure.cluster.x-k8s.io/nutanixclustercredential''"
definition DeprecatedNutanixClusterCredentialFinalizer :: string where
  "DeprecatedNutanixClusterCredentialFinalizer = ''nutanixcluster/infrastructure.cluster.x-k8s.io''"
definition GroupVersion :: string where "GroupVersion = GroupVersion_Group @ ''/v1beta1''"
definition CredentialRefSecretOwnerSetCondition :: string where
  "CredentialRefSecretOwnerSetCondition = ''CredentialRefSecretOwnerSet''"
definition CredentialRefSecretOwnerSetFailed :: string where
  "CredentialRefSecretOwnerSetFailed = ''CredentialRefSecretOwnerSetFailed''"
definition TrustBundleSecretOwnerSetCondition :: string where
  "TrustBundleSecretOwnerSetCondition = ''TrustBundleSecretOwnerSet''"
definition TrustBundleSecretOwnerSetFailed :: string where
  "TrustBundleSecretOwnerSetFailed = ''TrustBundleSecretOwnerSetFailed''"
definition NoFailureDomainsConfiguredCondition :: string where
  "NoFailureDomainsConfiguredCondition = ''NoFailureDomainsConfigured''"
definition FailureDomainsValidatedCondition :: string where
  "FailureDomainsValidatedCondition = ''FailureDomainsValidated''"
definition FailureDomainsMisconfiguredReason :: string where
  "FailureDomainsMisconfiguredReason = ''FailureDomainsMisconfigured''"
definition DeletionFailed :: string where "DeletionFailed = ''DeletionFailed''"
definition DeletingReason :: string where "DeletingReason = ''Deleting''"

definition add_conditions :: "condition_op list \<Rightarrow> (cluster_state, unit) go" where
  "add_conditions ops = update_obj (cluster_conditions ops)"

definition this_cluster :: "(cluster_state, NutanixCluster) go" where
  "this_cluster = gets Obj"

section \<open>The watch on failure domains\<close>

text \<open>None is an object of another type.  A cluster that names the failure domain twice is
  requested twice.\<close>

definition mapNutanixFailureDomainToNutanixCluster ::
  "cluster_reconciler \<Rightarrow> NutanixFailureDomain option \<Rightarrow> ('z world_scheme, (string \<times> string) list) go" where
  "mapNutanixFailureDomainToNutanixCluster r o1 =
     (case o1 of
        None \<Rightarrow> ret []
      | Some nfd \<Rightarrow>
          (let ns = om_Namespace (nfd_Meta nfd) in
           bnd (attempt (list_ns KNutanixCluster (kr_ListClusters r) ns)) (\<lambda>q.
           ret (case q of
                  Inl err \<Rightarrow> []
                | Inr ncls \<Rightarrow>
                    concat (map (\<lambda>ncl. map (\<lambda>_. (om_Namespace (ncl_Meta ncl), om_Name (ncl_Meta ncl)))
                      (filter (\<lambda>fdRef. fdRef = om_Name (nfd_Meta nfd)) (ncl_ControlPlaneFailureDomains ncl))) ncls)))))"

section \<open>The credentials\<close>

definition getPrismCentralCredentialRefForCluster ::
  "NutanixCluster option \<Rightarrow> go_error + NutanixCredentialReference option" where
  "getPrismCentralCredentialRefForCluster ncl_p =
     (case ncl_p of
        None \<Rightarrow> Inl (Leaf ''cannot get credential reference if nutanix cluster object is nil'')
      | Some ncl \<Rightarrow> GetPrismCentralCredentialRef ncl)"

definition view_object :: "obj_meta \<Rightarrow> object_view" where
  "view_object m = \<lparr>ov_Name = om_Name m, ov_Namespace = om_Namespace m, ov_Finalizers = om_Finalizers m,
     ov_Owners = om_OwnerReferences m\<rparr>"

definition get_object ::
  "cluster_reconciler \<Rightarrow> kube_kind \<Rightarrow> string \<Rightarrow> string \<Rightarrow> ('z world_scheme, obj_meta) go" where
  "get_object r kind ns name = ext (KGet kind name ns) (\<lambda>h. kr_GetObject r h kind ns name)"

definition update_object :: "cluster_reconciler \<Rightarrow> kube_kind \<Rightarrow> obj_meta \<Rightarrow> ('z world_scheme, obj_meta) go" where
  "update_object r kind m = ext (KUpdate kind (view_object m)) (\<lambda>h. kr_Update r h kind m)"

definition delete_object ::
  "cluster_reconciler \<Rightarrow> kube_kind \<Rightarrow> string \<Rightarrow> string \<Rightarrow> ('z world_scheme, unit) go" where
  "delete_object r kind ns name = ext (KWrite kind name ns ''delete'') (\<lambda>h. kr_Delete r h kind ns name)"

text \<open>The reference of the cluster as an owner, the owner check, which the source repeats for the
  Secret and the ConfigMap, and the finalizer.\<close>

definition cluster_owner_ref :: "NutanixCluster \<Rightarrow> owner_ref" where
  "cluster_owner_ref ncl = \<lparr>or_APIVersion = GroupVersion, or_Kind = NutanixClusterKind,
     or_Name = om_Name (ncl_Meta ncl), or_UID = om_UID (ncl_Meta ncl)\<rparr>"

definition claim_object ::
  "cluster_reconciler \<Rightarrow> NutanixCluster \<Rightarrow> go_error \<Rightarrow> obj_meta \<Rightarrow> go_error + obj_meta" where
  "claim_object r ncl owned m =
     (if kr_IsOwnedByObject r (om_OwnerReferences m) ncl then Inr m
      else if kr_HasOwner r (om_OwnerReferences m) GroupVersion [NutanixClusterKind] then Inl owned
      else Inr (m\<lparr>om_OwnerReferences := kr_EnsureOwnerRef r (om_OwnerReferences m) (cluster_owner_ref ncl)\<rparr>))"

definition add_credential_finalizer :: "libs \<Rightarrow> obj_meta \<Rightarrow> obj_meta" where
  "add_credential_finalizer L m =
     m\<lparr>om_Finalizers := RemoveFinalizer L
         (if ContainsFinalizer L (om_Finalizers m) NutanixClusterCredentialFinalizer then om_Finalizers m
          else AddFinalizer L (om_Finalizers m) NutanixClusterCredentialFinalizer)
         DeprecatedNutanixClusterCredentialFinalizer\<rparr>"

definition reconcileCredentialRef :: "cluster_reconciler \<Rightarrow> NutanixCluster \<Rightarrow> ('z world_scheme, unit) go" where
  "reconcileCredentialRef r ncl =
     (let clusterName = om_Name (ncl_Meta ncl) in
      bnd (of_result (getPrismCentralCredentialRefForCluster (Some ncl))) (\<lambda>ref_p.
      case ref_p of
        None \<Rightarrow> ret ()
      | Some ref \<Rightarrow>
          bnd (wrapping (\<lambda>e. Wrap (''error occurred while fetching cluster '' @ clusterName @ '' secret for credential ref: '') e [])
                (get_object r KSecret (om_Namespace (ncl_Meta ncl)) (cr_Name ref))) (\<lambda>secret.
          bnd (of_result (claim_object r ncl
                (Leaf (''secret '' @ om_Name secret @ '' already owned by another nutanixCluster object'')) secret)) (\<lambda>secret.
          thn (wrapping (\<lambda>e. Wrap (''failed to update secret for cluster '' @ clusterName @ '': '') e [])
                (update_object r KSecret (add_credential_finalizer (kr_libs r) secret))) (ret ())))))"

definition trust_bundle_namespace :: "NutanixCluster \<Rightarrow> NutanixTrustBundleReference \<Rightarrow> string" where
  "trust_bundle_namespace ncl tb = (if tb_Namespace tb \<noteq> [] then tb_Namespace tb else om_Namespace (ncl_Meta ncl))"

definition trust_bundle_failed :: "go_error \<Rightarrow> (cluster_state, 'a) go" where
  "trust_bundle_failed err =
     thn (add_conditions [MarkFalse TrustBundleSecretOwnerSetCondition TrustBundleSecretOwnerSetFailed SeverityError (Error_text err),
            SetFalse TrustBundleSecretOwnerSetCondition TrustBundleSecretOwnerSetFailed (Error_text err)])
       (raise err)"

definition reconcileTrustBundleRef :: "cluster_reconciler \<Rightarrow> NutanixCluster \<Rightarrow> (cluster_state, unit) go" where
  "reconcileTrustBundleRef r ncl =
     (case GetPrismCentralTrustBundle ncl of
        None \<Rightarrow> ret ()
      | Some tb \<Rightarrow>
          bnd (handle (get_object r KConfigMap (trust_bundle_namespace ncl tb) (tb_Name tb)) trust_bundle_failed) (\<lambda>configMap.
          bnd (of_result (claim_object r ncl
                (Leaf (''configmap '' @ om_Namespace configMap @ ''/'' @ om_Name configMap @ '' already owned by another nutanixCluster object''))
                configMap)) (\<lambda>configMap.
          thn (handle (update_object r KConfigMap (add_credential_finalizer (kr_libs r) configMap)) trust_bundle_failed)
            (add_conditions [MarkTrue TrustBundleSecretOwnerSetCondition, SetTrue TrustBundleSecretOwnerSetCondition Succeeded []]))))"

text \<open>The end of both deletions: the finalizers go, and the object unless it is going already.\<close>

definition remove_credential_finalizers :: "libs \<Rightarrow> obj_meta \<Rightarrow> obj_meta" where
  "remove_credential_finalizers L m =
     m\<lparr>om_Finalizers := RemoveFinalizer L (RemoveFinalizer L (om_Finalizers m) NutanixClusterCredentialFinalizer)
         DeprecatedNutanixClusterCredentialFinalizer\<rparr>"

definition ignore_not_found :: "cluster_reconciler \<Rightarrow> ('s, unit) go \<Rightarrow> ('s, unit) go" where
  "ignore_not_found r m = handle m (\<lambda>err. if gc_IsNotFound (kr_guard r) err then ret () else raise err)"

definition release_object ::
  "cluster_reconciler \<Rightarrow> kube_kind \<Rightarrow> string \<Rightarrow> string \<Rightarrow> ('z world_scheme, unit) go" where
  "release_object r kind ns name =
     bnd (attempt (get_object r kind ns name)) (\<lambda>q.
     case q of
       Inl err \<Rightarrow> if gc_IsNotFound (kr_guard r) err then ret () else raise err
     | Inr m \<Rightarrow>
         bnd (update_object r kind (remove_credential_finalizers (kr_libs r) m)) (\<lambda>m.
         when_go (\<not> om_Deleting m) (ignore_not_found r (delete_object r kind (om_Namespace m) (om_Name m)))))"

definition reconcileCredentialRefDelete :: "cluster_reconciler \<Rightarrow> NutanixCluster \<Rightarrow> ('z world_scheme, unit) go" where
  "reconcileCredentialRefDelete r ncl =
     bnd (of_result (getPrismCentralCredentialRefForCluster (Some ncl))) (\<lambda>ref_p.
     case ref_p of
       None \<Rightarrow> ret ()
     | Some ref \<Rightarrow> release_object r KSecret (om_Namespace (ncl_Meta ncl)) (cr_Name ref))"

definition reconcileTrustBundleRefDelete :: "cluster_reconciler \<Rightarrow> NutanixCluster \<Rightarrow> ('z world_scheme, unit) go" where
  "reconcileTrustBundleRefDelete r ncl =
     (case GetPrismCentralTrustBundle ncl of
        None \<Rightarrow> ret ()
      | Some tb \<Rightarrow> release_object r KConfigMap (trust_bundle_namespace ncl tb) (tb_Name tb))"

section \<open>The failure domains\<close>

text \<open>The scope of the lookups that the project policy of the cluster implies: the resource group,
  the project and the version of Prism Central.\<close>

type_synonym project_scope = "resource_group option \<times> ProjectInfo option \<times> string"

definition default_scope :: project_scope where "default_scope = (None, None, [])"

definition pc_version :: "cluster_ctx \<Rightarrow> string \<Rightarrow> ('z world_scheme, string) go" where
  "pc_version kx clusterName =
     wrapping (\<lambda>e. Wrap (''failed to get the PC version for cluster '' @ clusterName @ '': '') e [])
       (ext (PRead RDomainManager ''GetPrismCentralVersion'' []) (DomainManager_GetPrismCentralVersion (kx_V4 kx)))"

definition project_uuid :: "capi_Cluster \<Rightarrow> string" where
  "project_uuid cluster = map_get (om_Annotations (cc_Meta cluster)) CAPXProjectUUIDAnnotation"

definition resolveProjectScopeForCluster :: "cluster_ctx \<Rightarrow> NutanixCluster \<Rightarrow> ('z world_scheme, project_scope) go" where
  "resolveProjectScopeForCluster kx ncl =
     bnd (pc_version kx (om_Name (ncl_Meta ncl))) (\<lambda>pcVersion.
     bnd (deref (kx_Cluster kx)) (\<lambda>cluster.
     bnd (resolveResourceGroupForProjectPolicy (kx_V4 kx) (project_policy cluster) (project_uuid cluster) pcVersion) (\<lambda>resourceGroup.
     bnd (resolveProjectInfoForPolicy (kx_V4 kx) (project_policy cluster) (project_uuid cluster) pcVersion) (\<lambda>project.
     ret (resourceGroup, project, pcVersion)))))"

text \<open>validateFailureDomainSpec of this controller.\<close>

definition validate_fd :: "cluster_ctx \<Rightarrow> project_scope \<Rightarrow> NutanixFailureDomain \<Rightarrow> ('z world_scheme, unit) go" where
  "validate_fd kx scope fd =
     (case scope of (resourceGroup, project, pcVersion) \<Rightarrow>
        (let pe = fd_PrismElementCluster (nfd_Spec fd) in
         bnd (GetPEUUID (Some (kx_V4 kx)) resourceGroup (id_Name pe) (id_UUID pe)) (\<lambda>peUUID.
         thn (GetSubnetUUIDList (kx_V4 kx) (fd_Subnets (nfd_Spec fd)) peUUID project pcVersion) (ret ()))))"

definition fd_invalid :: "string \<Rightarrow> go_error \<Rightarrow> go_error" where
  "fd_invalid n err = Wrap (''failed to validate the failure domain '' @ n @ '' configuration: '') err []"

text \<open>The errors of one failure domain of a metro.\<close>

definition metro_fd_errors ::
  "cluster_reconciler \<Rightarrow> cluster_ctx \<Rightarrow> NutanixMetro \<Rightarrow> string \<Rightarrow> ('z world_scheme, go_error list) go" where
  "metro_fd_errors r kx metro fdName =
     bnd (attempt (getNutanixFailureDomainObject (kr_kube r) fdName (om_Namespace (nmt_Meta metro)))) (\<lambda>q.
     case q of
       Inl err \<Rightarrow> ret [Wrap (''failed to fetch the NutanixMetro '' @ om_Name (nmt_Meta metro) @
                       '' referenced failureDomain object '' @ fdName @ '': '') err []]
     | Inr fd \<Rightarrow>
         bnd (attempt (validate_fd kx default_scope fd)) (\<lambda>q.
         ret (case q of Inl err \<Rightarrow> [fd_invalid (om_Name (nfd_Meta fd)) err] | Inr _ \<Rightarrow> [])))"

text \<open>What a reference adds: whether the failure domain is in the status, and its errors.\<close>

definition check_metro_ref ::
  "cluster_reconciler \<Rightarrow> cluster_ctx \<Rightarrow> string \<Rightarrow> string \<Rightarrow> ('z world_scheme, bool \<times> go_error list) go" where
  "check_metro_ref r kx ns fdRef =
     bnd (attempt (getNutanixMetroObject (kr_kube r) (drop (length metroFailureDomainPrefix) fdRef) ns)) (\<lambda>q.
     case q of
       Inl err \<Rightarrow> ret (False, [err])
     | Inr metro \<Rightarrow>
         bnd (map_go (metro_fd_errors r kx metro) (nmt_FailureDomains metro)) (\<lambda>es. ret (True, concat es)))"

definition check_metrosite_ref ::
  "cluster_reconciler \<Rightarrow> cluster_ctx \<Rightarrow> string \<Rightarrow> string \<Rightarrow> ('z world_scheme, bool \<times> go_error list) go" where
  "check_metrosite_ref r kx ns fdRef =
     bnd (attempt (getNutanixMetroSiteObject (kr_kube r) (drop (length metroSiteFailureDomainPrefix) fdRef) ns)) (\<lambda>q.
     case q of
       Inl err \<Rightarrow> ret (False, [err])
     | Inr site \<Rightarrow>
         bnd (attempt (getNutanixFailureDomainObject (kr_kube r) (nms_PreferredFailureDomain site) (om_Namespace (nms_Meta site)))) (\<lambda>q.
         case q of
           Inl err \<Rightarrow> ret (False, [Wrap (''failed to fetch the NutanixMetroSite '' @ om_Name (nms_Meta site) @
                          '' referenced failureDomain object '' @ nms_PreferredFailureDomain site @ '': '') err []])
         | Inr fd \<Rightarrow>
             bnd (attempt (validate_fd kx default_scope fd)) (\<lambda>q.
             ret (True, case q of Inl err \<Rightarrow> [fd_invalid (om_Name (nfd_Meta fd)) err] | Inr _ \<Rightarrow> []))))"

text \<open>The scope is resolved once, for the first failure domain that is found.\<close>

definition check_plain_ref ::
  "cluster_reconciler \<Rightarrow> cluster_ctx \<Rightarrow> NutanixCluster \<Rightarrow> project_scope option \<Rightarrow> string \<Rightarrow>
   ('z world_scheme, project_scope option \<times> bool \<times> go_error list) go" where
  "check_plain_ref r kx ncl scope_p fdRef =
     (let ns = om_Namespace (ncl_Meta ncl) in
      bnd (attempt (ext (KGet KFailureDomain fdRef ns) (\<lambda>h. Kube_GetFailureDomain (kr_kube r) h fdRef ns))) (\<lambda>q.
      case q of
        Inl err \<Rightarrow>
          ret (scope_p, False,
            [if gc_IsNotFound (kr_guard r) err then Leaf (''not found the failure domain object with name '' @ dquote fdRef)
             else Wrap (''failed to fetch the failure domain object with name '' @ dquote fdRef @ '': '') err []])
      | Inr fd \<Rightarrow>
          bnd (case scope_p of
                 Some scope \<Rightarrow> ret scope
               | None \<Rightarrow>
                   wrapping (\<lambda>e. Wrap (''failed to resolve project scope for cluster '' @ om_Name (ncl_Meta ncl) @ '': '') e [])
                     (resolveProjectScopeForCluster kx ncl)) (\<lambda>scope.
          bnd (attempt (validate_fd kx scope fd)) (\<lambda>q.
          ret (case q of
                 Inl err \<Rightarrow> (Some scope, False, [fd_invalid (dquote fdRef) err])
               | Inr _ \<Rightarrow> (Some scope, True, []))))))"

text \<open>An entry of the map of failure domains is replaced by a later one of the same name.\<close>

definition put_fd :: "string \<Rightarrow> bool \<Rightarrow> fd_status list \<Rightarrow> fd_status list" where
  "put_fd n controlPlane fds =
     filter (\<lambda>f. fds_Name f \<noteq> n) fds @ [\<lparr>fds_Name = n, fds_ControlPlane = controlPlane, fds_Attributes = []\<rparr>]"

definition check_ref ::
  "cluster_reconciler \<Rightarrow> cluster_ctx \<Rightarrow> NutanixCluster \<Rightarrow> string \<Rightarrow> project_scope option \<times> go_error list \<times> fd_status list \<Rightarrow>
   ('z world_scheme, project_scope option \<times> go_error list \<times> fd_status list) go" where
  "check_ref r kx ncl fdRef acc =
     (case acc of (scope, verrs, fds) \<Rightarrow>
        (let ns = om_Namespace (ncl_Meta ncl) in
         bnd (if isNutanixMetroFailureDomain fdRef then bnd (check_metro_ref r kx ns fdRef) (\<lambda>x. ret (scope, x))
              else if isNutanixMetroSiteFailureDomain fdRef then bnd (check_metrosite_ref r kx ns fdRef) (\<lambda>x. ret (scope, x))
              else check_plain_ref r kx ncl scope fdRef) (\<lambda>(scope, listed, es).
         ret (scope, verrs @ es, if listed then put_fd fdRef True fds else fds))))"

definition reconcileFailureDomains :: "cluster_reconciler \<Rightarrow> cluster_ctx \<Rightarrow> (cluster_state, unit) go" where
  "reconcileFailureDomains r kx =
     bnd this_cluster (\<lambda>ncl.
     if ncl_ControlPlaneFailureDomains ncl = [] \<and> ncl_FailureDomains ncl = [] then
       thn (add_conditions [MarkTrue NoFailureDomainsConfiguredCondition,
              SetTrue NoFailureDomainsConfiguredCondition NoFailureDomainsConfiguredCondition [],
              DeleteV1Beta1 FailureDomainsValidatedCondition, DeleteV1Beta2 FailureDomainsValidatedCondition])
         (update_obj (\<lambda>n. n\<lparr>ncl_StatusFailureDomains := []\<rparr>))
     else
       thn (add_conditions [DeleteV1Beta1 NoFailureDomainsConfiguredCondition, DeleteV1Beta2 NoFailureDomainsConfiguredCondition])
       (bnd (fold_go (check_ref r kx ncl) (ncl_ControlPlaneFailureDomains ncl) (None, [], [])) (\<lambda>(scope, verrs, fds).
        thn (update_obj (\<lambda>n. n\<lparr>ncl_StatusFailureDomains :=
               fold (\<lambda>fd. put_fd (fdc_Name fd) (fdc_ControlPlane fd)) (ncl_FailureDomains ncl) fds\<rparr>))
        (if verrs \<noteq> [] then
           (let msg = Error_text (Join_err verrs) in
            add_conditions [MarkFalse FailureDomainsValidatedCondition FailureDomainsMisconfiguredReason SeverityWarning msg,
              SetFalse FailureDomainsValidatedCondition FailureDomainsMisconfiguredReason msg])
         else
           add_conditions [MarkTrue FailureDomainsValidatedCondition, SetTrue FailureDomainsValidatedCondition Succeeded []]))))"

section \<open>The virtual HA domains\<close>

definition clusterName :: "cluster_ctx \<Rightarrow> NutanixCluster \<Rightarrow> string" where
  "clusterName kx ncl =
     (case kx_Cluster kx of
        Some c \<Rightarrow> if om_Name (cc_Meta c) \<noteq> [] then om_Name (cc_Meta c) else map_get (om_Labels (ncl_Meta ncl)) ClusterNameLabel
      | None \<Rightarrow> map_get (om_Labels (ncl_Meta ncl)) ClusterNameLabel)"

definition addFromFD :: "cluster_reconciler \<Rightarrow> string \<Rightarrow> string \<Rightarrow> string list \<Rightarrow> ('z world_scheme, string list) go" where
  "addFromFD r ns fdName seen =
     (if isNutanixMetroFailureDomain fdName then ret (List.insert (drop (length metroFailureDomainPrefix) fdName) seen)
      else if isNutanixMetroSiteFailureDomain fdName then
        bnd (getNutanixMetroSiteObject (kr_kube r) (drop (length metroSiteFailureDomainPrefix) fdName) ns) (\<lambda>site.
        ret (List.insert (nms_MetroRef site) seen))
      else ret seen)"

definition collectClusterMetroNames :: "cluster_reconciler \<Rightarrow> cluster_ctx \<Rightarrow> NutanixCluster \<Rightarrow> ('z world_scheme, string list) go" where
  "collectClusterMetroNames r kx ncl =
     (let ns = om_Namespace (ncl_Meta ncl); cn = clusterName kx ncl; l = [(ClusterNameLabel, cn)] in
      bnd (fold_go (addFromFD r ns) (ncl_ControlPlaneFailureDomains ncl) []) (\<lambda>seen.
      bnd (if cn = [] then ret seen
           else bnd (ext (KList KMachineDeployment ns l) (\<lambda>h. kr_ListMachineDeployments r h ns l)) (\<lambda>mds.
             fold_go (addFromFD r ns) (map md_FailureDomain mds) seen)) (\<lambda>seen.
      ret (kr_map_order r seen))))"

definition new_domain :: "cluster_reconciler \<Rightarrow> cluster_ctx \<Rightarrow> NutanixCluster \<Rightarrow> string \<Rightarrow> NutanixVirtualHADomain" where
  "new_domain r kx ncl metroName =
     \<lparr>vha_Meta = \<lparr>om_Name = vHADomainName (om_Name (ncl_Meta ncl)) metroName, om_Namespace = om_Namespace (ncl_Meta ncl),
        om_Labels = [ClusterNameLabel \<mapsto> clusterName kx ncl], om_Annotations = Map.empty, om_Finalizers = [],
        om_Deleting = False, om_CreationTimestamp = 0, om_OwnerReferences = [kr_NewControllerRef r ncl], om_UID = []\<rparr>,
      vha_MetroRef = metroName, vha_ProtectionPolicy = None, vha_MovementGroups = [], vha_Ready = False, vha_Conditions = []\<rparr>"

definition view_domain :: "NutanixVirtualHADomain \<Rightarrow> domain_view" where
  "view_domain d = \<lparr>dv_Name = om_Name (vha_Meta d), dv_Namespace = om_Namespace (vha_Meta d),
     dv_Owners = om_OwnerReferences (vha_Meta d), dv_ClusterName = map_get (om_Labels (vha_Meta d)) ClusterNameLabel,
     dv_Metro = vha_MetroRef d\<rparr>"

definition ensure_domain ::
  "cluster_reconciler \<Rightarrow> cluster_ctx \<Rightarrow> NutanixCluster \<Rightarrow> NutanixVirtualHADomain list \<Rightarrow> string \<Rightarrow> ('z world_scheme, unit) go" where
  "ensure_domain r kx ncl vHADomains metroName =
     (let ns = om_Namespace (ncl_Meta ncl) in
      bnd (getNutanixMetroObject (kr_kube r) metroName ns) (\<lambda>metro.
      thn (iter_go (\<lambda>fdRef. thn (getNutanixFailureDomainObject (kr_kube r) fdRef ns) (ret ())) (nmt_FailureDomains metro))
      (if list_ex (\<lambda>d. vha_MetroRef d = om_Name (nmt_Meta metro)) vHADomains then ret ()
       else
         (let d = new_domain r kx ncl metroName in
          wrapping (\<lambda>e. Wrap (''failed to create the NutanixVirtualHADomain CR corresponding to metro '' @ dquote metroName @ '': '') e [])
            (ext (KCreate_domain (view_domain d)) (\<lambda>h. kr_CreateVHADomain r h d))))))"

definition reconcileVHADomains :: "cluster_reconciler \<Rightarrow> cluster_ctx \<Rightarrow> NutanixCluster \<Rightarrow> ('z world_scheme, unit) go" where
  "reconcileVHADomains r kx ncl =
     bnd (collectClusterMetroNames r kx ncl) (\<lambda>metroNames.
     if metroNames = [] then ret ()
     else bnd (getOwnedVHADomains (kr_libs r) (kr_kube r) ncl) (\<lambda>vHADomains.
       iter_go (ensure_domain r kx ncl vHADomains) metroNames))"

section \<open>reconcileNormal\<close>

definition add_cluster_finalizer :: "libs \<Rightarrow> NutanixCluster \<Rightarrow> NutanixCluster" where
  "add_cluster_finalizer L ncl =
     ncl\<lparr>ncl_Meta := (ncl_Meta ncl)\<lparr>om_Finalizers :=
       RemoveFinalizer L
         (if ContainsFinalizer L (om_Finalizers (ncl_Meta ncl)) NutanixClusterFinalizer then om_Finalizers (ncl_Meta ncl)
          else AddFinalizer L (om_Finalizers (ncl_Meta ncl)) NutanixClusterFinalizer)
         DeprecatedNutanixClusterFinalizer\<rparr>\<rparr>"

definition cluster_reconcileNormal :: "cluster_reconciler \<Rightarrow> cluster_ctx \<Rightarrow> (cluster_state, result) go" where
  "cluster_reconcileNormal r kx =
     bnd this_cluster (\<lambda>ncl.
     if ncl_FailureReason ncl \<noteq> None \<or> ncl_FailureMessage ncl \<noteq> None then ret done_result
     else
       thn (update_obj (add_cluster_finalizer (kr_libs r)))
       (thn (reconcileFailureDomains r kx)
       (bnd this_cluster (\<lambda>ncl.
        thn (reconcileVHADomains r kx ncl)
        (thn (when_go (\<not> ncl_Ready ncl) (update_obj (\<lambda>n. n\<lparr>ncl_Ready := True\<rparr>))) (ret done_result))))))"

section \<open>reconcileDelete\<close>

definition GetNutanixMachinesInCluster :: "kube_client \<Rightarrow> NutanixCluster \<Rightarrow> ('z world_scheme, NutanixMachine list) go" where
  "GetNutanixMachinesInCluster k ncl =
     (let ns = om_Namespace (ncl_Meta ncl); l = [(ClusterNameLabel, om_Name (ncl_Meta ncl))] in
      ext (KList KNutanixMachine ns l) (\<lambda>h. Kube_ListNutanixMachines k h ns l))"

definition category_deletion_due :: "cluster_reconciler \<Rightarrow> NutanixCluster \<Rightarrow> bool" where
  "category_deletion_due r ncl \<longleftrightarrow>
     kr_IsTrue r (ncl_Conditions ncl) ClusterCategoryCreatedCondition \<or>
     kr_GetReason r (ncl_Conditions ncl) ClusterCategoryCreatedCondition = DeletionFailed"

definition delete_categories :: "cluster_reconciler \<Rightarrow> cluster_ctx \<Rightarrow> capi_Cluster \<Rightarrow> (cluster_state, unit) go" where
  "delete_categories r kx cluster =
     (let n = om_Name (cc_Meta cluster) in
      bnd (pc_version kx n) (\<lambda>pcVersion.
      bnd (resolveProjectInfoForPolicy (kx_V4 kx) (project_policy cluster) (project_uuid cluster) pcVersion) (\<lambda>project.
      handle (DeleteCategoriesForProject (kr_map_order r) (kx_V4 kx) (GetDefaultCAPICategoryIdentifiers n)
                (GetObsoleteDefaultCAPICategoryIdentifiers n) (project_ext_id project))
        (\<lambda>err. thn (add_conditions
            [MarkFalse ClusterCategoryCreatedCondition DeletionFailed SeverityWarning (Error_text err),
             SetFalse ClusterCategoryCreatedCondition DeletionFailed (Error_text err)]) (raise err)))))"

definition reconcileCategoriesDelete :: "cluster_reconciler \<Rightarrow> cluster_ctx \<Rightarrow> (cluster_state, unit) go" where
  "reconcileCategoriesDelete r kx =
     bnd this_cluster (\<lambda>ncl.
     bnd (deref (kx_Cluster kx)) (\<lambda>cluster.
     thn (when_go (category_deletion_due r ncl) (delete_categories r kx cluster))
       (add_conditions [MarkFalse ClusterCategoryCreatedCondition DeletingReason SeverityInfo [],
          SetFalse ClusterCategoryCreatedCondition DeletingReason []])))"

definition forget_client :: "string \<Rightarrow> string \<Rightarrow> ('z world_scheme, unit) go" where
  "forget_client cache key = ext (CacheDelete cache key) (\<lambda>h. Inr ())"

text \<open>The deletion of the domains that are not going already.\<close>

definition delete_domains :: "cluster_reconciler \<Rightarrow> NutanixVirtualHADomain list \<Rightarrow> ('z world_scheme, unit) go" where
  "delete_domains r =
     iter_go (\<lambda>d. when_go (\<not> om_Deleting (vha_Meta d))
       (ignore_not_found r (delete_object r KVHADomain (om_Namespace (vha_Meta d)) (om_Name (vha_Meta d)))))"

definition remove_cluster_finalizers :: "libs \<Rightarrow> NutanixCluster \<Rightarrow> NutanixCluster" where
  "remove_cluster_finalizers L ncl =
     ncl\<lparr>ncl_Meta := (ncl_Meta ncl)\<lparr>om_Finalizers :=
       RemoveFinalizer L (RemoveFinalizer L (om_Finalizers (ncl_Meta ncl)) NutanixClusterFinalizer)
         DeprecatedNutanixClusterFinalizer\<rparr>\<rparr>"

text \<open>The clients in the caches go by the namespaced name of the cluster; the client of the
  workload cluster (RemoteClientCache) by the one of the owner.\<close>

definition finish_cluster_deletion :: "cluster_reconciler \<Rightarrow> cluster_ctx \<Rightarrow> (cluster_state, result) go" where
  "finish_cluster_deletion r kx =
     thn (reconcileCategoriesDelete r kx)
     (bnd this_cluster (\<lambda>ncl.
      let key = GetNamespacedName ncl in
      thn (forget_client ''NutanixClientCache'' key)
      (thn (forget_client ''NutanixClientCacheV4'' key)
      (thn (forget_client ''NutanixConvergedClientV4Cache'' key)
      (thn (reconcileCredentialRefDelete r ncl)
      (thn (reconcileTrustBundleRefDelete r ncl)
      (thn (update_obj (remove_cluster_finalizers (kr_libs r)))
      (bnd (deref (kx_Cluster kx)) (\<lambda>cluster.
       thn (forget_client ''RemoteClientCache'' (om_Namespace (cc_Meta cluster) @ ''/'' @ om_Name (cc_Meta cluster)))
         (ret done_result))))))))))"

definition cluster_reconcileDelete :: "cluster_reconciler \<Rightarrow> cluster_ctx \<Rightarrow> (cluster_state, result) go" where
  "cluster_reconcileDelete r kx =
     bnd this_cluster (\<lambda>ncl.
     bnd (GetNutanixMachinesInCluster (kr_kube r) ncl) (\<lambda>nutanixMachines.
     if nutanixMachines \<noteq> [] then ret (requeue_after 5)
     else
       bnd (getOwnedVHADomains (kr_libs r) (kr_kube r) ncl) (\<lambda>ownedVHADomains.
       if ownedVHADomains \<noteq> [] then thn (delete_domains r ownedVHADomains) (ret (requeue_after 5))
       else finish_cluster_deletion r kx)))"

section \<open>Reconcile\<close>

definition credential_failed :: "go_error \<Rightarrow> (cluster_state, 'a) go" where
  "credential_failed err =
     thn (add_conditions [MarkFalse CredentialRefSecretOwnerSetCondition CredentialRefSecretOwnerSetFailed SeverityError (Error_text err),
            SetFalse CredentialRefSecretOwnerSetCondition CredentialRefSecretOwnerSetFailed (Error_text err)])
       (raise err)"

text \<open>The functions that make a client write their conditions and namespaces into the cluster.\<close>

definition make_client ::
  "(NutanixCluster \<Rightarrow> (go_error + 'c) \<times> NutanixCluster) \<Rightarrow> (cluster_state, 'c) go" where
  "make_client f =
     bnd this_cluster (\<lambda>ncl. case f ncl of (q, ncl') \<Rightarrow> thn (update_obj (\<lambda>_. ncl')) (of_result q))"

definition cluster_body :: "cluster_reconciler \<Rightarrow> capi_Cluster \<Rightarrow> (cluster_state, result) go" where
  "cluster_body r capiCluster =
     bnd this_cluster (\<lambda>ncl.
     thn (handle (reconcileCredentialRef r ncl) credential_failed)
     (thn (add_conditions [MarkTrue CredentialRefSecretOwnerSetCondition, SetTrue CredentialRefSecretOwnerSetCondition Succeeded []])
     (thn (reconcileTrustBundleRef r ncl)
     (bnd (make_client (getPrismCentralClientForCluster (kr_client r))) (\<lambda>v3Client.
      bnd (make_client (getPrismCentralConvergedV4ClientForCluster (kr_client r))) (\<lambda>convergedClient.
      let kx = \<lparr>kx_Cluster = Some capiCluster, kx_V4 = convergedClient\<rparr> in
      if om_Deleting (ncl_Meta ncl) then cluster_reconcileDelete r kx else cluster_reconcileNormal r kx))))))"

definition cluster_Reconcile :: "cluster_reconciler \<Rightarrow> string \<Rightarrow> string \<Rightarrow> (cluster_state, result) go" where
  "cluster_Reconcile r ns name =
     (let gc = kr_guard r in
      bnd (attempt (ext (KGet KNutanixCluster name ns) (\<lambda>h. gc_Get gc h name ns))) (\<lambda>q.
      case q of
        Inl err \<Rightarrow> if gc_IsNotFound gc err then ret done_result else raise err
      | Inr ncl \<Rightarrow>
          thn (modify (\<lambda>s. s\<lparr>Obj := ncl\<rparr>))
          (bnd (ext (KGet KCluster name ns) (\<lambda>h. kr_GetOwnerCluster r h (ncl_Meta ncl))) (\<lambda>c_p.
           case c_p of
             None \<Rightarrow> ret done_result
           | Some capiCluster \<Rightarrow>
               if kr_IsPaused r capiCluster ncl then ret done_result
               else case gc_NewHelper gc ncl of
                 Inl err \<Rightarrow> of_result (requeue_result err)
               | Inr _ \<Rightarrow> deferred_patch gc KNutanixCluster ncl_Meta (cluster_body r capiCluster)))))"

end
