(* ===== verification/Machine_Spec.thy ===== *)
theory Machine_Spec
  imports Machine_Reconcile
begin

text \<open>
  What the creation of a machine's VM guarantees: at most one VM is requested in a reconcile,
  with a request identifier that is durable before; what the requested VM is made of; when a
  machine becomes ready; and where the reconcile does less than it means to.
\<close>

section \<open>Steps that keep the identity of the machine\<close>

definition request_id :: "NutanixMachine \<Rightarrow> string" where
  "request_id m = map_get (om_Annotations (nm_Meta m)) VMCreationRequestIDAnnotation"

text \<open>Only calls of the kind A are made, and the name, the finalizers, the request identifier and
  the readiness of the machine stay.\<close>

definition calm :: "(call \<Rightarrow> bool) \<Rightarrow> 'z machine_ctx_scheme \<Rightarrow> 'z machine_ctx_scheme \<Rightarrow> bool" where
  "calm A s s' \<longleftrightarrow> adds_calls A s s' \<and> request_id (NM s') = request_id (NM s) \<and>
     om_Finalizers (nm_Meta (NM s')) = om_Finalizers (nm_Meta (NM s)) \<and>
     om_Name (nm_Meta (NM s')) = om_Name (nm_Meta (NM s)) \<and>
     mst_Ready (nm_Status (NM s')) = mst_Ready (nm_Status (NM s))"

interpretation calm: state_order "calm A" for A
  by unfold_locales (auto simp: calm_def adds.stay intro: adds.step)

lemma only_calm: "moves (only_calls A) m \<Longrightarrow> moves (calm A) m"
  using only_same [of A m] only_imp_adds [of A m] by (auto simp: moves_def same_machine_def calm_def)

lemma calm_update:
  "(\<And>m. nm_Meta (f m) = nm_Meta m) \<Longrightarrow> (\<And>m. mst_Ready (nm_Status (f m)) = mst_Ready (nm_Status m)) \<Longrightarrow>
   moves (calm A) (update_NM f)"
  by (simp add: moves_def update_NM_apply calm_def adds_calls_def request_id_def)

lemma calm_mono: "moves (calm A) m \<Longrightarrow> (\<And>c. A c \<Longrightarrow> B c) \<Longrightarrow> moves (calm B) m"
  unfolding moves_def calm_def by (blast intro: adds_calls_mono)

lemma calm_modify:
  "(\<And>s. NM (f s) = NM s \<and> trace (f s) = trace s) \<Longrightarrow> moves (calm A) (modify f)"
  by (simp add: moves_def go_eval calm_def adds_calls_def)

lemma calm_status:
  "(\<And>st. mst_Ready (f st) = mst_Ready st) \<Longrightarrow> moves (calm A) (update_status f)" "moves (calm A) (conditions ops)" "moves (calm A) (mark_failed c r sev e)"
  "moves (calm A) (mark_true c)" "moves (calm A) (SetFailureStatus r e)" "moves (calm A) (set_failure_domain fd)"
  "moves (calm A) markVMProvisioned" "moves (calm A) (not_provisioned r)" "moves (calm A) (markProjectAssignationFailed e)"
  by (simp_all add: machine_update_defs set_failure_domain_def markVMProvisioned_def not_provisioned_def
      markProjectAssignationFailed_def calm_update)

lemma ext_calm: "A c \<Longrightarrow> moves (calm A) (ext c f)"
  by (rule only_calm) (rule ext_only)

lemmas calm_rules = calm.moves_rules calm_status ext_calm

text \<open>Reading the annotation of the active placement does not touch the request identifier.\<close>

lemma calm_annotation:
  "k \<noteq> VMCreationRequestIDAnnotation \<Longrightarrow> moves (calm A) (setNutanixMachineAnnotation k v)"
  by (simp add: moves_def machine_update_defs update_NM_apply calm_def adds_calls_def request_id_def map_get_def)

lemma placement_not_request: "metroActivePlacementPEAnnotation \<noteq> VMCreationRequestIDAnnotation"
  by (simp add: metroActivePlacementPEAnnotation_def VMCreationRequestIDAnnotation_def)

lemma calm_placement:
  "moves (calm A) (storeMetroPlacementSelection fd)" "moves (calm A) (setMetroRecoveryPlacementStatus fd fd')"
proof -
  have "moves (calm A) (update_meta (\<lambda>m. m\<lparr>om_Labels := f m\<rparr>))" for f
    by (simp add: moves_def machine_update_defs update_NM_apply calm_def adds_calls_def request_id_def)
  then show "moves (calm A) (storeMetroPlacementSelection fd)"
    unfolding storeMetroPlacementSelection_def Let_def by (intro calm_rules calm_modify) simp_all
  show "moves (calm A) (setMetroRecoveryPlacementStatus fd fd')"
    unfolding setMetroRecoveryPlacementStatus_def Let_def
    by (intro calm_rules calm_annotation placement_not_request)
qed

text \<open>The calls beside the patches and the requests that make a VM.\<close>

fun aux_call :: "call \<Rightarrow> bool" where
  "aux_call (PCreate_category c) = True"
| "aux_call (KWrite k n ns v) = True"
| "aux_call c = is_read c"

lemma read_aux: "is_read c \<Longrightarrow> aux_call c"
  by (cases c) auto

lemma prism_read_aux: "is_prism_read c \<Longrightarrow> aux_call c"
  by (blast intro: read_aux prism_read_is_read)

lemma reads_calm:
  "moves (only_calls is_read) m \<Longrightarrow> moves (calm aux_call) m"
  "moves (only_calls is_prism_read) m \<Longrightarrow> moves (calm aux_call) m"
  by (blast intro: calm_mono [OF only_calm] read_aux prism_read_aux)+

lemma place_metro_calm: "moves (calm aux_call) (place_metro rctx n fd rest fds)"
  unfolding place_metro_def Let_def
  by (intro calm_rules calm_placement reads_calm(1) [OF resolvePlacement_only] reads_calm(1) [OF validateFailureDomainSpec_only])

lemma getFailureDomainSpec_calm: "moves (calm aux_call) (getFailureDomainSpec rctx fd)"
  unfolding getFailureDomainSpec_def getMetroFailureDomainSpec_def getMetroSiteFailureDomainSpec_def place_metrosite_def
    native_label_def Let_def
  by (intro calm_rules calm_placement place_metro_calm calm_modify reads_calm(1) [OF fetch_only]
      reads_calm(1) [OF compute_only] reads_calm(1) [OF getObject_only(2)] reads_calm(1) [OF getObject_only(3)]; simp)

lemma checkFailureDomainStatus_calm: "moves (calm aux_call) (checkFailureDomainStatus rctx)"
  unfolding checkFailureDomainStatus_def checkFailureDomainSubnets_def Let_def
  by (intro calm_rules getFailureDomainSpec_calm reads_calm(2) [OF metroSubnetsMatch_reads])

lemma checkVHADomainCategory_calm: "moves (calm aux_call) (checkVHADomainCategory rctx v)"
  unfolding checkVHADomainCategory_def countVMVHADomainCategories_def
  by (intro calm_rules reads_calm(1) [OF clusterVHADomainCategoryExtIds_only])

lemma validateMachineConfig_calm: "moves (calm aux_call) (validateMachineConfig env rctx p rg)"
  unfolding validateMachineConfig_def apply_failure_domain_def validate_spec_def validateDataDisks_def Let_def
  by (intro calm_rules calm_update getFailureDomainSpec_calm reads_calm(1) [OF validateFailureDomainSpec_only]; simp)

lemma GetSubnetAndPEUUIDs_calm: "moves (calm aux_call) (GetSubnetAndPEUUIDs rctx p rg)"
  unfolding GetSubnetAndPEUUIDs_def
  by (intro calm_rules reads_calm(2) [OF GetPEUUID_reads] reads_calm(2) [OF GetSubnetUUIDList_reads])

lemma or_fail_calm: "moves (calm A) m \<Longrightarrow> moves (calm A) (or_fail rctx f m)"
  unfolding or_fail_def fail_machine_def by (intro calm_rules)

lemma fail_calm: "moves (calm A) (fail_for_good e)" "moves (calm A) (fail_machine r rctx e e')"
  "moves (calm A) (vmCreateFailure rctx n e)"
  unfolding fail_for_good_def fail_machine_def vmCreateFailure_def by (intro calm_rules)+

section \<open>The construction of the VM\<close>

lemma mark_cluster_calm: "moves (calm aux_call) (mark_cluster_category env rctx ops)"
  unfolding mark_cluster_category_def Let_def by (intro calm_rules calm_modify; simp)

lemma default_categories_calm: "moves (calm aux_call) (ensure_default_categories env rctx n p)"
  unfolding ensure_default_categories_def markClusterCategoryCreationFailed_def markClusterCategoryCreated_def Let_def
    GetOrCreateCategoriesForProject_def getOrCreateCategoryForProject_def create_category_def
  by (intro calm_rules mark_cluster_calm reads_calm(2) [OF getCategories_reads]; simp)

lemma machine_categories_calm: "moves (calm aux_call) (machine_categories rctx n p)"
  unfolding machine_categories_def getMachineCategoryIdentifiers_def getVHADomainCategory_def preferred_category_def Let_def
  by (intro calm_rules or_fail_calm reads_calm(2) [OF references_reads] reads_calm(1) [OF getObject_only(3)]
      reads_calm(1) [OF getOwnedVHADomains_only] reads_calm(2) [OF getCategory_reads])

lemma GetGPUList_reads: "moves (only_calls is_prism_read) (GetGPUList env client gpus pe v)"
  unfolding GetGPUList_def GetGPU_def getGPUFromProfile_def GetGPUsForPE_def profile_gpu_def sdk_set_def profile_filter_def Let_def
  by (intro only_rules; (simp split: NutanixIdentifierType.split)?) (auto intro!: only_rules)

lemma CreateDataDiskList_reads: "moves (only_calls is_prism_read) (CreateDataDiskList env client ds pe p v rg)"
proof -
  have i: "moves (only_calls is_prism_read) (data_disk_info env client d pe p v rg)" for d
    unfolding data_disk_info_def addDataSourceImageRefToVmDisk_def addStorageConfigAndContainerToVmDisk_def sdk_set_def Let_def
    by (intro only_rules GetImage_reads GetStorageContainer_reads)
  have "moves (only_calls is_prism_read) (create_data_disks env client ds pe p v rg latest)" for latest
  proof (induction ds arbitrary: latest)
    case (Cons d ds)
    obtain t a where ta: "disk_device d = (t, a)" by force
    obtain j l where "getDeviceIndex a latest = (j, l)" by force
    with ta Cons show ?case
      by (cases t) (auto simp: sdk_set_def intro!: only_rules i)
  qed (simp add: only.ret_moves)
  then show ?thesis by (simp add: CreateDataDiskList_def)
qed

lemma ImageMarkedForDeletion_reads: "moves (only_calls is_prism_read) (ImageMarkedForDeletion client img)"
  unfolding ImageMarkedForDeletion_def Let_def by (intro only_rules) simp

lemma node_image_calm: "moves (calm aux_call) (node_image env rctx p)"
  unfolding node_image_def by (intro calm_rules reads_calm(2) [OF GetImage_reads] reads_calm(2) [OF GetImageByLookup_reads])

lemma refuse_deleted_calm: "moves (calm aux_call) (refuse_deleted_image rctx w i)"
  unfolding refuse_deleted_image_def by (intro calm_rules fail_calm reads_calm(2) [OF ImageMarkedForDeletion_reads])

lemma getDiskList_calm: "moves (calm aux_call) (getDiskList env rctx pe p rg)"
  unfolding getDiskList_def getSystemDisk_def getBootstrapDisk_def getDataDisks_def CreateSystemDiskSpec_def sdk_set_def
  by (intro calm_rules or_fail_calm fail_calm refuse_deleted_calm node_image_calm reads_calm(2) [OF GetImage_reads]
      reads_calm(2) [OF CreateDataDiskList_reads])

lemma guest_customization_calm: "moves (calm aux_call) (guest_customization env rctx f)"
  unfolding guest_customization_def getBootstrapData_def sdk_set_def Let_def by (intro calm_rules; simp)

lemma addBootTypeToVM_calm: "moves (calm aux_call) (addBootTypeToVM env v)"
  unfolding addBootTypeToVM_def sdk_set_def Let_def
  by (intro calm_rules) (auto split: BootType.split intro!: calm_rules)

lemma addVMToProject_calm: "moves (calm aux_call) (addVMToProject rctx v p)"
  unfolding addVMToProject_def Let_def by (intro calm_rules)

lemma complete_vm_calm: "moves (calm aux_call) (complete_vm env rctx n pe p rg v)"
  unfolding complete_vm_def addGuestCustomizationToVM_def Let_def
  by (intro calm_rules or_fail_calm fail_calm default_categories_calm machine_categories_calm addVMToProject_calm
      reads_calm(2) [OF GetGPUList_reads] getDiskList_calm guest_customization_calm addBootTypeToVM_calm)

section \<open>Patches that do not change the finalizers\<close>

fun makes_vm :: "call \<Rightarrow> bool" where
  "makes_vm (PCreate_vm r v) = True"
| "makes_vm (PDeploy_vm u p) = True"
| "makes_vm c = False"

text \<open>A call that makes no VM and, when it is a patch of the machine, leaves the finalizers.\<close>

fun steady :: "call \<Rightarrow> bool" where
  "steady (KPatch_machine a b) = (mv_Finalizers a = mv_Finalizers b)"
| "steady c = (\<not> makes_vm c)"

text \<open>Such a call that leaves the request identifier, too.\<close>

fun firm :: "call \<Rightarrow> bool" where
  "firm (KPatch_machine a b) = (mv_Finalizers a = mv_Finalizers b \<and> mv_RequestID a = mv_RequestID b)"
| "firm c = (\<not> makes_vm c)"

lemma aux_steady: "aux_call c \<Longrightarrow> steady c" "firm c \<Longrightarrow> steady c" "aux_call c \<Longrightarrow> firm c"
  by (cases c; auto)+

lemma aux_calm: "moves (calm aux_call) m \<Longrightarrow> moves (calm firm) m"
  by (blast intro: calm_mono aux_steady)

lemma firm_steady: "calm firm s s' \<Longrightarrow> calm steady s s'"
  unfolding calm_def by (blast intro: adds_calls_mono aux_steady)

text \<open>A computation from a state in which the machine has the finalizers F and the request identifier i.\<close>

definition from_ids :: "string list \<Rightarrow> string \<Rightarrow> ('z machine_ctx_scheme, 'a) go \<Rightarrow> bool" where
  "from_ids F i m \<longleftrightarrow> (\<forall>s. om_Finalizers (nm_Meta (NM s)) = F \<longrightarrow> request_id (NM s) = i \<longrightarrow> calm firm s (snd (m s)))"

lemma from_calm: "moves (calm firm) m \<Longrightarrow> from_ids F i m"
  by (simp add: from_ids_def moves_def)

lemma calm_from: "(\<And>F i. from_ids F i m) \<Longrightarrow> moves (calm firm) m"
  by (simp add: from_ids_def moves_def)

lemma from_bnd: "from_ids F i m \<Longrightarrow> (\<And>x. from_ids F i (f x)) \<Longrightarrow> from_ids F i (bnd m f)"
  unfolding from_ids_def bnd_apply
  by (auto split: prod.split sum.split) (metis calm.step calm_def snd_conv)+

lemma from_thn: "from_ids F i m \<Longrightarrow> from_ids F i k \<Longrightarrow> from_ids F i (thn m k)"
  unfolding thn_def by (rule from_bnd)

lemma from_wrapping: "from_ids F i m \<Longrightarrow> from_ids F i (wrapping f m)"
  unfolding from_ids_def wrapping_apply by (auto split: prod.split sum.split)

lemma from_when: "from_ids F i m \<Longrightarrow> from_ids F i (when_go b m)"
  by (cases b) (simp_all add: from_calm calm.ret_moves)

lemma from_gets_NM: "(\<And>m. om_Finalizers (nm_Meta m) = F \<Longrightarrow> request_id m = i \<Longrightarrow> from_ids F i (f m)) \<Longrightarrow> from_ids F i (bnd (gets NM) f)"
  by (simp add: from_ids_def bnd_apply gets_apply)

lemma from_patch: "om_Finalizers (nm_Meta before) = F \<Longrightarrow> request_id before = i \<Longrightarrow> from_ids F i (patchMachine env before)"
  by (auto simp: from_ids_def patchMachine_def patch_call_def go_eval calm_def adds_calls_def view_machine_def request_id_def split: sum.split)

lemmas from_rules = from_gets_NM from_bnd from_thn from_wrapping from_when from_patch

lemma syncVmUUID_calm: "moves (calm firm) (syncVmUUID env rctx u)"
  unfolding syncVmUUID_def Let_def
  by (rule calm_from, intro from_rules from_calm [OF calm.deref_moves] from_calm [OF calm_status(1)]) simp

lemma set_vm_uuid_calm: "moves (calm A) (set_vm_uuid u)"
  unfolding set_vm_uuid_def by (rule calm_update) simp_all

lemma recorded_vm_calm:
  "moves (calm firm) (bnd (gets NM) (\<lambda>before. thn (set_vm_uuid u) (thn (patchMachine env before) (thn markVMProvisioned (ret v)))))"
  by (rule calm_from, intro from_rules from_calm [OF set_vm_uuid_calm] from_calm [OF calm_status(7)] from_calm [OF calm.ret_moves])

section \<open>At most one VM\<close>

text \<open>The calls of a computation: firm ones and at most one of the kind B.\<close>

definition once :: "(call \<Rightarrow> bool) \<Rightarrow> 'z machine_ctx_scheme \<Rightarrow> 'z machine_ctx_scheme \<Rightarrow> bool" where
  "once B s s' \<longleftrightarrow> calm firm s s' \<or>
     (\<exists>s1 s2 c. calm firm s s1 \<and> s2 = s1\<lparr>trace := trace s1 @ [c]\<rparr> \<and> B c \<and> calm firm s2 s')"

lemma calm_once: "moves (calm firm) m \<Longrightarrow> moves (once B) m"
  by (simp add: moves_def once_def)

lemma ext_once: "B c \<Longrightarrow> moves (once B) (ext c f)"
  by (auto simp: moves_def once_def ext_apply intro!: exI [of _ c] exI calm.stay)

lemma once_then:
  "once B s s' \<Longrightarrow> calm firm s' s'' \<Longrightarrow> once B s s''"
  "calm firm s s' \<Longrightarrow> once B s' s'' \<Longrightarrow> once B s s''"
  unfolding once_def by (blast intro: calm.step)+

lemma once_bnd: "moves (once B) m \<Longrightarrow> (\<And>x. moves (calm firm) (f x)) \<Longrightarrow> moves (once B) (bnd m f)"
  unfolding moves_def bnd_apply
  by (auto split: prod.split sum.split) (metis once_then(1) snd_conv)+

lemma bnd_once: "moves (calm firm) m \<Longrightarrow> (\<And>x. moves (once B) (f x)) \<Longrightarrow> moves (once B) (bnd m f)"
  unfolding moves_def bnd_apply
  by (auto split: prod.split sum.split) (metis once_then(2) once_def snd_conv)+

lemma prod_once: "(\<And>x y. moves (once B) (f x y)) \<Longrightarrow> moves (once B) (case q of (x, y) \<Rightarrow> f x y)"
  by (cases q) simp

lemma thn_once: "moves (calm firm) m \<Longrightarrow> moves (once B) k \<Longrightarrow> moves (once B) (thn m k)"
  unfolding thn_def by (rule bnd_once)

lemma handle_once: "moves (once B) m \<Longrightarrow> (\<And>e. moves (calm firm) (h e)) \<Longrightarrow> moves (once B) (handle m h)"
  unfolding moves_def handle_apply
  by (auto split: prod.split sum.split) (metis once_then(1) snd_conv)+

lemma enrich_reads: "moves (only_calls is_read) (enrichTaskErrorWithFailedSubtasks fuel c u e)"
proof -
  have "moves (only_calls is_read) (collectFailedSubtaskErrors client fuel u v)" for client u v
  proof (induction fuel arbitrary: u v)
    case (Suc fuel)
    then show ?case
      by (auto simp: failedSubtasksFromParentGet_def get_task_def get_child_def listFailedChildTasks_def
          collect_child_def Let_def intro!: only_rules)
  qed (simp add: only.ret_moves)
  then show ?thesis
    unfolding enrichTaskErrorWithFailedSubtasks_def by (intro only_rules)
qed

lemma wait_calm: "moves (calm aux_call) (waitForConvergedOperation fuel c op)"
  by (rule reads_calm(1)) (auto simp: waitForConvergedOperation_def intro!: only_rules enrich_reads)

lemma create_vm_once: "moves (once (\<lambda>c. c = PCreate_vm r v)) (create_vm fuel env rctx n r v)"
  unfolding create_vm_def createAndWaitForVM_def
  by (intro once_bnd handle_once ext_once aux_calm [OF wait_calm] fail_calm calm_rules recorded_vm_calm; simp?)

lemma params_calm: "moves (calm aux_call) (buildDeployParamsFromProfile env rctx n pe us p q)"
proof -
  have nics: "moves (calm aux_call) (deploy_nics i us ns)" for i us ns
    by (induction i us ns rule: deploy_nics.induct) (auto intro!: calm_rules fail_calm)
  show ?thesis
    unfolding buildDeployParamsFromProfile_def buildDeployNicsFromProfile_def getVmProfileDeployDisks_def
      addGuestCustomizationToDeployParams_def sdk_set_def Let_def
    by (intro calm_rules fail_calm default_categories_calm nics machine_categories_calm node_image_calm
        reads_calm(2) [OF ImageMarkedForDeletion_reads] guest_customization_calm)
qed

lemma profile_calm: "moves (calm aux_call) (getVMProfileForDeploy rctx n q)"
  unfolding getVMProfileForDeploy_def
  by (intro calm_rules or_fail_calm fail_calm reads_calm(2) [OF GetVMProfile_reads])

lemma deploy_request_once:
  "moves (once (\<lambda>c. \<exists>u p. c = PDeploy_vm u p)) (or_fail rctx f (ext (PDeploy_vm u d) g))"
  unfolding or_fail_def by (intro handle_once ext_once fail_calm) auto

lemma task_wait_calm: "moves (calm firm) (or_fail rctx f (ext (PRead RTask w a) g))"
  by (intro or_fail_calm calm_rules) simp

lemma deploy_once: "moves (once (\<lambda>c. \<exists>u p. c = PDeploy_vm u p)) (deployVMFromProfile env rctx n pe us q)"
  unfolding deployVMFromProfile_def
  apply (rule bnd_once [OF aux_calm [OF profile_calm]])
  apply (rule prod_once)
  apply (rule bnd_once [OF aux_calm [OF params_calm]])
  apply (rule bnd_once)
   apply (intro calm_rules)
  apply (rule once_bnd [OF deploy_request_once])
  apply (intro calm_rules task_wait_calm fail_calm set_vm_uuid_calm)
  done

lemma once_mono: "moves (once B) m \<Longrightarrow> (\<And>c. B c \<Longrightarrow> C c) \<Longrightarrow> moves (once C) m"
  unfolding moves_def once_def by blast

definition makes_with :: "string \<Rightarrow> call \<Rightarrow> bool" where
  "makes_with r c \<longleftrightarrow> makes_vm c \<and> (\<forall>q v. c = PCreate_vm q v \<longrightarrow> q = r)"

lemma create_with: "moves (once (makes_with r)) (create_vm fuel env rctx n r v)"
  by (rule once_mono [OF create_vm_once]) (auto simp: makes_with_def)

lemma deploy_with: "moves (once (makes_with r)) (deployVMFromProfile env rctx n pe us q)"
  by (rule once_mono [OF deploy_once]) (auto simp: makes_with_def)

lemma if_once: "moves (once B) m \<Longrightarrow> moves (once B) k \<Longrightarrow> moves (once B) (if b then m else k)"
  by simp

text \<open>What follows the request identifier in the creation of a missing VM.\<close>

lemma after_mint_once:
  "moves (once (makes_with r))
    (thn (handle (validateMachineConfig env rctx p rg) fail_for_good)
     (bnd (handle (GetSubnetAndPEUUIDs rctx p rg) fail_for_good) (\<lambda>(peUUID, subnetUUIDs).
      bnd (gets (\<lambda>s. nm_Spec (NM s))) (\<lambda>spec.
      if ms_VMProfile spec \<noteq> None then deployVMFromProfile env rctx n peUUID subnetUUIDs p
      else
        bnd (gets Datastore) (\<lambda>ds.
        bnd (complete_vm env rctx n peUUID p rg (base_vm env rctx n spec ds peUUID subnetUUIDs)) (\<lambda>v.
        create_vm fuel env rctx n r v))))))"
proof -
  have v: "moves (calm firm) (handle (validateMachineConfig env rctx p rg) fail_for_good)"
    by (intro calm.handle_moves aux_calm [OF validateMachineConfig_calm] fail_calm)
  have g: "moves (calm firm) (handle (GetSubnetAndPEUUIDs rctx p rg) fail_for_good)"
    by (intro calm.handle_moves aux_calm [OF GetSubnetAndPEUUIDs_calm] fail_calm)
  show ?thesis
    by (intro thn_once [OF v] bnd_once [OF g] prod_once bnd_once [OF calm.gets_moves] if_once deploy_with
        bnd_once [OF aux_calm [OF complete_vm_calm]] create_with)
qed

lemma mint_Inr:
  "getOrMintVMCreationRequestID env s = (Inr rid, s') \<longleftrightarrow>
     (request_id (NM s) \<noteq> [] \<and> rid = request_id (NM s) \<and> s' = s) \<or>
     (request_id (NM s) = [] \<and> rid = me_NewUUID env (trace s) \<and>
      me_Patch env (trace s) (NM s) (with_request_id rid (NM s)) = Inr () \<and>
      s' = s\<lparr>trace := trace s @ [KPatch_machine (view_machine (NM s)) (view_machine (with_request_id rid (NM s)))],
             NM := with_request_id rid (NM s)\<rparr>)"
  by (auto simp: getOrMintVMCreationRequestID_def patch_call_def nutanixMachineAnnotation_def request_id_def go_inv
      machine_update_defs with_request_id_def Let_def)

lemma mint_Inl:
  "getOrMintVMCreationRequestID env s = (Inl e, s') \<Longrightarrow> calm steady s s'"
  by (auto simp: getOrMintVMCreationRequestID_def patch_call_def nutanixMachineAnnotation_def go_eval
      machine_update_defs Let_def calm_def adds_calls_def view_machine_def with_request_id_def
      split: if_splits sum.splits)

lemma view_with_request_id:
  "mv_RequestID (view_machine (with_request_id r m)) = r" "request_id (with_request_id r m) = r"
  "om_Finalizers (nm_Meta (with_request_id r m)) = om_Finalizers (nm_Meta m)"
  "om_Name (nm_Meta (with_request_id r m)) = om_Name (nm_Meta m)"
  by (simp_all add: view_machine_def with_request_id_def request_id_def map_get_def)

text \<open>The identifier rid is the one of the machine, or was made durable in the calls t on a machine
  that had none.\<close>

definition durable_id :: "machine_env \<Rightarrow> NutanixMachine \<Rightarrow> call list \<Rightarrow> string \<Rightarrow> bool" where
  "durable_id env m t rid \<longleftrightarrow>
     (if request_id m \<noteq> [] then rid = request_id m
      else KPatch_machine (view_machine m) (view_machine (with_request_id rid m)) \<in> set t \<and>
        (\<exists>h. me_Patch env h m (with_request_id rid m) = Inr ()))"

lemma create_missing_trace:
  assumes "create_missing_vm fuel env rctx n p rg s = (r, s')"
  shows "\<exists>t. trace s' = trace s @ t \<and> om_Finalizers (nm_Meta (NM s')) = om_Finalizers (nm_Meta (NM s)) \<and>
    (list_all steady t \<or> (\<exists>t1 c t2. t = t1 @ c # t2 \<and> list_all steady t1 \<and> list_all steady t2 \<and> makes_vm c \<and>
       (\<forall>q v. c = PCreate_vm q v \<longrightarrow> q = request_id (NM s') \<and> durable_id env (NM s) t1 q)))"
proof -
  obtain q s1 where m: "getOrMintVMCreationRequestID env s = (q, s1)" by force
  show ?thesis
  proof (cases q)
    case (Inl e)
    with assms m mint_Inl [of env s e s1] show ?thesis
      by (auto simp: create_missing_vm_def bnd_apply calm_def adds_calls_def)
  next
    case (Inr rid)
    with m have c: "request_id (NM s1) = rid" "om_Finalizers (nm_Meta (NM s1)) = om_Finalizers (nm_Meta (NM s))"
      "\<exists>a. trace s1 = trace s @ a \<and> list_all steady a \<and> durable_id env (NM s) a rid"
      by (auto simp: mint_Inr view_with_request_id durable_id_def view_machine_def)
    from assms m Inr have "once (makes_with rid) s1 s'"
      by (auto simp: create_missing_vm_def bnd_apply intro!: movesD [OF after_mint_once])
    then consider "calm steady s1 s'"
      | s2 s3 k where "calm steady s1 s2" "s3 = s2\<lparr>trace := trace s2 @ [k]\<rparr>" "makes_with rid k" "calm steady s3 s'"
      unfolding once_def by (blast dest: firm_steady)
    then show ?thesis
    proof cases
      case 1
      with c show ?thesis by (auto simp: calm_def adds_calls_def)
    next
      case 2
      from c(3) obtain a where a: "trace s1 = trace s @ a" "list_all steady a" "durable_id env (NM s) a rid" by blast
      from 2 obtain b d where bd: "trace s2 = trace s1 @ b" "list_all steady b" "trace s' = trace s2 @ k # d" "list_all steady d"
        by (auto simp: calm_def adds_calls_def)
      have i: "request_id (NM s') = rid" "om_Finalizers (nm_Meta (NM s')) = om_Finalizers (nm_Meta (NM s))"
        using 2 c by (auto simp: calm_def)
      have "durable_id env (NM s) (a @ b) rid" using a(3) by (auto simp: durable_id_def split: if_splits)
      with a bd i 2(3) show ?thesis
        by (intro exI [of _ "(a @ b) @ k # d"]) (auto simp: makes_with_def intro!: exI [of _ "a @ b"])
    qed
  qed
qed

text \<open>C2 getOrCreateVM asks for at most one VM, and only when the search found none.  The request
  identifier of a VM creation is the one the machine already carried, or it was written to the
  API server by a successful patch before the request; it stays on the machine, so that a later
  reconcile repeats the request with the same identifier.\<close>

theorem create_request_persisted:
  assumes run: "getOrCreateVM fuel env rctx p rg s = (r, s')" and machine: "rx_Machine rctx = Some machine"
  shows "\<exists>t. trace s' = trace s @ t \<and>
    (list_all steady t \<or> (\<exists>t1 c t2. t = t1 @ c # t2 \<and> list_all steady t1 \<and> list_all steady t2 \<and> makes_vm c \<and>
       fst (FindVM (rx_libs rctx) (rx_V4 rctx) (Some machine) (NM s) (om_Name (cm_Meta machine)) (project_ext_id p)
          (rx_PCVersion rctx) (rx_V3 rctx) s) = Inr None \<and>
       (\<forall>q v. c = PCreate_vm q v \<longrightarrow> q = request_id (NM s') \<and> durable_id env (NM s) t1 q)))"
proof -
  let ?find = "FindVM (rx_libs rctx) (rx_V4 rctx) (Some machine) (NM s) (om_Name (cm_Meta machine)) (project_ext_id p)
          (rx_PCVersion rctx) (rx_V3 rctx)"
  obtain q s1 where f: "?find s = (q, s1)" by force
  have o: "moves (only_calls is_prism_read) ?find" by (rule FindVM_reads)
  from movesD [OF o f] obtain a where a: "trace s1 = trace s @ a" "list_all is_prism_read a" "NM s1 = NM s"
    by (auto simp: only_calls_def)
  from a(2) have st: "list_all steady a" by (auto simp: list_all_iff intro: aux_steady prism_read_aux)
  show ?thesis
  proof (cases "q = Inr None")
    case True
    with run f machine have "create_missing_vm fuel env rctx (om_Name (cm_Meta machine)) p rg s1 = (r, s')"
      by (simp add: getOrCreateVM_def go_eval Let_def)
    from create_missing_trace [OF this] obtain t where t: "trace s' = trace s1 @ t" and
      k: "list_all steady t \<or> (\<exists>t1 c t2. t = t1 @ c # t2 \<and> list_all steady t1 \<and> list_all steady t2 \<and> makes_vm c \<and>
       (\<forall>q v. c = PCreate_vm q v \<longrightarrow> q = request_id (NM s') \<and> durable_id env (NM s1) t1 q))" by blast
    from k show ?thesis
    proof (elim disjE exE conjE)
      assume "list_all steady t"
      with t a st show ?thesis by auto
    next
      fix t1 c t2
      assume h: "t = t1 @ c # t2" "list_all steady t1" "list_all steady t2" "makes_vm c"
        and g: "\<forall>q v. c = PCreate_vm q v \<longrightarrow> q = request_id (NM s') \<and> durable_id env (NM s1) t1 q"
      have d: "durable_id env (NM s1) t1 q \<Longrightarrow> durable_id env (NM s) (a @ t1) q" for q
        by (auto simp: durable_id_def a(3) split: if_splits)
      from t a h g d st f True show ?thesis
        by (intro exI [of _ "a @ t"] conjI disjI2 exI [of _ "a @ t1"] exI [of _ c] exI [of _ t2]) auto
    qed
  next
    case False
    with run f machine have "s' = snd (markVMProvisioned s1) \<or> s' = s1"
      by (auto simp: getOrCreateVM_def go_eval Let_def markVMProvisioned_def machine_update_defs split: sum.splits option.splits)
    then have "trace s' = trace s1" by (auto simp: markVMProvisioned_def machine_update_defs go_eval)
    with a st show ?thesis by auto
  qed
qed

text \<open>A Prism Central with one Prism Element, subnet, image and category, and no VM.\<close>

definition made_vm :: vm where
  "made_vm = empty_vm\<lparr>vm_ExtId := Some ''u-1'', vm_Name := Some ''m'', vm_PowerState := Some PoweredOn,
     vm_Nics := [\<lparr>nic_NicNetworkInfo = None, nic_NetworkInfo = Some \<lparr>ni_Subnet = Some ''s-1'',
       ni_Ipv4Config = None, ni_Ipv4Info = Some \<lparr>ii_LearnedIpAddresses = [None, Some ''10.0.0.7'']\<rparr>\<rparr>\<rparr>]\<rparr>"

definition create_client :: v4_client where
  "create_client = base_v4_client\<lparr>
     VMs_List := (\<lambda>h f. Inr []),
     Clusters_List := (\<lambda>h f. Inr [\<lparr>pcl_ExtId = Some ''p-1'', pcl_Name = Some ''pe-a'',
       pcl_Config = Some \<lparr>pcf_IsAvailable = Some True, pcf_ClusterFunction = [''AOS'']\<rparr>\<rparr>]),
     Subnets_List := (\<lambda>h f. Inr [\<lparr>sn_ExtId = Some ''s-1'', sn_Name = Some ''net'', sn_SubnetType = Some ''VLAN'',
       sn_ClusterReference = Some ''p-1'', sn_ClusterReferenceList = [], sn_ProjectExtId = None, sn_SharedWithProjects = [],
       sn_NetworkId = Some 1, sn_IpPrefix = None\<rparr>]),
     Categories_List := (\<lambda>h f. Inr [(new_category \<lparr>cat_Key = ''k'', cat_Value = ''v''\<rparr> None)\<lparr>ct_ExtId := Some ''c-1''\<rparr>]),
     Images_List := (\<lambda>h f. Inr [\<lparr>im_ExtId = Some ''i-1'', im_Name = Some ''ubuntu'', im_ProjectExtId = None,
       im_IsSharedWithAllProjects = None, im_CreateTime = None\<rparr>]),
     Tasks_List := (\<lambda>h f. Inr []),
     VMs_CreateAsync := (\<lambda>h r v. Inr (Some \<lparr>op_UUID = ''t-1'', op_Wait = (\<lambda>h. Inr [Some made_vm])\<rparr>)),
     VMs_AddVmCustomAttributes := (\<lambda>h u a. Inr ()),
     DomainManager_GetPrismCentralVersion := (\<lambda>h. Inr ''pc.7.3'')\<rparr>"

definition create_rctx :: rctx where
  "create_rctx = (sample_rctx create_client)\<lparr>rx_PCVersion := ''7.3''\<rparr>"

definition create_state :: create_ctx where
  "create_state = \<lparr>trace = [], NM = (sample_NM ''m'')\<lparr>nm_Spec := sample_spec\<lparr>ms_BootstrapRef :=
     Some \<lparr>ref_Kind = ''Secret'', ref_Name = ''b'', ref_Namespace = ''ns''\<rparr>\<rparr>\<rparr>, Datastore = Map.empty, NC_Conditions = [], IP = []\<rparr>"

lemma create_request_persisted_witness:
  "\<exists>t1 v t2. trace (snd (getOrCreateVM 3 demo_env create_rctx None None create_state)) = t1 @ PCreate_vm ''r-1'' v # t2 \<and>
     KPatch_machine (view_machine (NM create_state)) (view_machine (with_request_id ''r-1'' (NM create_state))) \<in> set t1"
proof -
  let ?run = "getOrCreateVM 3 demo_env create_rctx None None create_state"
  let ?c = "\<lambda>c. case c of PCreate_vm r v \<Rightarrow> r = ''r-1'' | _ \<Rightarrow> False"
  have ex: "list_ex ?c (trace (snd ?run))" by code_simp
  obtain r s' where run: "?run = (r, s')" by force
  have m: "rx_Machine create_rctx = Some (sample_Machine ''m'' [])" by (simp add: create_rctx_def sample_rctx_def)
  have n: "trace create_state = []" by (simp add: create_state_def)
  from create_request_persisted [OF run m, unfolded n append_Nil] obtain t where t: "trace s' = t" and
    k: "list_all steady t \<or> (\<exists>t1 c t2. t = t1 @ c # t2 \<and> list_all steady t1 \<and> list_all steady t2 \<and> makes_vm c \<and>
       (\<forall>q v. c = PCreate_vm q v \<longrightarrow> durable_id demo_env (NM create_state) t1 q))"
    by blast
  from ex obtain x where x: "x \<in> set (trace (snd ?run))" "?c x" unfolding list_ex_iff by blast
  from x(2) obtain v where "x = PCreate_vm ''r-1'' v" by (simp split: call.splits)
  with x t run have v: "PCreate_vm ''r-1'' v \<in> set t" by simp
  with k obtain t1 c t2 where c: "t = t1 @ c # t2" "list_all steady t1" "list_all steady t2"
    and d: "\<forall>q v. c = PCreate_vm q v \<longrightarrow> durable_id demo_env (NM create_state) t1 q"
    by (auto simp: list_all_iff)
  from v c have "c = PCreate_vm ''r-1'' v" by (auto simp: list_all_iff)
  with c d t run show ?thesis
    by (auto simp: durable_id_def request_id_def create_state_def sample_NM_def sample_meta_def map_get_def)
qed

end
