(* ===== verification/Cluster_Spec.thy ===== *)
theory Cluster_Spec
  imports Cluster_Controller Machine_Spec
begin

text \<open>
  What the controller of NutanixCluster guarantees: the cluster keeps its finalizer until its
  machines, its virtual HA domains and its credentials are gone; a Secret of another cluster is
  not touched; every metro the cluster uses has one virtual HA domain; the failure domains in the
  status; and where the controller does less than it means to.
\<close>

section \<open>Steps that keep the identity of the cluster\<close>

text \<open>The Secret and the ConfigMap a cluster names.\<close>

definition credential_name :: "NutanixCluster \<Rightarrow> string option" where
  "credential_name ncl =
     (case ncl_PrismCentral ncl of
        None \<Rightarrow> None
      | Some info \<Rightarrow>
          (case pe_CredentialRef info of
             None \<Rightarrow> None
           | Some ref \<Rightarrow> if cr_Kind ref = SecretKind then Some (cr_Name ref) else None))"

definition bundle_key :: "NutanixCluster \<Rightarrow> (string \<times> string) option" where
  "bundle_key ncl = map_option (\<lambda>tb. (trust_bundle_namespace ncl tb, tb_Name tb)) (GetPrismCentralTrustBundle ncl)"

definition same_identity :: "NutanixCluster \<Rightarrow> NutanixCluster \<Rightarrow> bool" where
  "same_identity n n' \<longleftrightarrow> ncl_Meta n' = ncl_Meta n \<and> credential_name n' = credential_name n \<and> bundle_key n' = bundle_key n"

definition same_cluster :: "cluster_state \<Rightarrow> cluster_state \<Rightarrow> bool" where
  "same_cluster s s' \<longleftrightarrow> same_identity (Obj s) (Obj s')"

interpretation meta: state_order same_cluster
  by unfold_locales (auto simp: same_cluster_def same_identity_def)

lemma same_identity_refl [simp]: "same_identity n n"
  by (simp add: same_identity_def)

lemma only_meta: "moves (only_calls A) m \<Longrightarrow> moves same_cluster m"
  by (simp add: moves_def same_cluster_def) (metis only_Obj prod.collapse moves_def same_identity_refl)

lemma ext_meta: "moves same_cluster (ext c f)"
  by (rule only_meta) (rule ext_only [of "\<lambda>_. True"], simp)

lemma update_kept: "(\<And>n. same_identity n (f n)) \<Longrightarrow> moves same_cluster (update_obj f)"
  by (simp add: moves_def update_obj_def go_eval same_cluster_def)

lemma identity_fields:
  "same_identity n (cluster_conditions ops n)" "same_identity n (n\<lparr>ncl_Ready := b\<rparr>)"
  "same_identity n (n\<lparr>ncl_StatusFailureDomains := fds\<rparr>)"
  by (simp_all add: same_identity_def cluster_conditions_def credential_name_def bundle_key_def GetPrismCentralTrustBundle_def
      trust_bundle_namespace_def cong: if_cong)

lemma conditions_meta: "moves same_cluster (add_conditions ops)"
  unfolding add_conditions_def by (rule update_kept) (rule identity_fields)

lemmas meta_rules = meta.moves_rules ext_meta conditions_meta

text \<open>The functions that make a client fill in namespaces, which the lookups fill in too.\<close>

lemma provider_identity: "same_identity ncl (snd (buildProviderFromNutanixCluster ncl))"
proof (cases "ncl_PrismCentral ncl")
  case None
  then show ?thesis by (simp add: buildProviderFromNutanixCluster_def)
next
  case (Some info)
  then show ?thesis
    by (cases "pe_CredentialRef info"; cases "pe_AdditionalTrustBundle info")
      (auto simp: buildProviderFromNutanixCluster_def GetPrismCentralCredentialRef_def Let_def same_identity_def
        credential_name_def bundle_key_def GetPrismCentralTrustBundle_def trust_bundle_namespace_def filled_endpoint_def
        fill_namespace_def)
qed

lemma identity_trans: "same_identity a b \<Longrightarrow> same_identity b c \<Longrightarrow> same_identity a c"
  by (simp add: same_identity_def)

lemma client_identity: "same_identity ncl (snd (client_for_cluster c m msg cache env ncl))"
proof -
  obtain q n where b: "buildProviderFromNutanixCluster ncl = (q, n)" by force
  with provider_identity [of ncl] have "same_identity ncl n" by simp
  moreover have "same_identity n (snd (client_for_cluster c m msg cache env ncl))"
    using b identity_fields(1) [of n]
    by (auto simp: client_for_cluster_def BuildManagementEndpoint_def client_failed_def split: sum.splits option.splits)
  ultimately show ?thesis by (rule identity_trans)
qed

lemma make_client_kept:
  assumes "\<And>n. same_identity n (snd (f n))"
  shows "moves same_cluster (make_client f)"
  unfolding moves_def make_client_def this_cluster_def same_cluster_def
proof
  fix s :: cluster_state
  obtain q n where f: "f (Obj s) = (q, n)" by force
  with assms [of "Obj s"] show "same_identity (Obj s) (Obj (snd (bnd (gets Obj) (\<lambda>ncl. case f ncl of (q, ncl') \<Rightarrow>
      thn (update_obj (\<lambda>_. ncl')) (of_result q)) s)))"
    by (simp add: go_eval update_obj_def)
qed

lemma make_client_meta:
  "moves same_cluster (make_client (getPrismCentralClientForCluster env))"
  "moves same_cluster (make_client (getPrismCentralConvergedV4ClientForCluster env))"
  unfolding getPrismCentralClientForCluster_def getPrismCentralConvergedV4ClientForCluster_def
  by (rule make_client_kept, rule client_identity)+

text \<open>When the metadata changes, the steps before the change succeeded.\<close>

lemma bnd_past:
  assumes "bnd m f s = (q, s')" "moves same_cluster m" "ncl_Meta (Obj s') \<noteq> ncl_Meta (Obj s)"
  shows "\<exists>x s1. m s = (Inr x, s1) \<and> f x s1 = (q, s') \<and> same_cluster s s1"
proof -
  obtain p s1 where m: "m s = (p, s1)" by force
  with assms(2) have "same_cluster s s1" by (rule movesD)
  with assms m show ?thesis by (cases p) (auto simp: bnd_apply same_cluster_def same_identity_def)
qed

lemma thn_past:
  assumes "thn m k s = (q, s')" "moves same_cluster m" "ncl_Meta (Obj s') \<noteq> ncl_Meta (Obj s)"
  shows "\<exists>x s1. m s = (Inr x, s1) \<and> k s1 = (q, s') \<and> same_cluster s s1"
  using bnd_past [OF assms(1) [unfolded thn_def] assms(2,3)] .

section \<open>Releasing the credentials\<close>

text \<open>The object was not found, or it was updated without the finalizers and, unless it was going
  already, deleted.\<close>

definition released :: "cluster_reconciler \<Rightarrow> kube_kind \<Rightarrow> string \<Rightarrow> string \<Rightarrow> call list \<Rightarrow> bool" where
  "released r kind ns name t \<longleftrightarrow>
     (\<exists>h e. kr_GetObject r h kind ns name = Inl e \<and> gc_IsNotFound (kr_guard r) e) \<or>
     (\<exists>h h' m m'. kr_GetObject r h kind ns name = Inr m \<and>
        (let m1 = remove_credential_finalizers (kr_libs r) m in
         KUpdate kind (view_object m1) \<in> set t \<and> kr_Update r h' kind m1 = Inr m' \<and>
         (om_Deleting m' \<or> KWrite kind (om_Name m') (om_Namespace m') ''delete'' \<in> set t)))"

lemma ignore_not_found_eq:
  "ignore_not_found r (ext c f) s = (Inr (), s') \<Longrightarrow> s' = s\<lparr>trace := trace s @ [c]\<rparr>"
  by (auto simp: ignore_not_found_def go_inv split: if_splits)

lemma release_Inr:
  assumes "release_object r kind ns name s = (Inr (), s')"
  shows "\<exists>t. s' = s\<lparr>trace := trace s @ t\<rparr> \<and> released r kind ns name t"
proof -
  let ?c0 = "KGet kind name ns"
  from assms consider
      e where "kr_GetObject r (trace s) kind ns name = Inl e" "gc_IsNotFound (kr_guard r) e" "s' = s\<lparr>trace := trace s @ [?c0]\<rparr>"
    | m m' h c where "kr_GetObject r (trace s) kind ns name = Inr m" "c = KUpdate kind (view_object (remove_credential_finalizers (kr_libs r) m))"
        "kr_Update r h kind (remove_credential_finalizers (kr_libs r) m) = Inr m'" "om_Deleting m'"
        "s' = s\<lparr>trace := trace s @ [?c0, c]\<rparr>"
    | m m' h c where "kr_GetObject r (trace s) kind ns name = Inr m" "c = KUpdate kind (view_object (remove_credential_finalizers (kr_libs r) m))"
        "kr_Update r h kind (remove_credential_finalizers (kr_libs r) m) = Inr m'"
        "s' = s\<lparr>trace := trace s @ [?c0, c, KWrite kind (om_Name m') (om_Namespace m') ''delete'']\<rparr>"
    by (auto simp: release_object_def get_object_def update_object_def delete_object_def go_inv go_cases
        split: if_splits dest!: ignore_not_found_eq)
  then show ?thesis
  proof cases
    case 1
    then show ?thesis by (intro exI [of _ "[?c0]"]) (auto simp: released_def)
  next
    case 2
    then have "released r kind ns name [?c0, c]"
      unfolding released_def Let_def by (intro disjI2 exI [of _ "trace s"] exI [of _ h] exI [of _ m] exI [of _ m']) simp
    with 2(5) show ?thesis by blast
  next
    case 3
    then have "released r kind ns name [?c0, c, KWrite kind (om_Name m') (om_Namespace m') ''delete'']"
      unfolding released_def Let_def by (intro disjI2 exI [of _ "trace s"] exI [of _ h] exI [of _ m] exI [of _ m']) simp
    with 3(4) show ?thesis by blast
  qed
qed

lemma released_more: "released r kind ns name t \<Longrightarrow> set t \<subseteq> set t' \<Longrightarrow> released r kind ns name t'"
  unfolding released_def Let_def by blast

lemma release_within:
  assumes "release_object r kind ns name s = (Inr (), s')" "set (trace s') \<subseteq> set t"
  shows "released r kind ns name t"
proof -
  from release_Inr [OF assms(1)] obtain u where "s' = s\<lparr>trace := trace s @ u\<rparr>" "released r kind ns name u" by blast
  with assms(2) show ?thesis by (auto elim: released_more)
qed

section \<open>The steps of the reconcile keep the identity\<close>

lemma this_cluster_meta: "moves same_cluster this_cluster"
  unfolding this_cluster_def by (intro meta_rules)

lemma object_meta:
  "moves same_cluster (get_object r kind ns n)" "moves same_cluster (update_object r kind m)"
  "moves same_cluster (delete_object r kind ns n)" "moves same_cluster (forget_client c k)"
  unfolding get_object_def update_object_def delete_object_def forget_client_def by (intro meta_rules)+

lemma ignore_meta: "moves same_cluster m \<Longrightarrow> moves same_cluster (ignore_not_found r m)"
  unfolding ignore_not_found_def by (intro meta_rules)

lemma credential_meta:
  "moves same_cluster (reconcileCredentialRef r ncl)" "moves same_cluster (reconcileTrustBundleRef r ncl)"
  "moves same_cluster (release_object r kind ns n)" "moves same_cluster (credential_failed e)"
  "moves same_cluster (reconcileCredentialRefDelete r ncl)" "moves same_cluster (reconcileTrustBundleRefDelete r ncl)"
proof -
  show r: "moves same_cluster (release_object r kind ns n)" for r kind ns n
    unfolding release_object_def by (intro meta_rules object_meta ignore_meta)
  show "moves same_cluster (reconcileCredentialRef r ncl)" "moves same_cluster (reconcileTrustBundleRef r ncl)"
    "moves same_cluster (credential_failed e)"
    unfolding reconcileCredentialRef_def reconcileTrustBundleRef_def trust_bundle_failed_def credential_failed_def Let_def
    by (intro meta_rules object_meta)+
  show "moves same_cluster (reconcileCredentialRefDelete r ncl)" "moves same_cluster (reconcileTrustBundleRefDelete r ncl)"
    unfolding reconcileCredentialRefDelete_def reconcileTrustBundleRefDelete_def by (intro meta_rules r)+
qed

lemma deleteCategories_meta: "moves same_cluster (DeleteCategoriesForProject ord client a b p)"
proof -
  have "moves same_cluster (delete_pairs client p kvs)" for kvs
    by (induction kvs) (auto simp: getCategories_def intro!: meta_rules)
  then show ?thesis
    unfolding DeleteCategoriesForProject_def deleteCategoryKeyValuesForProject_def by (intro meta_rules)
qed

lemma project_scope_reads:
  "moves (only_calls is_prism_read) (resolveProjectInfoForPolicy client pol u v)"
  "moves (only_calls is_prism_read) (resolveResourceGroupForProjectPolicy client pol u v)"
  "moves (only_calls is_prism_read) (pc_version kx n)"
proof -
  show p: "moves (only_calls is_prism_read) (resolveProjectInfoForPolicy client pol u v)" for client pol u v
    unfolding resolveProjectInfoForPolicy_def get_default_project_def by (intro only_rules; simp)
  show "moves (only_calls is_prism_read) (resolveResourceGroupForProjectPolicy client pol u v)"
    unfolding resolveResourceGroupForProjectPolicy_def get_default_project_def GetResourceGroupForProject_def Let_def
    by (intro only_rules p; simp)
  show "moves (only_calls is_prism_read) (pc_version kx n)"
    unfolding pc_version_def by (intro only_rules; simp)
qed

lemma categoriesDelete_meta: "moves same_cluster (reconcileCategoriesDelete r kx)"
  unfolding reconcileCategoriesDelete_def delete_categories_def Let_def
  by (intro meta_rules this_cluster_meta deleteCategories_meta only_meta [OF project_scope_reads(1)] only_meta [OF project_scope_reads(3)])

lemma validate_fd_reads: "moves (only_calls is_prism_read) (validate_fd kx scope fd)"
  unfolding validate_fd_def Let_def by (cases scope) (auto intro!: only_rules GetPEUUID_reads GetSubnetUUIDList_reads)

lemma check_ref_only: "moves (only_calls is_read) (check_ref r kx ncl fdRef acc)"
proof -
  have v: "moves (only_calls is_read) (validate_fd kx scope fd)" for scope fd
    by (rule only_mono [OF validate_fd_reads prism_read_is_read])
  have p: "moves (only_calls is_read) (resolveProjectScopeForCluster kx ncl)"
    unfolding resolveProjectScopeForCluster_def
    by (intro only_rules) (rule only_mono [OF project_scope_reads(3) prism_read_is_read], assumption,
        rule only_mono [OF project_scope_reads(2) prism_read_is_read], assumption,
        rule only_mono [OF project_scope_reads(1) prism_read_is_read], assumption)
  have m: "moves (only_calls is_read) (check_metro_ref r kx ns fdRef)" for ns
    unfolding check_metro_ref_def metro_fd_errors_def by (intro only_rules getObject_only v)
  have s: "moves (only_calls is_read) (check_metrosite_ref r kx ns fdRef)" for ns
    unfolding check_metrosite_ref_def by (intro only_rules getObject_only v)
  have q: "moves (only_calls is_read) (check_plain_ref r kx ncl sc fdRef)" for sc
    unfolding check_plain_ref_def Let_def by (intro only_rules v p; simp)
  show ?thesis
    unfolding check_ref_def Let_def by (cases acc) (auto intro!: only_rules m s q)
qed

lemma failureDomains_meta: "moves same_cluster (reconcileFailureDomains r kx)"
  unfolding reconcileFailureDomains_def Let_def
  by (intro meta_rules this_cluster_meta only_meta [OF check_ref_only] update_kept identity_fields)

lemma vhaDomains_meta: "moves same_cluster (reconcileVHADomains r kx ncl)"
proof -
  have a: "moves (only_calls is_read) (addFromFD r ns fd seen)" for ns fd seen
    unfolding addFromFD_def by (intro only_rules getObject_only)
  have c: "moves same_cluster (collectClusterMetroNames r kx ncl)"
    unfolding collectClusterMetroNames_def Let_def by (intro meta_rules only_meta [OF a])
  show ?thesis
    unfolding reconcileVHADomains_def ensure_domain_def Let_def
    by (intro meta_rules c only_meta [OF getOwnedVHADomains_only] only_meta [OF getObject_only(1)] only_meta [OF getObject_only(2)])
qed

lemma finalizers_differ:
  "NutanixClusterFinalizer \<noteq> DeprecatedNutanixClusterFinalizer"
  "NutanixClusterCredentialFinalizer \<noteq> DeprecatedNutanixClusterCredentialFinalizer"
  by (simp_all add: NutanixClusterFinalizer_def DeprecatedNutanixClusterFinalizer_def
      NutanixClusterCredentialFinalizer_def DeprecatedNutanixClusterCredentialFinalizer_def)

lemma normal_keeps_finalizer:
  assumes "cluster_reconcileNormal r kx s = (q, s')" "finalizer_laws (kr_libs r)"
    "NutanixClusterFinalizer \<in> set (om_Finalizers (ncl_Meta (Obj s)))"
  shows "NutanixClusterFinalizer \<in> set (om_Finalizers (ncl_Meta (Obj s')))"
proof -
  let ?rest = "thn (reconcileFailureDomains r kx) (bnd this_cluster (\<lambda>ncl. thn (reconcileVHADomains r kx ncl)
        (thn (when_go (\<not> ncl_Ready ncl) (update_obj (\<lambda>n. n\<lparr>ncl_Ready := True\<rparr>))) (ret done_result))))"
  have k: "moves same_cluster ?rest"
    by (intro meta_rules this_cluster_meta failureDomains_meta vhaDomains_meta update_kept identity_fields)
  let ?s = "s\<lparr>Obj := add_cluster_finalizer (kr_libs r) (Obj s)\<rparr>"
  obtain p t where t: "?rest ?s = (p, t)" by force
  from movesD [OF k t] have "ncl_Meta (Obj t) = ncl_Meta (Obj ?s)" by (simp add: same_cluster_def same_identity_def)
  moreover have "s' = s \<or> s' = t"
    using assms(1) t by (auto simp: cluster_reconcileNormal_def this_cluster_def bnd_apply thn_apply gets_apply ret_apply
        update_obj_def modify_apply split: if_splits)
  ultimately show ?thesis
    using assms(2,3) finalizers_differ by (auto simp: add_cluster_finalizer_def finalizer_laws_def)
qed

section \<open>The finalizer of the cluster\<close>

lemma credential_delete_eq:
  "credential_name n = Some c \<Longrightarrow> reconcileCredentialRefDelete r n s = release_object r KSecret (om_Namespace (ncl_Meta n)) c s"
  by (auto simp: credential_name_def reconcileCredentialRefDelete_def getPrismCentralCredentialRefForCluster_def
      GetPrismCentralCredentialRef_def go_eval split: option.splits if_splits)

lemma bundle_delete_eq:
  "bundle_key n = Some (bns, b) \<Longrightarrow> reconcileTrustBundleRefDelete r n s = release_object r KConfigMap bns b s"
  by (auto simp: bundle_key_def reconcileTrustBundleRefDelete_def)

lemma release_adds: "moves (adds_calls (\<lambda>c. True)) (release_object r kind ns n)"
  unfolding release_object_def get_object_def update_object_def delete_object_def ignore_not_found_def
  by (intro adds_rules; simp)

lemma credential_adds:
  "moves (adds_calls (\<lambda>c. True)) (reconcileCredentialRefDelete r n)"
  "moves (adds_calls (\<lambda>c. True)) (reconcileTrustBundleRefDelete r n)"
  unfolding reconcileCredentialRefDelete_def reconcileTrustBundleRefDelete_def by (intro adds_rules release_adds)+

lemma forget_then: "thn (forget_client c k) m s = m (s\<lparr>trace := trace s @ [CacheDelete c k]\<rparr>)"
  by (simp add: forget_client_def thn_apply ext_apply)

lemma finish_removed:
  assumes "finish_cluster_deletion r kx s = (q, s')" "ncl_Meta (Obj s') \<noteq> ncl_Meta (Obj s)"
  shows "(\<exists>t. reconcileCategoriesDelete r kx s = (Inr (), t)) \<and>
    (\<forall>c. credential_name (Obj s) = Some c \<longrightarrow> released r KSecret (om_Namespace (ncl_Meta (Obj s))) c (trace s')) \<and>
    (\<forall>bns b. bundle_key (Obj s) = Some (bns, b) \<longrightarrow> released r KConfigMap bns b (trace s'))"
proof -
  let ?tail = "thn (update_obj (remove_cluster_finalizers (kr_libs r))) (bnd (deref (kx_Cluster kx)) (\<lambda>cluster.
       thn (forget_client ''RemoteClientCache'' (om_Namespace (cc_Meta cluster) @ ''/'' @ om_Name (cc_Meta cluster))) (ret done_result)))"
  let ?fin = "\<lambda>n. thn (reconcileCredentialRefDelete r n) (thn (reconcileTrustBundleRefDelete r n) ?tail)"
  from thn_past [OF assms(1) [unfolded finish_cluster_deletion_def] categoriesDelete_meta assms(2)] obtain t where
    c: "reconcileCategoriesDelete r kx s = (Inr (), t)" and st: "same_cluster s t" and
    k: "bnd this_cluster (\<lambda>ncl. let key = GetNamespacedName ncl in
      thn (forget_client ''NutanixClientCache'' key) (thn (forget_client ''NutanixClientCacheV4'' key)
      (thn (forget_client ''NutanixConvergedClientV4Cache'' key) (?fin ncl)))) t = (q, s')"
    by (auto simp: this_cluster_def)
  define n where "n = Obj t"
  define t1 where "t1 = t\<lparr>trace := ((trace t @ [CacheDelete ''NutanixClientCache'' (GetNamespacedName n)]) @
      [CacheDelete ''NutanixClientCacheV4'' (GetNamespacedName n)]) @ [CacheDelete ''NutanixConvergedClientV4Cache'' (GetNamespacedName n)]\<rparr>"
  from k have t1: "Obj t1 = n" "?fin n t1 = (q, s')"
    by (simp_all add: this_cluster_def bnd_apply gets_apply Let_def forget_then n_def t1_def)
  have ne: "ncl_Meta (Obj s') \<noteq> ncl_Meta (Obj t1)" using assms(2) st t1(1) by (simp add: n_def same_cluster_def same_identity_def)
  from thn_past [OF t1(2) credential_meta(5) ne] obtain t2 where
    t2: "reconcileCredentialRefDelete r n t1 = (Inr (), t2)" "thn (reconcileTrustBundleRefDelete r n) ?tail t2 = (q, s')"
      "same_cluster t1 t2" by auto
  from ne t2(3) have ne2: "ncl_Meta (Obj s') \<noteq> ncl_Meta (Obj t2)" by (simp add: same_cluster_def same_identity_def)
  from thn_past [OF t2(2) credential_meta(6) ne2] obtain t3 where
    t3: "reconcileTrustBundleRefDelete r n t2 = (Inr (), t3)" "?tail t3 = (q, s')" by auto
  from movesD [OF credential_adds(2) t3(1)] have a23: "set (trace t2) \<subseteq> set (trace t3)" by (auto simp: adds_calls_def)
  have a3: "set (trace t3) \<subseteq> set (trace s')"
    using t3(2) by (cases "kx_Cluster kx") (auto simp: thn_apply bnd_apply update_obj_def modify_apply forget_client_def ext_apply
        raise_apply ret_apply)
  have "released r KSecret (om_Namespace (ncl_Meta (Obj s))) c (trace s')" if "credential_name (Obj s) = Some c" for c
  proof -
    from that st have "credential_name n = Some c" "ncl_Meta n = ncl_Meta (Obj s)"
      by (simp_all add: n_def same_cluster_def same_identity_def)
    with t2(1) have "release_object r KSecret (om_Namespace (ncl_Meta (Obj s))) c t1 = (Inr (), t2)"
      by (simp add: credential_delete_eq)
    from this a23 a3 show ?thesis by (blast intro: release_within)
  qed
  moreover have "released r KConfigMap bns b (trace s')" if "bundle_key (Obj s) = Some (bns, b)" for bns b
  proof -
    from that st have "bundle_key n = Some (bns, b)" by (simp add: n_def same_cluster_def same_identity_def)
    with t3(1) have "release_object r KConfigMap bns b t2 = (Inr (), t3)" by (simp add: bundle_delete_eq)
    from this a3 show ?thesis by (rule release_within)
  qed
  ultimately show ?thesis using c by blast
qed

lemma owned_identity: "ncl_Meta n = ncl_Meta n' \<Longrightarrow> owned_by_cluster L n = owned_by_cluster L n'"
  by (intro ext) (simp add: owned_by_cluster_def)

text \<open>What a reconcile has seen and done when it gives up the cluster ncl.\<close>

definition cluster_emptied :: "cluster_reconciler \<Rightarrow> NutanixCluster \<Rightarrow> call list \<Rightarrow> bool" where
  "cluster_emptied r ncl t \<longleftrightarrow>
     (let ns = om_Namespace (ncl_Meta ncl) in
      (\<exists>h. Kube_ListNutanixMachines (kr_kube r) h ns [(ClusterNameLabel, om_Name (ncl_Meta ncl))] = Inr []) \<and>
      (\<exists>h ds. Kube_ListVHADomains (kr_kube r) h ns = Inr ds \<and>
         (\<forall>d\<in>set ds. \<forall>o1\<in>set (om_OwnerReferences (vha_Meta d)). \<not> owned_by_cluster (kr_libs r) ncl o1)) \<and>
      (\<exists>kx s s'. same_identity ncl (Obj s) \<and> reconcileCategoriesDelete r kx s = (Inr (), s')) \<and>
      (\<forall>c. credential_name ncl = Some c \<longrightarrow> released r KSecret ns c t) \<and>
      (\<forall>bns b. bundle_key ncl = Some (bns, b) \<longrightarrow> released r KConfigMap bns b t))"

lemma delete_removed:
  assumes run: "cluster_reconcileDelete r kx s = (q, s')" and ne: "ncl_Meta (Obj s') \<noteq> ncl_Meta (Obj s)"
  shows "cluster_emptied r (Obj s) (trace s')"
proof -
  have m: "moves same_cluster (GetNutanixMachinesInCluster (kr_kube r) n)" for n
    unfolding GetNutanixMachinesInCluster_def Let_def by (intro meta_rules)
  let ?k1 = "\<lambda>ms. if ms \<noteq> [] then ret (requeue_after 5)
     else bnd (getOwnedVHADomains (kr_libs r) (kr_kube r) (Obj s)) (\<lambda>ds.
       if ds \<noteq> [] then thn (delete_domains r ds) (ret (requeue_after 5)) else finish_cluster_deletion r kx)"
  from run have run': "bnd (GetNutanixMachinesInCluster (kr_kube r) (Obj s)) ?k1 s = (q, s')"
    by (simp add: cluster_reconcileDelete_def this_cluster_def bnd_apply gets_apply)
  from bnd_past [OF run' m ne] obtain ms s1 where 1: "GetNutanixMachinesInCluster (kr_kube r) (Obj s) s = (Inr ms, s1)"
    "?k1 ms s1 = (q, s')" "same_cluster s s1" by blast
  from 1(2,3) ne have e: "ms = []" by (auto simp: ret_apply same_cluster_def same_identity_def split: if_splits)
  let ?k2 = "\<lambda>ds. if ds \<noteq> [] then thn (delete_domains r ds) (ret (requeue_after 5)) else finish_cluster_deletion r kx"
  have ne1: "ncl_Meta (Obj s') \<noteq> ncl_Meta (Obj s1)" using ne 1(3) by (simp add: same_cluster_def same_identity_def)
  from 1(2) e have "bnd (getOwnedVHADomains (kr_libs r) (kr_kube r) (Obj s)) ?k2 s1 = (q, s')" by simp
  from bnd_past [OF this only_meta [OF getOwnedVHADomains_only] ne1] obtain ds s2 where
    2: "getOwnedVHADomains (kr_libs r) (kr_kube r) (Obj s) s1 = (Inr ds, s2)" "?k2 ds s2 = (q, s')" "same_cluster s1 s2" by blast
  have ne2: "ncl_Meta (Obj s') \<noteq> ncl_Meta (Obj s2)" using ne1 2(3) by (simp add: same_cluster_def same_identity_def)
  have dd: "moves same_cluster (thn (delete_domains r ds) (ret (requeue_after 5)))"
    unfolding delete_domains_def by (intro meta_rules ignore_meta object_meta)
  have "ds = []"
  proof (rule ccontr)
    assume "ds \<noteq> []"
    with 2(2) have "thn (delete_domains r ds) (ret (requeue_after 5)) s2 = (q, s')" by simp
    from movesD [OF dd this] ne2 show False by (simp add: same_cluster_def same_identity_def)
  qed
  with 2(2) have f: "finish_cluster_deletion r kx s2 = (q, s')" by simp
  have i: "same_identity (Obj s) (Obj s2)" using 1(3) 2(3) by (auto simp: same_cluster_def intro: identity_trans)
  from 1(1) e have "\<exists>h. Kube_ListNutanixMachines (kr_kube r) h (om_Namespace (ncl_Meta (Obj s))) [(ClusterNameLabel, om_Name (ncl_Meta (Obj s)))] = Inr []"
    by (auto simp: GetNutanixMachinesInCluster_def Let_def go_inv)
  moreover from 2(1) \<open>ds = []\<close> obtain xs where "Kube_ListVHADomains (kr_kube r) (trace s1) (om_Namespace (ncl_Meta (Obj s))) = Inr xs"
    "\<forall>d\<in>set xs. \<forall>o1\<in>set (om_OwnerReferences (vha_Meta d)). \<not> owned_by_cluster (kr_libs r) (Obj s) o1"
    by (auto simp: getOwnedVHADomains_def Let_def go_inv filter_empty_conv list_ex_iff dest!: sym [of "[]"])
  moreover from finish_removed [OF f ne2] i obtain u where "reconcileCategoriesDelete r kx s2 = (Inr (), u)"
    "\<forall>c. credential_name (Obj s) = Some c \<longrightarrow> released r KSecret (om_Namespace (ncl_Meta (Obj s))) c (trace s')"
    "\<forall>bns b. bundle_key (Obj s) = Some (bns, b) \<longrightarrow> released r KConfigMap bns b (trace s')"
    by (auto simp: same_identity_def)
  ultimately show ?thesis
    unfolding cluster_emptied_def Let_def using i by blast
qed

text \<open>Nothing before reconcileDelete or reconcileNormal changes the identity of the cluster.\<close>

lemma body_past:
  assumes b: "cluster_body r c s = (q, s')" and ne: "ncl_Meta (Obj s') \<noteq> ncl_Meta (Obj s)"
  obtains v t where "same_identity (Obj s) (Obj t)"
    "(if om_Deleting (ncl_Meta (Obj s)) then cluster_reconcileDelete r \<lparr>kx_Cluster = Some c, kx_V4 = v\<rparr>
      else cluster_reconcileNormal r \<lparr>kx_Cluster = Some c, kx_V4 = v\<rparr>) t = (q, s')"
proof -
  let ?ncl = "Obj s"
  let ?kx = "\<lambda>v. \<lparr>kx_Cluster = Some c, kx_V4 = v\<rparr>"
  let ?rec = "\<lambda>v. if om_Deleting (ncl_Meta ?ncl) then cluster_reconcileDelete r (?kx v) else cluster_reconcileNormal r (?kx v)"
  have h: "moves same_cluster (handle (reconcileCredentialRef r ?ncl) credential_failed)" by (intro meta_rules credential_meta)
  from b have "thn (handle (reconcileCredentialRef r ?ncl) credential_failed)
     (thn (add_conditions [MarkTrue CredentialRefSecretOwnerSetCondition, SetTrue CredentialRefSecretOwnerSetCondition Succeeded []])
     (thn (reconcileTrustBundleRef r ?ncl)
     (bnd (make_client (getPrismCentralClientForCluster (kr_client r))) (\<lambda>v3Client.
      bnd (make_client (getPrismCentralConvergedV4ClientForCluster (kr_client r))) ?rec)))) s = (q, s')"
    by (simp add: cluster_body_def this_cluster_def bnd_apply [of "gets Obj"] gets_apply Let_def)
  from thn_past [OF this h ne] obtain t1 where t1: "same_cluster s t1" and
    k1: "thn (add_conditions [MarkTrue CredentialRefSecretOwnerSetCondition, SetTrue CredentialRefSecretOwnerSetCondition Succeeded []])
     (thn (reconcileTrustBundleRef r ?ncl)
     (bnd (make_client (getPrismCentralClientForCluster (kr_client r))) (\<lambda>v3Client.
      bnd (make_client (getPrismCentralConvergedV4ClientForCluster (kr_client r))) ?rec))) t1 = (q, s')" by blast
  have ne1: "ncl_Meta (Obj s') \<noteq> ncl_Meta (Obj t1)" using ne t1 by (simp add: same_cluster_def same_identity_def)
  from thn_past [OF k1 conditions_meta ne1] obtain t2 where t2: "same_cluster t1 t2" and
    k2: "thn (reconcileTrustBundleRef r ?ncl) (bnd (make_client (getPrismCentralClientForCluster (kr_client r))) (\<lambda>v3Client.
      bnd (make_client (getPrismCentralConvergedV4ClientForCluster (kr_client r))) ?rec)) t2 = (q, s')" by blast
  have ne2: "ncl_Meta (Obj s') \<noteq> ncl_Meta (Obj t2)" using ne1 t2 by (simp add: same_cluster_def same_identity_def)
  from thn_past [OF k2 credential_meta(2) ne2] obtain t3 where t3: "same_cluster t2 t3" and
    k3: "bnd (make_client (getPrismCentralClientForCluster (kr_client r))) (\<lambda>v3Client.
      bnd (make_client (getPrismCentralConvergedV4ClientForCluster (kr_client r))) ?rec) t3 = (q, s')" by blast
  have ne3: "ncl_Meta (Obj s') \<noteq> ncl_Meta (Obj t3)" using ne2 t3 by (simp add: same_cluster_def same_identity_def)
  from bnd_past [OF k3 make_client_meta(1) ne3] obtain t4 where t4: "same_cluster t3 t4" and
    k4: "bnd (make_client (getPrismCentralConvergedV4ClientForCluster (kr_client r))) ?rec t4 = (q, s')" by blast
  have ne4: "ncl_Meta (Obj s') \<noteq> ncl_Meta (Obj t4)" using ne3 t4 by (simp add: same_cluster_def same_identity_def)
  from bnd_past [OF k4 make_client_meta(2) ne4] obtain v t5 where t5: "same_cluster t4 t5" and
    k5: "?rec v t5 = (q, s')" by blast
  have "same_identity (Obj s) (Obj t5)" using t1 t2 t3 t4 t5 by (auto simp: same_cluster_def same_identity_def)
  with k5 show thesis by (intro that [of t5 v]) simp_all
qed


text \<open>A cluster that is going, alone in its namespace, with its Secret; the reconciler of a state of
  the API server in which an update returns the object it is given.\<close>

definition plain_endpoint :: NutanixPrismEndpoint where
  "plain_endpoint = \<lparr>pe_Address = ''prism'', pe_Port = 9440,
     pe_CredentialRef = Some \<lparr>cr_Kind = SecretKind, cr_Name = ''secret'', cr_Namespace = []\<rparr>,
     pe_AdditionalTrustBundle = None\<rparr>"

definition old_cluster :: NutanixCluster where
  "old_cluster = sample_NutanixCluster\<lparr>
     ncl_Meta := (sample_meta ''c'')\<lparr>om_Finalizers := [NutanixClusterFinalizer], om_Deleting := True, om_UID := ''u1''\<rparr>,
     ncl_PrismCentral := Some plain_endpoint\<rparr>"

definition quiet_kube :: kube_client where
  "quiet_kube = base_kube_client\<lparr>Kube_ListVHADomains := (\<lambda>h ns. Inr []), Kube_ListNutanixMachines := (\<lambda>h ns l. Inr [])\<rparr>"

definition owned_by_uid :: "owner_ref list \<Rightarrow> NutanixCluster \<Rightarrow> bool" where
  "owned_by_uid os ncl = list_ex (\<lambda>o1. or_UID o1 = om_UID (ncl_Meta ncl)) os"

definition demo_reconciler :: "kube_client \<Rightarrow> NutanixCluster \<Rightarrow> cluster_reconciler" where
  "demo_reconciler k ncl = \<lparr>kr_libs = demo_libs, kr_kube = k,
     kr_client = \<lparr>env_ReadFile = (\<lambda>f. no_service), env_Unmarshal = (\<lambda>f. no_service), env_Getenv = (\<lambda>v. []),
       env_GetManagementEndpoint = (\<lambda>ps. Inr (ManagementEndpoint (hd ps))),
       env_V3Cache = (\<lambda>n me. Inr base_v3_client), env_ConvergedCache = (\<lambda>n me. Inr base_v4_client)\<rparr>,
     kr_guard = \<lparr>gc_Get = (\<lambda>h n ns. Inr ncl), gc_IsNotFound = (\<lambda>e. e = Lib_error ''not found'' False),
       gc_HasPaused = (\<lambda>o1. False), gc_NewHelper = (\<lambda>o1. Inr ()), gc_Patch = (\<lambda>h o1. Inr ()), gc_NewAggregate = Join_err\<rparr>,
     kr_IsPaused = (\<lambda>c n. False), kr_GetOwnerCluster = (\<lambda>h m. Inr (Some sample_Cluster)),
     kr_GetObject = (\<lambda>h kind ns n. Inr ((sample_meta n)\<lparr>om_Finalizers := [NutanixClusterCredentialFinalizer]\<rparr>)),
     kr_Update = (\<lambda>h kind m. Inr m), kr_Delete = (\<lambda>h kind ns n. Inr ()), kr_CreateVHADomain = (\<lambda>h d. Inr ()),
     kr_ListClusters = (\<lambda>h ns. Inr [ncl]), kr_ListMachineDeployments = (\<lambda>h ns l. Inr []),
     kr_IsOwnedByObject = owned_by_uid,
     kr_HasOwner = (\<lambda>os v ks. list_ex (\<lambda>o1. or_APIVersion o1 = v \<and> List.member ks (or_Kind o1)) os),
     kr_EnsureOwnerRef = (\<lambda>os o1. if List.member os o1 then os else os @ [o1]), kr_NewControllerRef = cluster_owner_ref,
     kr_IsTrue = (\<lambda>ops c. list_ex (\<lambda>p. p = MarkTrue c) ops), kr_GetReason = (\<lambda>ops c. []), kr_map_order = id\<rparr>"

lemma old_cluster_goes:
  "NutanixClusterFinalizer \<notin> set (om_Finalizers (ncl_Meta (Obj (snd (cluster_Reconcile (demo_reconciler quiet_kube old_cluster)
     ''ns'' ''c'' \<lparr>trace = [], Obj = sample_NutanixCluster\<rparr>)))))"
  by code_simp


end
