(* ===== verification/Cluster_Props.thy ===== *)
theory Cluster_Props
  imports Cluster_Spec
begin

text \<open>
  More of what the controller of NutanixCluster guarantees, and where it does less than it means
  to: the Secret of the credentials is claimed and released, and a Secret that is gone blocks the
  deletion of its cluster; the failure domains of the status are the validated ones; every metro a
  cluster uses has a virtual HA domain.
\<close>

section \<open>The Secret of the credentials\<close>

lemma credential_ref: "credential_name ncl = Some n \<Longrightarrow>
  \<exists>ref. getPrismCentralCredentialRefForCluster (Some ncl) = Inr (Some ref) \<and> cr_Name ref = n"
  by (auto simp: credential_name_def getPrismCentralCredentialRefForCluster_def GetPrismCentralCredentialRef_def
      split: option.splits if_splits)

definition another_owner :: "cluster_reconciler \<Rightarrow> NutanixCluster \<Rightarrow> obj_meta \<Rightarrow> bool" where
  "another_owner r ncl m \<longleftrightarrow> \<not> kr_IsOwnedByObject r (om_OwnerReferences m) ncl \<and>
     kr_HasOwner r (om_OwnerReferences m) GroupVersion [NutanixClusterKind]"

lemma claim_object_Inl: "another_owner r ncl m \<Longrightarrow> claim_object r ncl e m = Inl e"
  by (auto simp: another_owner_def claim_object_def)

lemma claim_object_Inr: "\<not> another_owner r ncl m \<Longrightarrow>
  \<exists>os. claim_object r ncl e m = Inr (m\<lparr>om_OwnerReferences := os\<rparr>) \<and>
    (kr_IsOwnedByObject r (om_OwnerReferences m) ncl \<and> os = om_OwnerReferences m \<or>
     os = kr_EnsureOwnerRef r (om_OwnerReferences m) (cluster_owner_ref ncl))"
  by (cases m) (auto simp: another_owner_def claim_object_def)

lemma claimed_finalizers: "finalizer_laws L \<Longrightarrow>
  set (om_Finalizers (add_credential_finalizer L m)) =
    insert NutanixClusterCredentialFinalizer (set (om_Finalizers m) - {DeprecatedNutanixClusterCredentialFinalizer})"
  using finalizers_differ by (auto simp: add_credential_finalizer_def finalizer_laws_def)

lemma released_finalizers: "finalizer_laws L \<Longrightarrow>
  set (om_Finalizers (remove_credential_finalizers L m)) =
    set (om_Finalizers m) - {NutanixClusterCredentialFinalizer, DeprecatedNutanixClusterCredentialFinalizer}"
  by (auto simp: remove_credential_finalizers_def finalizer_laws_def)

lemma credential_found:
  assumes cred: "credential_name ncl = Some n" and get: "kr_GetObject r (trace s) KSecret (om_Namespace (ncl_Meta ncl)) n = Inr m"
  shows "\<exists>e f. reconcileCredentialRef r ncl s = (case claim_object r ncl e m of
       Inl e \<Rightarrow> (Inl e, s\<lparr>trace := trace s @ [KGet KSecret n (om_Namespace (ncl_Meta ncl))]\<rparr>)
     | Inr m' \<Rightarrow> thn (wrapping f (update_object r KSecret (add_credential_finalizer (kr_libs r) m'))) (ret ())
         (s\<lparr>trace := trace s @ [KGet KSecret n (om_Namespace (ncl_Meta ncl))]\<rparr>))"
proof -
  from credential_ref [OF cred] obtain ref where ref: "getPrismCentralCredentialRefForCluster (Some ncl) = Inr (Some ref)" "cr_Name ref = n"
    by blast
  have "reconcileCredentialRef r ncl s = (case claim_object r ncl
         (Leaf (''secret '' @ om_Name m @ '' already owned by another nutanixCluster object'')) m of
       Inl e \<Rightarrow> (Inl e, s\<lparr>trace := trace s @ [KGet KSecret n (om_Namespace (ncl_Meta ncl))]\<rparr>)
     | Inr m' \<Rightarrow> thn (wrapping (\<lambda>e. Wrap (''failed to update secret for cluster '' @ om_Name (ncl_Meta ncl) @ '': '') e [])
           (update_object r KSecret (add_credential_finalizer (kr_libs r) m'))) (ret ())
         (s\<lparr>trace := trace s @ [KGet KSecret n (om_Namespace (ncl_Meta ncl))]\<rparr>))"
    by (simp add: reconcileCredentialRef_def Let_def get_object_def ref get bnd_apply of_result_apply wrapping_apply ext_apply
        split: sum.split)
  then show ?thesis by blast
qed

lemma update_trace: "trace (snd (thn (wrapping f (update_object r k m)) (ret ()) s)) = trace s @ [KUpdate k (view_object m)]"
  by (simp add: update_object_def thn_apply wrapping_apply ext_apply ret_apply split: sum.split)

text \<open>C20 A cluster claims the Secret of its credentials with one update that makes it an owner and adds
  the finalizer; the Secret of another NutanixCluster is left alone and is an error; and the
  release of what a claim wrote takes back the finalizers of the controller and no other.\<close>

theorem credential_claim:
  assumes run: "reconcileCredentialRef r ncl s = (q, s')" and cred: "credential_name ncl = Some n"
    and get: "kr_GetObject r (trace s) KSecret (om_Namespace (ncl_Meta ncl)) n = Inr m"
    and laws: "finalizer_laws (kr_libs r)" "\<And>os. kr_IsOwnedByObject r (kr_EnsureOwnerRef r os (cluster_owner_ref ncl)) ncl"
  shows "if another_owner r ncl m
    then (\<exists>e. q = Inl e) \<and> trace s' = trace s @ [KGet KSecret n (om_Namespace (ncl_Meta ncl))]
    else \<exists>m'. trace s' = trace s @ [KGet KSecret n (om_Namespace (ncl_Meta ncl)), KUpdate KSecret (view_object m')] \<and>
      om_Name m' = om_Name m \<and> kr_IsOwnedByObject r (om_OwnerReferences m') ncl \<and>
      set (om_Finalizers m') = insert NutanixClusterCredentialFinalizer (set (om_Finalizers m) - {DeprecatedNutanixClusterCredentialFinalizer}) \<and>
      set (om_Finalizers (remove_credential_finalizers (kr_libs r) m')) =
        set (om_Finalizers m) - {NutanixClusterCredentialFinalizer, DeprecatedNutanixClusterCredentialFinalizer}"
proof -
  let ?k = "KGet KSecret n (om_Namespace (ncl_Meta ncl))"
  obtain e f where c: "reconcileCredentialRef r ncl s = (case claim_object r ncl e m of
       Inl e \<Rightarrow> (Inl e, s\<lparr>trace := trace s @ [?k]\<rparr>)
     | Inr m' \<Rightarrow> thn (wrapping f (update_object r KSecret (add_credential_finalizer (kr_libs r) m'))) (ret ()) (s\<lparr>trace := trace s @ [?k]\<rparr>))"
    using credential_found [OF cred get] by blast
  show ?thesis
  proof (cases "another_owner r ncl m")
    case True
    with run c show ?thesis by (auto simp: claim_object_Inl)
  next
    case False
    from claim_object_Inr [OF False] obtain os where os: "claim_object r ncl e m = Inr (m\<lparr>om_OwnerReferences := os\<rparr>)"
      and own: "kr_IsOwnedByObject r os ncl" using laws(2) by metis
    let ?m = "add_credential_finalizer (kr_libs r) (m\<lparr>om_OwnerReferences := os\<rparr>)"
    have "trace s' = trace s @ [?k, KUpdate KSecret (view_object ?m)]"
      using run update_trace [of f r KSecret ?m "s\<lparr>trace := trace s @ [?k]\<rparr>"] unfolding c os by simp
    moreover have "om_Name ?m = om_Name m" "kr_IsOwnedByObject r (om_OwnerReferences ?m) ncl"
      using own by (simp_all add: add_credential_finalizer_def)
    moreover have f: "set (om_Finalizers ?m) =
        insert NutanixClusterCredentialFinalizer (set (om_Finalizers m) - {DeprecatedNutanixClusterCredentialFinalizer})"
      using claimed_finalizers [OF laws(1), of "m\<lparr>om_OwnerReferences := os\<rparr>"] by simp
    moreover have "set (om_Finalizers (remove_credential_finalizers (kr_libs r) ?m)) =
        set (om_Finalizers m) - {NutanixClusterCredentialFinalizer, DeprecatedNutanixClusterCredentialFinalizer}"
      unfolding released_finalizers [OF laws(1)] f by blast
    ultimately show ?thesis unfolding if_not_P [OF False] by blast
  qed
qed

definition plain_secret :: "owner_ref list \<Rightarrow> obj_meta" where
  "plain_secret os = (sample_meta ''secret'')\<lparr>om_OwnerReferences := os, om_Finalizers := [''other'', DeprecatedNutanixClusterCredentialFinalizer]\<rparr>"

definition secret_reconciler :: "owner_ref list \<Rightarrow> cluster_reconciler" where
  "secret_reconciler os = (demo_reconciler quiet_kube old_cluster)\<lparr>kr_GetObject := (\<lambda>h kind ns n. Inr (plain_secret os))\<rparr>"

lemma old_credential: "credential_name old_cluster = Some ''secret''" "om_Namespace (ncl_Meta old_cluster) = ''ns''"
  by (simp_all add: old_cluster_def plain_endpoint_def credential_name_def sample_meta_def)

lemma credential_claim_witness:
  "(\<exists>e s'. reconcileCredentialRef (secret_reconciler [(cluster_owner_ref old_cluster)\<lparr>or_UID := ''u2''\<rparr>]) old_cluster \<lparr>trace = []\<rparr> = (Inl e, s')) \<and>
   (\<exists>q s' m'. reconcileCredentialRef (secret_reconciler []) old_cluster \<lparr>trace = []\<rparr> = (q, s') \<and>
     trace s' = [KGet KSecret ''secret'' ''ns'', KUpdate KSecret (view_object m')] \<and>
     set (om_Finalizers m') = {''other'', NutanixClusterCredentialFinalizer})"
proof -
  have own: "kr_IsOwnedByObject (secret_reconciler os) (kr_EnsureOwnerRef (secret_reconciler os) os' (cluster_owner_ref old_cluster)) old_cluster"
    for os os' by (auto simp: secret_reconciler_def demo_reconciler_def owned_by_uid_def cluster_owner_ref_def list_ex_iff intro: rev_bexI)
  have laws: "finalizer_laws (kr_libs (secret_reconciler os))" for os
    using demo_finalizer_laws by (simp add: secret_reconciler_def demo_reconciler_def)
  have get: "kr_GetObject (secret_reconciler os) (trace \<lparr>trace = []\<rparr>) KSecret (om_Namespace (ncl_Meta old_cluster)) ''secret'' = Inr (plain_secret os)"
    for os by (simp add: secret_reconciler_def)
  let ?o = "(cluster_owner_ref old_cluster)\<lparr>or_UID := ''u2''\<rparr>"
  have a: "another_owner (secret_reconciler [?o]) old_cluster (plain_secret [?o])" "\<not> another_owner (secret_reconciler []) old_cluster (plain_secret [])"
    by (simp_all add: another_owner_def secret_reconciler_def demo_reconciler_def plain_secret_def owned_by_uid_def cluster_owner_ref_def
        old_cluster_def)
  obtain q1 s1 q2 s2 where r: "reconcileCredentialRef (secret_reconciler [?o]) old_cluster \<lparr>trace = []\<rparr> = (q1, s1)"
    "reconcileCredentialRef (secret_reconciler []) old_cluster \<lparr>trace = []\<rparr> = (q2, s2)" by fastforce
  from credential_claim [OF r(1) old_credential(1) get laws own] credential_claim [OF r(2) old_credential(1) get laws own] a r finalizers_differ
  show ?thesis by (auto simp: old_credential plain_secret_def NutanixClusterCredentialFinalizer_def DeprecatedNutanixClusterCredentialFinalizer_def)
qed

section \<open>A Secret that is gone\<close>

lemma credential_missing:
  assumes "credential_name ncl = Some n" "kr_GetObject r (trace s) KSecret (om_Namespace (ncl_Meta ncl)) n = Inl e" "e \<noteq> NilDeref"
  shows "\<exists>e'. e' \<noteq> NilDeref \<and>
    reconcileCredentialRef r ncl s = (Inl e', s\<lparr>trace := trace s @ [KGet KSecret n (om_Namespace (ncl_Meta ncl))]\<rparr>)"
proof -
  from credential_ref [OF assms(1)] obtain ref where ref: "getPrismCentralCredentialRefForCluster (Some ncl) = Inr (Some ref)" "cr_Name ref = n"
    by blast
  show ?thesis
    unfolding reconcileCredentialRef_def Let_def ref get_object_def
    by (simp only: bnd_apply of_result_apply sum.case prod.case ref option.case wrapping_apply ext_apply assms if_False prod.inject
        sum.inject) (intro exI conjI, rule go_error.distinct, rule refl, rule refl)
qed

text \<open>C35 The Secret is looked up before the deletion is, so once it is gone no reconcile deletes the
  cluster: every reconcile fails and keeps the finalizers, without a request to Prism Central.  The
  controller itself deletes the Secret before the finalizers are removed by the final patch: when
  that patch, or the release of the trust bundle, fails, the cluster stays for ever.\<close>

theorem lost_secret_blocks_deletion:
  assumes get: "gc_Get (kr_guard r) (trace s) name ns = Inr ncl"
    and owner: "kr_GetOwnerCluster r (trace s @ [KGet KNutanixCluster name ns]) (ncl_Meta ncl) = Inr (Some c)"
    and ready: "\<not> kr_IsPaused r c ncl" "gc_NewHelper (kr_guard r) ncl = Inr ()"
    and cred: "credential_name ncl = Some n"
    and gone: "kr_GetObject r (trace s @ [KGet KNutanixCluster name ns, KGet KCluster name ns]) KSecret (om_Namespace (ncl_Meta ncl)) n = Inl e"
      "e \<noteq> NilDeref"
  shows "\<exists>err s'. cluster_Reconcile r ns name s = (Inl err, s') \<and> ncl_Meta (Obj s') = ncl_Meta ncl \<and>
    trace s' = trace s @ [KGet KNutanixCluster name ns, KGet KCluster name ns, KGet KSecret n (om_Namespace (ncl_Meta ncl)),
      KWrite KNutanixCluster (om_Name (ncl_Meta ncl)) (om_Namespace (ncl_Meta ncl)) ''patch'']"
proof -
  let ?s1 = "s\<lparr>Obj := ncl, trace := trace s @ [KGet KNutanixCluster name ns, KGet KCluster name ns]\<rparr>"
  from credential_missing [OF cred, of r ?s1 e] gone obtain e' where "e' \<noteq> NilDeref" "reconcileCredentialRef r ncl ?s1 =
      (Inl e', ?s1\<lparr>trace := trace ?s1 @ [KGet KSecret n (om_Namespace (ncl_Meta ncl))]\<rparr>)" by auto
  then have "\<exists>t. cluster_body r c ?s1 = (Inl e', t) \<and> ncl_Meta (Obj t) = ncl_Meta ncl \<and>
      trace t = trace ?s1 @ [KGet KSecret n (om_Namespace (ncl_Meta ncl))]"
    by (simp add: cluster_body_def this_cluster_def bnd_apply thn_apply gets_apply handle_apply credential_failed_def add_conditions_def
        update_obj_def modify_apply raise_apply cluster_conditions_def)
  then obtain t where t: "cluster_body r c ?s1 = (Inl e', t)" "ncl_Meta (Obj t) = ncl_Meta ncl"
      "trace t = trace ?s1 @ [KGet KSecret n (om_Namespace (ncl_Meta ncl))]" by blast
  have "cluster_Reconcile r ns name s = deferred_patch (kr_guard r) KNutanixCluster ncl_Meta (cluster_body r c) ?s1"
    using get owner ready by (simp add: cluster_Reconcile_def Let_def bnd_apply thn_apply attempt_apply ext_apply modify_apply)
  with t \<open>e' \<noteq> NilDeref\<close> show ?thesis
    by (cases "gc_Patch (kr_guard r) (trace t) (Obj t)")
      (auto simp: deferred_patch_def bnd_apply attempt_apply gets_apply ext_apply raise_apply of_result_apply)
qed

text \<open>The patch that ends the first reconcile fails; the Secret is not found once it was deleted.\<close>

fun is_cluster_patch :: "call \<Rightarrow> bool" where
  "is_cluster_patch (KWrite KNutanixCluster n ns a) = (a = ''patch'')"
| "is_cluster_patch c = False"

fun is_secret_deletion :: "call \<Rightarrow> bool" where
  "is_secret_deletion (KWrite KSecret n ns a) = (a = ''delete'')"
| "is_secret_deletion c = False"

definition conflict_reconciler :: cluster_reconciler where
  "conflict_reconciler = (demo_reconciler quiet_kube old_cluster)\<lparr>
     kr_guard := (kr_guard (demo_reconciler quiet_kube old_cluster))\<lparr>gc_Patch := (\<lambda>h o1.
       if list_ex is_cluster_patch h then Inr () else Inl (Lib_error ''conflict'' False))\<rparr>,
     kr_GetObject := (\<lambda>h kind ns n. if list_ex is_secret_deletion h then Inl (Lib_error ''not found'' False)
       else Inr ((sample_meta n)\<lparr>om_Finalizers := [NutanixClusterCredentialFinalizer]\<rparr>))\<rparr>"

definition first_reconcile :: cluster_state where
  "first_reconcile = snd (cluster_Reconcile conflict_reconciler ''ns'' ''c'' \<lparr>trace = [], Obj = sample_NutanixCluster\<rparr>)"

lemma secret_deleted: "list_ex is_secret_deletion (trace first_reconcile)"
  by code_simp

lemma lost_secret_blocks_deletion_witness:
  "list_ex is_secret_deletion (trace first_reconcile) \<and>
   (\<exists>err s'. cluster_Reconcile conflict_reconciler ''ns'' ''c'' first_reconcile = (Inl err, s') \<and>
      NutanixClusterFinalizer \<in> set (om_Finalizers (ncl_Meta (Obj s'))))"
proof -
  have "gc_Get (kr_guard conflict_reconciler) (trace first_reconcile) ''c'' ''ns'' = Inr old_cluster"
    "kr_GetOwnerCluster conflict_reconciler (trace first_reconcile @ [KGet KNutanixCluster ''c'' ''ns'']) (ncl_Meta old_cluster) = Inr (Some sample_Cluster)"
    "\<not> kr_IsPaused conflict_reconciler sample_Cluster old_cluster" "gc_NewHelper (kr_guard conflict_reconciler) old_cluster = Inr ()"
    by (simp_all add: conflict_reconciler_def demo_reconciler_def)
  moreover have "kr_GetObject conflict_reconciler (trace first_reconcile @ [KGet KNutanixCluster ''c'' ''ns'', KGet KCluster ''c'' ''ns''])
      KSecret (om_Namespace (ncl_Meta old_cluster)) ''secret'' = Inl (Lib_error ''not found'' False)"
    using secret_deleted by (simp add: conflict_reconciler_def)
  ultimately obtain err s' where "cluster_Reconcile conflict_reconciler ''ns'' ''c'' first_reconcile = (Inl err, s')"
    "ncl_Meta (Obj s') = ncl_Meta old_cluster"
    using lost_secret_blocks_deletion [of conflict_reconciler first_reconcile] old_credential(1) by blast
  then show ?thesis using secret_deleted by (simp add: old_cluster_def)
qed

section \<open>The failure domains\<close>

text \<open>A failure domain that was fetched and whose Prism Element and subnets were found; and what is
  checked of a reference: every failure domain of a metro, the preferred one of a site, or the
  failure domain itself, in the scope of the project of the cluster.\<close>

definition valid_fd :: "cluster_reconciler \<Rightarrow> cluster_ctx \<Rightarrow> string \<Rightarrow> project_scope \<Rightarrow> string \<Rightarrow> bool" where
  "valid_fd r kx ns scope n \<longleftrightarrow> (\<exists>h fd. Kube_GetFailureDomain (kr_kube r) h n ns = Inr fd \<and>
     (\<exists>t t'. validate_fd kx scope fd (t :: cluster_state) = (Inr (), t')))"

definition scope_of :: "cluster_ctx \<Rightarrow> NutanixCluster \<Rightarrow> project_scope \<Rightarrow> bool" where
  "scope_of kx ncl scope \<longleftrightarrow> (\<exists>t t'. resolveProjectScopeForCluster kx ncl (t :: cluster_state) = (Inr scope, t'))"

definition plain_ref :: "string \<Rightarrow> bool" where
  "plain_ref fdRef \<longleftrightarrow> \<not> isNutanixMetroFailureDomain fdRef \<and> \<not> isNutanixMetroSiteFailureDomain fdRef"

definition valid_ref :: "cluster_reconciler \<Rightarrow> cluster_ctx \<Rightarrow> NutanixCluster \<Rightarrow> string \<Rightarrow> bool" where
  "valid_ref r kx ncl fdRef \<longleftrightarrow>
     (let ns = om_Namespace (ncl_Meta ncl) in
      if isNutanixMetroFailureDomain fdRef then
        (\<exists>h metro. Kube_GetMetro (kr_kube r) h (drop (length metroFailureDomainPrefix) fdRef) ns = Inr metro \<and>
           (\<forall>n\<in>set (nmt_FailureDomains metro). valid_fd r kx (om_Namespace (nmt_Meta metro)) default_scope n))
      else if isNutanixMetroSiteFailureDomain fdRef then
        (\<exists>h site. Kube_GetMetroSite (kr_kube r) h (drop (length metroSiteFailureDomainPrefix) fdRef) ns = Inr site \<and>
           valid_fd r kx (om_Namespace (nms_Meta site)) default_scope (nms_PreferredFailureDomain site))
      else (\<exists>scope. scope_of kx ncl scope \<and> valid_fd r kx ns scope fdRef))"

lemma getObject_Inr:
  "getNutanixMetroObject k n ns s = (Inr m, s') \<Longrightarrow> \<exists>h. Kube_GetMetro k h n ns = Inr m"
  "getNutanixMetroSiteObject k n ns s = (Inr x, s') \<Longrightarrow> \<exists>h. Kube_GetMetroSite k h n ns = Inr x"
  "getNutanixFailureDomainObject k n ns s = (Inr fd, s') \<Longrightarrow> \<exists>h. Kube_GetFailureDomain k h n ns = Inr fd"
  by (auto simp: getNutanixMetroObject_def getNutanixMetroSiteObject_def getNutanixFailureDomainObject_def go_inv)

lemma metro_fd_valid:
  "metro_fd_errors r kx metro n (s :: cluster_state) = (Inr [], s') \<Longrightarrow> valid_fd r kx (om_Namespace (nmt_Meta metro)) default_scope n"
  by (auto simp: metro_fd_errors_def valid_fd_def not_Inl go_inv go_cases dest!: getObject_Inr split: sum.splits)

lemma check_metro_valid:
  assumes "check_metro_ref r kx ns fdRef (s :: cluster_state) = (Inr (listed, []), s')"
  shows "listed \<and> (\<exists>h metro. Kube_GetMetro (kr_kube r) h (drop (length metroFailureDomainPrefix) fdRef) ns = Inr metro \<and>
     (\<forall>n\<in>set (nmt_FailureDomains metro). valid_fd r kx (om_Namespace (nmt_Meta metro)) default_scope n))"
proof -
  from assms obtain metro s1 es where l: listed and m: "getNutanixMetroObject (kr_kube r) (drop (length metroFailureDomainPrefix) fdRef) ns s = (Inr metro, s1)"
    and es: "map_go (metro_fd_errors r kx metro) (nmt_FailureDomains metro) s1 = (Inr es, s')" "concat es = []"
    by (auto simp: check_metro_ref_def go_inv go_cases)
  have "valid_fd r kx (om_Namespace (nmt_Meta metro)) default_scope n" if "n \<in> set (nmt_FailureDomains metro)" for n
    using map_go_each [OF es(1) that] es(2) metro_fd_valid by fastforce
  with l getObject_Inr(1) [OF m] show ?thesis by blast
qed

lemma check_site_valid:
  "check_metrosite_ref r kx ns fdRef (s :: cluster_state) = (Inr (listed, []), s') \<Longrightarrow>
   listed \<and> (\<exists>h site. Kube_GetMetroSite (kr_kube r) h (drop (length metroSiteFailureDomainPrefix) fdRef) ns = Inr site \<and>
     valid_fd r kx (om_Namespace (nms_Meta site)) default_scope (nms_PreferredFailureDomain site))"
  by (auto simp: check_metrosite_ref_def valid_fd_def not_Inl go_inv go_cases dest!: getObject_Inr split: sum.splits) blast

lemma check_plain_valid:
  assumes "check_plain_ref r kx ncl scope_p fdRef (s :: cluster_state) = (Inr (scope', listed, es), s')"
    "\<And>scope. scope_p = Some scope \<Longrightarrow> scope_of kx ncl scope"
  shows "(\<forall>scope. scope' = Some scope \<longrightarrow> scope_of kx ncl scope) \<and> (listed \<longleftrightarrow> es = []) \<and>
    (listed \<longrightarrow> (\<exists>scope. scope_of kx ncl scope \<and> valid_fd r kx (om_Namespace (ncl_Meta ncl)) scope fdRef))"
proof -
  let ?ns = "om_Namespace (ncl_Meta ncl)"
  from assms(1) obtain q0 s1 where
    g: "attempt (ext (KGet KFailureDomain fdRef ?ns) (\<lambda>h. Kube_GetFailureDomain (kr_kube r) h fdRef ?ns)) s = (Inr q0, s1)"
    and k: "(case q0 of
        Inl err \<Rightarrow> ret (scope_p, False,
            [if gc_IsNotFound (kr_guard r) err then Leaf (''not found the failure domain object with name '' @ dquote fdRef)
             else Wrap (''failed to fetch the failure domain object with name '' @ dquote fdRef @ '': '') err []])
      | Inr fd \<Rightarrow>
          bnd (case scope_p of Some scope \<Rightarrow> ret scope
               | None \<Rightarrow> wrapping (\<lambda>e. Wrap (''failed to resolve project scope for cluster '' @ om_Name (ncl_Meta ncl) @ '': '') e [])
                     (resolveProjectScopeForCluster kx ncl)) (\<lambda>scope.
          bnd (attempt (validate_fd kx scope fd)) (\<lambda>q.
          ret (case q of Inl err \<Rightarrow> (Some scope, False, [fd_invalid (dquote fdRef) err]) | Inr _ \<Rightarrow> (Some scope, True, []))))) s1 =
      (Inr (scope', listed, es), s')"
    unfolding check_plain_ref_def Let_def bnd_Inr by blast
  show ?thesis
  proof (cases q0)
    case (Inl e)
    with k assms(2) show ?thesis by (auto simp: ret_Inr)
  next
    case (Inr fd)
    with g have fd: "Kube_GetFailureDomain (kr_kube r) (trace s) fdRef ?ns = Inr fd" by (simp add: attempt_Inr ext_Inr)
    from k Inr obtain scope s2 q where sc: "(case scope_p of Some scope \<Rightarrow> ret scope
               | None \<Rightarrow> wrapping (\<lambda>e. Wrap (''failed to resolve project scope for cluster '' @ om_Name (ncl_Meta ncl) @ '': '') e [])
                     (resolveProjectScopeForCluster kx ncl)) s1 = (Inr scope, s2)"
      and q: "attempt (validate_fd kx scope fd) s2 = (Inr q, s')"
        "(case q of Inl err \<Rightarrow> (Some scope, False, [fd_invalid (dquote fdRef) err]) | Inr _ \<Rightarrow> (Some scope, True, [])) = (scope', listed, es)"
      by (auto simp: bnd_Inr ret_Inr)
    have "scope_of kx ncl scope"
      using sc assms(2) by (cases scope_p) (auto simp: scope_of_def ret_Inr wrapping_Inr)
    moreover have "valid_fd r kx ?ns scope fdRef" if "q = Inr ()"
      using fd q(1) that unfolding valid_fd_def attempt_Inr by auto
    ultimately show ?thesis using q(2) by (cases q) (auto simp del: split_paired_Ex)
  qed
qed

text \<open>What one reference adds, and what all of them do.\<close>

definition status_names :: "fd_status list \<Rightarrow> string set" where "status_names fds = fds_Name ` set fds"

lemma put_status_names [simp]: "status_names (put_fd n b fds) = insert n (status_names fds)"
  by (auto simp: put_fd_def status_names_def)

lemma put_legacy_names: "status_names (fold (\<lambda>fd. put_fd (fdc_Name fd) (fdc_ControlPlane fd)) xs fds) = fdc_Name ` set xs \<union> status_names fds"
  by (induction xs arbitrary: fds) auto

definition checked :: "cluster_reconciler \<Rightarrow> cluster_ctx \<Rightarrow> NutanixCluster \<Rightarrow> string list \<Rightarrow>
    project_scope option \<times> go_error list \<times> fd_status list \<Rightarrow> bool" where
  "checked r kx ncl refs acc \<longleftrightarrow>
     (case acc of (scope_p, verrs, fds) \<Rightarrow>
        (\<forall>scope. scope_p = Some scope \<longrightarrow> scope_of kx ncl scope) \<and>
        status_names fds \<subseteq> set refs \<and> (\<forall>n\<in>status_names fds. plain_ref n \<longrightarrow> valid_ref r kx ncl n) \<and>
        (verrs = [] \<longrightarrow> (\<forall>n\<in>set refs. n \<in> status_names fds \<and> valid_ref r kx ncl n)))"

lemma check_ref_checked:
  assumes run: "check_ref r kx ncl fdRef acc (s :: cluster_state) = (Inr acc', s')" and c: "checked r kx ncl refs acc"
  shows "checked r kx ncl (refs @ [fdRef]) acc'"
proof -
  obtain scope_p verrs fds where acc: "acc = (scope_p, verrs, fds)" by (cases acc)
  from c have sc: "\<And>scope. scope_p = Some scope \<Longrightarrow> scope_of kx ncl scope" by (simp add: checked_def acc del: split_paired_All)
  from run obtain scope' listed es where
    x: "(if isNutanixMetroFailureDomain fdRef then bnd (check_metro_ref r kx (om_Namespace (ncl_Meta ncl)) fdRef) (\<lambda>x. ret (scope_p, x))
       else if isNutanixMetroSiteFailureDomain fdRef then bnd (check_metrosite_ref r kx (om_Namespace (ncl_Meta ncl)) fdRef) (\<lambda>x. ret (scope_p, x))
       else check_plain_ref r kx ncl scope_p fdRef) s = (Inr (scope', listed, es), s')"
    and acc': "acc' = (scope', verrs @ es, if listed then put_fd fdRef True fds else fds)"
    by (auto simp: check_ref_def acc Let_def bnd_Inr ret_Inr case_prod_Inr)
  have v: "listed \<and> valid_ref r kx ncl fdRef" if "es = []"
  proof -
    consider (m) "isNutanixMetroFailureDomain fdRef" | (s) "\<not> isNutanixMetroFailureDomain fdRef" "isNutanixMetroSiteFailureDomain fdRef"
      | (p) "\<not> isNutanixMetroFailureDomain fdRef" "\<not> isNutanixMetroSiteFailureDomain fdRef" by blast
    then show ?thesis
    proof cases
      case m
      with x that have "check_metro_ref r kx (om_Namespace (ncl_Meta ncl)) fdRef s = (Inr (listed, []), s')"
        by (auto simp: bnd_Inr ret_Inr)
      from check_metro_valid [OF this] m show ?thesis by (simp add: valid_ref_def Let_def)
    next
      case s
      with x that have "check_metrosite_ref r kx (om_Namespace (ncl_Meta ncl)) fdRef s = (Inr (listed, []), s')"
        by (auto simp: bnd_Inr ret_Inr)
      from check_site_valid [OF this] s show ?thesis by (simp add: valid_ref_def Let_def)
    next
      case p
      with x have "check_plain_ref r kx ncl scope_p fdRef s = (Inr (scope', listed, es), s')" by simp
      from check_plain_valid [OF this sc] p that show ?thesis by (simp add: valid_ref_def Let_def)
    qed
  qed
  have p: "plain_ref fdRef \<Longrightarrow> listed \<longleftrightarrow> es = []"
    using x check_plain_valid [OF _ sc] by (auto simp: plain_ref_def)
  have s: "\<forall>scope. scope' = Some scope \<longrightarrow> scope_of kx ncl scope"
    using x sc check_plain_valid [OF _ sc] by (auto simp: bnd_Inr ret_Inr simp del: split_paired_All split: if_splits)
  show ?thesis
    using c v p s unfolding acc acc' checked_def prod.case
    by (cases listed) (auto simp del: split_paired_All)
qed

lemma checks_checked:
  "fold_go (check_ref r kx ncl) xs acc (s :: cluster_state) = (Inr acc', s') \<Longrightarrow> checked r kx ncl refs acc \<Longrightarrow>
   checked r kx ncl (refs @ xs) acc'"
proof (induction xs arbitrary: acc s refs)
  case (Cons x xs)
  from Cons.prems(1) obtain acc1 s1 where "check_ref r kx ncl x acc s = (Inr acc1, s1)"
    "fold_go (check_ref r kx ncl) xs acc1 s1 = (Inr acc', s')" by (auto simp: bnd_Inr)
  with Cons.IH [of acc1 s1 "refs @ [x]"] check_ref_checked [OF _ Cons.prems(2)] show ?case by simp
qed (simp add: ret_Inr)

lemma checks_only: "moves (only_calls is_read) (fold_go (check_ref r kx ncl) refs acc)"
  by (intro only_rules check_ref_only)

text \<open>A run of reconcileFailureDomains that succeeds, when there is something to check.\<close>

lemma failure_domains_run:
  assumes run: "reconcileFailureDomains r kx s = (Inr (), s')"
    and some: "ncl_ControlPlaneFailureDomains (Obj s) \<noteq> [] \<or> ncl_FailureDomains (Obj s) \<noteq> []"
  obtains s1 s2 :: cluster_state and scope verrs fds where
    "fold_go (check_ref r kx (Obj s)) (ncl_ControlPlaneFailureDomains (Obj s)) (None, [], []) s1 = (Inr (scope, verrs, fds), s2)"
    "fds_Name ` set (ncl_StatusFailureDomains (Obj s')) = fdc_Name ` set (ncl_FailureDomains (Obj s)) \<union> status_names fds"
    "\<exists>ops. ncl_Conditions (Obj s') = ncl_Conditions (Obj s) @ ops \<and> (MarkTrue FailureDomainsValidatedCondition \<in> set ops \<longrightarrow> verrs = [])"
proof -
  let ?ncl = "Obj s" and ?refs = "ncl_ControlPlaneFailureDomains (Obj s)"
  let ?clear = "[DeleteV1Beta1 NoFailureDomainsConfiguredCondition, DeleteV1Beta2 NoFailureDomainsConfiguredCondition]"
  let ?s1 = "s\<lparr>Obj := cluster_conditions ?clear ?ncl\<rparr>"
  from some have "\<not> (?refs = [] \<and> ncl_FailureDomains ?ncl = [])" by auto
  with run obtain scope verrs fds s2 where f: "fold_go (check_ref r kx ?ncl) ?refs (None, [], []) ?s1 = (Inr (scope, verrs, fds), s2)"
    and k: "thn (update_obj (\<lambda>n. n\<lparr>ncl_StatusFailureDomains :=
               fold (\<lambda>fd. put_fd (fdc_Name fd) (fdc_ControlPlane fd)) (ncl_FailureDomains ?ncl) fds\<rparr>))
        (if verrs \<noteq> [] then
           (let msg = Error_text (Join_err verrs) in
            add_conditions [MarkFalse FailureDomainsValidatedCondition FailureDomainsMisconfiguredReason SeverityWarning msg,
              SetFalse FailureDomainsValidatedCondition FailureDomainsMisconfiguredReason msg])
         else
           add_conditions [MarkTrue FailureDomainsValidatedCondition, SetTrue FailureDomainsValidatedCondition Succeeded []]) s2 = (Inr (), s')"
    unfolding reconcileFailureDomains_def this_cluster_def add_conditions_def update_obj_def
    by (auto simp: bnd_Inr gets_Inr thn_Inr [of "modify f" for f] modify_Inr case_prod_Inr)
  have o2: "Obj s2 = cluster_conditions ?clear ?ncl"
    using only_Obj [OF checks_only f] by simp
  have st: "fds_Name ` set (ncl_StatusFailureDomains (Obj s')) = fdc_Name ` set (ncl_FailureDomains ?ncl) \<union> status_names fds"
    using k put_legacy_names [of "ncl_FailureDomains ?ncl" fds]
    by (auto simp: update_obj_def add_conditions_def thn_Inr modify_Inr Let_def cluster_conditions_def status_names_def split: if_splits)
  have ops: "\<exists>ops. ncl_Conditions (Obj s') = ncl_Conditions ?ncl @ ops \<and> (MarkTrue FailureDomainsValidatedCondition \<in> set ops \<longrightarrow> verrs = [])"
    using k o2 by (auto simp: update_obj_def add_conditions_def thn_Inr modify_Inr Let_def cluster_conditions_def split: if_splits)
  from that [OF f st ops] show thesis .
qed

text \<open>C16 The failure domains of the status are those the cluster names, the legacy ones with them; a
  failure domain that is listed by its name alone was fetched and validated in the scope of the
  project; and the condition is set to true only when every reference was, each failure domain of
  each metro included, and is listed.\<close>

theorem failure_domains_validated:
  assumes run: "reconcileFailureDomains r kx s = (Inr (), s')"
    and some: "ncl_ControlPlaneFailureDomains (Obj s) \<noteq> [] \<or> ncl_FailureDomains (Obj s) \<noteq> []"
  shows "let refs = ncl_ControlPlaneFailureDomains (Obj s); legacy = fdc_Name ` set (ncl_FailureDomains (Obj s));
      listed = fds_Name ` set (ncl_StatusFailureDomains (Obj s')) in
    legacy \<subseteq> listed \<and> listed \<subseteq> legacy \<union> set refs \<and>
    (\<forall>n\<in>listed - legacy. plain_ref n \<longrightarrow> valid_ref r kx (Obj s) n) \<and>
    (\<exists>ops. ncl_Conditions (Obj s') = ncl_Conditions (Obj s) @ ops \<and>
       (MarkTrue FailureDomainsValidatedCondition \<in> set ops \<longrightarrow> (\<forall>n\<in>set refs. n \<in> listed \<and> valid_ref r kx (Obj s) n)))"
proof -
  let ?ncl = "Obj s" and ?refs = "ncl_ControlPlaneFailureDomains (Obj s)"
  obtain s1 s2 :: cluster_state and scope verrs fds where
    f: "fold_go (check_ref r kx ?ncl) ?refs (None, [], []) s1 = (Inr (scope, verrs, fds), s2)" and
    st: "fds_Name ` set (ncl_StatusFailureDomains (Obj s')) = fdc_Name ` set (ncl_FailureDomains ?ncl) \<union> status_names fds" and
    ops: "\<exists>ops. ncl_Conditions (Obj s') = ncl_Conditions ?ncl @ ops \<and> (MarkTrue FailureDomainsValidatedCondition \<in> set ops \<longrightarrow> verrs = [])"
    by (rule failure_domains_run [OF run some])
  have c: "checked r kx ?ncl ?refs (scope, verrs, fds)"
    using checks_checked [OF f, of "[]"] by (simp add: checked_def status_names_def)
  show ?thesis
    using c st ops unfolding Let_def checked_def prod.case by blast
qed

text \<open>A cluster with two metros: the failure domains of the second one cannot be fetched.\<close>

definition half_kube :: kube_client where
  "half_kube = (metro_kube [])\<lparr>
     Kube_GetMetro := (\<lambda>h n ns. Inr \<lparr>nmt_Meta = sample_meta n, nmt_FailureDomains = (if n = ''m2'' then [''x''] else [''a'', ''b'']), nmt_Conditions = []\<rparr>),
     Kube_GetFailureDomain := (\<lambda>h n ns. if n = ''x'' then Inl (Lib_error ''not found'' False) else Inr (sample_fd n))\<rparr>"

definition metro_cluster :: "string list \<Rightarrow> NutanixCluster" where
  "metro_cluster refs = sample_NutanixCluster\<lparr>ncl_ControlPlaneFailureDomains := refs\<rparr>"

definition fds_run :: "string list \<Rightarrow> (go_error + unit) \<times> cluster_state" where
  "fds_run refs = reconcileFailureDomains (demo_reconciler half_kube (metro_cluster refs)) \<lparr>kx_Cluster = Some sample_Cluster, kx_V4 = metro_client\<rparr>
     \<lparr>trace = [], Obj = metro_cluster refs\<rparr>"

lemma one_metro_run:
  "fst (fds_run [''NutanixMetro/m1'']) = Inr () \<and>
   list_ex (\<lambda>c. c = MarkTrue FailureDomainsValidatedCondition) (ncl_Conditions (Obj (snd (fds_run [''NutanixMetro/m1'']))))"
  by code_simp

lemma failure_domains_validated_witness:
  "valid_ref (demo_reconciler half_kube (metro_cluster [''NutanixMetro/m1''])) \<lparr>kx_Cluster = Some sample_Cluster, kx_V4 = metro_client\<rparr>
     (metro_cluster [''NutanixMetro/m1'']) ''NutanixMetro/m1''"
proof -
  let ?n = "metro_cluster [''NutanixMetro/m1'']"
  have n: "ncl_ControlPlaneFailureDomains ?n = [''NutanixMetro/m1'']" "ncl_Conditions ?n = []"
    by (simp_all add: metro_cluster_def sample_NutanixCluster_def)
  obtain s' where r: "fds_run [''NutanixMetro/m1''] = (Inr (), s')" using one_metro_run by (metis prod.collapse)
  with one_metro_run have m: "MarkTrue FailureDomainsValidatedCondition \<in> set (ncl_Conditions (Obj s'))" by (auto simp: list_ex_iff)
  from failure_domains_validated [OF r [unfolded fds_run_def]] show ?thesis using m by (simp add: n Let_def)
qed

lemma checks_grow:
  "fold_go (check_ref r kx ncl) refs (sc, ve, fds) s = (Inr (sc', ve', fds'), s') \<Longrightarrow> status_names fds \<subseteq> status_names fds'"
proof (induction refs arbitrary: sc ve fds s)
  case (Cons x refs)
  from Cons.prems obtain sc1 ve1 fds1 s1 where "check_ref r kx ncl x (sc, ve, fds) s = (Inr (sc1, ve1, fds1), s1)"
    and k: "fold_go (check_ref r kx ncl) refs (sc1, ve1, fds1) s1 = (Inr (sc', ve', fds'), s')" by (auto simp: bnd_Inr)
  then have "status_names fds \<subseteq> status_names fds1"
    by (auto simp: check_ref_def Let_def bnd_Inr ret_Inr case_prod_Inr split: if_splits)
  with Cons.IH [OF k] show ?case by blast
qed (simp add: ret_Inr)

lemma metro_ref_listed:
  assumes "\<And>h. Kube_GetMetro (kr_kube r) h (drop (length metroFailureDomainPrefix) fdRef) ns = Inr metro"
  shows "check_metro_ref r kx ns fdRef s = (Inr (listed, es), s') \<Longrightarrow> listed"
  by (auto simp: check_metro_ref_def getNutanixMetroObject_def bnd_apply attempt_apply wrapping_apply ext_apply ret_apply assms
      split: prod.splits sum.splits)

lemma metro_checked_listed:
  assumes "\<And>h. Kube_GetMetro (kr_kube r) h (drop (length metroFailureDomainPrefix) fdRef) (om_Namespace (ncl_Meta ncl)) = Inr metro"
    "isNutanixMetroFailureDomain fdRef" "fdRef \<in> set refs"
  shows "fold_go (check_ref r kx ncl) refs acc s = (Inr (sc', ve', fds'), s') \<Longrightarrow> fdRef \<in> status_names fds'"
  using assms(3)
proof (induction refs arbitrary: acc s)
  case (Cons x refs)
  from Cons.prems(1) obtain sc1 ve1 fds1 s1 where c: "check_ref r kx ncl x acc s = (Inr (sc1, ve1, fds1), s1)"
    and k: "fold_go (check_ref r kx ncl) refs (sc1, ve1, fds1) s1 = (Inr (sc', ve', fds'), s')" by (auto simp: bnd_Inr)
  show ?case
  proof (cases "x = fdRef")
    case True
    with c assms(2) have "fdRef \<in> status_names fds1"
      by (cases acc) (auto simp: check_ref_def Let_def bnd_Inr ret_Inr case_prod_Inr dest: metro_ref_listed [OF assms(1)])
    with checks_grow [OF k] show ?thesis by blast
  next
    case False
    with Cons.prems(2) Cons.IH [OF k] show ?thesis by simp
  qed
qed simp

text \<open>A metro is listed in the status as soon as the NutanixMetro exists, whatever its failure domains
  are: here one of them cannot even be fetched.  The same holds of a site whose preferred failure
  domain does not validate; a failure domain that is named itself is left out.\<close>

theorem unvalidated_metro_listed:
  assumes run: "reconcileFailureDomains r kx s = (Inr (), s')"
    and ref: "fdRef \<in> set (ncl_ControlPlaneFailureDomains (Obj s))" "isNutanixMetroFailureDomain fdRef"
    and metro: "\<And>h. Kube_GetMetro (kr_kube r) h (drop (length metroFailureDomainPrefix) fdRef) (om_Namespace (ncl_Meta (Obj s))) = Inr metro"
    and bad: "n \<in> set (nmt_FailureDomains metro)" "\<And>h. Kube_GetFailureDomain (kr_kube r) h n (om_Namespace (nmt_Meta metro)) = Inl e"
  shows "fdRef \<in> fds_Name ` set (ncl_StatusFailureDomains (Obj s')) \<and> \<not> valid_ref r kx (Obj s) fdRef"
proof -
  from ref(1) have "ncl_ControlPlaneFailureDomains (Obj s) \<noteq> [] \<or> ncl_FailureDomains (Obj s) \<noteq> []" by auto
  then have "fdRef \<in> fds_Name ` set (ncl_StatusFailureDomains (Obj s'))"
    by (rule failure_domains_run [OF run]) (simp add: metro_checked_listed [OF metro ref(2) ref(1)])
  moreover have "\<not> valid_ref r kx (Obj s) fdRef"
    using ref(2) metro bad by (auto simp: valid_ref_def Let_def valid_fd_def intro!: bexI [OF _ bad(1)])
  ultimately show ?thesis ..
qed

lemma bad_metro_run: "fst (fds_run [''NutanixMetro/m2'']) = Inr ()"
  by code_simp

lemma unvalidated_metro_listed_witness:
  "''NutanixMetro/m2'' \<in> fds_Name ` set (ncl_StatusFailureDomains (Obj (snd (fds_run [''NutanixMetro/m2'']))))"
proof -
  obtain s' where r: "fds_run [''NutanixMetro/m2''] = (Inr (), s')" using bad_metro_run by (metis prod.collapse)
  from unvalidated_metro_listed [OF r [unfolded fds_run_def], of "''NutanixMetro/m2''" _ "''x''"]
  show ?thesis
    by (simp add: r metro_cluster_def sample_NutanixCluster_def demo_reconciler_def half_kube_def metroFailureDomainPrefix_def
        isNutanixMetroFailureDomain_def)
qed

section \<open>The virtual HA domains\<close>

text \<open>The domains a run creates, in order.\<close>

definition creations :: "call list \<Rightarrow> domain_view list" where
  "creations t = List.map_filter (\<lambda>c. case c of KCreate_domain v \<Rightarrow> Some v | _ \<Rightarrow> None) t"

lemma creations_append [simp]: "creations (t @ u) = creations t @ creations u"
  by (simp add: creations_def List.map_filter_def)

lemma creations_reads: "list_all is_read t \<Longrightarrow> creations t = []"
proof (induction t)
  case (Cons c t)
  then show ?case by (cases c) (simp_all add: creations_def List.map_filter_def)
qed (simp add: creations_def List.map_filter_def)

text \<open>The metro a failure domain stands for.\<close>

definition names_metro :: "cluster_reconciler \<Rightarrow> string \<Rightarrow> string \<Rightarrow> string \<Rightarrow> bool" where
  "names_metro r ns fd m \<longleftrightarrow>
     (if isNutanixMetroFailureDomain fd then m = drop (length metroFailureDomainPrefix) fd
      else isNutanixMetroSiteFailureDomain fd \<and>
        (\<exists>h site. Kube_GetMetroSite (kr_kube r) h (drop (length metroSiteFailureDomainPrefix) fd) ns = Inr site \<and> m = nms_MetroRef site))"

lemma addFromFD_names:
  "addFromFD r ns fd seen s = (Inr seen', s') \<Longrightarrow> distinct seen \<Longrightarrow>
     distinct seen' \<and> set seen \<subseteq> set seen' \<and> (\<not> plain_ref fd \<longrightarrow> (\<exists>m\<in>set seen'. names_metro r ns fd m)) \<and>
     (\<forall>m\<in>set seen'. m \<in> set seen \<or> names_metro r ns fd m)"
  by (auto simp: addFromFD_def names_metro_def plain_ref_def go_inv dest!: getObject_Inr split: if_splits) blast

lemma names_collected:
  "fold_go (addFromFD r ns) fds seen s = (Inr seen', s') \<Longrightarrow> distinct seen \<Longrightarrow>
     distinct seen' \<and> set seen \<subseteq> set seen' \<and> (\<forall>fd\<in>set fds. \<not> plain_ref fd \<longrightarrow> (\<exists>m\<in>set seen'. names_metro r ns fd m)) \<and>
     (\<forall>m\<in>set seen'. m \<in> set seen \<or> (\<exists>fd\<in>set fds. names_metro r ns fd m))"
proof (induction fds arbitrary: seen s)
  case (Cons fd fds)
  from Cons.prems(1) obtain seen1 s1 where a: "addFromFD r ns fd seen s = (Inr seen1, s1)"
    and k: "fold_go (addFromFD r ns) fds seen1 s1 = (Inr seen', s')" by (auto simp: bnd_Inr)
  from addFromFD_names [OF a Cons.prems(2)] Cons.IH [OF k] show ?case by (auto 4 3)
qed (simp add: ret_Inr)

text \<open>The API server returns the metro of the name that is asked for.\<close>

definition metros_by_name :: "kube_client \<Rightarrow> string \<Rightarrow> bool" where
  "metros_by_name k ns \<longleftrightarrow> (\<forall>h m metro. Kube_GetMetro k h m ns = Inr metro \<longrightarrow> om_Name (nmt_Meta metro) = m)"

lemma ensure_domain_run:
  assumes run: "ensure_domain r kx ncl ds m s = (Inr (), s')" and names: "metros_by_name (kr_kube r) (om_Namespace (ncl_Meta ncl))"
  shows "\<exists>t. s' = s\<lparr>trace := trace s @ t\<rparr> \<and> list_all (\<lambda>c. is_read c \<or> (\<exists>v. c = KCreate_domain v)) t \<and>
    creations t = (if \<exists>d\<in>set ds. vha_MetroRef d = m then [] else [view_domain (new_domain r kx ncl m)])"
proof -
  let ?ns = "om_Namespace (ncl_Meta ncl)"
  let ?reads = "bnd (getNutanixMetroObject (kr_kube r) m ?ns) (\<lambda>metro.
      thn (iter_go (\<lambda>fdRef. thn (getNutanixFailureDomainObject (kr_kube r) fdRef ?ns) (ret ())) (nmt_FailureDomains metro)) (ret metro))"
  have "moves (only_calls is_read) ?reads" by (intro only_rules getObject_only)
  moreover from run obtain metro s0 s1 u where g: "getNutanixMetroObject (kr_kube r) m ?ns s = (Inr metro, s0)"
    and i: "iter_go (\<lambda>fdRef. thn (getNutanixFailureDomainObject (kr_kube r) fdRef ?ns) (ret ())) (nmt_FailureDomains metro) s0 = (Inr u, s1)"
    and k: "(if list_ex (\<lambda>d. vha_MetroRef d = om_Name (nmt_Meta metro)) ds then ret ()
       else wrapping (\<lambda>e. Wrap (''failed to create the NutanixVirtualHADomain CR corresponding to metro '' @ dquote m @ '': '') e [])
            (ext (KCreate_domain (view_domain (new_domain r kx ncl m))) (\<lambda>h. kr_CreateVHADomain r h (new_domain r kx ncl m)))) s1 = (Inr (), s')"
    unfolding ensure_domain_def Let_def bnd_Inr thn_Inr [of "iter_go f xs" for f xs] by blast
  moreover from g i have r: "?reads s = (Inr metro, s1)" by (simp add: bnd_apply thn_apply ret_apply)
  ultimately have "only_calls is_read s s1" by (blast dest: movesD)
  then obtain t where t: "s1 = s\<lparr>trace := trace s @ t\<rparr>" "list_all is_read t" by (auto simp: only_calls_def)
  from g names have "om_Name (nmt_Meta metro) = m" by (auto simp: metros_by_name_def dest!: getObject_Inr)
  with k have k': "(if \<exists>d\<in>set ds. vha_MetroRef d = m then s' = s1
      else s' = s1\<lparr>trace := trace s1 @ [KCreate_domain (view_domain (new_domain r kx ncl m))]\<rparr>)"
    by (auto simp: list_ex_iff ret_Inr wrapping_Inr ext_Inr split: if_splits)
  from t(2) have a: "list_all (\<lambda>c. is_read c \<or> (\<exists>v. c = KCreate_domain v)) t" by (auto simp: list_all_iff)
  show ?thesis
  proof (cases "\<exists>d\<in>set ds. vha_MetroRef d = m")
    case True
    with k' t a creations_reads show ?thesis by auto
  next
    case False
    with k' t a creations_reads show ?thesis
      by (intro exI [of _ "t @ [KCreate_domain (view_domain (new_domain r kx ncl m))]"])
        (auto simp: creations_def List.map_filter_def)
  qed
qed

lemma ensure_domains_run:
  assumes "iter_go (ensure_domain r kx ncl ds) ms s = (Inr (), s')"
    "metros_by_name (kr_kube r) (om_Namespace (ncl_Meta ncl))"
  shows "\<exists>t. s' = s\<lparr>trace := trace s @ t\<rparr> \<and> list_all (\<lambda>c. is_read c \<or> (\<exists>v. c = KCreate_domain v)) t \<and>
      creations t = map (\<lambda>m. view_domain (new_domain r kx ncl m)) (filter (\<lambda>m. \<forall>d\<in>set ds. vha_MetroRef d \<noteq> m) ms)"
  using assms(1)
proof (induction ms arbitrary: s)
  case Nil
  then show ?case by (intro exI [of _ "[]"]) (simp add: ret_Inr creations_def List.map_filter_def)
next
  case (Cons m ms)
  from Cons.prems obtain s1 where e: "ensure_domain r kx ncl ds m s = (Inr (), s1)"
    and k: "iter_go (ensure_domain r kx ncl ds) ms s1 = (Inr (), s')" by (auto simp: thn_Inr)
  from ensure_domain_run [OF e assms(2)] Cons.IH [OF k] obtain t u where
    "s1 = s\<lparr>trace := trace s @ t\<rparr>" "list_all (\<lambda>c. is_read c \<or> (\<exists>v. c = KCreate_domain v)) t"
    "creations t = (if \<exists>d\<in>set ds. vha_MetroRef d = m then [] else [view_domain (new_domain r kx ncl m)])"
    "s' = s1\<lparr>trace := trace s1 @ u\<rparr>" "list_all (\<lambda>c. is_read c \<or> (\<exists>v. c = KCreate_domain v)) u"
    "creations u = map (\<lambda>m. view_domain (new_domain r kx ncl m)) (filter (\<lambda>m. \<forall>d\<in>set ds. vha_MetroRef d \<noteq> m) ms)" by blast
  then show ?case by (intro exI [of _ "t @ u"]) auto
qed

lemma addFromFD_only: "moves (only_calls is_read) (addFromFD r ns fd seen)"
  unfolding addFromFD_def by (intro only_rules getObject_only)

lemma metro_names_only: "moves (only_calls is_read) (collectClusterMetroNames r kx ncl)"
  unfolding collectClusterMetroNames_def Let_def by (intro only_rules addFromFD_only) simp

text \<open>The failure domains a cluster uses: its own and those of its MachineDeployments.\<close>

definition used_failure_domains :: "cluster_reconciler \<Rightarrow> cluster_ctx \<Rightarrow> NutanixCluster \<Rightarrow> string list \<Rightarrow> bool" where
  "used_failure_domains r kx ncl fds \<longleftrightarrow>
     (let ns = om_Namespace (ncl_Meta ncl); cn = clusterName kx ncl in
      if cn = [] then fds = ncl_ControlPlaneFailureDomains ncl
      else \<exists>h mds. kr_ListMachineDeployments r h ns [(ClusterNameLabel, cn)] = Inr mds \<and>
        fds = ncl_ControlPlaneFailureDomains ncl @ map md_FailureDomain mds)"

lemma collected_metros:
  assumes run: "collectClusterMetroNames r kx ncl s = (Inr ms, s')" and order: "\<And>xs. mset (kr_map_order r xs) = mset xs"
  shows "\<exists>fds. used_failure_domains r kx ncl fds \<and> distinct ms \<and>
    (\<forall>fd\<in>set fds. \<not> plain_ref fd \<longrightarrow> (\<exists>m\<in>set ms. names_metro r (om_Namespace (ncl_Meta ncl)) fd m)) \<and>
    (\<forall>m\<in>set ms. \<exists>fd\<in>set fds. names_metro r (om_Namespace (ncl_Meta ncl)) fd m)"
proof -
  let ?ns = "om_Namespace (ncl_Meta ncl)" and ?cn = "clusterName kx ncl"
  have m: "set (kr_map_order r xs) = set xs" "distinct (kr_map_order r xs) = distinct xs" for xs
    using order [of xs] by (metis set_mset_mset, metis mset_eq_imp_distinct_iff)
  let ?named = "\<lambda>fds seen. distinct seen \<and> (\<forall>fd\<in>set fds. \<not> plain_ref fd \<longrightarrow> (\<exists>m\<in>set seen. names_metro r ?ns fd m)) \<and>
    (\<forall>m\<in>set seen. \<exists>fd\<in>set fds. names_metro r ?ns fd m)"
  have "\<exists>fds seen. used_failure_domains r kx ncl fds \<and> ?named fds seen \<and> ms = kr_map_order r seen"
  proof (cases "?cn = []")
    case True
    with run obtain seen where c: "fold_go (addFromFD r ?ns) (ncl_ControlPlaneFailureDomains ncl) [] s = (Inr seen, s')"
      "ms = kr_map_order r seen"
      by (auto simp: collectClusterMetroNames_def Let_def bnd_Inr ret_Inr)
    with names_collected [OF c(1)] True show ?thesis
      by (intro exI [of _ "ncl_ControlPlaneFailureDomains ncl"] exI [of _ seen]) (simp add: used_failure_domains_def Let_def)
  next
    case False
    with run obtain seen s1 mds s2 seen' where
      c: "fold_go (addFromFD r ?ns) (ncl_ControlPlaneFailureDomains ncl) [] s = (Inr seen, s1)"
        "kr_ListMachineDeployments r (trace s1) ?ns [(ClusterNameLabel, ?cn)] = Inr mds"
        "fold_go (addFromFD r ?ns) (map md_FailureDomain mds) seen s2 = (Inr seen', s')" "ms = kr_map_order r seen'"
      by (auto simp: collectClusterMetroNames_def Let_def bnd_Inr ret_Inr ext_Inr)
    let ?fds = "ncl_ControlPlaneFailureDomains ncl @ map md_FailureDomain mds"
    have "used_failure_domains r kx ncl ?fds" using c(2) False by (auto simp: used_failure_domains_def Let_def)
    moreover have "?named ?fds seen'"
      using names_collected [OF c(1)] names_collected [OF c(3)] unfolding set_append by (simp add: ball_Un bex_Un) blast
    ultimately show ?thesis using c(4) by blast
  qed
  then obtain fds seen where "used_failure_domains r kx ncl fds" "?named fds seen" "ms = kr_map_order r seen" by blast
  then show ?thesis by (intro exI [of _ fds]) (simp add: m)
qed

text \<open>C14 The virtual HA domains of a cluster are complete and exact: for every metro that a failure domain
  of the control plane or of a MachineDeployment stands for, directly or through a site, a
  successful reconcile has found a domain the cluster owns or created the one with the names, the
  owner and the label of the cluster; it creates each once, no other, and only reads beside that,
  so that a reconcile after it, which finds them all, writes nothing.\<close>

theorem vha_domains_complete:
  assumes run: "reconcileVHADomains r kx ncl s = (Inr (), s')" and order: "\<And>xs. mset (kr_map_order r xs) = mset xs"
    and names: "metros_by_name (kr_kube r) (om_Namespace (ncl_Meta ncl))"
  shows "\<exists>fds ms ds t. used_failure_domains r kx ncl fds \<and> distinct ms \<and>
    (\<forall>fd\<in>set fds. \<not> plain_ref fd \<longrightarrow> (\<exists>m\<in>set ms. names_metro r (om_Namespace (ncl_Meta ncl)) fd m)) \<and>
    (\<forall>m\<in>set ms. \<exists>fd\<in>set fds. names_metro r (om_Namespace (ncl_Meta ncl)) fd m) \<and>
    (ms = [] \<or> (\<exists>h all. Kube_ListVHADomains (kr_kube r) h (om_Namespace (ncl_Meta ncl)) = Inr all \<and>
       ds = filter (\<lambda>d. list_ex (owned_by_cluster (kr_libs r) ncl) (om_OwnerReferences (vha_Meta d))) all)) \<and>
    s' = s\<lparr>trace := trace s @ t\<rparr> \<and> list_all (\<lambda>c. is_read c \<or> (\<exists>v. c = KCreate_domain v)) t \<and>
    creations t = map (\<lambda>m. view_domain (new_domain r kx ncl m)) (filter (\<lambda>m. \<forall>d\<in>set ds. vha_MetroRef d \<noteq> m) ms)"
proof -
  from run obtain ms s1 where c: "collectClusterMetroNames r kx ncl s = (Inr ms, s1)"
    and k: "(if ms = [] then ret () else bnd (getOwnedVHADomains (kr_libs r) (kr_kube r) ncl) (\<lambda>ds. iter_go (ensure_domain r kx ncl ds) ms)) s1 = (Inr (), s')"
    by (auto simp: reconcileVHADomains_def bnd_Inr)
  from movesD [OF metro_names_only c] obtain t1 where t1: "s1 = s\<lparr>trace := trace s @ t1\<rparr>" "list_all is_read t1" by (auto simp: only_calls_def)
  then have a1: "list_all (\<lambda>c. is_read c \<or> (\<exists>v. c = KCreate_domain v)) t1" by (auto simp: list_all_iff)
  from collected_metros [OF c order] obtain fds where fds: "used_failure_domains r kx ncl fds" "distinct ms"
    "\<forall>fd\<in>set fds. \<not> plain_ref fd \<longrightarrow> (\<exists>m\<in>set ms. names_metro r (om_Namespace (ncl_Meta ncl)) fd m)"
    "\<forall>m\<in>set ms. \<exists>fd\<in>set fds. names_metro r (om_Namespace (ncl_Meta ncl)) fd m" by blast
  show ?thesis
  proof (cases "ms = []")
    case True
    with k t1 a1 fds creations_reads show ?thesis
      by (intro exI [of _ fds] exI [of _ ms] exI [of _ "[]"] exI [of _ t1]) (simp add: ret_Inr)
  next
    case False
    with k obtain ds s2 where g: "getOwnedVHADomains (kr_libs r) (kr_kube r) ncl s1 = (Inr ds, s2)"
      and i: "iter_go (ensure_domain r kx ncl ds) ms s2 = (Inr (), s')" by (auto simp: bnd_Inr)
    from g obtain all where all: "Kube_ListVHADomains (kr_kube r) (trace s1) (om_Namespace (ncl_Meta ncl)) = Inr all"
      "ds = filter (\<lambda>d. list_ex (owned_by_cluster (kr_libs r) ncl) (om_OwnerReferences (vha_Meta d))) all"
      "s2 = s1\<lparr>trace := trace s1 @ [KList KVHADomain (om_Namespace (ncl_Meta ncl)) []]\<rparr>"
      by (auto simp: getOwnedVHADomains_def Let_def bnd_Inr ret_Inr ext_Inr)
    from ensure_domains_run [OF i names] obtain t2 where t2: "s' = s2\<lparr>trace := trace s2 @ t2\<rparr>"
      "list_all (\<lambda>c. is_read c \<or> (\<exists>v. c = KCreate_domain v)) t2"
      "creations t2 = map (\<lambda>m. view_domain (new_domain r kx ncl m)) (filter (\<lambda>m. \<forall>d\<in>set ds. vha_MetroRef d \<noteq> m) ms)" by blast
    let ?t = "t1 @ [KList KVHADomain (om_Namespace (ncl_Meta ncl)) []] @ t2"
    have "s' = s\<lparr>trace := trace s @ ?t\<rparr>" "creations ?t = creations t2" "list_all (\<lambda>c. is_read c \<or> (\<exists>v. c = KCreate_domain v)) ?t"
      using t1 t2 a1 all(3) creations_reads [OF t1(2)] by (simp_all add: creations_def List.map_filter_def)
    with fds all(1,2) t2(3) show ?thesis
      by (intro exI [of _ fds] exI [of _ ms] exI [of _ ds] exI [of _ ?t] conjI disjI2 exI [of _ "trace s1"] exI [of _ all]) simp_all
  qed
qed

text \<open>A metro used directly and through a site, and another one with a domain already.\<close>

definition two_metros_kube :: kube_client where
  "two_metros_kube = half_kube\<lparr>
     Kube_GetMetroSite := (\<lambda>h n ns. Inr \<lparr>nms_Meta = sample_meta n, nms_PreferredFailureDomain = ''a'', nms_MetroRef = ''m1'',
       nms_GroupNameLabel = None, nms_Conditions = []\<rparr>),
     Kube_ListVHADomains := (\<lambda>h ns. Inr [\<lparr>vha_Meta = (sample_meta ''d'')\<lparr>om_OwnerReferences := [cluster_owner_ref sample_NutanixCluster]\<rparr>,
       vha_MetroRef = ''m3'', vha_ProtectionPolicy = None, vha_MovementGroups = [], vha_Ready = True, vha_Conditions = []\<rparr>])\<rparr>"

definition two_metros :: NutanixCluster where
  "two_metros = metro_cluster [''NutanixMetroSite/s'', ''NutanixMetro/m3'', ''NutanixMetro/m1'']"

definition two_metros_run :: "(go_error + unit) \<times> world" where
  "two_metros_run = reconcileVHADomains (demo_reconciler two_metros_kube two_metros) \<lparr>kx_Cluster = None, kx_V4 = metro_client\<rparr> two_metros \<lparr>trace = []\<rparr>"

lemma two_metros_Inr: "fst two_metros_run = Inr ()"
  by code_simp

lemma vha_domains_complete_witness:
  "\<exists>ms (ds :: NutanixVirtualHADomain list). (\<exists>m\<in>set ms. names_metro (demo_reconciler two_metros_kube two_metros) ''ns'' ''NutanixMetro/m1'' m) \<and>
     creations (trace (snd two_metros_run)) = map (\<lambda>m. view_domain (new_domain (demo_reconciler two_metros_kube two_metros)
       \<lparr>kx_Cluster = None, kx_V4 = metro_client\<rparr> two_metros m)) (filter (\<lambda>m. \<forall>d\<in>set ds. vha_MetroRef d \<noteq> m) ms)"
proof -
  let ?r = "demo_reconciler two_metros_kube two_metros" and ?kx = "\<lparr>kx_Cluster = None, kx_V4 = metro_client\<rparr>"
  obtain s' where r: "two_metros_run = (Inr (), s')" using two_metros_Inr by (metis prod.collapse)
  have order: "mset (kr_map_order ?r xs) = mset xs" for xs by (simp add: demo_reconciler_def)
  have ns: "om_Namespace (ncl_Meta two_metros) = ''ns''"
    by (simp add: two_metros_def metro_cluster_def sample_NutanixCluster_def sample_meta_def)
  have names: "metros_by_name (kr_kube ?r) (om_Namespace (ncl_Meta two_metros))"
    by (auto simp: metros_by_name_def demo_reconciler_def two_metros_kube_def half_kube_def sample_meta_def)
  from vha_domains_complete [OF r [unfolded two_metros_run_def] order names, unfolded ns]
  obtain fds ms t and ds :: "NutanixVirtualHADomain list" where
    f: "used_failure_domains ?r ?kx two_metros fds" "\<forall>fd\<in>set fds. \<not> plain_ref fd \<longrightarrow> (\<exists>m\<in>set ms. names_metro ?r ''ns'' fd m)"
    "creations t = map (\<lambda>m. view_domain (new_domain ?r ?kx two_metros m)) (filter (\<lambda>m. \<forall>d\<in>set ds. vha_MetroRef d \<noteq> m) ms)"
    "trace s' = t"
    by (elim exE conjE) (rule that, assumption, assumption, assumption, simp)
  have "''NutanixMetro/m1'' \<in> set fds"
    using f(1) by (auto simp: used_failure_domains_def Let_def two_metros_def metro_cluster_def split: if_splits)
  moreover have "\<not> plain_ref ''NutanixMetro/m1''"
    by (simp add: plain_ref_def isNutanixMetroFailureDomain_def metroFailureDomainPrefix_def)
  ultimately have "\<exists>m\<in>set ms. names_metro ?r ''ns'' ''NutanixMetro/m1'' m" using f(2) by blast
  moreover have "creations (trace (snd two_metros_run)) = creations t" unfolding r snd_conv f(4) ..
  ultimately show ?thesis unfolding f(3) by blast
qed

end
