(* ===== verification/Machine_Props.thy ===== *)
theory Machine_Props
  imports Machine_Spec
begin

text \<open>
  The reconcile of a machine as a whole (machine_Reconcile, reconcileNormal and finish_vm of the
  theory Machine_Reconcile): what reaches the API server and when, what makes a machine ready, and
  which failures are final.
\<close>

section \<open>Calls that keep the finalizers of the API server\<close>

definition fin_call :: "call \<Rightarrow> bool" where
  "fin_call c \<longleftrightarrow> (\<forall>a b. c = KPatch_machine a b \<longrightarrow> mv_Finalizers a = mv_Finalizers b)"

lemma fin_calls:
  "steady c \<Longrightarrow> fin_call c" "makes_vm c \<Longrightarrow> fin_call c" "is_read c \<Longrightarrow> fin_call c" "is_prism_read c \<Longrightarrow> fin_call c"
  by (cases c; simp add: fin_call_def)+

text \<open>Only such calls, and the finalizers and the readiness of the machine in memory stay.\<close>

definition mild :: "'z machine_ctx_scheme \<Rightarrow> 'z machine_ctx_scheme \<Rightarrow> bool" where
  "mild s s' \<longleftrightarrow> adds_calls fin_call s s' \<and> om_Finalizers (nm_Meta (NM s')) = om_Finalizers (nm_Meta (NM s)) \<and>
     mst_Ready (nm_Status (NM s')) = mst_Ready (nm_Status (NM s))"

interpretation mild: state_order mild
  by unfold_locales (auto simp: mild_def adds.stay intro: adds.step)

lemma calm_mild: "calm steady s s' \<Longrightarrow> mild s s'"
  unfolding calm_def mild_def by (blast intro: adds_calls_mono fin_calls)

lemma mild_calm: "moves (calm firm) m \<Longrightarrow> moves mild m"
  by (simp add: moves_def calm_mild firm_steady)

lemmas mild_aux = mild_calm [OF aux_calm]

lemma mild_reads: "moves (only_calls is_prism_read) m \<Longrightarrow> moves mild m"
  by (rule mild_aux [OF reads_calm(2)])

lemma once_mild: "once makes_vm s s' \<Longrightarrow> mild s s'"
  unfolding once_def
proof (elim disjE exE conjE)
  fix s1 s2 c assume "calm firm s s1" "s2 = s1\<lparr>trace := trace s1 @ [c]\<rparr>" "makes_vm c" "calm firm s2 s'"
  moreover from this have "mild s1 s2" by (auto simp: mild_def adds_calls_def fin_calls)
  ultimately show "mild s s'" by (blast intro: mild.step calm_mild firm_steady)
qed (rule calm_mild [OF firm_steady])

lemma with_mild: "moves (once (makes_with r)) m \<Longrightarrow> moves mild m"
  by (drule once_mono [where C = makes_vm]) (auto simp: makes_with_def moves_def intro: once_mild)

lemma mint_mild: "moves mild (getOrMintVMCreationRequestID env)"
  unfolding moves_def
proof
  fix s obtain q s' where r: "getOrMintVMCreationRequestID env s = (q, s')" by force
  show "mild s (snd (getOrMintVMCreationRequestID env s))"
  proof (cases q)
    case (Inl e)
    with r show ?thesis using mint_Inl calm_mild by fastforce
  next
    case (Inr i)
    with r have "mild s s'"
      by (auto simp: mint_Inr mild_def adds_calls_def fin_call_def view_machine_def with_request_id_def)
    with r show ?thesis by simp
  qed
qed

lemma getOrCreateVM_mild: "moves mild (getOrCreateVM fuel env rctx p rg)"
proof -
  have m: "moves mild (create_missing_vm fuel env rctx n p rg)" for n
    unfolding create_missing_vm_def
    by (rule mild.bnd_moves [OF mint_mild with_mild [OF after_mint_once]])
  then show ?thesis
    unfolding getOrCreateVM_def Let_def
    by (intro mild.moves_rules mild_reads [OF FindVM_reads] mild_calm [OF calm_status(7)] m)
qed

section \<open>After the creation of the VM\<close>

lemma or_fail_mild: "moves mild m \<Longrightarrow> moves mild (or_fail rctx f m)"
  unfolding or_fail_def by (intro mild.handle_moves mild_calm [OF fail_calm(2)])

lemma addCustomAttributes_mild: "moves mild (addCustomAttributes rctx v)"
  unfolding addCustomAttributes_def Let_def
  by (intro mild.moves_rules or_fail_mild mild_calm [OF ext_calm]) simp

lemma powerOnVM_mild: "moves mild (powerOnVM rctx u n p)"
  unfolding powerOnVM_def or_power_fail_def
  by (intro mild.moves_rules mild_calm [OF fail_calm(2)] mild_calm [OF ext_calm] mild_reads FindVMByUUID_reads) simp_all

lemma assignAddresses_mild: "moves mild (assignAddressesToMachine rctx v)"
  unfolding assignAddressesToMachine_def Let_def
  by (intro mild.moves_rules mild_calm [OF calm_modify] mild_calm [OF calm_status(1)]) simp_all

text \<open>The checks and the patch that follow the synchronisation of the UUID.\<close>

definition check_and_patch :: "machine_env \<Rightarrow> rctx \<Rightarrow> vm \<Rightarrow> ('z create_ctx_scheme, unit) go" where
  "check_and_patch env rctx v =
     bnd (gets NM) (\<lambda>before. thn (checkFailureDomainStatus rctx) (thn (checkVHADomainCategory rctx v)
       (wrapping (\<lambda>e. Wrap (''failed to patch NutanixMachine '' @ om_Name (nm_Meta before) @ '' after creation: '') e [])
         (patchMachine env before))))"

definition ready_machine :: "rctx \<Rightarrow> string \<Rightarrow> vm \<Rightarrow> ('z create_ctx_scheme, result) go" where
  "ready_machine rctx name v =
     bnd (gets (\<lambda>s. mst_VmUUID (nm_Status (NM s)))) (\<lambda>vmUUID.
     thn (handle (assignAddressesToMachine rctx v)
           (\<lambda>err. thn (mark_failed VMAddressesAssignedCondition VMAddressesFailed SeverityError err)
              (raise (Wrap (''failed to assign addresses to VM '' @ name @ '' with UUID '' @ vmUUID @ '': '') err []))))
     (thn (mark_true VMAddressesAssignedCondition)
     (thn (update_status (\<lambda>st. st\<lparr>mst_Ready := True\<rparr>)) (ret done_result))))"

lemma group_patch: "bnd (gets f) (\<lambda>b. thn A (thn B (thn (P b) k))) = thn (bnd (gets f) (\<lambda>b. thn A (thn B (P b)))) k"
  by (simp add: fun_eq_iff bnd_apply thn_apply gets_apply split: prod.split sum.split)

lemma finish_vm_split:
  "finish_vm env rctx name p v =
     (case vm_ExtId v of
        None \<Rightarrow> raise (Leaf (''VM '' @ name @ '' returned from getOrCreateVM has a nil ExtId''))
      | Some u \<Rightarrow>
          thn (addCustomAttributes rctx v)
          (bnd (if vm_PowerState v \<noteq> Some PoweredOn then powerOnVM rctx u name p else ret (Some v)) (\<lambda>v_p.
           bnd (deref v_p) (\<lambda>v. bnd (deref (vm_ExtId v)) (\<lambda>u.
           thn (syncVmUUID env rctx u) (thn (check_and_patch env rctx v) (ready_machine rctx name v)))))))"
  unfolding finish_vm_def check_and_patch_def ready_machine_def group_patch by simp

lemma check_and_patch_mild: "moves mild (check_and_patch env rctx v)"
  unfolding check_and_patch_def
  by (intro mild_calm calm_from from_rules from_calm [OF aux_calm] checkFailureDomainStatus_calm checkVHADomainCategory_calm)

lemma mild_adds: "moves mild m \<Longrightarrow> moves (adds_calls fin_call) m"
  by (simp add: moves_def mild_def)

lemma reads_adds: "moves (only_calls is_prism_read) m \<Longrightarrow> moves (adds_calls fin_call) m"
  by (erule adds_mono [OF only_imp_adds]) (rule fin_calls(4))

lemma ready_machine_adds: "moves (adds_calls fin_call) (ready_machine rctx name v)"
  unfolding ready_machine_def by (intro adds.moves_rules updates_adds mild_adds [OF assignAddresses_mild])

lemma finish_vm_adds: "moves (adds_calls fin_call) (finish_vm env rctx name p v)"
  unfolding finish_vm_split
  by (intro adds.moves_rules mild_adds [OF addCustomAttributes_mild] mild_adds [OF powerOnVM_mild]
      mild_adds [OF mild_calm [OF syncVmUUID_calm]] mild_adds [OF check_and_patch_mild] ready_machine_adds)

section \<open>Before the creation of the VM\<close>

lemma project_mild: "moves mild (resolveEffectiveProject rctx)" "moves mild (validateProjectPolicy rctx p)"
  "moves mild (machine_resource_group rctx name p)"
  unfolding resolveEffectiveProject_def validateProjectPolicy_def project_violation_def machine_resource_group_def Let_def
  by (intro mild.moves_rules or_fail_mild mild_calm [OF calm_status(9)] mild_reads GetProject_reads GetDefaultProjectUUID_reads
      resolveResourceGroup_reads)+

lemma provision_adds: "moves (adds_calls fin_call) (provision fuel env rctx name)"
  unfolding provision_def Let_def
  by (intro adds.moves_rules finish_vm_adds mild_adds [OF getOrCreateVM_mild] mild_adds [OF project_mild(3)]
      mild_adds [OF or_fail_mild [OF project_mild(1)]] mild_adds [OF or_fail_mild [OF project_mild(2)]]
      mild_adds [OF mild_calm [OF ext_calm]]) simp

lemma ensureBootstrapRef_calm: "moves (calm A) (ensureBootstrapRef rctx)"
  unfolding ensureBootstrapRef_def by (intro calm_rules calm_update) simp_all

lemma reconcileNormal_adds: "moves (adds_calls fin_call) (reconcileNormal fuel env rctx)"
  unfolding reconcileNormal_def Let_def add_machine_finalizer_def
  by (intro adds.moves_rules updates_adds provision_adds mild_adds [OF mild_calm [OF syncVmUUID_calm]]
      mild_adds [OF mild_calm [OF ensureBootstrapRef_calm]] mild_adds [OF mild_calm [OF calm_status(8)]])

lemma reconcileDelete_adds: "moves (adds_calls fin_call) (reconcileDelete rctx)"
proof -
  have detach: "is_detach c \<Longrightarrow> fin_call c" for c by (cases c) (simp_all add: fin_call_def)
  have steps: "moves reads_step m \<Longrightarrow> moves (adds_calls fin_call) m" for m
    by (auto simp: moves_def reads_step_def intro: adds_calls_mono fin_calls)
  have d: "moves (adds_calls fin_call) (DeleteVM client n u)" for client n u
    unfolding DeleteVM_def by (intro adds.moves_rules ext_adds) (simp add: fin_call_def)
  show ?thesis
    unfolding reconcileDelete_def delete_after_search_def delete_found_vm_def delete_idle_vm_def remove_finalizers_def
      fail_deletion_def Let_def
    by (intro adds.moves_rules updates_adds steps [OF vmToDelete_steps] reads_adds [OF VmHasTaskInProgress_reads] d
        adds_mono [OF only_imp_adds [OF detachVolumeGroups_only] detach])
qed

section \<open>The order of the writes\<close>

lemma body_adds: "moves (adds_calls fin_call)
    (if om_Deleting (nm_Meta nm) then reconcileDelete rctx else reconcileNormal fuel env rctx)"
  by (simp add: reconcileDelete_adds reconcileNormal_adds)

lemma patched_at_end_calls:
  assumes "patched_at_end r nm body s = (q, s')" "q \<noteq> Inl NilDeref" "moves (adds_calls fin_call) body"
  shows "\<exists>u. trace s' = trace s @ u @ [KPatch_machine (view_machine nm) (view_machine (NM s'))] \<and> list_all fin_call u \<and>
    (me_Patch (mr_env r) (trace s @ u) nm (NM s') = Inr () \<or> (\<exists>e. q = Inl e))"
proof -
  obtain b t where b: "body s = (b, t)" by force
  from movesD [OF assms(3) b] obtain u where u: "trace t = trace s @ u" "list_all fin_call u"
    by (auto simp: adds_calls_def)
  have "b \<noteq> Inl NilDeref" using assms(1,2) b by (auto simp: patched_at_end_def go_eval)
  with assms(1,2) b u show ?thesis
    by (cases b) (auto simp: patched_at_end_def patch_call_def go_eval split: sum.splits if_splits)
qed

text \<open>What happens before the body of a reconcile runs.\<close>

lemma reconcile_owned_cases:
  assumes run: "reconcile_owned r nm machine cluster ncl s = (q, s')"
  shows "s' = s \<or> (\<exists>rctx u. rx_Machine rctx = Some machine \<and> trace u = trace s \<and> NM u = nm \<and>
     patched_at_end r nm (if om_Deleting (nm_Meta nm) then reconcileDelete rctx
          else reconcileNormal (mr_fuel r) (mr_env r) rctx) u = (q, s'))"
proof (cases "me_NewHelper (mr_env r) nm")
  case Inl
  with run show ?thesis by (simp add: reconcile_owned_def ret_apply)
next
  case (Inr x)
  obtain r3 ncl3 r4 ncl4 where c: "getPrismCentralClientForCluster (mr_client r) ncl = (r3, ncl3)"
    "getPrismCentralConvergedV4ClientForCluster (mr_client r) ncl3 = (r4, ncl4)" by (metis surj_pair)
  show ?thesis
  proof (cases "\<exists>v3 v4. r3 = Inr v3 \<and> r4 = Inr v4")
    case False
    with run Inr c show ?thesis
      by (cases r3; cases r4) (auto simp: reconcile_owned_def bnd_apply of_result_apply)
  next
    case True
    then obtain v3 v4 where v: "r3 = Inr v3" "r4 = Inr v4" by blast
    let ?rctx = "\<lparr>rx_libs = mr_libs r, rx_Cluster = cluster, rx_Machine = Some machine, rx_NutanixCluster = ncl4,
      rx_PCVersion = [], rx_ProjectPolicy = [], rx_V4 = v4, rx_V3 = Some v3, rx_kube = mr_kube r\<rparr>"
    let ?u = "s\<lparr>NM := nm, Datastore := Map.empty, NC_Conditions := ncl_Conditions ncl4, IP := []\<rparr>"
    from run Inr c v have "patched_at_end r nm (if om_Deleting (nm_Meta nm) then reconcileDelete ?rctx
          else reconcileNormal (mr_fuel r) (mr_env r) ?rctx) ?u = (q, s')"
      by (simp add: reconcile_owned_def bnd_apply of_result_apply thn_apply modify_apply Let_def)
    then show ?thesis by (intro disjI2 exI [of _ ?rctx] exI [of _ ?u]) simp
  qed
qed

lemma machine_Reconcile_cases:
  assumes run: "machine_Reconcile r ns name s = (q, s')"
  shows "(\<exists>t. s' = s\<lparr>trace := trace s @ t\<rparr> \<and> list_all is_read t) \<or>
    (\<exists>nm machine cluster ncl t. mr_Get r (trace s) name ns = Inr nm \<and> list_all is_read t \<and>
       reconcile_owned r nm machine cluster ncl (s\<lparr>trace := trace s @ t\<rparr>) = (q, s'))" (is "?P \<or> ?Q")
proof -
  define C where "C \<longleftrightarrow> ?P \<or> ?Q"
  have quiet: C if "s\<lparr>trace := trace s @ t\<rparr> = s'" "list_all is_read t" for t
    unfolding C_def using that by blast
  have body: C if "mr_Get r (trace s) name ns = Inr nm"
    "reconcile_owned r nm machine cluster ncl (s\<lparr>trace := trace s @ t\<rparr>) = (q, s')" "list_all is_read t"
    for nm machine cluster ncl t
    unfolding C_def using that by blast
  have C
    using run
    by (simp add: machine_Reconcile_def bnd_apply attempt_apply ext_apply Let_def ret_apply raise_apply
        split: sum.splits option.splits if_splits)
      ((elim conjE, rule quiet, assumption, simp) | (rule body, assumption, assumption, simp))+
  then show ?thesis unfolding C_def .
qed

text \<open>C10 A reconcile of a machine either only reads, or its last request is the patch of the machine
  with everything that changed in memory; no request before it changes the finalizers that the API
  server has, and when it fails the reconcile fails.  So the finalizer that reconcileNormal adds is
  stored only after the VM has been requested.\<close>

theorem finalizer_stored_last:
  assumes run: "machine_Reconcile r ns name s = (q, s')" and alive: "q \<noteq> Inl NilDeref"
  shows "\<exists>t. trace s' = trace s @ t \<and> (list_all is_read t \<or>
    (\<exists>nm u. mr_Get r (trace s) name ns = Inr nm \<and> t = u @ [KPatch_machine (view_machine nm) (view_machine (NM s'))] \<and>
       (\<forall>a b. KPatch_machine a b \<in> set u \<longrightarrow> mv_Finalizers a = mv_Finalizers b) \<and>
       (me_Patch (mr_env r) (trace s @ u) nm (NM s') = Inr () \<or> (\<exists>e. q = Inl e))))"
  using machine_Reconcile_cases [OF run]
proof (elim disjE exE conjE)
  fix nm machine cluster ncl t
  assume g: "mr_Get r (trace s) name ns = Inr nm" and t: "list_all is_read t"
    and o: "reconcile_owned r nm machine cluster ncl (s\<lparr>trace := trace s @ t\<rparr>) = (q, s')"
  from reconcile_owned_cases [OF o] show ?thesis
  proof (elim disjE exE conjE)
    fix rctx and w :: "'a create_ctx_scheme"
    assume w: "trace w = trace (s\<lparr>trace := trace s @ t\<rparr>)" "patched_at_end r nm (if om_Deleting (nm_Meta nm) then reconcileDelete rctx
          else reconcileNormal (mr_fuel r) (mr_env r) rctx) w = (q, s')"
    from patched_at_end_calls [OF w(2) alive body_adds] obtain v where v:
      "trace s' = trace s @ (t @ v) @ [KPatch_machine (view_machine nm) (view_machine (NM s'))]" "list_all fin_call v"
      "me_Patch (mr_env r) (trace s @ t @ v) nm (NM s') = Inr () \<or> (\<exists>e. q = Inl e)" using w(1) by auto
    have "fin_call c" if "c \<in> set (t @ v)" for c
      using that v(2) t by (auto simp: list_all_iff intro: fin_calls(3))
    then have "\<forall>a b. KPatch_machine a b \<in> set (t @ v) \<longrightarrow> mv_Finalizers a = mv_Finalizers b"
      unfolding fin_call_def by blast
    with v(3) g have "\<exists>nm' u. mr_Get r (trace s) name ns = Inr nm' \<and>
        (t @ v) @ [KPatch_machine (view_machine nm) (view_machine (NM s'))] = u @ [KPatch_machine (view_machine nm') (view_machine (NM s'))] \<and>
        (\<forall>a b. KPatch_machine a b \<in> set u \<longrightarrow> mv_Finalizers a = mv_Finalizers b) \<and>
        (me_Patch (mr_env r) (trace s @ u) nm' (NM s') = Inr () \<or> (\<exists>e. q = Inl e))"
      by (intro exI [of _ nm] exI [of _ "t @ v"]) simp
    with v(1) show ?thesis by blast
  qed (use t in auto)
qed auto

section \<open>A ready machine\<close>

definition is_ready :: "'z machine_ctx_scheme \<Rightarrow> bool" where
  "is_ready s \<longleftrightarrow> mst_Ready (nm_Status (NM s))"

lemma mild_ready: "moves mild m \<Longrightarrow> m s = (r, s') \<Longrightarrow> is_ready s' = is_ready s"
  by (drule (1) movesD) (simp add: mild_def is_ready_def)

text \<open>A machine that becomes ready does so after the first step of a sequence, which succeeds.\<close>

lemma late_bnd:
  assumes "moves mild m" "bnd m f s = (r, s')" "\<not> is_ready s" "is_ready s'"
  obtains x s1 where "m s = (Inr x, s1)" "f x s1 = (r, s')" "\<not> is_ready s1"
  using assms mild_ready [OF assms(1)] by (auto simp: bnd_apply split: prod.splits sum.splits)

lemma late_thn:
  assumes "moves mild m" "thn m k s = (r, s')" "\<not> is_ready s" "is_ready s'"
  obtains x s1 where "m s = (Inr x, s1)" "k s1 = (r, s')" "\<not> is_ready s1"
  using late_bnd [OF assms(1) _ assms(3,4), of "\<lambda>_. k"] assms(2) unfolding thn_def by blast

text \<open>Steps that keep the UUID of the VM.\<close>

definition same_uuid :: "'z machine_ctx_scheme \<Rightarrow> 'z machine_ctx_scheme \<Rightarrow> bool" where
  "same_uuid s s' \<longleftrightarrow> mst_VmUUID (nm_Status (NM s')) = mst_VmUUID (nm_Status (NM s))"

interpretation uuid: state_order same_uuid
  by unfold_locales (auto simp: same_uuid_def)

lemma only_uuid: "moves (only_calls A) m \<Longrightarrow> moves same_uuid m"
  using only_same [of A m] by (auto simp: moves_def same_machine_def same_uuid_def)

lemma uuid_updates:
  "moves same_uuid (conditions ops)" "moves same_uuid (update_meta f)" "moves same_uuid (set_failure_domain fd)"
  "moves same_uuid (setNutanixMachineAnnotation k v)" "(\<And>s. NM (g s) = NM s) \<Longrightarrow> moves same_uuid (modify g)"
  by (simp_all add: moves_def machine_update_defs set_failure_domain_def update_NM_apply modify_apply same_uuid_def)

lemma place_metro_uuid: "moves same_uuid (place_metro rctx n fd rest fds)"
  unfolding place_metro_def storeMetroPlacementSelection_def setMetroRecoveryPlacementStatus_def Let_def
  by (intro uuid.moves_rules uuid_updates only_uuid [OF resolvePlacement_only] only_uuid [OF validateFailureDomainSpec_only])
    simp_all

lemma getFailureDomainSpec_uuid: "moves same_uuid (getFailureDomainSpec rctx fd)"
  unfolding getFailureDomainSpec_def getMetroFailureDomainSpec_def getMetroSiteFailureDomainSpec_def place_metrosite_def
    native_label_def storeMetroPlacementSelection_def Let_def
  by (intro uuid.moves_rules place_metro_uuid uuid_updates only_uuid [OF fetch_only] only_uuid [OF compute_only]
      only_uuid [OF getObject_only(2)] only_uuid [OF getObject_only(3)] only_uuid [OF ext_only]; simp)

lemma check_and_patch_uuid: "moves same_uuid (check_and_patch env rctx v)"
  unfolding check_and_patch_def checkFailureDomainStatus_def checkFailureDomainSubnets_def checkVHADomainCategory_def
    countVMVHADomainCategories_def patchMachine_def patch_call_def Let_def
  by (intro uuid.moves_rules getFailureDomainSpec_uuid uuid_updates only_uuid [OF metroSubnetsMatch_reads]
      only_uuid [OF clusterVHADomainCategoryExtIds_only] only_uuid [OF ext_only]; simp?)

text \<open>What a ready machine says of its VM.\<close>

definition describes_vm :: "rctx \<Rightarrow> vm \<Rightarrow> string \<Rightarrow> 'z create_ctx_scheme \<Rightarrow> bool" where
  "describes_vm rctx v u s \<longleftrightarrow>
     (\<exists>n. vm_Name v = Some n \<and> concat (map getAddressesFromNic (vm_Nics v)) \<noteq> [] \<and>
        mst_Addresses (nm_Status (NM s)) = concat (map getAddressesFromNic (vm_Nics v)) @ [(MachineHostName, n)] \<and>
        IP s = snd (hd (concat (map getAddressesFromNic (vm_Nics v)))) \<and>
        mst_VmUUID (nm_Status (NM s)) = u)"

lemma ready_machine_describes:
  assumes "ready_machine rctx name v s = (r, s')" "\<not> is_ready s" "is_ready s'"
  shows "r = Inr done_result \<and> describes_vm rctx v (mst_VmUUID (nm_Status (NM s))) s'"
  using assms
  by (auto simp: ready_machine_def assignAddressesToMachine_def describes_vm_def is_ready_def machine_update_defs update_NM_apply
      go_eval Let_def split: if_splits option.splits)

lemma syncVmUUID_sets:
  "syncVmUUID env rctx u s = (Inr (), s') \<Longrightarrow> mst_VmUUID (nm_Status (NM s')) = target_uuid rctx u"
  by (cases "mst_VmUUID (nm_Status (NM s)) = target_uuid rctx u")
    (auto simp: syncVmUUID_def patchMachine_def patch_call_def machine_update_defs update_NM_eq go_inv go_cases Let_def)

text \<open>The power-on of the VM k was requested, its task has ended, and w is the VM fetched then.\<close>

definition powered_on :: "rctx \<Rightarrow> string \<Rightarrow> vm \<Rightarrow> bool" where
  "powered_on rctx k w \<longleftrightarrow> (\<exists>h task h' x h''. VMs_PowerOnVM (rx_V4 rctx) h k = Inr task \<and> op_Wait task h' = Inr x \<and>
     VMs_Get (rx_V4 rctx) h'' k = Inr (Some w))"

lemma powerOnVM_Some: "powerOnVM rctx k n p s = (Inr (Some w), s') \<Longrightarrow> powered_on rctx k w"
  by (auto simp: powerOnVM_def or_power_fail_def fail_machine_def powered_on_def go_inv raise_Inr thn_Inr dest!: FindVMByUUID_Some)

text \<open>The machine is made ready by finish_vm only, from the VM that was found or created.\<close>

lemma finish_vm_ready:
  assumes run: "finish_vm env rctx name p v s = (r, s')" and "\<not> is_ready s" "is_ready s'"
  shows "\<exists>w u. r = Inr done_result \<and> vm_ExtId w = Some u \<and> describes_vm rctx w (target_uuid rctx u) s' \<and>
    (w = v \<and> vm_PowerState v = Some PoweredOn \<or>
     (\<exists>k. vm_ExtId v = Some k \<and> powered_on rctx k w))"
proof -
  obtain k where k: "vm_ExtId v = Some k"
    using assms by (cases "vm_ExtId v") (auto simp: finish_vm_split raise_apply)
  let ?power = "if vm_PowerState v \<noteq> Some PoweredOn then powerOnVM rctx k name p else ret (Some v)"
  have pm: "moves mild ?power" by (intro mild.moves_rules powerOnVM_mild)
  from run k obtain s1 where "bnd ?power (\<lambda>v_p. bnd (deref v_p) (\<lambda>v. bnd (deref (vm_ExtId v)) (\<lambda>u.
      thn (syncVmUUID env rctx u) (thn (check_and_patch env rctx v) (ready_machine rctx name v))))) s1 = (r, s')" "\<not> is_ready s1"
    unfolding finish_vm_split by (simp, elim late_thn [OF addCustomAttributes_mild _ assms(2,3)])
  from late_bnd [OF pm this assms(3)] obtain w_p t where p: "?power s1 = (Inr w_p, t)" "\<not> is_ready t" and
    q: "bnd (deref w_p) (\<lambda>v. bnd (deref (vm_ExtId v)) (\<lambda>u.
      thn (syncVmUUID env rctx u) (thn (check_and_patch env rctx v) (ready_machine rctx name v)))) t = (r, s')" by blast
  from late_bnd [OF mild.deref_moves q p(2) assms(3)] obtain w where w: "w_p = Some w" and
    q: "bnd (deref (vm_ExtId w)) (\<lambda>u.
      thn (syncVmUUID env rctx u) (thn (check_and_patch env rctx w) (ready_machine rctx name w))) t = (r, s')"
    by (auto simp: deref_Inr)
  from late_bnd [OF mild.deref_moves q p(2) assms(3)] obtain u where u: "vm_ExtId w = Some u" and
    q: "thn (syncVmUUID env rctx u) (thn (check_and_patch env rctx w) (ready_machine rctx name w)) t = (r, s')"
    by (auto simp: deref_Inr)
  from late_thn [OF mild_calm [OF syncVmUUID_calm] q p(2) assms(3)] obtain x t2 where
    y: "syncVmUUID env rctx u t = (Inr x, t2)" "\<not> is_ready t2" and
    q: "thn (check_and_patch env rctx w) (ready_machine rctx name w) t2 = (r, s')" .
  from late_thn [OF check_and_patch_mild q y(2) assms(3)] obtain z t3 where
    c: "check_and_patch env rctx w t2 = (Inr z, t3)" "\<not> is_ready t3" and q: "ready_machine rctx name w t3 = (r, s')" .
  have "mst_VmUUID (nm_Status (NM t3)) = target_uuid rctx u"
    using movesD [OF check_and_patch_uuid c(1)] syncVmUUID_sets [of env rctx u t t2] y(1) by (simp add: same_uuid_def)
  with ready_machine_describes [OF q c(2) assms(3)] have d: "r = Inr done_result" "describes_vm rctx w (target_uuid rctx u) s'"
    by auto
  from p(1) w have "w = v \<and> vm_PowerState v = Some PoweredOn \<or> powered_on rctx k w"
    by (auto simp: ret_apply split: if_split_asm dest: powerOnVM_Some)
  with d u k show ?thesis by blast
qed

text \<open>Q holds of the result and the state of every run of m that makes the machine ready.\<close>

definition gets_ready ::
  "(go_error + 'a \<Rightarrow> 'z machine_ctx_scheme \<Rightarrow> bool) \<Rightarrow> ('z machine_ctx_scheme, 'a) go \<Rightarrow> bool" where
  "gets_ready Q m \<longleftrightarrow> (\<forall>s r s'. m s = (r, s') \<longrightarrow> \<not> is_ready s \<longrightarrow> is_ready s' \<longrightarrow> Q r s')"

lemma gets_ready_bnd: "moves mild m \<Longrightarrow> (\<And>x. gets_ready Q (f x)) \<Longrightarrow> gets_ready Q (bnd m f)"
  unfolding gets_ready_def by (meson late_bnd)

lemma gets_ready_thn: "moves mild m \<Longrightarrow> gets_ready Q k \<Longrightarrow> gets_ready Q (thn m k)"
  unfolding thn_def by (rule gets_ready_bnd)

lemma gets_ready_never: "moves mild m \<Longrightarrow> gets_ready Q m"
  unfolding gets_ready_def by (metis mild_ready)

lemma gets_ready_if: "(b \<Longrightarrow> gets_ready Q m) \<Longrightarrow> (\<not> b \<Longrightarrow> gets_ready Q k) \<Longrightarrow> gets_ready Q (if b then m else k)"
  by simp

definition of_running_vm :: "rctx \<Rightarrow> go_error + result \<Rightarrow> 'z create_ctx_scheme \<Rightarrow> bool" where
  "of_running_vm rctx r s \<longleftrightarrow> r = Inr done_result \<and>
     (\<exists>w u. vm_ExtId w = Some u \<and> describes_vm rctx w (target_uuid rctx u) s \<and>
        (vm_PowerState w = Some PoweredOn \<or> (\<exists>k. powered_on rctx k w)))"

lemma of_running_vm_version:
  "of_running_vm (rctx\<lparr>rx_PCVersion := v, rx_ProjectPolicy := p\<rparr>) = of_running_vm rctx"
proof (intro ext)
  let ?rctx = "rctx\<lparr>rx_PCVersion := v, rx_ProjectPolicy := p\<rparr>"
  have "target_uuid ?rctx = target_uuid rctx" by (auto simp: fun_eq_iff target_uuid_def split: option.split)
  then show "of_running_vm ?rctx r s = of_running_vm rctx r s" for r s
    by (simp add: of_running_vm_def describes_vm_def powered_on_def)
qed

lemma finish_gets_ready: "gets_ready (of_running_vm rctx) (finish_vm env rctx name p v)"
  unfolding gets_ready_def of_running_vm_def using finish_vm_ready by blast

lemma provision_gets_ready: "gets_ready (of_running_vm rctx) (provision fuel env rctx name)"
  unfolding provision_def Let_def
  by (intro gets_ready_bnd gets_ready_thn or_fail_mild project_mild getOrCreateVM_mild mild.moves_rules mild_calm [OF ext_calm]
      finish_gets_ready [of "rctx\<lparr>rx_PCVersion := _, rx_ProjectPolicy := _\<rparr>", unfolded of_running_vm_version]) simp

lemma not_provisioned_mild: "moves mild (thn (not_provisioned reason) (ret x))"
  by (intro mild.thn_moves mild_calm [OF calm_status(8)] mild.ret_moves)

lemma add_machine_finalizer_run:
  "\<exists>s1. add_machine_finalizer L s = (Inr (), s1) \<and> nm_Spec (NM s1) = nm_Spec (NM s) \<and> nm_Status (NM s1) = nm_Status (NM s)"
  by (simp add: add_machine_finalizer_def machine_update_defs update_NM_apply)


text \<open>The VM of the machine is there and runs.\<close>

definition found_rctx :: rctx where
  "found_rctx = sample_rctx (create_client\<lparr>VMs_List := (\<lambda>h f. Inr [made_vm]), VMs_Get := (\<lambda>h u. Inr (Some made_vm))\<rparr>)"


text \<open>The reconciler of a cluster whose endpoint is in a file of the manager.\<close>

definition demo_machine_reconciler :: machine_reconciler where
  "demo_machine_reconciler = \<lparr>mr_libs = demo_libs, mr_kube = base_kube_client,
     mr_client = \<lparr>env_ReadFile = (\<lambda>f. Inr []),
       env_Unmarshal = (\<lambda>c. Inr \<lparr>pe_Address = ''pc'', pe_Port = 9440, pe_CredentialRef = Some \<lparr>cr_Kind = SecretKind,
         cr_Name = ''s'', cr_Namespace = ''ns''\<rparr>, pe_AdditionalTrustBundle = None\<rparr>),
       env_Getenv = (\<lambda>v. []), env_GetManagementEndpoint = (\<lambda>ps. Inr (ManagementEndpoint (hd ps))),
       env_V3Cache = (\<lambda>k e. Inr base_v3_client), env_ConvergedCache = (\<lambda>k e. Inr create_client)\<rparr>,
     mr_env = demo_env, mr_fuel = 3, mr_Get = (\<lambda>h n ns. Inr (NM create_state)), mr_IsNotFound = (\<lambda>e. False),
     mr_GetOwnerMachine = (\<lambda>h m. Inr (Some (sample_Machine ''m'' []))), mr_GetClusterFromMetadata = (\<lambda>h m. Inr sample_Cluster),
     mr_IsPaused = (\<lambda>c m. False), mr_GetNutanixCluster = (\<lambda>h n ns. Inr sample_NutanixCluster),
     mr_GetOwnerCluster = (\<lambda>h m. Inr None), mr_ListMachines = (\<lambda>h ns l. Inr []), mr_NewAggregate = Join_err\<rparr>"

lemma demo_run:
  obtains x s' v where "machine_Reconcile demo_machine_reconciler ''ns'' ''m'' create_state = (Inr x, s')"
    "PCreate_vm ''r-6'' v \<in> set (trace s')" "om_Finalizers (nm_Meta (NM s')) = [NutanixMachineFinalizer]"
proof -
  let ?c = "\<lambda>c. case c of PCreate_vm r v \<Rightarrow> r = ''r-6'' | _ \<Rightarrow> False"
  have "(case machine_Reconcile demo_machine_reconciler ''ns'' ''m'' create_state of (r, s') \<Rightarrow>
    (case r of Inl e \<Rightarrow> False | Inr x \<Rightarrow> True) \<and> list_ex ?c (trace s') \<and>
    om_Finalizers (nm_Meta (NM s')) = [NutanixMachineFinalizer])" by code_simp
  then obtain x s' where run: "machine_Reconcile demo_machine_reconciler ''ns'' ''m'' create_state = (Inr x, s')"
    "list_ex ?c (trace s')" "om_Finalizers (nm_Meta (NM s')) = [NutanixMachineFinalizer]"
    by (cases "machine_Reconcile demo_machine_reconciler ''ns'' ''m'' create_state") (auto split: sum.splits)
  then obtain c where "c \<in> set (trace s')" "?c c" unfolding list_ex_iff by auto
  then obtain v where "PCreate_vm ''r-6'' v \<in> set (trace s')" by (auto split: call.splits)
  with run(1,3) that show thesis by blast
qed

lemma finalizer_stored_last_witness:
  "\<exists>u v q w. trace (snd (machine_Reconcile demo_machine_reconciler ''ns'' ''m'' create_state)) = u @ [KPatch_machine v w] \<and>
     PCreate_vm ''r-6'' q \<in> set u \<and> mv_Finalizers w = [NutanixMachineFinalizer] \<and>
     (\<forall>a b. KPatch_machine a b \<in> set u \<longrightarrow> mv_Finalizers a = mv_Finalizers b)"
proof -
  obtain x s' v where run: "machine_Reconcile demo_machine_reconciler ''ns'' ''m'' create_state = (Inr x, s')"
    and v: "PCreate_vm ''r-6'' v \<in> set (trace s')" "om_Finalizers (nm_Meta (NM s')) = [NutanixMachineFinalizer]"
    by (rule demo_run)
  have n: "trace create_state = []" by (simp add: create_state_def)
  from finalizer_stored_last [OF run, unfolded n append_Nil] v(1) obtain u a where
    "trace s' = u @ [KPatch_machine a (view_machine (NM s'))]"
    "\<forall>a b. KPatch_machine a b \<in> set u \<longrightarrow> mv_Finalizers a = mv_Finalizers b" by (auto simp: list_all_iff)
  with v run show ?thesis by (auto simp: view_machine_def)
qed

section \<open>Failures that are final\<close>

text \<open>C34 The validation of the configuration and the lookup of the Prism Element and the subnets fail the
  machine for good whatever the error is, one that is worth a retry included; and a machine that
  failed is never looked at again by reconcileNormal.\<close>

theorem lookup_failure_final:
  assumes mint: "getOrMintVMCreationRequestID env s = (Inr rid, s1)" and "e \<noteq> NilDeref"
    and "validateMachineConfig env rctx p rg s1 = (Inl e, s2) \<or>
      (\<exists>t. validateMachineConfig env rctx p rg s1 = (Inr (), t) \<and> GetSubnetAndPEUUIDs rctx p rg t = (Inl e, s2))"
  shows "\<exists>s'. create_missing_vm fuel env rctx n p rg s = (Inl e, s') \<and>
    mst_FailureReason (nm_Status (NM s')) = Some createErrorFailureReason \<and>
    (\<forall>(t :: create_ctx) fuel' env' rctx'. nm_Status (NM t) = nm_Status (NM s') \<longrightarrow>
       reconcileNormal fuel' env' rctx' t = (Inr done_result, t))"
proof -
  have "create_missing_vm fuel env rctx n p rg s = (Inl e, snd (SetFailureStatus createErrorFailureReason e s2))"
    using assms by (auto simp: create_missing_vm_def bnd_apply thn_apply handle_apply fail_for_good_def machine_update_defs
        update_NM_apply raise_apply)
  then show ?thesis
    by (auto simp: machine_update_defs update_NM_apply reconcileNormal_def bnd_apply gets_apply ret_apply)
qed

text \<open>A Prism Central that limits the rate of the lookup of clusters.\<close>

definition limited_client :: v4_client where
  "limited_client = create_client\<lparr>IsRateLimit := (\<lambda>e. True), Clusters_List := (\<lambda>h f. Inl (Lib_error ''429'' True))\<rparr>"

lemma lookup_failure_final_witness:
  "\<exists>e s'. isRetryableAPIError limited_client e \<and>
     create_missing_vm 3 demo_env (sample_rctx limited_client) ''m'' None None create_state = (Inl e, s') \<and>
     reconcileNormal 3 demo_env create_rctx s' = (Inr done_result, s')"
proof -
  let ?rctx = "sample_rctx limited_client"
  let ?v = "\<lambda>s. validateMachineConfig demo_env ?rctx None None s"
  obtain q s1 where m: "getOrMintVMCreationRequestID demo_env create_state = (q, s1)" by force
  obtain w t where v: "?v s1 = (w, t)" by force
  obtain g s2 where gs: "GetSubnetAndPEUUIDs ?rctx None None t = (g, s2)" by force
  have "(case getOrMintVMCreationRequestID demo_env create_state of (Inr rid, s1) \<Rightarrow> (case ?v s1 of (Inr _, t) \<Rightarrow>
      (case fst (GetSubnetAndPEUUIDs ?rctx None None t) of Inl e \<Rightarrow> isRetryableAPIError limited_client e \<and> e \<noteq> NilDeref | Inr _ \<Rightarrow> False)
      | _ \<Rightarrow> False) | _ \<Rightarrow> False)" by code_simp
  with m v gs obtain rid e where r: "q = Inr rid" "w = Inr ()" "g = Inl e" "isRetryableAPIError limited_client e" "e \<noteq> NilDeref"
    by (auto split: sum.splits)
  from lookup_failure_final [OF m [unfolded r] r(5), of ?rctx None None s2 3 "''m''"] v gs r show ?thesis by auto
qed

end
