(* ===== verification/Machine_Life.thy ===== *)
theory Machine_Life
  imports Machine_Props
begin

text \<open>
  The life of a machine: reconciles of one NutanixMachine one after the other (machine_Reconcile),
  each possibly cut off by a stop of the process after any of its requests.  The API server keeps
  the request identifier of the last patch it accepted.  What is shown is that all requests for a
  VM carry the same identifier as long as a reconcile reads the object as it is stored; and what
  happens when the read is older than the last patch.
\<close>

section \<open>What the API server stores\<close>

text \<open>The identifier stored after the calls cs, made after the calls h, when ok says which patches
  the server accepts.  A merge patch sends only what changed.\<close>

fun stored :: "(call list \<Rightarrow> machine_view \<Rightarrow> machine_view \<Rightarrow> bool) \<Rightarrow> call list \<Rightarrow> string \<Rightarrow> call list \<Rightarrow> string" where
  "stored ok h rid [] = rid"
| "stored ok h rid (KPatch_machine a b # cs) =
     stored ok (h @ [KPatch_machine a b]) (if ok h a b \<and> mv_RequestID b \<noteq> mv_RequestID a then mv_RequestID b else rid) cs"
| "stored ok h rid (c # cs) = stored ok (h @ [c]) rid cs"

lemma stored_append: "stored ok h rid (t @ u) = stored ok (h @ t) (stored ok h rid t) u"
  by (induction ok h rid t rule: stored.induct) simp_all

text \<open>A patch that is answered with success was accepted.\<close>

definition accepts :: "machine_env \<Rightarrow> (call list \<Rightarrow> machine_view \<Rightarrow> machine_view \<Rightarrow> bool) \<Rightarrow> bool" where
  "accepts env ok \<longleftrightarrow> (\<forall>h a b. me_Patch env h a b = Inr () \<longrightarrow> ok h (view_machine a) (view_machine b))"

definition fresh_uuids :: "machine_env \<Rightarrow> bool" where
  "fresh_uuids env \<longleftrightarrow> (\<forall>h. me_NewUUID env h \<noteq> [])"

text \<open>The identifiers of the requests for a VM.\<close>

definition requested :: "call list \<Rightarrow> string set" where
  "requested t = {q. \<exists>v. PCreate_vm q v \<in> set t}"

lemma requested_simps [simp]:
  "requested [] = {}" "requested (t @ u) = requested t \<union> requested u"
  "requested (PCreate_vm q v # t) = insert q (requested t)" "requested (KPatch_machine a b # t) = requested t"
  by (auto simp: requested_def)

text \<open>At every point of the calls t the requests made carry the identifier that is stored, and a
  stored identifier stays.\<close>

definition keyed :: "(call list \<Rightarrow> machine_view \<Rightarrow> machine_view \<Rightarrow> bool) \<Rightarrow> call list \<Rightarrow> string \<Rightarrow> call list \<Rightarrow> bool" where
  "keyed ok h rid t \<longleftrightarrow> (\<forall>u v. t = u @ v \<longrightarrow> requested u \<subseteq> {stored ok h rid u} - {[]} \<and>
     (rid \<noteq> [] \<longrightarrow> stored ok h rid u = rid))"

lemma keyed_append:
  assumes "keyed ok h rid t" "keyed ok (h @ t) (stored ok h rid t) u"
  shows "keyed ok h rid (t @ u)"
  unfolding keyed_def
proof (intro allI impI)
  fix x y assume "t @ u = x @ y"
  then consider w where "t = x @ w" | w where "x = t @ w" "u = w @ y" by (auto simp: append_eq_append_conv2)
  then show "requested x \<subseteq> {stored ok h rid x} - {[]} \<and> (rid \<noteq> [] \<longrightarrow> stored ok h rid x = rid)"
  proof cases
    case 1
    with assms(1) show ?thesis by (auto simp: keyed_def)
  next
    case 2
    let ?s = "stored ok h rid t"
    from assms(1) have t: "requested t \<subseteq> {?s} - {[]}" "rid \<noteq> [] \<longrightarrow> ?s = rid" by (auto simp: keyed_def)
    from assms(2) 2(2) have w: "requested w \<subseteq> {stored ok (h @ t) ?s w} - {[]}" "?s \<noteq> [] \<longrightarrow> stored ok (h @ t) ?s w = ?s"
      by (auto simp: keyed_def)
    have s: "stored ok h rid x = stored ok (h @ t) ?s w" by (simp add: 2(1) stored_append)
    have "requested x = requested t \<union> requested w" by (simp add: 2(1))
    with t w show ?thesis unfolding s by auto
  qed
qed

text \<open>Calls that leave the identifier i and use it.\<close>

definition uses_id :: "string \<Rightarrow> call \<Rightarrow> bool" where
  "uses_id i c \<longleftrightarrow> (\<forall>a b. c = KPatch_machine a b \<longrightarrow> mv_RequestID a = mv_RequestID b) \<and>
     (\<forall>q v. c = PCreate_vm q v \<longrightarrow> q = i \<and> i \<noteq> [])"

lemma uses_id_stored: "list_all (uses_id i) t \<Longrightarrow> stored ok h rid t = rid"
  by (induction ok h rid t rule: stored.induct) (simp_all add: uses_id_def)

lemma uses_id_keyed: "list_all (uses_id i) t \<Longrightarrow> i = [] \<or> i = rid \<Longrightarrow> keyed ok h rid t"
  unfolding keyed_def
proof (intro allI impI)
  fix u v assume h: "list_all (uses_id i) t" "i = [] \<or> i = rid" "t = u @ v"
  then have u: "list_all (uses_id i) u" by simp
  then have "requested u \<subseteq> {i} - {[]}" by (auto simp: requested_def list_all_iff uses_id_def)
  with uses_id_stored [OF u] h(2) show "requested u \<subseteq> {stored ok h rid u} - {[]} \<and> (rid \<noteq> [] \<longrightarrow> stored ok h rid u = rid)"
    by auto
qed

lemma patch_keyed: "rid = [] \<or> mv_RequestID b \<in> {mv_RequestID a, rid} \<Longrightarrow> keyed ok h rid [KPatch_machine a b]"
  unfolding keyed_def by (auto simp: append_eq_Cons_conv Cons_eq_append_conv)

section \<open>Steps that use one identifier\<close>

definition regular :: "'z machine_ctx_scheme \<Rightarrow> 'z machine_ctx_scheme \<Rightarrow> bool" where
  "regular s s' \<longleftrightarrow> request_id (NM s') = request_id (NM s) \<and> adds_calls (uses_id (request_id (NM s))) s s'"

interpretation regular: state_order regular
  by unfold_locales (auto simp: regular_def adds.stay intro: adds.step)

lemma firm_uses: "firm c \<Longrightarrow> uses_id i c"
  by (cases c) (simp_all add: uses_id_def)

lemma calm_regular: "calm firm s s' \<Longrightarrow> regular s s'"
  unfolding calm_def regular_def by (blast intro: adds_calls_mono firm_uses)

lemma regular_calm: "moves (calm firm) m \<Longrightarrow> moves regular m"
  by (simp add: moves_def calm_regular)

lemmas regular_aux = regular_calm [OF aux_calm]
lemmas regular_reads = regular_aux [OF reads_calm(2)]

text \<open>At most one request for a VM, with the identifier of the machine.\<close>

lemma once_regular:
  assumes "once (makes_with (request_id (NM s))) s s'" "request_id (NM s) \<noteq> []"
  shows "regular s s'"
  using assms(1) unfolding once_def
proof (elim disjE exE conjE)
  fix s1 s2 c
  assume h: "calm firm s s1" "s2 = s1\<lparr>trace := trace s1 @ [c]\<rparr>" "makes_with (request_id (NM s)) c" "calm firm s2 s'"
  from h(1) have "request_id (NM s1) = request_id (NM s)" by (simp add: calm_def)
  with h(2,3) assms(2) have "regular s1 s2"
    by (auto simp: regular_def adds_calls_def uses_id_def makes_with_def)
  with h show ?thesis by (blast intro: regular.step calm_regular)
qed (rule calm_regular)

lemma only_regular:
  assumes "moves (only_calls A) m" "\<And>c i. A c \<Longrightarrow> uses_id i c"
  shows "moves regular m"
  unfolding moves_def regular_def
proof (intro allI conjI)
  fix s
  show "request_id (NM (snd (m s))) = request_id (NM s)"
    using only_same [OF assms(1)] by (simp add: moves_def same_machine_def)
  show "adds_calls (uses_id (request_id (NM s))) s (snd (m s))"
    using only_imp_adds [OF assms(1)] assms(2) unfolding moves_def by (blast intro: adds_calls_mono)
qed

lemma or_fail_regular: "moves regular m \<Longrightarrow> moves regular (or_fail rctx f m)"
  unfolding or_fail_def by (intro regular.handle_moves regular_calm [OF fail_calm(2)])

lemma plain_ext: "firm c \<Longrightarrow> moves regular (ext c f)"
  by (rule regular_calm) (rule ext_calm)

lemma finish_vm_regular: "moves regular (finish_vm env rctx name p v)"
proof -
  have ready: "moves regular (update_status (\<lambda>st. st\<lparr>mst_Ready := True\<rparr>))"
    by (simp add: moves_def machine_update_defs update_NM_apply regular_def adds_calls_def request_id_def)
  have assign: "moves regular (assignAddressesToMachine rctx w)" for w
    unfolding assignAddressesToMachine_def Let_def
    by (intro regular.moves_rules regular_calm [OF calm_modify] regular_calm [OF calm_status(1)]) simp_all
  have attributes: "moves regular (addCustomAttributes rctx v)"
    unfolding addCustomAttributes_def Let_def by (intro regular.moves_rules or_fail_regular plain_ext) simp
  have power: "moves regular (powerOnVM rctx u name p)" for u
    unfolding powerOnVM_def or_power_fail_def
    by (intro regular.moves_rules regular_calm [OF fail_calm(2)] plain_ext regular_reads FindVMByUUID_reads) simp_all
  have check: "moves regular (check_and_patch env rctx w)" for w
    unfolding check_and_patch_def
    by (intro regular_calm calm_from from_rules from_calm [OF aux_calm] checkFailureDomainStatus_calm checkVHADomainCategory_calm)
  show ?thesis
    unfolding finish_vm_split ready_machine_def
    by (intro regular.moves_rules attributes power check assign ready regular_calm [OF syncVmUUID_calm]
        regular_calm [OF calm_status(3)] regular_calm [OF calm_status(4)])
qed

lemma project_regular: "moves regular (resolveEffectiveProject rctx)" "moves regular (validateProjectPolicy rctx p)"
  "moves regular (machine_resource_group rctx name p)"
  unfolding resolveEffectiveProject_def validateProjectPolicy_def project_violation_def machine_resource_group_def Let_def
  by (intro regular.moves_rules or_fail_regular regular_calm [OF calm_status(9)] regular_reads GetProject_reads
      GetDefaultProjectUUID_reads resolveResourceGroup_reads)+

lemma add_finalizer_regular: "moves regular (add_machine_finalizer L)"
  by (simp add: moves_def add_machine_finalizer_def machine_update_defs update_NM_apply regular_def adds_calls_def request_id_def)

section \<open>The reconcile of a machine that is not deleted\<close>

text \<open>The step that mints an identifier; the answer to its patch may be an error.\<close>

definition minted :: "(call list \<Rightarrow> machine_view \<Rightarrow> machine_view \<Rightarrow> bool) \<Rightarrow> 'z machine_ctx_scheme \<Rightarrow> 'z machine_ctx_scheme \<Rightarrow> bool" where
  "minted ok s s' \<longleftrightarrow> request_id (NM s) = [] \<and> (\<exists>a b. trace s' = trace s @ [KPatch_machine a b] \<and> mv_RequestID a = [] \<and>
     (request_id (NM s') = [] \<or> request_id (NM s') = mv_RequestID b \<and> mv_RequestID b \<noteq> [] \<and> ok (trace s) a b))"

definition phased :: "(call list \<Rightarrow> machine_view \<Rightarrow> machine_view \<Rightarrow> bool) \<Rightarrow> 'z machine_ctx_scheme \<Rightarrow> 'z machine_ctx_scheme \<Rightarrow> bool" where
  "phased ok s s' \<longleftrightarrow> regular s s' \<or> (\<exists>s1 s2. regular s s1 \<and> minted ok s1 s2 \<and> regular s2 s')"

lemma regular_phased: "moves regular m \<Longrightarrow> moves (phased ok) m"
  by (simp add: moves_def phased_def)

lemma phased_then:
  "phased ok s s' \<Longrightarrow> regular s' s'' \<Longrightarrow> phased ok s s''" "regular s s' \<Longrightarrow> phased ok s' s'' \<Longrightarrow> phased ok s s''"
  unfolding phased_def by (blast intro: regular.step)+

lemma phased_bnd: "moves (phased ok) m \<Longrightarrow> (\<And>x. moves regular (f x)) \<Longrightarrow> moves (phased ok) (bnd m f)"
  unfolding moves_def bnd_apply
  by (auto split: prod.split sum.split) (metis phased_then(1) snd_conv)+

lemma bnd_phased: "moves regular m \<Longrightarrow> (\<And>x. moves (phased ok) (f x)) \<Longrightarrow> moves (phased ok) (bnd m f)"
  unfolding moves_def bnd_apply
  by (auto split: prod.split sum.split) (metis phased_then(2) phased_def snd_conv)+

lemma thn_phased: "moves regular m \<Longrightarrow> moves (phased ok) k \<Longrightarrow> moves (phased ok) (thn m k)"
  unfolding thn_def by (rule bnd_phased)

lemma if_phased: "moves (phased ok) m \<Longrightarrow> moves (phased ok) k \<Longrightarrow> moves (phased ok) (if b then m else k)"
  by simp

lemma view_request_id: "mv_RequestID (view_machine m) = request_id m"
  by (simp add: view_machine_def request_id_def)

lemma mint_step:
  assumes "accepts env ok" "fresh_uuids env" "getOrMintVMCreationRequestID env s = (q, s')"
  shows "(s' = s \<or> minted ok s s') \<and> (\<forall>i. q = Inr i \<longrightarrow> i = request_id (NM s') \<and> i \<noteq> [])"
proof (cases q)
  case (Inl e)
  with assms(3) show ?thesis
    by (auto simp: getOrMintVMCreationRequestID_def patch_call_def nutanixMachineAnnotation_def go_eval
      machine_update_defs Let_def minted_def view_machine_def request_id_def split: if_splits sum.splits)
next
  case (Inr i)
  with assms show ?thesis
    by (auto simp: mint_Inr minted_def view_with_request_id view_request_id accepts_def fresh_uuids_def)
qed

lemma create_missing_phased:
  assumes laws: "accepts env ok" "fresh_uuids env"
  shows "moves (phased ok) (create_missing_vm fuel env rctx n p rg)"
  unfolding moves_def
proof
  fix s :: "'a create_ctx_scheme"
  obtain q s1 where m: "getOrMintVMCreationRequestID env s = (q, s1)" by force
  from mint_step [OF laws m] have first: "s1 = s \<or> minted ok s s1"
    and id: "\<And>i. q = Inr i \<Longrightarrow> i = request_id (NM s1) \<and> i \<noteq> []" by blast+
  have "regular s1 (snd (create_missing_vm fuel env rctx n p rg s))"
  proof (cases q)
    case (Inl e)
    with m show ?thesis by (simp add: create_missing_vm_def bnd_apply regular.stay)
  next
    case (Inr i)
    with id have i: "i = request_id (NM s1)" "i \<noteq> []" by auto
    obtain r s2 where r: "create_missing_vm fuel env rctx n p rg s = (r, s2)" by force
    with m Inr have "once (makes_with i) s1 s2"
      by (auto simp: create_missing_vm_def bnd_apply intro!: movesD [OF after_mint_once])
    with i r show ?thesis by (auto intro: once_regular)
  qed
  with first show "phased ok s (snd (create_missing_vm fuel env rctx n p rg s))"
    unfolding phased_def using regular.stay by blast
qed

lemma getOrCreateVM_phased:
  assumes "accepts env ok" "fresh_uuids env"
  shows "moves (phased ok) (getOrCreateVM fuel env rctx p rg)"
proof -
  have found: "moves (phased ok) (thn markVMProvisioned (ret v))" for v
    by (intro regular_phased regular.moves_rules regular_calm [OF calm_status(7)])
  have "moves (phased ok) (case v of None \<Rightarrow> create_missing_vm fuel env rctx n p rg | Some v \<Rightarrow> thn markVMProvisioned (ret v))" for v n
    using found create_missing_phased [OF assms] by (cases v) simp_all
  then show ?thesis
    unfolding getOrCreateVM_def Let_def by (intro bnd_phased regular.moves_rules regular_reads [OF FindVM_reads])
qed

lemma reconcileNormal_phased:
  assumes "accepts env ok" "fresh_uuids env"
  shows "moves (phased ok) (reconcileNormal fuel env rctx)"
proof -
  have provision: "moves (phased ok) (provision fuel env rctx name)" for name
    unfolding provision_def Let_def
    by (intro bnd_phased thn_phased phased_bnd [OF getOrCreateVM_phased [OF assms]] finish_vm_regular or_fail_regular project_regular
        regular.moves_rules plain_ext) simp
  have boot: "moves regular (ensureBootstrapRef rctx)" by (rule regular_calm) (rule ensureBootstrapRef_calm)
  have early: "moves (phased ok) (if infra then ret (requeue_after 5) else thn (syncVmUUID env rctx u) (ret done_result))" for infra u
    by (intro regular_phased regular.moves_rules regular_calm [OF syncVmUUID_calm])
  have waiting: "moves (phased ok) (thn (not_provisioned ClusterInfrastructureNotReady) (ret done_result))"
    by (intro regular_phased regular.moves_rules regular_calm [OF calm_status(8)])
  show ?thesis
    unfolding reconcileNormal_def Let_def
    by (intro bnd_phased thn_phased if_phased early waiting boot provision add_finalizer_regular regular_phased [OF regular.ret_moves]
        regular.gets_moves regular.deref_moves)
qed

section \<open>The reconcile of a deleted machine\<close>

lemma reconcileDelete_regular: "moves regular (reconcileDelete rctx)"
proof -
  have detach: "is_detach c \<Longrightarrow> uses_id i c" for i c by (cases c) (simp_all add: uses_id_def)
  have volumes: "moves regular (detachVolumeGroups rctx n u ds)" for n u ds
    by (rule only_regular [OF detachVolumeGroups_only detach])
  have delete: "moves regular (DeleteVM client n u)" for client n u
    unfolding DeleteVM_def by (intro regular.moves_rules plain_ext) simp
  have annotation: "moves regular (setNutanixMachineAnnotation k v)" "moves regular (deleteNutanixMachineAnnotation k)"
    if "k = recoveredVMUUIDAnnotation \<or> k = skippedDecoupledVMUUIDAnnotation" for k v
    using that by (auto simp: moves_def machine_update_defs update_NM_apply regular_def adds_calls_def request_id_def map_get_def
        VMCreationRequestIDAnnotation_def recoveredVMUUIDAnnotation_def skippedDecoupledVMUUIDAnnotation_def)
  have finalizers: "moves regular (update_meta (\<lambda>m. m\<lparr>om_Finalizers := f m\<rparr>))" for f
    by (simp add: moves_def machine_update_defs update_NM_apply regular_def adds_calls_def request_id_def)
  have search: "moves regular (vmToDelete rctx u n)" for u n
    unfolding vmToDelete_def resolveRecoveredVMForDelete_def live_by_name_def
    by (intro regular.moves_rules annotation regular_reads FindVMByUUID_reads isVMDecoupled_reads findNonDecoupled_reads) simp_all
  show ?thesis
    unfolding reconcileDelete_def delete_after_search_def delete_found_vm_def delete_idle_vm_def remove_finalizers_def
      fail_deletion_def Let_def
    by (intro regular.moves_rules search volumes delete finalizers regular_reads [OF VmHasTaskInProgress_reads]
        regular_calm [OF calm_status(2)] regular_calm [OF calm_status(3)])
qed

section \<open>A whole reconcile\<close>

lemma regular_keyed:
  assumes "regular s s'" "trace s' = trace s @ t" "rid = request_id (NM s)"
  shows "keyed ok (trace s) rid t" "stored ok (trace s) rid t = rid" "request_id (NM s') = rid"
proof -
  from assms have "list_all (uses_id rid) t" by (auto simp: regular_def adds_calls_def)
  then show "keyed ok (trace s) rid t" "stored ok (trace s) rid t = rid" by (simp_all add: uses_id_keyed uses_id_stored)
  show "request_id (NM s') = rid" using assms by (simp add: regular_def)
qed

text \<open>After the body the machine in memory has the identifier it began with or the stored one.\<close>

lemma phased_keyed:
  assumes "phased ok s s'" "rid = request_id (NM s)"
  shows "\<exists>t. trace s' = trace s @ t \<and> keyed ok (trace s) rid t \<and> request_id (NM s') \<in> {rid, stored ok (trace s) rid t}"
  using assms(1) unfolding phased_def
proof (elim disjE exE conjE)
  assume r: "regular s s'"
  then obtain t where "trace s' = trace s @ t" by (auto simp: regular_def adds_calls_def)
  with regular_keyed [OF r this assms(2)] show ?thesis by blast
next
  fix s1 s2 assume h: "regular s s1" "minted ok s1 s2" "regular s2 s'"
  from h(1) obtain t1 where t1: "trace s1 = trace s @ t1" by (auto simp: regular_def adds_calls_def)
  from h(3) obtain t2 where t2: "trace s' = trace s2 @ t2" by (auto simp: regular_def adds_calls_def)
  note k1 = regular_keyed(1,2) [OF h(1) t1 assms(2), of ok] regular_keyed(3) [OF h(1) t1 assms(2)]
  note k2 = regular_keyed(3) [OF h(3) t2 refl]
  from h(2) k1(3) have rid: "rid = []" by (simp add: minted_def)
  from h(2) obtain a b where p: "trace s2 = trace s1 @ [KPatch_machine a b]" "mv_RequestID a = []"
    "request_id (NM s2) = [] \<or> request_id (NM s2) = mv_RequestID b \<and> mv_RequestID b \<noteq> [] \<and> ok (trace s1) a b"
    by (auto simp: minted_def)
  let ?m = "t1 @ [KPatch_machine a b]" let ?i = "stored ok (trace s) rid ?m"
  have i: "request_id (NM s2) = [] \<or> request_id (NM s2) = ?i" using p t1 k1(2) by (auto simp: stored_append rid)
  have m: "keyed ok (trace s) rid ?m" by (rule keyed_append [OF k1(1) patch_keyed]) (use k1(2) rid in simp)
  have u: "list_all (uses_id (request_id (NM s2))) t2" using h(3) t2 by (auto simp: regular_def adds_calls_def)
  have "keyed ok (trace s) rid (?m @ t2)"
    by (rule keyed_append [OF m uses_id_keyed [OF u]]) (use i in auto)
  moreover have "stored ok (trace s) rid (?m @ t2) = ?i" by (simp only: stored_append [of ok _ _ ?m] uses_id_stored [OF u])
  ultimately show ?thesis using t1 t2 p(1) k2 i rid by (intro exI [of _ "?m @ t2"]) auto
qed

lemma patched_keyed:
  assumes "patched_at_end r nm body s = (q, s')" "moves (phased ok) body" "NM s = nm"
  shows "\<exists>t. trace s' = trace s @ t \<and> keyed ok (trace s) (request_id nm) t"
proof -
  obtain b s1 where b: "body s = (b, s1)" by force
  from phased_keyed [OF movesD [OF assms(2) b]] assms(3) obtain t where
    t: "trace s1 = trace s @ t" "keyed ok (trace s) (request_id nm) t"
    "request_id (NM s1) \<in> {request_id nm, stored ok (trace s) (request_id nm) t}" by blast
  have "trace s' = trace s1 \<or> trace s' = trace s1 @ [KPatch_machine (view_machine nm) (view_machine (NM s1))]"
    using assms(1) b by (auto simp: patched_at_end_def patch_call_def go_eval split: sum.splits if_splits)
  moreover have "keyed ok (trace s) (request_id nm) (t @ [KPatch_machine (view_machine nm) (view_machine (NM s1))])"
    by (rule keyed_append [OF t(2) patch_keyed]) (use t(3) in \<open>auto simp: view_request_id\<close>)
  ultimately show ?thesis using t by auto
qed

lemma reads_uses: "list_all is_read t \<Longrightarrow> list_all (uses_id i) t"
  by (auto simp: list_all_iff uses_id_def)

lemma reconcile_keyed:
  assumes run: "machine_Reconcile r ns name s = (q, s')" and laws: "accepts (mr_env r) ok" "fresh_uuids (mr_env r)"
    and read: "\<And>nm. mr_Get r (trace s) name ns = Inr nm \<Longrightarrow> request_id nm = rid"
  shows "\<exists>t. trace s' = trace s @ t \<and> keyed ok (trace s) rid t"
  using machine_Reconcile_cases [OF run]
proof (elim disjE exE conjE)
  fix t assume "s' = s\<lparr>trace := trace s @ t\<rparr>" "list_all is_read t"
  then show ?thesis using uses_id_keyed [OF reads_uses, of t "[]"] by auto
next
  fix nm machine cluster ncl t
  assume g: "mr_Get r (trace s) name ns = Inr nm" and t: "list_all is_read t"
    and o: "reconcile_owned r nm machine cluster ncl (s\<lparr>trace := trace s @ t\<rparr>) = (q, s')"
  from read [OF g] have rid: "request_id nm = rid" .
  have k: "keyed ok (trace s) rid t" "stored ok (trace s) rid t = rid"
    using uses_id_keyed [OF reads_uses [OF t]] uses_id_stored [OF reads_uses [OF t]] by blast+
  from reconcile_owned_cases [OF o] show ?thesis
  proof (elim disjE exE conjE)
    fix rctx and w :: "'a create_ctx_scheme"
    assume w: "trace w = trace (s\<lparr>trace := trace s @ t\<rparr>)" "NM w = nm" "patched_at_end r nm (if om_Deleting (nm_Meta nm)
       then reconcileDelete rctx else reconcileNormal (mr_fuel r) (mr_env r) rctx) w = (q, s')"
    from patched_keyed [OF w(3) if_phased [OF regular_phased [OF reconcileDelete_regular] reconcileNormal_phased [OF laws]] w(2)] rid w(1)
    obtain v where v: "trace s' = trace s @ t @ v" "keyed ok (trace s @ t) rid v" by auto
    with keyed_append [OF k(1), of v] k(2) show ?thesis by auto
  qed (use k in auto)
qed

section \<open>The life of a machine\<close>

text \<open>life ns name rid used: after some reconciles the identifier rid is stored, and the requests for
  a VM that were sent carried the identifiers used.  A reconcile reads what is stored, or fails to read it;
  it may be cut off after any of its requests, u.\<close>

inductive life :: "string \<Rightarrow> string \<Rightarrow> string \<Rightarrow> string set \<Rightarrow> bool" for ns name where
  born: "life ns name [] {}"
| reconciled: "life ns name rid used \<Longrightarrow> machine_Reconcile r ns name (s :: create_ctx) = (q, s') \<Longrightarrow>
    trace s' = trace s @ u @ v \<Longrightarrow> (\<And>nm. mr_Get r (trace s) name ns = Inr nm \<Longrightarrow> request_id nm = rid) \<Longrightarrow>
    accepts (mr_env r) ok \<Longrightarrow> fresh_uuids (mr_env r) \<Longrightarrow>
    life ns name (stored ok (trace s) rid u) (used \<union> requested u)"


lemma only_member: "A \<subseteq> {x} - {[]} \<Longrightarrow> a \<in> A \<Longrightarrow> x = a \<and> A = {a}"
  by auto


text \<open>A reconcile that reads an object from before the patch mints a second identifier, and the
  patch, which does not say what it replaces, overwrites the first.\<close>

lemma stale_read_second_id:
  assumes "request_id (NM s) = []" "me_Patch env (trace s) (NM s) (with_request_id i (NM s)) = Inr ()" "i = me_NewUUID env (trace s)"
    and "accepts env ok" "i \<noteq> []"
  shows "\<exists>s' t. getOrMintVMCreationRequestID env s = (Inr i, s') \<and> trace s' = trace s @ t \<and> stored ok (trace s) rid t = i"
  using assms by (auto simp: mint_Inr accepts_def view_request_id view_with_request_id intro!: exI)

end
