(* ===== verification/Manager.thy ===== *)
theory Manager
  imports Machine_Context "HOL-Library.Word"
begin

text \<open>
  The process around the controllers: their options (controllers/options.go), their constructors
  and registrations (SetupWithManager of each controller), the start of the manager (main.go), the
  controller of NutanixMachineTemplate (controllers/nutanixmachinetemplate_controller.go) and the
  cache of the clients of workload clusters (pkg/context/context.go).

  The steps the start takes, in order, are the state; what controller-runtime, Cluster API and
  client-go answer to a step is the record manager_env.  A rate limiter of client-go is the call
  that makes it, with the number of the call in the run, since a limiter has a state that its
  users share.  Durations are nanoseconds.
\<close>

section \<open>Options of a controller\<close>

datatype limiter =
    ItemExponentialFailure int int
  | TokenBucket int int
  | MaxOf "limiter list"

record rate_limiter =
  rl_Allocation :: nat
  rl_Limiter :: limiter

record ControllerConfig =
  cfg_MaxConcurrentReconciles :: int
  cfg_RateLimiter :: "rate_limiter option"
  cfg_SkipNameValidation :: bool

type_synonym config_opt = "ControllerConfig \<Rightarrow> go_error + ControllerConfig"

definition WithMaxConcurrentReconciles :: "int \<Rightarrow> config_opt" where
  "WithMaxConcurrentReconciles n c =
     (if n < 1 then Inl (Leaf ''max concurrent reconciles must be greater than 0'')
      else Inr (c\<lparr>cfg_MaxConcurrentReconciles := n\<rparr>))"

definition WithRateLimiter :: "rate_limiter option \<Rightarrow> config_opt" where
  "WithRateLimiter rateLimiter c =
     (if rateLimiter = None then Inl (Leaf ''rate limiter cannot be nil'')
      else Inr (c\<lparr>cfg_RateLimiter := rateLimiter\<rparr>))"

definition WithSkipNameValidation :: "bool \<Rightarrow> config_opt" where
  "WithSkipNameValidation skip c = Inr (c\<lparr>cfg_SkipNameValidation := skip\<rparr>)"

definition zero_config :: ControllerConfig where
  "zero_config = \<lparr>cfg_MaxConcurrentReconciles = 0, cfg_RateLimiter = None, cfg_SkipNameValidation = False\<rparr>"

text \<open>The constructors of the eight controllers build the configuration in the same way.\<close>

definition NewReconciler :: "config_opt list \<Rightarrow> go_error + ControllerConfig" where
  "NewReconciler copts = fold (\<lambda>opt c. rbnd c opt) copts (Inr zero_config)"

section \<open>Registrations\<close>

text \<open>The name of a controller, the kind it is for, and the other kinds it watches with the
  function that maps their events to requests and the predicates that filter the events.\<close>

record registration =
  reg_Name :: string
  reg_For :: string
  reg_Watches :: "(string \<times> string \<times> string list) list"

definition cluster_registration :: registration where
  "cluster_registration = \<lparr>reg_Name = ''nutanixcluster-controller'', reg_For = ''NutanixCluster'',
     reg_Watches = [(''Cluster'', ''ClusterToInfrastructureMapFunc'', [''ClusterPausedTransitionsOrInfrastructureProvisioned'']),
       (''NutanixFailureDomain'', ''mapNutanixFailureDomainToNutanixCluster'', [])]\<rparr>"

definition machine_registration :: registration where
  "machine_registration = \<lparr>reg_Name = ''nutanixmachine-controller'', reg_For = ''NutanixMachine'',
     reg_Watches = [(''Machine'', ''MachineToInfrastructureMapFunc'', []),
       (''NutanixCluster'', ''mapNutanixClusterToNutanixMachines'', []), (''Cluster'', ''clusterToObjectFunc'', [''ClusterPausedTransitionsOrInfrastructureProvisioned''])]\<rparr>"

definition fd_registration :: registration where
  "fd_registration = \<lparr>reg_Name = ''nutanixfailuredomain-controller'', reg_For = ''NutanixFailureDomain'',
     reg_Watches = [(''Machine'', ''mapMachineToNutanixFailureDomain'', []),
       (''NutanixMetro'', ''mapNutanixMetroToNutanixFailureDomain'', []),
       (''NutanixMetroSite'', ''mapNutanixMetroSiteToNutanixFailureDomain'', [])]\<rparr>"

definition template_registration :: registration where
  "template_registration = \<lparr>reg_Name = ''nutanixmachinetemplate-controller'', reg_For = ''NutanixMachineTemplate'',
     reg_Watches = []\<rparr>"

definition metro_registration :: registration where
  "metro_registration = \<lparr>reg_Name = ''nutanixmetro-controller'', reg_For = ''NutanixMetro'',
     reg_Watches = [(''Machine'', ''mapMachineToNutanixMetro'', []),
       (''MachineDeployment'', ''mapMachineDeploymentToNutanixMetro'', []),
       (''NutanixCluster'', ''mapNutanixClusterToNutanixMetro'', []),
       (''NutanixMetroSite'', ''mapNutanixMetroSiteToNutanixMetro'', [])]\<rparr>"

definition metrosite_registration :: registration where
  "metrosite_registration = \<lparr>reg_Name = ''NutanixMetroSite-controller'', reg_For = ''NutanixMetroSite'',
     reg_Watches = [(''Machine'', ''mapMachineToNutanixMetroSite'', []),
       (''MachineDeployment'', ''mapMachineDeploymentToNutanixMetroSite'', []),
       (''NutanixCluster'', ''mapNutanixClusterToNutanixMetroSite'', [])]\<rparr>"

definition balancer_registration :: registration where
  "balancer_registration = \<lparr>reg_Name = ''MetroScaleDownBalancer-controller'', reg_For = ''MachineSet'',
     reg_Watches = [(''Machine'', ''mapMachineToMachineSet'', []), (''Cluster'', ''mapClusterToMachineSets'', [])]\<rparr>"

definition vha_registration :: registration where
  "vha_registration = \<lparr>reg_Name = ''nutanixvirtualhadomain-controller'', reg_For = ''NutanixVirtualHADomain'',
     reg_Watches = []\<rparr>"

section \<open>The manager\<close>

record server_options =
  so_BindAddress :: string
  so_FilterProvider :: string

record options =
  op_enableLeaderElection :: bool
  op_healthProbeAddr :: string
  op_webhookPort :: int
  op_webhookCertDir :: string
  op_maxConcurrentReconciles :: int
  op_rateLimiterBaseDelay :: int
  op_rateLimiterMaxDelay :: int
  op_rateLimiterBucketSize :: int
  op_rateLimiterQPS :: int
  op_managerOptions :: "string list"

record managerConfig =
  mc_enableLeaderElection :: bool
  mc_healthProbeAddr :: string
  mc_webhookPort :: int
  mc_webhookCertDir :: string
  mc_concurrentReconcilesNutanixCluster :: int
  mc_concurrentReconcilesNutanixMachine :: int
  mc_metricsServerOpts :: server_options
  mc_tlsOptions :: "string list"
  mc_skipNameValidation :: bool
  mc_rateLimiter :: "rate_limiter option"

datatype manager_step =
    ParseFlags
  | GetManagerOptions "string list"
  | LoadKubeconfig
  | NewManager server_options int string "string list" string bool string
  | AddHealthzCheck string
  | AddReadyzCheck string
  | NewClientset
  | RunInformer string
  | WaitForCacheSync string
  | SetupWebhook
  | NewClusterMapper
  | SetupController registration ControllerConfig
  | StartManager

record manager_env =
  en_Do :: "manager_step list \<Rightarrow> manager_step \<Rightarrow> go_error + unit"
  en_Parse :: "options \<Rightarrow> options"
  en_GetManagerOptions :: "string list \<Rightarrow> go_error + string list \<times> server_options option"

record manager_state =
  mg_Steps :: "manager_step list"

definition doing :: "manager_env \<Rightarrow> manager_step \<Rightarrow> (manager_state, unit) go" where
  "doing env c = (\<lambda>s. (en_Do env (mg_Steps s) c, s\<lparr>mg_Steps := mg_Steps s @ [c]\<rparr>))"

definition nanoseconds_per_ms :: int where "nanoseconds_per_ms = 1000000"

definition validateRateLimiterConfig :: "int \<Rightarrow> int \<Rightarrow> int \<Rightarrow> int \<Rightarrow> go_error + unit" where
  "validateRateLimiterConfig baseDelay maxDelay bucketSize qps =
     (if baseDelay < 0 then Inl (Leaf ''baseDelay cannot be negative'')
      else if maxDelay < 0 then Inl (Leaf ''maxDelay cannot be negative'')
      else if maxDelay < baseDelay then Inl (Leaf ''maxDelay should be greater than or equal to baseDelay'')
      else if bucketSize \<le> 0 then Inl (Leaf ''bucketSize must be positive'')
      else if qps \<le> 0 then Inl (Leaf ''minimum QPS must be positive'')
      else if bucketSize < qps then
        Inl (Leaf ''bucketSize must be at least as large as the QPS to handle bursts effectively'')
      else Inr ())"

definition compositeRateLimiter :: "int \<Rightarrow> int \<Rightarrow> int \<Rightarrow> int \<Rightarrow> go_error + rate_limiter" where
  "compositeRateLimiter baseDelay maxDelay bucketSize qps =
     rbnd (validateRateLimiterConfig baseDelay maxDelay bucketSize qps) (\<lambda>_.
     Inr \<lparr>rl_Allocation = 0, rl_Limiter = MaxOf [ItemExponentialFailure baseDelay maxDelay, TokenBucket qps bucketSize]\<rparr>)"

text \<open>The defaults of the flags; the parser of the command line is a parameter.\<close>

definition default_options :: options where
  "default_options = \<lparr>op_enableLeaderElection = False, op_healthProbeAddr = '':8081'', op_webhookPort = 9443,
     op_webhookCertDir = ''/tmp/k8s-webhook-server/serving-certs'', op_maxConcurrentReconciles = 10,
     op_rateLimiterBaseDelay = 500 * nanoseconds_per_ms, op_rateLimiterMaxDelay = 15 * 60 * 1000 * nanoseconds_per_ms,
     op_rateLimiterBucketSize = 100, op_rateLimiterQPS = 10, op_managerOptions = []\<rparr>"

definition initializeFlags :: "manager_env \<Rightarrow> (manager_state, options) go" where
  "initializeFlags env = thn (modify (\<lambda>s. s\<lparr>mg_Steps := mg_Steps s @ [ParseFlags]\<rparr>)) (ret (en_Parse env default_options))"

definition initializeConfig :: "manager_env \<Rightarrow> options \<Rightarrow> (manager_state, managerConfig) go" where
  "initializeConfig env opts =
     bnd (wrapping (\<lambda>e. Wrap ''unable to get manager options: '' e [])
           (thn (modify (\<lambda>s. s\<lparr>mg_Steps := mg_Steps s @ [GetManagerOptions (op_managerOptions opts)]\<rparr>))
             (of_result (en_GetManagerOptions env (op_managerOptions opts))))) (\<lambda>(tlsOptions, metrics_p).
     case metrics_p of
       None \<Rightarrow> raise (Leaf ''parsed manager options are nil'')
     | Some metricsServerOpts \<Rightarrow>
         bnd (wrapping (\<lambda>e. Wrap ''unable to create composite rate limiter: '' e [])
               (of_result (compositeRateLimiter (op_rateLimiterBaseDelay opts) (op_rateLimiterMaxDelay opts)
                 (op_rateLimiterBucketSize opts) (op_rateLimiterQPS opts)))) (\<lambda>rateLimiter.
         thn (wrapping (\<lambda>e. Wrap ''failed to load kubeconfig: '' e []) (doing env LoadKubeconfig))
         (ret \<lparr>mc_enableLeaderElection = op_enableLeaderElection opts, mc_healthProbeAddr = op_healthProbeAddr opts,
            mc_webhookPort = op_webhookPort opts, mc_webhookCertDir = op_webhookCertDir opts,
            mc_concurrentReconcilesNutanixCluster = op_maxConcurrentReconciles opts,
            mc_concurrentReconcilesNutanixMachine = op_maxConcurrentReconciles opts,
            mc_metricsServerOpts = metricsServerOpts\<lparr>so_FilterProvider := ''WithAuthenticationAndAuthorization''\<rparr>,
            mc_tlsOptions = tlsOptions, mc_skipNameValidation = False, mc_rateLimiter = Some rateLimiter\<rparr>)))"

definition addHealthChecks :: "manager_env \<Rightarrow> (manager_state, unit) go" where
  "addHealthChecks env =
     thn (wrapping (\<lambda>e. Wrap ''unable to set up health check: '' e []) (doing env (AddHealthzCheck ''healthz'')))
       (wrapping (\<lambda>e. Wrap ''unable to set up ready check: '' e []) (doing env (AddReadyzCheck ''readyz'')))"

definition initializeManager :: "manager_env \<Rightarrow> managerConfig \<Rightarrow> (manager_state, unit) go" where
  "initializeManager env config =
     thn (wrapping (\<lambda>e. Wrap ''unable to create manager: '' e [])
           (doing env (NewManager (mc_metricsServerOpts config) (mc_webhookPort config) (mc_webhookCertDir config)
             (mc_tlsOptions config) (mc_healthProbeAddr config) (mc_enableLeaderElection config) ''f265110d.cluster.x-k8s.io'')))
       (wrapping (\<lambda>e. Wrap ''unable to add health checks to manager: '' e []) (addHealthChecks env))"

text \<open>The result of the wait for a cache is not looked at.\<close>

definition createInformers :: "manager_env \<Rightarrow> (manager_state, unit) go" where
  "createInformers env =
     thn (wrapping (\<lambda>e. Wrap ''unable to create clientset for management cluster: '' e []) (doing env NewClientset))
       (modify (\<lambda>s. s\<lparr>mg_Steps := mg_Steps s @ [RunInformer ''Secrets'', WaitForCacheSync ''Secrets'',
          RunInformer ''ConfigMaps'', WaitForCacheSync ''ConfigMaps'']\<rparr>))"

text \<open>The setup of a controller: the constructor, then SetupWithManager, which for machines makes a
  mapper before it registers.\<close>

definition setup_controller ::
  "manager_env \<Rightarrow> string \<Rightarrow> (manager_state, unit) go \<Rightarrow> registration \<Rightarrow> config_opt list \<Rightarrow> (manager_state, unit) go" where
  "setup_controller env n before g opts =
     bnd (wrapping (\<lambda>e. Wrap (''unable to create '' @ n @ '' controller: '') e []) (of_result (NewReconciler opts))) (\<lambda>c.
     wrapping (\<lambda>e. Wrap (''unable to setup '' @ n @ '' controller with manager: '') e [])
       (thn before (doing env (SetupController g c))))"

definition setupNutanixClusterController :: "manager_env \<Rightarrow> config_opt list \<Rightarrow> (manager_state, unit) go" where
  "setupNutanixClusterController env = setup_controller env ''NutanixCluster'' (ret ()) cluster_registration"

text \<open>The error of the mapper is formatted with %s, so it is not wrapped.\<close>

definition setupNutanixMachineController :: "manager_env \<Rightarrow> config_opt list \<Rightarrow> (manager_state, unit) go" where
  "setupNutanixMachineController env = setup_controller env ''NutanixMachine''
     (wrapping (\<lambda>e. Leaf (''failed to create mapper for Cluster to NutanixMachine: '' @ Error_text e)) (doing env NewClusterMapper))
     machine_registration"

definition setupNutanixFailureDomainController :: "manager_env \<Rightarrow> config_opt list \<Rightarrow> (manager_state, unit) go" where
  "setupNutanixFailureDomainController env = setup_controller env ''NutanixFailureDomain'' (ret ()) fd_registration"

definition setupNutanixMachineTemplateController :: "manager_env \<Rightarrow> config_opt list \<Rightarrow> (manager_state, unit) go" where
  "setupNutanixMachineTemplateController env = setup_controller env ''NutanixMachineTemplate'' (ret ()) template_registration"

definition setupNutanixMetroController :: "manager_env \<Rightarrow> config_opt list \<Rightarrow> (manager_state, unit) go" where
  "setupNutanixMetroController env = setup_controller env ''NutanixMetro'' (ret ()) metro_registration"

definition setupNutanixMetroSiteController :: "manager_env \<Rightarrow> config_opt list \<Rightarrow> (manager_state, unit) go" where
  "setupNutanixMetroSiteController env = setup_controller env ''NutanixMetroSite'' (ret ()) metrosite_registration"

definition setupMetroScaleDownBalancerController :: "manager_env \<Rightarrow> config_opt list \<Rightarrow> (manager_state, unit) go" where
  "setupMetroScaleDownBalancerController env = setup_controller env ''MetroScaleDownBalancer'' (ret ()) balancer_registration"

definition setupNutanixVirtualHADomainController :: "manager_env \<Rightarrow> config_opt list \<Rightarrow> (manager_state, unit) go" where
  "setupNutanixVirtualHADomainController env = setup_controller env ''NutanixVirtualHADomain'' (ret ()) vha_registration"

definition setupNutanixMachineTemplateWebhook :: "manager_env \<Rightarrow> (manager_state, unit) go" where
  "setupNutanixMachineTemplateWebhook env =
     wrapping (\<lambda>e. Wrap ''unable to setup NutanixMachineTemplate webhook: '' e []) (doing env SetupWebhook)"

text \<open>The limiter that runManager writes out, twice.\<close>

definition fixed_limiter :: "nat \<Rightarrow> rate_limiter" where
  "fixed_limiter n = \<lparr>rl_Allocation = n,
     rl_Limiter = MaxOf [ItemExponentialFailure nanoseconds_per_ms (1000 * 1000 * nanoseconds_per_ms), TokenBucket 10 100]\<rparr>"

definition controller_opts :: "int \<Rightarrow> rate_limiter \<Rightarrow> bool \<Rightarrow> config_opt list" where
  "controller_opts n l skip =
     [WithMaxConcurrentReconciles n, WithRateLimiter (Some l)] @ (if skip then [WithSkipNameValidation True] else [])"

definition setups_failed :: "go_error \<Rightarrow> go_error" where
  "setups_failed e = Wrap ''unable to setup controllers: '' e []"

definition runManager :: "manager_env \<Rightarrow> managerConfig \<Rightarrow> (manager_state, unit) go" where
  "runManager env config =
     thn (wrapping (\<lambda>e. Wrap ''unable to create informers: '' e []) (createInformers env))
     (thn (wrapping (\<lambda>e. Wrap ''unable to setup webhooks: '' e []) (setupNutanixMachineTemplateWebhook env))
     (let clusterControllerOpts = controller_opts (mc_concurrentReconcilesNutanixCluster config) (fixed_limiter 1)
            (mc_skipNameValidation config);
          machineControllerOpts = controller_opts (mc_concurrentReconcilesNutanixMachine config) (fixed_limiter 2)
            (mc_skipNameValidation config) in
      thn (wrapping setups_failed (setupNutanixClusterController env clusterControllerOpts))
      (thn (wrapping setups_failed (setupNutanixMachineController env machineControllerOpts))
      (thn (wrapping setups_failed (setupNutanixFailureDomainController env machineControllerOpts))
      (thn (wrapping setups_failed (setupNutanixMachineTemplateController env machineControllerOpts))
      (thn (wrapping setups_failed (setupNutanixMetroController env machineControllerOpts))
      (thn (wrapping setups_failed (setupNutanixMetroSiteController env machineControllerOpts))
      (thn (wrapping setups_failed (setupMetroScaleDownBalancerController env machineControllerOpts))
      (thn (wrapping setups_failed (setupNutanixVirtualHADomainController env machineControllerOpts))
        (wrapping (\<lambda>e. Wrap ''problem running manager: '' e []) (doing env StartManager)))))))))))"

text \<open>The exit code of the process.\<close>

definition main :: "manager_env \<Rightarrow> manager_state \<Rightarrow> int \<times> manager_state" where
  "main env s =
     (case bnd (initializeFlags env) (\<lambda>opts.
           bnd (initializeConfig env opts) (\<lambda>config.
           thn (initializeManager env config) (runManager env config))) s of
        (Inl err, s') \<Rightarrow> (1, s')
      | (Inr _, s') \<Rightarrow> (0, s'))"

section \<open>The controller of machine templates\<close>

datatype resource_value = Number "64 word" | Given quantity

type_synonym resource_list = "string \<Rightarrow> resource_value option"

text \<open>The fields of the spec are int32; the product is taken in int64.\<close>

definition computeDirectCapacity :: "NutanixMachineSpec \<Rightarrow> resource_list" where
  "computeDirectCapacity spec =
     (let capacity = [''cpu'' \<mapsto> Number (word_of_int (ms_VCPUsPerSocket spec) * word_of_int (ms_VCPUSockets spec)),
            ''memory'' \<mapsto> Given (ms_MemorySize spec)] in
      if ms_GPUs spec \<noteq> [] then capacity(''nvidia.com/gpu'' \<mapsto> Number (word_of_nat (length (ms_GPUs spec)))) else capacity)"

record NutanixMachineTemplate =
  tpl_Spec :: NutanixMachineSpec
  tpl_Capacity :: resource_list

record template_client =
  tc_Get :: "call list \<Rightarrow> string \<Rightarrow> string \<Rightarrow> go_error + NutanixMachineTemplate"
  tc_IsNotFound :: "go_error \<Rightarrow> bool"
  tc_DeepEqual :: "resource_list \<Rightarrow> resource_list \<Rightarrow> bool"
  tc_UpdateStatus :: "call list \<Rightarrow> NutanixMachineTemplate \<Rightarrow> go_error + unit"

record template_state = world +
  Template :: NutanixMachineTemplate

definition template_Reconcile :: "template_client \<Rightarrow> string \<Rightarrow> string \<Rightarrow> (template_state, unit) go" where
  "template_Reconcile c ns name =
     bnd (attempt (ext (KGet KMachineTemplate name ns) (\<lambda>h. tc_Get c h name ns))) (\<lambda>q.
     case q of
       Inl err \<Rightarrow> if tc_IsNotFound c err then ret () else raise err
     | Inr nmt \<Rightarrow>
         thn (modify (\<lambda>s. s\<lparr>Template := nmt\<rparr>))
         (let capacity = computeDirectCapacity (tpl_Spec nmt) in
          when_go (\<not> tc_DeepEqual c (tpl_Capacity nmt) capacity)
            (thn (modify (\<lambda>s. s\<lparr>Template := nmt\<lparr>tpl_Capacity := capacity\<rparr>\<rparr>))
              (wrapping (\<lambda>e. Wrap ''failed to update NutanixMachineTemplate status: '' e [])
                (ext (KWrite KMachineTemplate name ns ''status'')
                  (\<lambda>h. tc_UpdateStatus c h (nmt\<lparr>tpl_Capacity := capacity\<rparr>)))))))"

section \<open>The clients of workload clusters\<close>

text \<open>The functions hold a lock for their whole run; a run of them is one step.  None is no entry.\<close>

record 'c remote_cache =
  RemoteClientCache :: "(string \<times> string) \<Rightarrow> 'c option"
  remote_calls :: "(string \<times> string) list"

definition GetRemoteClient ::
  "((string \<times> string) list \<Rightarrow> (string \<times> string) \<Rightarrow> go_error + 'c) \<Rightarrow> (string \<times> string) \<Rightarrow> ('c remote_cache, 'c) go" where
  "GetRemoteClient newClient clusterKey =
     bnd (gets RemoteClientCache) (\<lambda>cache.
     case cache clusterKey of
       Some remoteClient \<Rightarrow> ret remoteClient
     | None \<Rightarrow>
         bnd (\<lambda>s. (newClient (remote_calls s) clusterKey, s\<lparr>remote_calls := remote_calls s @ [clusterKey]\<rparr>)) (\<lambda>remoteClient.
         thn (modify (\<lambda>s. s\<lparr>RemoteClientCache := (RemoteClientCache s)(clusterKey \<mapsto> remoteClient)\<rparr>)) (ret remoteClient)))"

definition RemoveRemoteClient :: "(string \<times> string) \<Rightarrow> ('c remote_cache, unit) go" where
  "RemoveRemoteClient clusterKey =
     modify (\<lambda>s. s\<lparr>RemoteClientCache := (RemoteClientCache s)(clusterKey := None)\<rparr>)"

text \<open>SetFailureStatus of the context of a cluster.\<close>

definition SetFailureStatus_cluster :: "string \<Rightarrow> go_error \<Rightarrow> NutanixCluster \<Rightarrow> NutanixCluster" where
  "SetFailureStatus_cluster failureReason failureMessage ncl =
     ncl\<lparr>ncl_FailureMessage := Some (Error_text failureMessage), ncl_FailureReason := Some failureReason\<rparr>"

section \<open>The start\<close>

text \<open>runs cs m: m takes a prefix of the steps cs, and all of them when it succeeds.\<close>

definition runs :: "manager_step list \<Rightarrow> (manager_state, 'a) go \<Rightarrow> bool" where
  "runs cs m \<longleftrightarrow> (\<forall>s r s'. m s = (r, s') \<longrightarrow>
     (\<exists>k. s' = s\<lparr>mg_Steps := mg_Steps s @ take k cs\<rparr> \<and> (\<forall>x. r = Inr x \<longrightarrow> length cs \<le> k)))"

lemma runs_ret: "runs [] (ret x)"
  by (auto simp: runs_def ret_apply)

lemma runs_raise: "runs cs (raise e)"
  by (auto simp: runs_def raise_apply intro!: exI [of _ 0])

lemma runs_doing: "runs [c] (doing env c)"
  by (auto simp: runs_def doing_def intro!: exI [of _ 1])

lemma runs_steps: "runs cs (modify (\<lambda>s. s\<lparr>mg_Steps := mg_Steps s @ cs\<rparr>))"
  by (auto simp: runs_def modify_apply intro!: exI [of _ "length cs"])

lemma runs_bnd:
  assumes "runs cs m" "\<And>x. runs ds (f x)"
  shows "runs (cs @ ds) (bnd m f)"
  unfolding runs_def
proof (intro allI impI)
  fix s r s' assume b: "bnd m f s = (r, s')"
  obtain q t where m: "m s = (q, t)" by force
  with assms(1) obtain k where k: "t = s\<lparr>mg_Steps := mg_Steps s @ take k cs\<rparr>" "\<forall>x. q = Inr x \<longrightarrow> length cs \<le> k"
    unfolding runs_def by blast
  show "\<exists>k. s' = s\<lparr>mg_Steps := mg_Steps s @ take k (cs @ ds)\<rparr> \<and> (\<forall>x. r = Inr x \<longrightarrow> length (cs @ ds) \<le> k)"
  proof (cases q)
    case (Inl e)
    have "take k cs = take (min k (length cs)) (cs @ ds)" by (simp add: min_def)
    with Inl b m k show ?thesis by (auto simp: bnd_apply intro!: exI [of _ "min k (length cs)"])
  next
    case (Inr x)
    with b m have "f x t = (r, s')" by (simp add: bnd_apply)
    with assms(2) obtain j where "s' = t\<lparr>mg_Steps := mg_Steps t @ take j ds\<rparr>" "\<forall>x. r = Inr x \<longrightarrow> length ds \<le> j"
      unfolding runs_def by blast
    with k Inr show ?thesis by (auto intro!: exI [of _ "length cs + j"])
  qed
qed

lemma runs_thn: "runs cs m \<Longrightarrow> runs ds k \<Longrightarrow> runs (cs @ ds) (thn m k)"
  unfolding thn_def by (rule runs_bnd)

lemma runs_wrapping: "runs cs m \<Longrightarrow> runs cs (wrapping f m)"
  unfolding runs_def wrapping_apply by (auto split: prod.splits sum.splits if_splits) blast+

lemma runs_Cons: "runs [c] m \<Longrightarrow> runs ds k \<Longrightarrow> runs (c # ds) (thn m k)"
  using runs_thn [of "[c]"] by simp

lemma runs_none: "runs [] m \<Longrightarrow> runs ds k \<Longrightarrow> runs ds (thn m k)"
  using runs_thn [of "[]"] by simp

definition controller_config :: "int \<Rightarrow> nat \<Rightarrow> bool \<Rightarrow> ControllerConfig" where
  "controller_config n l skip =
     \<lparr>cfg_MaxConcurrentReconciles = n, cfg_RateLimiter = Some (fixed_limiter l), cfg_SkipNameValidation = skip\<rparr>"

lemma NewReconciler_opts:
  "NewReconciler (controller_opts n (fixed_limiter l) skip) =
     (if n < 1 then Inl (Leaf ''max concurrent reconciles must be greater than 0'') else Inr (controller_config n l skip))"
  by (simp add: NewReconciler_def controller_opts_def WithMaxConcurrentReconciles_def WithRateLimiter_def
      WithSkipNameValidation_def zero_config_def controller_config_def)

text \<open>The setup of a controller without a prior step, and the one for machines.\<close>

lemma setup_refused: "n < 1 \<Longrightarrow> \<exists>e. setup_controller env c before g (controller_opts n (fixed_limiter l) skip) = raise e"
  unfolding setup_controller_def NewReconciler_opts
  by (auto simp: fun_eq_iff bnd_apply of_result_apply raise_apply wrapping_apply)

lemma runs_setup:
  assumes "runs cs before"
  shows "runs (cs @ [SetupController g (controller_config n l skip)])
    (setup_controller env c before g (controller_opts n (fixed_limiter l) skip))"
proof (cases "n < 1")
  case True
  with setup_refused show ?thesis by (metis runs_raise)
next
  case False
  have b: "bnd (wrapping f (of_result (Inr x))) k = k x" for f k and x :: ControllerConfig
    by (simp add: fun_eq_iff bnd_apply of_result_apply wrapping_apply)
  from False show ?thesis
    unfolding setup_controller_def NewReconciler_opts if_not_P [OF False] b
    by (intro runs_wrapping runs_thn runs_doing assms)
qed

lemma runs_setup_one: "runs [SetupController g (controller_config n l skip)]
    (setup_controller env c (ret ()) g (controller_opts n (fixed_limiter l) skip))"
  using runs_setup [OF runs_ret] by simp

text \<open>The steps before the controllers, and all steps of runManager.\<close>

definition early_steps :: "manager_step list" where
  "early_steps = [NewClientset, RunInformer ''Secrets'', WaitForCacheSync ''Secrets'', RunInformer ''ConfigMaps'',
     WaitForCacheSync ''ConfigMaps'', SetupWebhook]"

definition startup_steps :: "managerConfig \<Rightarrow> manager_step list" where
  "startup_steps config =
     (let cluster = controller_config (mc_concurrentReconcilesNutanixCluster config) 1 (mc_skipNameValidation config);
          machine = controller_config (mc_concurrentReconcilesNutanixMachine config) 2 (mc_skipNameValidation config) in
      early_steps @
      [SetupController cluster_registration cluster, NewClusterMapper, SetupController machine_registration machine] @
      map (\<lambda>g. SetupController g machine) [fd_registration, template_registration, metro_registration,
        metrosite_registration, balancer_registration, vha_registration] @ [StartManager])"

lemma runs_informers: "runs [NewClientset, RunInformer ''Secrets'', WaitForCacheSync ''Secrets'', RunInformer ''ConfigMaps'',
     WaitForCacheSync ''ConfigMaps''] (createInformers env)"
  unfolding createInformers_def by (intro runs_Cons runs_wrapping runs_doing runs_steps)

lemma runs_early: "runs ds k \<Longrightarrow> runs (early_steps @ ds)
   (thn (wrapping f (createInformers env)) (thn (wrapping g (setupNutanixMachineTemplateWebhook env)) k))"
  using runs_thn [OF runs_wrapping [OF runs_informers] runs_Cons [OF runs_wrapping [OF runs_wrapping [OF runs_doing]]]]
  by (simp add: early_steps_def setupNutanixMachineTemplateWebhook_def)

lemma runManager_runs: "runs (startup_steps config) (runManager env config)"
proof -
  have m: "runs (NewClusterMapper # [SetupController machine_registration (controller_config n l skip)])
      (setupNutanixMachineController env (controller_opts n (fixed_limiter l) skip))" for n l skip
    using runs_setup [OF runs_wrapping [OF runs_doing]] by (simp add: setupNutanixMachineController_def)
  show ?thesis
    unfolding runManager_def startup_steps_def Let_def
    by (intro runs_early) (simp only: append_Cons append_Nil list.map, intro runs_Cons runs_thn [OF runs_wrapping [OF m], simplified]
        runs_wrapping runs_doing;
      simp only: setupNutanixClusterController_def setupNutanixFailureDomainController_def
        setupNutanixMachineTemplateController_def setupNutanixMetroController_def setupNutanixMetroSiteController_def
        setupMetroScaleDownBalancerController_def setupNutanixVirtualHADomainController_def runs_setup_one)
qed

lemma refused_setup_stops:
  assumes "n < 1" "setup env (controller_opts n (fixed_limiter l) skip) =
      setup_controller env c before g (controller_opts n (fixed_limiter l) skip)"
  shows "\<exists>e. \<forall>k. thn (wrapping f (setup env (controller_opts n (fixed_limiter l) skip))) k = raise e"
proof -
  from setup_refused [OF assms(1)] assms(2) obtain e where "setup env (controller_opts n (fixed_limiter l) skip) = raise e" by metis
  then show ?thesis by (auto simp: fun_eq_iff thn_apply wrapping_apply raise_apply)
qed

lemma early_then_raise:
  assumes "thn (wrapping f (createInformers env)) (thn (wrapping g (setupNutanixMachineTemplateWebhook env)) (raise e)) s = (q, s')"
  shows "q \<noteq> Inr () \<and> (\<exists>k. mg_Steps s' = mg_Steps s @ take k early_steps)"
proof -
  have "runs (early_steps @ []) (thn (wrapping f (createInformers env)) (thn (wrapping g (setupNutanixMachineTemplateWebhook env)) (raise e)))"
    by (intro runs_early runs_raise)
  with assms show ?thesis
    unfolding runs_def by (fastforce simp: thn_apply raise_apply split: prod.splits sum.splits)
qed


text \<open>A manager for which everything works, and one without workers.\<close>

definition demo_manager :: manager_env where
  "demo_manager = \<lparr>en_Do = (\<lambda>h c. Inr ()), en_Parse = id,
     en_GetManagerOptions = (\<lambda>fs. Inr ([], Some \<lparr>so_BindAddress = '':8443'', so_FilterProvider = []\<rparr>))\<rparr>"

definition demo_config :: "int \<Rightarrow> managerConfig" where
  "demo_config n = \<lparr>mc_enableLeaderElection = False, mc_healthProbeAddr = '':8081'', mc_webhookPort = 9443, mc_webhookCertDir = [],
     mc_concurrentReconcilesNutanixCluster = n, mc_concurrentReconcilesNutanixMachine = n,
     mc_metricsServerOpts = \<lparr>so_BindAddress = '':8443'', so_FilterProvider = []\<rparr>, mc_tlsOptions = [],
     mc_skipNameValidation = False, mc_rateLimiter = None\<rparr>"

lemma demo_start: "fst (runManager demo_manager (demo_config 10) \<lparr>mg_Steps = []\<rparr>) = Inr ()"
  by code_simp


section \<open>The rate limiter of the flags\<close>

definition with_limiter_flags :: "int \<Rightarrow> int \<Rightarrow> int \<Rightarrow> int \<Rightarrow> options \<Rightarrow> options" where
  "with_limiter_flags b m k q opts = opts\<lparr>op_rateLimiterBaseDelay := b, op_rateLimiterMaxDelay := m,
     op_rateLimiterBucketSize := k, op_rateLimiterQPS := q\<rparr>"

lemma limiter_flags_valid:
  "(\<exists>l. compositeRateLimiter b m k q = Inr l) \<longleftrightarrow> 0 \<le> b \<and> b \<le> m \<and> 0 < q \<and> q \<le> k"
  by (auto simp: compositeRateLimiter_def validateRateLimiterConfig_def rbnd_def)

lemma runManager_limiter: "runManager env (config\<lparr>mc_rateLimiter := l\<rparr>) = runManager env config"
  "initializeManager env (config\<lparr>mc_rateLimiter := l\<rparr>) = initializeManager env config"
  by (simp_all add: runManager_def initializeManager_def Let_def)

text \<open>The flags of the rate limiter are checked and then ignored: two command lines that differ in
  these four flags only, both acceptable, start the same process, step by step; and the limiter a
  controller gets is the one runManager writes out.\<close>

theorem rate_limiter_flags_ignored:
  assumes "0 \<le> b" "b \<le> m" "0 < q" "q \<le> k" "0 \<le> b'" "b' \<le> m'" "0 < q'" "q' \<le> k'"
  shows "main (env\<lparr>en_Parse := with_limiter_flags b m k q \<circ> parse\<rparr>) s = main (env\<lparr>en_Parse := with_limiter_flags b' m' k' q' \<circ> parse\<rparr>) s \<and>
    (\<forall>g c. SetupController g c \<in> set (startup_steps config) \<longrightarrow>
       (\<exists>n. cfg_RateLimiter c = Some \<lparr>rl_Allocation = n, rl_Limiter = MaxOf [ItemExponentialFailure 1000000 1000000000000, TokenBucket 10 100]\<rparr>))"
proof -
  from assms obtain l l' where l: "compositeRateLimiter b m k q = Inr l" "compositeRateLimiter b' m' k' q' = Inr l'"
    using limiter_flags_valid by metis
  define opts where "opts = parse default_options"
  let ?e = "env\<lparr>en_Parse := with_limiter_flags b m k q \<circ> parse\<rparr>" and ?e' = "env\<lparr>en_Parse := with_limiter_flags b' m' k' q' \<circ> parse\<rparr>"
  have d: "doing ?e = doing ?e'" by (simp add: doing_def fun_eq_iff)
  have c: "initializeConfig ?e' (with_limiter_flags b' m' k' q' opts) =
      bnd (initializeConfig ?e (with_limiter_flags b m k q opts)) (\<lambda>config. ret (config\<lparr>mc_rateLimiter := Some l'\<rparr>))"
    by (auto simp: initializeConfig_def with_limiter_flags_def l d fun_eq_iff bnd_apply thn_apply wrapping_apply of_result_apply
        ret_apply raise_apply modify_apply split: sum.split option.split prod.split)
  have i: "initializeManager ?e' = initializeManager ?e" "runManager ?e' = runManager ?e"
    unfolding initializeManager_def addHealthChecks_def runManager_def createInformers_def setupNutanixMachineTemplateWebhook_def
      setupNutanixClusterController_def setupNutanixMachineController_def setupNutanixFailureDomainController_def
      setupNutanixMachineTemplateController_def setupNutanixMetroController_def setupNutanixMetroSiteController_def
      setupMetroScaleDownBalancerController_def setupNutanixVirtualHADomainController_def setup_controller_def d by simp_all
  have "bnd (initializeConfig ?e' (with_limiter_flags b' m' k' q' opts)) (\<lambda>config. thn (initializeManager ?e' config) (runManager ?e' config)) =
      bnd (initializeConfig ?e (with_limiter_flags b m k q opts)) (\<lambda>config. thn (initializeManager ?e config) (runManager ?e config))"
    unfolding c i by (auto simp: fun_eq_iff bnd_apply ret_apply runManager_limiter split: sum.split prod.split)
  then have "main ?e s = main ?e' s"
    by (simp add: main_def initializeFlags_def bnd_apply thn_apply modify_apply ret_apply opts_def)
  moreover have "\<forall>g c. SetupController g c \<in> set (startup_steps config) \<longrightarrow>
       (\<exists>n. cfg_RateLimiter c = Some \<lparr>rl_Allocation = n, rl_Limiter = MaxOf [ItemExponentialFailure 1000000 1000000000000, TokenBucket 10 100]\<rparr>)"
    by (auto simp: startup_steps_def early_steps_def Let_def controller_config_def fixed_limiter_def nanoseconds_per_ms_def)
  ultimately show ?thesis by blast
qed

lemma rate_limiter_flags_ignored_witness:
  "main (demo_manager\<lparr>en_Parse := with_limiter_flags 1 2 3 3\<rparr>) \<lparr>mg_Steps = []\<rparr> =
   main (demo_manager\<lparr>en_Parse := with_limiter_flags 5000000 90000000000 1000 500\<rparr>) \<lparr>mg_Steps = []\<rparr>"
  using rate_limiter_flags_ignored [where b = 1 and m = 2 and k = 3 and q = 3 and b' = 5000000 and m' = 90000000000 and
    k' = 1000 and q' = 500 and parse = id and env = demo_manager and config = "demo_config 1"] by simp

section \<open>The capacity of a template\<close>

lemma sint_product:
  fixes x y :: int
  assumes "- (2 ^ 31) \<le> x" "x < 2 ^ 31" "- (2 ^ 31) \<le> y" "y < 2 ^ 31"
  shows "sint (word_of_int x * word_of_int y :: 64 word) = x * y"
proof -
  have "\<bar>x\<bar> * \<bar>y\<bar> \<le> 2 ^ 31 * 2 ^ 31" using assms by (intro mult_mono) auto
  then have "\<bar>x * y\<bar> \<le> 4611686018427387904" by (simp add: abs_mult)
  then have "- (2 ^ 63) \<le> x * y \<and> x * y < 2 ^ 63" unfolding abs_le_iff by simp
  then have "signed_take_bit 63 (x * y) = x * y" by (simp add: signed_take_bit_int_eq_self)
  moreover have "(word_of_int x * word_of_int y :: 64 word) = word_of_int (x * y)" by simp
  ultimately show ?thesis by (simp only: sint_sbintrunc') simp
qed



end
