(* ===== verification/Spec2Isabelle.thy ===== *)
theory Spec2Isabelle
  imports Versions Task_Errors Lookup Categories Projects Machine_Delete Metro_Spec Scale_Down Guards VHA_Spec Cluster_Props
    Machine_Life Manager
begin

text \<open>
  A model of cluster-api-provider-nutanix (CAPX), the Cluster API infrastructure provider for
  Nutanix, with the theorems that make it correct.

  The program.  CAPX is one process (main.go) with eight controllers (controllers/) over custom
  resources (api/v1beta1/).  A controller is called with the name of an object; it reads the object
  and its neighbours from the Kubernetes API server, asks Prism Central (through prism-go-client,
  with the clients of pkg/client and the helpers of controllers/helpers.go) for what exists,
  creates, changes or deletes what is missing or too much, and patches the object.  Controllers
  share no memory; they meet in the objects, whose finalizers, conditions, labels and annotations
  are their protocol.  A NutanixCluster owns the credentials and the failure domains, a
  NutanixMachine becomes a VM, a NutanixMetro and a NutanixMetroSite spread machines over failure
  domains, a NutanixVirtualHADomain keeps the disaster-recovery objects of a metro in Prism
  Central, and a balancer chooses the machines that a scale-down of a metro removes.

  How it is modelled.  A Go function with effects is a function from a state to a result, which is
  an error or a value, and a state (type go of Go_Monad).  The state always has the trace, the list
  of the requests made so far (datatype call of External); a reconciler extends it by the objects
  it holds in memory (machine_ctx, create_ctx, guard_state, cluster_state, manager_state).  What
  somebody else's code answers to a request is a field of a record of functions (v4_client,
  v3_client, kube_client, machine_env, cluster_reconciler, machine_reconciler, manager_env and
  others) of the trace and the arguments, so nothing is assumed of a service unless a theorem names
  the assumption (finalizer_laws, faithful_vms, metros_by_name,
  accepts, fresh_uuids).  An error is the value the source
  builds, with its text and its wrapping.  A nil dereference is the error NilDeref, which no handler
  catches; the model ends there, and does not run the deferred patches that Go runs before the
  process dies.  Records keep the names of the Go fields with a prefix for the type; a pointer is an
  option; a string map is a partial map; a Go map whose order matters is visited in an order that is
  a parameter.  Definitions keep the name of the Go function; a part of a long function that is a
  definition of its own has a name that says what it does.

  The theories, in the order of their imports.
    Prelude, Go_Monad: strings, errors, computations, the loops, and the proof library: inversion
      (go_inv), evaluation (go_eval), and the locale state_order, whose rules carry a relation between the
      states before and after along a computation (moves R m).  The locale strict_weak_order covers
      the three sorts of the program.
    Api_Types: api/v1beta1 and the webhook of the machine template.
    External: the requests, the objects of Prism Central and the clients; only_calls and adds_calls
      say which requests a computation makes.
    Versions, Task_Errors, Lookup, Categories, Machine_Context, Projects, Vm_Find, VHA_Lookup, Disks:
      controllers/helpers.go, controllers/task_errors.go and the context of a machine
      (pkg/context/context.go); the locale scoped_resource is the rule by which a project may use a
      subnet, an image or a VM profile.
    Metro_Placement, Metro_Spec, Failure_Domains, Machine_Create, Machine_Delete, Machine_Reconcile,
      Machine_Spec, Machine_Props: controllers/nutanixmachine_controller.go.
    Machine_Life: the machine over any number of reconciles, each of which may stop anywhere (life).
    Guards: the controllers of failure domains, metros and metro sites, which share one frame
      (guarded_Reconcile) and one contract (the locale guarded_deletion, interpreted for each).
    Scale_Down: controllers/nutanixmetro_scaledown_controller.go.
    VHA_Domain, VHA_Spec: controllers/nutanixvirtualhadomain_controller.go.
    Client: pkg/client.
    Cluster_Controller, Cluster_Spec, Cluster_Props: controllers/nutanixcluster_controller.go.
    Manager: main.go, controllers/options.go, the registrations of the controllers,
      controllers/nutanixmachinetemplate_controller.go and the cache of pkg/context/context.go.

  What the theorems show.  A text block before each property names it (C1 to C40).
    VMs: a reconcile asks for at most one VM, with a request identifier that was stored before (C2), and
      over the whole life of a machine, cut off at any point, there is one identifier (C3); a machine is
      ready only with a VM that runs (C4); a deletion removes one idle VM of the right name at most (C1)
      and the finalizer stays while there is one (C11); the stored finalizers change with the last
      request of a reconcile only (C10).
    Placement: the machines of a metro are balanced (C5), the failure domain is one of the metro and
      validated (C24), and where interleaved reconciles break the balance (C37).
    Guards: an object is kept while another refers to it, along the chain from a machine to its failure
      domains (C8, C9, C12), and where the chain is broken (C39).
    Scale-down: the victims implement an abstract drain of the fullest sites (C23), balance two sites
      (C19), and marks of an operator stay under every interleaving (C6).
    Virtual HA domains: the deletion order (C13), completeness (C14, C15), a greatest matching of the
      subnets (C17), idempotence (C30) and the names (C31).
    Clusters: the failure domains of the status (C16), the claim and release of the credentials (C20).
    Lookups and validation: C7, C18, C25, C26, C28, C29, C32, C33, C36.
    Errors and termination: the collection of failed subtasks ends on every task graph (C21); the
      failures that are final or leave something behind (C34, C35, C38, C40).
    Process: the start (C22) and the published capacity (C27).

  Bounds and fuel.  collectFailedSubtaskErrors has fuel: C21 shows that any fuel larger than the number of
  the tasks Prism can return gives an answer, in which no task is listed twice.  The waits for a task
  (WaitForTaskToSucceed) and for the resources of a virtual HA domain poll as often as the context
  allows; that number is an argument.  machine_Reconcile and reconcileNormal pass the fuel on.  Go
  integers are int where their range cannot be left; the capacity of a template is a 64-bit word
  (C27), the replicas of a MachineSet are 32-bit in Scale_Down.

  Not modelled.  Log lines and metrics.  Generated and registration code: deep copies
  (zz_generated.deepcopy.go), the scheme, the webhook server, the registration of the feature gates
  (their values are arguments).  What controller-runtime does with a registration: its queues, its
  workers and its predicates; interleavings are explicit sequences of steps instead
  (Metro_Placement, Scale_Down).  The parser of the command line, the informers and the caches of
  clients are parameters.  The text a verb prints for a pointer is left out, and strings are ASCII.
  The scripts, templates, manifests and tests of the repository are no code of the program.
\<close>

end
